(* ===== verification/Go_Prelude.thy ===== *)
theory Go_Prelude
  imports Main "HOL-Library.AList" "HOL-Library.Char_ord" "HOL-Library.List_Lexorder"
    "HOL-Library.Sublist"
begin

text \<open>
  The part of the Go language and of its standard library that the engine uses, and the generic
  lemmas and interfaces the component theories share.

  \<^item> Go strings are byte strings: \<^typ>\<open>string\<close>, one \<^typ>\<open>char\<close> per byte. The functions of
    package \<^verbatim>\<open>strings\<close> are given on ASCII: the case mappings and the white-space class do not
    reach beyond it.
  \<^item> A Go map is an association list with distinct keys; its order is the order in which a
    \<^verbatim>\<open>range\<close> loop visits it. Go leaves that order open, and so do the theorems: they
    quantify over every list.
  \<^item> A Go pointer to a value that may be absent is an \<^typ>\<open>'a option\<close>.
  \<^item> \<^verbatim>\<open>int\<close> is a 64-bit signed integer: \<open>wrap64\<close> is its wrap-around, \<open>atoi\<close> is
    \<^verbatim>\<open>strconv.Atoi\<close> with its range error.
\<close>

named_theorems go_simps \<open>evaluation rules of the Go primitives\<close>
named_theorems inv_intros \<open>operations that keep a component's invariant\<close>

section \<open>Integers\<close>

type_synonym go_int = int

definition maxInt64 :: int where
  "maxInt64 = 2 ^ 63 - 1"

definition minInt64 :: int where
  "minInt64 = - (2 ^ 63)"

definition wrap64 :: "int \<Rightarrow> int" where
  "wrap64 x = (x + 2 ^ 63) mod 2 ^ 64 - 2 ^ 63"

lemma wrap64_range: "minInt64 \<le> wrap64 x \<and> wrap64 x \<le> maxInt64"
proof -
  have "0 \<le> (x + 2 ^ 63) mod 2 ^ 64" and "(x + 2 ^ 63) mod 2 ^ 64 < 2 ^ 64"
    by simp_all
  then show ?thesis
    by (simp add: wrap64_def minInt64_def maxInt64_def)
qed

lemma wrap64_id: "minInt64 \<le> x \<Longrightarrow> x \<le> maxInt64 \<Longrightarrow> wrap64 x = x"
  by (simp add: wrap64_def minInt64_def maxInt64_def)

section \<open>Characters and strings\<close>

abbreviation CR :: char where "CR \<equiv> CHR 0x0D"
abbreviation LF :: char where "LF \<equiv> CHR 0x0A"
abbreviation TAB :: char where "TAB \<equiv> CHR 0x09"
abbreviation NUL :: char where "NUL \<equiv> CHR 0x00"
abbreviation DQUOTE :: char where "DQUOTE \<equiv> CHR 0x22"
abbreviation BACKSLASH :: char where "BACKSLASH \<equiv> CHR 0x5C"

definition crlf :: string where
  "crlf = [CR, LF]"

abbreviation byte :: "char \<Rightarrow> nat" where
  "byte c \<equiv> of_char c"

definition is_space :: "char \<Rightarrow> bool" where
  "is_space c \<longleftrightarrow> byte c = (32::nat) \<or> 9 \<le> byte c \<and> byte c \<le> (13::nat)"

definition is_digit :: "char \<Rightarrow> bool" where
  "is_digit c \<longleftrightarrow> 48 \<le> byte c \<and> byte c \<le> (57::nat)"

definition is_upper :: "char \<Rightarrow> bool" where
  "is_upper c \<longleftrightarrow> 65 \<le> byte c \<and> byte c \<le> (90::nat)"

definition is_lower :: "char \<Rightarrow> bool" where
  "is_lower c \<longleftrightarrow> 97 \<le> byte c \<and> byte c \<le> (122::nat)"

definition is_alnum :: "char \<Rightarrow> bool" where
  "is_alnum c \<longleftrightarrow> is_lower c \<or> is_upper c \<or> is_digit c"

definition lower_char :: "char \<Rightarrow> char" where
  "lower_char c = (if is_upper c then char_of (byte c + (32::nat)) else c)"

definition upper_char :: "char \<Rightarrow> char" where
  "upper_char c = (if is_lower c then char_of (byte c - (32::nat)) else c)"

definition to_lower :: "string \<Rightarrow> string" where
  "to_lower = map lower_char"

definition to_upper :: "string \<Rightarrow> string" where
  "to_upper = map upper_char"

definition equal_fold :: "string \<Rightarrow> string \<Rightarrow> bool" where
  "equal_fold s t \<longleftrightarrow> to_lower s = to_lower t"

definition trim_space :: "string \<Rightarrow> string" where
  "trim_space s = rev (dropWhile is_space (rev (dropWhile is_space s)))"

fun has_prefix :: "string \<Rightarrow> string \<Rightarrow> bool" where
  "has_prefix s [] = True"
| "has_prefix [] (p # ps) = False"
| "has_prefix (c # s) (p # ps) = (c = p \<and> has_prefix s ps)"

definition has_suffix :: "string \<Rightarrow> string \<Rightarrow> bool" where
  "has_suffix s p = has_prefix (rev s) (rev p)"

definition trim_prefix :: "string \<Rightarrow> string \<Rightarrow> string" where
  "trim_prefix s p = (if has_prefix s p then drop (length p) s else s)"

definition trim_suffix :: "string \<Rightarrow> string \<Rightarrow> string" where
  "trim_suffix s p = (if has_suffix s p then take (length s - length p) s else s)"

fun contains :: "string \<Rightarrow> string \<Rightarrow> bool" where
  "contains [] p = (p = [])"
| "contains (c # s) p = (has_prefix (c # s) p \<or> contains s p)"

definition contains_any :: "string \<Rightarrow> string \<Rightarrow> bool" where
  "contains_any s cs = list_ex (\<lambda>c. c \<in> set cs) s"

text \<open>\<^verbatim>\<open>strings.Split\<close> and \<^verbatim>\<open>strings.SplitN(s, sep, 2)\<close> for a separator of one byte.\<close>

fun split_on :: "char \<Rightarrow> string \<Rightarrow> string list" where
  "split_on d [] = [[]]"
| "split_on d (c # s) =
     (if c = d then [] # split_on d s
      else (case split_on d s of [] \<Rightarrow> [[c]] | w # ws \<Rightarrow> (c # w) # ws))"

fun split2_on :: "char \<Rightarrow> string \<Rightarrow> string list" where
  "split2_on d [] = [[]]"
| "split2_on d (c # s) =
     (if c = d then [[], s]
      else (case split2_on d s of [] \<Rightarrow> [[c]] | w # ws \<Rightarrow> (c # w) # ws))"

text \<open>\<^verbatim>\<open>strings.Fields\<close>: the maximal runs of bytes that are not white space.\<close>

fun fields_acc :: "string \<Rightarrow> string \<Rightarrow> string list" where
  "fields_acc w [] = (if w = [] then [] else [rev w])"
| "fields_acc w (c # s) =
     (if is_space c then (if w = [] then fields_acc [] s else rev w # fields_acc [] s)
      else fields_acc (c # w) s)"

definition str_fields :: "string \<Rightarrow> string list" where
  "str_fields s = fields_acc [] s"

fun join :: "string \<Rightarrow> string list \<Rightarrow> string" where
  "join sep [] = []"
| "join sep [w] = w"
| "join sep (w # v # ws) = w @ sep @ join sep (v # ws)"

text \<open>\<^verbatim>\<open>strings.IndexByte\<close>, \<^verbatim>\<open>strings.LastIndexByte\<close>: \<open>None\<close> is the result \<open>-1\<close>.\<close>

fun index_byte :: "char \<Rightarrow> string \<Rightarrow> nat option" where
  "index_byte d [] = None"
| "index_byte d (c # s) = (if c = d then Some 0 else map_option Suc (index_byte d s))"

fun last_index_byte :: "char \<Rightarrow> string \<Rightarrow> nat option" where
  "last_index_byte d [] = None"
| "last_index_byte d (c # s) =
     (case last_index_byte d s of Some i \<Rightarrow> Some (Suc i) | None \<Rightarrow> if c = d then Some 0 else None)"

subsection \<open>Decimal numbers\<close>

definition digit_char :: "nat \<Rightarrow> char" where
  "digit_char d = char_of (48 + d)"

fun nat_digits :: "nat \<Rightarrow> string" where
  "nat_digits n = (if n < 10 then [digit_char n] else nat_digits (n div 10) @ [digit_char (n mod 10)])"

declare nat_digits.simps [simp del]

definition itoa :: "int \<Rightarrow> string" where
  "itoa n = (if n < 0 then ''-'' @ nat_digits (nat (- n)) else nat_digits (nat n))"

definition digits_value :: "string \<Rightarrow> nat" where
  "digits_value = foldl (\<lambda>v c. 10 * v + (byte c - 48)) 0"

text \<open>
  \<^verbatim>\<open>strconv.Atoi\<close>: the value and whether the error is nil. A syntax error has value 0, a range
  error the bound that was passed.
\<close>

definition atoi :: "string \<Rightarrow> int \<times> bool" where
  "atoi s =
     (let neg = (s \<noteq> [] \<and> hd s = CHR ''-'');
          body = (if s \<noteq> [] \<and> (hd s = CHR ''-'' \<or> hd s = CHR ''+'') then tl s else s)
      in if body = [] \<or> \<not> list_all is_digit body then (0, False)
         else let v = (if neg then - int (digits_value body) else int (digits_value body))
              in if v > maxInt64 then (maxInt64, False)
                 else if v < minInt64 then (minInt64, False)
                 else (v, True))"


subsection \<open>Lemmas on strings\<close>

lemma has_prefix_iff: "has_prefix s p \<longleftrightarrow> prefix p s"
  by (induction s p rule: has_prefix.induct) auto

lemma has_prefix_append [simp]: "has_prefix (p @ s) p"
  by (simp add: has_prefix_iff)

lemma has_prefix_self [simp]: "has_prefix s s"
  by (simp add: has_prefix_iff)

lemma contains_iff: "contains s p \<longleftrightarrow> (\<exists>a b. s = a @ p @ b)"
proof (induction s)
  case (Cons c s)
  have "(\<exists>a b. c # s = a @ p @ b) \<longleftrightarrow> prefix p (c # s) \<or> (\<exists>a b. s = a @ p @ b)"
  proof
    assume "\<exists>a b. c # s = a @ p @ b"
    then obtain a b where eq: "c # s = a @ p @ b" by blast
    then show "prefix p (c # s) \<or> (\<exists>a b. s = a @ p @ b)"
      by (cases a) (auto simp: prefix_def)
  next
    assume "prefix p (c # s) \<or> (\<exists>a b. s = a @ p @ b)"
    then show "\<exists>a b. c # s = a @ p @ b"
      by (metis append_Cons append_Nil prefix_def)
  qed
  with Cons show ?case by (simp add: has_prefix_iff)
qed simp

lemma trim_prefix_append [simp]: "trim_prefix (p @ s) p = s"
  by (simp add: trim_prefix_def)

lemma split_on_nonempty [simp]: "split_on d s \<noteq> []"
  by (induction s) (auto split: list.splits)

lemma split2_on_nonempty [simp]: "split2_on d s \<noteq> []"
  by (induction s) (auto split: list.splits)

lemma split_on_no_sep: "d \<notin> set s \<Longrightarrow> split_on d s = [s]"
  by (induction s) auto

lemma split_on_append: "d \<notin> set s \<Longrightarrow> split_on d (s @ d # t) = s # split_on d t"
  by (induction s) auto

lemma split2_on_no_sep: "d \<notin> set s \<Longrightarrow> split2_on d s = [s]"
  by (induction s) auto

lemma split2_on_append: "d \<notin> set s \<Longrightarrow> split2_on d (s @ d # t) = [s, t]"
  by (induction s) auto

lemma split2_on_length: "length (split2_on d s) = (if d \<in> set s then 2 else 1)"
  by (induction s) (auto split: list.splits)

lemma split2_on_cases:
  obtains (one) "split2_on d s = [s]" "d \<notin> set s"
  | (two) a b where "split2_on d s = [a, b]" "s = a @ d # b" "d \<notin> set a"
proof (cases "d \<in> set s")
  case True
  then obtain a b where "s = a @ d # b" "d \<notin> set a"
    by (meson split_list_first)
  then show thesis using two by (simp add: split2_on_append)
next
  case False
  then show thesis using one by (simp add: split2_on_no_sep)
qed

lemma trim_space_no_space: "s = [] \<or> \<not> is_space (hd s) \<and> \<not> is_space (last s) \<Longrightarrow> trim_space s = s"
  by (cases s) (auto simp: trim_space_def last_rev hd_rev[symmetric] dropWhile_eq_self_iff)

lemma all_non_space_trim: "list_all (\<lambda>c. \<not> is_space c) s \<Longrightarrow> trim_space s = s"
  by (rule trim_space_no_space) (cases "s = []"; simp add: list_all_iff)

subsection \<open>Decimal round trip\<close>

lemma byte_less_256: "byte c < (256::nat)"
  by (simp add: of_char_def)

lemma byte_char_of: "n < 256 \<Longrightarrow> byte (char_of n) = (n::nat)"
  by simp

lemma byte_digit_char: "d < 10 \<Longrightarrow> byte (digit_char d) = 48 + d"
  by (simp add: digit_char_def)

lemma is_digit_digit_char: "d < 10 \<Longrightarrow> is_digit (digit_char d)"
  by (simp add: is_digit_def byte_digit_char)

lemma nat_digits_nonempty [simp]: "nat_digits n \<noteq> []"
  by (subst nat_digits.simps) simp

lemma nat_digits_all: "list_all is_digit (nat_digits n)"
proof (induction n rule: nat_digits.induct)
  case (1 n)
  then show ?case
    by (subst nat_digits.simps) (auto simp: is_digit_digit_char)
qed

lemma digits_value_snoc: "digits_value (s @ [c]) = 10 * digits_value s + (byte c - 48)"
  by (simp add: digits_value_def)

lemma digits_value_nat_digits [simp]: "digits_value (nat_digits n) = n"
proof (induction n rule: nat_digits.induct)
  case (1 n)
  show ?case
  proof (cases "n < 10")
    case True
    then show ?thesis
      by (subst nat_digits.simps) (simp add: digits_value_def byte_digit_char)
  next
    case False
    with 1 have "digits_value (nat_digits (n div 10)) = n div 10" by simp
    with False show ?thesis
      by (subst nat_digits.simps) (simp add: digits_value_snoc byte_digit_char)
  qed
qed

lemma nat_digits_inj: "nat_digits m = nat_digits n \<longleftrightarrow> m = n"
  by (metis digits_value_nat_digits)

lemma itoa_inj: "itoa m = itoa n \<longleftrightarrow> m = n"
proof -
  have no_minus: "nat_digits k \<noteq> ''-'' @ s" for k s
  proof
    assume "nat_digits k = ''-'' @ s"
    with nat_digits_all [of k] show False by (simp add: is_digit_def)
  qed
  show ?thesis
    using no_minus no_minus [THEN not_sym] by (auto simp: itoa_def nat_digits_inj)
qed

lemma digit_not_sign: "is_digit c \<Longrightarrow> c \<noteq> CHR ''-'' \<and> c \<noteq> CHR ''+''"
  by (auto simp: is_digit_def)

lemma atoi_itoa: "minInt64 \<le> n \<Longrightarrow> n \<le> maxInt64 \<Longrightarrow> atoi (itoa n) = (n, True)"
proof -
  assume range: "minInt64 \<le> n" "n \<le> maxInt64"
  have hd_ok: "hd (nat_digits k) \<noteq> CHR ''-''" "hd (nat_digits k) \<noteq> CHR ''+''" for k
    using nat_digits_all [of k] digit_not_sign
    by (metis list.pred_set list.set_sel(1) nat_digits_nonempty)+
  show ?thesis
    using range nat_digits_all hd_ok
    by (cases "n < 0") (auto simp: itoa_def atoi_def Let_def)
qed

lemma atoi_range: "minInt64 \<le> fst (atoi s) \<and> fst (atoi s) \<le> maxInt64"
  by (auto simp: atoi_def Let_def minInt64_def maxInt64_def)

lemma itoa_chars: "c \<in> set (itoa n) \<Longrightarrow> is_digit c \<or> c = CHR ''-''"
  using nat_digits_all by (auto simp: itoa_def list_all_iff split: if_splits)

lemma itoa_nonempty [simp]: "itoa n \<noteq> []"
  by (simp add: itoa_def)

lemma itoa_no_space: "list_all (\<lambda>c. \<not> is_space c) (itoa n)"
  by (auto simp: list_all_iff is_digit_def is_space_def dest!: itoa_chars)

lemma itoa_no_sep: "\<not> is_digit d \<Longrightarrow> d \<noteq> CHR ''-'' \<Longrightarrow> d \<notin> set (itoa n)"
  using itoa_chars by blast

subsection \<open>Quoting\<close>

text \<open>
  The verb \<^verbatim>\<open>%q\<close>, that is \<^verbatim>\<open>strconv.Quote\<close>: bytes from 0x80 on are taken to belong to
  printable characters and stand for themselves.
\<close>

definition hex_nibble :: "nat \<Rightarrow> char" where
  "hex_nibble d = (if d < 10 then char_of (48 + d) else char_of (87 + d))"

definition quote_char :: "char \<Rightarrow> string" where
  "quote_char c =
     (let b = byte c in
      if c = DQUOTE \<or> c = BACKSLASH then [BACKSLASH, c]
      else if b = 7 then [BACKSLASH, CHR ''a'']
      else if b = 8 then [BACKSLASH, CHR ''b'']
      else if b = 9 then [BACKSLASH, CHR ''t'']
      else if b = 10 then [BACKSLASH, CHR ''n'']
      else if b = 11 then [BACKSLASH, CHR ''v'']
      else if b = 12 then [BACKSLASH, CHR ''f'']
      else if b = 13 then [BACKSLASH, CHR ''r'']
      else if b < 32 \<or> b = (127::nat)
        then [BACKSLASH, CHR ''x'', hex_nibble (b div 16), hex_nibble (b mod 16)]
      else [c])"

definition quote :: "string \<Rightarrow> string" where
  "quote s = [DQUOTE] @ concat (map quote_char s) @ [DQUOTE]"

text \<open>\<^verbatim>\<open>%q\<close> of a byte quotes it as a character.\<close>

definition quote_rune :: "char \<Rightarrow> string" where
  "quote_rune c =
     [CHR 0x27] @
     (if c = CHR 0x27 then [BACKSLASH, c] else if c = DQUOTE then [c] else quote_char c) @
     [CHR 0x27]"

section \<open>Checks in sequence\<close>

text \<open>
  A Go function that validates returns at its first failing check: \<open>first_error\<close> of the
  checks in the order of the source, \<open>None\<close> being the nil error.
\<close>

fun first_error :: "'e option list \<Rightarrow> 'e option" where
  "first_error [] = None"
| "first_error (Some e # cs) = Some e"
| "first_error (None # cs) = first_error cs"

lemma first_error_None [simp]: "first_error cs = None \<longleftrightarrow> (\<forall>c\<in>set cs. c = None)"
  by (induction cs rule: first_error.induct) auto

lemma first_error_append: "first_error (xs @ ys) = (case first_error xs of None \<Rightarrow> first_error ys | e \<Rightarrow> e)"
  by (induction xs rule: first_error.induct) auto

definition check :: "bool \<Rightarrow> 'e \<Rightarrow> 'e option" where
  "check bad e = (if bad then Some e else None)"

lemma check_None [simp]: "check b e = None \<longleftrightarrow> \<not> b"
  by (simp add: check_def)

section \<open>Maps\<close>

type_synonym ('k, 'v) gomap = "('k \<times> 'v) list"

definition mget :: "('k, 'v) gomap \<Rightarrow> 'k \<Rightarrow> 'v option" where
  "mget m k = map_of m k"

definition mput :: "('k, 'v) gomap \<Rightarrow> 'k \<Rightarrow> 'v \<Rightarrow> ('k, 'v) gomap" where
  "mput m k v = AList.update k v m"

definition mdel :: "('k, 'v) gomap \<Rightarrow> 'k \<Rightarrow> ('k, 'v) gomap" where
  "mdel m k = AList.delete k m"

definition mkeys :: "('k, 'v) gomap \<Rightarrow> 'k list" where
  "mkeys m = map fst m"

definition mvals :: "('k, 'v) gomap \<Rightarrow> 'v list" where
  "mvals m = map snd m"

text \<open>The read \<^verbatim>\<open>m[k]\<close>: the zero value where the key is absent.\<close>

definition mget_or :: "'v \<Rightarrow> ('k, 'v) gomap \<Rightarrow> 'k \<Rightarrow> 'v" where
  "mget_or z m k = (case mget m k of None \<Rightarrow> z | Some v \<Rightarrow> v)"

definition mmem :: "('k, 'v) gomap \<Rightarrow> 'k \<Rightarrow> bool" where
  "mmem m k \<longleftrightarrow> mget m k \<noteq> None"

definition wf_map :: "('k, 'v) gomap \<Rightarrow> bool" where
  "wf_map m \<longleftrightarrow> distinct (mkeys m)"

text \<open>A change of every value in place, as a loop over the map's pointers makes it.\<close>

definition mmap :: "('v \<Rightarrow> 'w) \<Rightarrow> ('k, 'v) gomap \<Rightarrow> ('k, 'w) gomap" where
  "mmap f m = map (\<lambda>(k, v). (k, f v)) m"

lemma mget_Nil [simp]: "mget [] k = None"
  by (simp add: mget_def)

lemma mget_Cons [simp]: "mget ((k, v) # m) k' = (if k = k' then Some v else mget m k')"
  by (simp add: mget_def)

lemma mget_mput [simp]: "mget (mput m k v) k' = (if k = k' then Some v else mget m k')"
  by (simp add: mget_def mput_def update_conv)

lemma mget_mdel [simp]: "mget (mdel m k) k' = (if k = k' then None else mget m k')"
  by (simp add: mget_def mdel_def delete_conv)

lemma mget_mmap [simp]: "mget (mmap f m) k = map_option f (mget m k)"
  by (induction m) (auto simp: mmap_def)

lemma mdel_Nil [simp]: "mdel [] k = []"
  by (simp add: mdel_def)

lemma wf_map_Nil [simp]: "wf_map []"
  by (simp add: wf_map_def mkeys_def)

lemma wf_map_mput [simp]: "wf_map m \<Longrightarrow> wf_map (mput m k v)"
  by (simp add: wf_map_def mkeys_def mput_def distinct_update)

lemma wf_map_mdel [simp]: "wf_map m \<Longrightarrow> wf_map (mdel m k)"
  by (simp add: wf_map_def mkeys_def mdel_def distinct_delete)

lemma mkeys_mmap [simp]: "mkeys (mmap f m) = mkeys m"
  by (simp add: mkeys_def mmap_def case_prod_beta)

lemma wf_map_mmap [simp]: "wf_map (mmap f m) = wf_map m"
  by (simp add: wf_map_def)

lemma set_mkeys: "set (mkeys m) = {k. mget m k \<noteq> None}"
  by (auto simp: mkeys_def mget_def map_of_eq_None_iff)

lemma mget_Some_in: "mget m k = Some v \<Longrightarrow> (k, v) \<in> set m"
  by (simp add: mget_def map_of_SomeD)

lemma in_mget: "wf_map m \<Longrightarrow> (k, v) \<in> set m \<longleftrightarrow> mget m k = Some v"
  by (auto simp: mget_def wf_map_def mkeys_def)

lemma mkeys_mput: "mkeys (mput m k v) = (if k \<in> set (mkeys m) then mkeys m else mkeys m @ [k])"
  by (induction m) (auto simp: mkeys_def mput_def)

lemma wf_map_Cons: "wf_map ((k, v) # m) \<longleftrightarrow> mget m k = None \<and> wf_map m"
  by (auto simp: wf_map_def mkeys_def mget_def map_of_eq_None_iff)

lemma mget_or_mput [simp]: "mget_or z (mput m k v) k' = (if k = k' then v else mget_or z m k')"
  by (simp add: mget_or_def)

lemma mget_or_Cons [simp]: "mget_or z ((k, v) # m) k' = (if k = k' then v else mget_or z m k')"
  by (simp add: mget_or_def)

lemma mget_or_Nil [simp]: "mget_or z [] k = z"
  by (simp add: mget_or_def)

lemmas map_defs = mget_or_def mmem_def

section \<open>Panics and runs of operations\<close>

text \<open>A Go function that may panic returns \<open>Ret\<close> of its results or \<open>Panic\<close>.\<close>

datatype 'a go = Ret 'a | Panic string

fun go_bind :: "'a go \<Rightarrow> ('a \<Rightarrow> 'b go) \<Rightarrow> 'b go" where
  "go_bind (Ret x) f = f x"
| "go_bind (Panic e) f = Panic e"

fun returns :: "'a go \<Rightarrow> bool" where
  "returns (Ret x) = True"
| "returns (Panic e) = False"

lemma go_bind_Ret [simp]: "go_bind m f = Ret y \<longleftrightarrow> (\<exists>x. m = Ret x \<and> f x = Ret y)"
  by (cases m) auto

lemma returns_iff: "returns m \<longleftrightarrow> (\<exists>x. m = Ret x)"
  by (cases m) auto

text \<open>Checks in sequence of which some may panic.\<close>

fun first_error_go :: "'e option go list \<Rightarrow> 'e option go" where
  "first_error_go [] = Ret None"
| "first_error_go (Panic e # cs) = Panic e"
| "first_error_go (Ret (Some e) # cs) = Ret (Some e)"
| "first_error_go (Ret None # cs) = first_error_go cs"

lemma first_error_go_None [simp]: "first_error_go cs = Ret None \<longleftrightarrow> (\<forall>c\<in>set cs. c = Ret None)"
  by (induction cs rule: first_error_go.induct) auto

lemma first_error_go_returns: "list_all returns cs \<Longrightarrow> returns (first_error_go cs)"
  by (induction cs rule: first_error_go.induct) auto

text \<open>A sequence of operations, each from the state the one before it left.\<close>

fun run_all :: "('op \<Rightarrow> 's \<Rightarrow> 's go) \<Rightarrow> 'op list \<Rightarrow> 's \<Rightarrow> 's go" where
  "run_all exec [] s = Ret s"
| "run_all exec (x # xs) s = go_bind (exec x s) (run_all exec xs)"

lemma run_all_append:
  "run_all exec (xs @ ys) s = go_bind (run_all exec xs s) (run_all exec ys)"
proof (induction xs arbitrary: s)
  case (Cons x xs)
  then show ?case by (cases "exec x s") auto
qed simp

text \<open>
  The interface of a component whose operations keep an invariant: the operations that are
  admitted, and the two laws a provider owes. A client gets the invariant, and freedom from
  panics, for every sequence.
\<close>

locale invariant_machine =
  fixes exec :: "'op \<Rightarrow> 's \<Rightarrow> 's go"
    and inv :: "'s \<Rightarrow> bool"
    and admitted :: "'op \<Rightarrow> bool"
  assumes keeps: "inv s \<Longrightarrow> admitted x \<Longrightarrow> exec x s = Ret s' \<Longrightarrow> inv s'"
    and no_panic: "inv s \<Longrightarrow> admitted x \<Longrightarrow> returns (exec x s)"
begin

lemma run_keeps:
  assumes "inv s" and "list_all admitted xs" and "run_all exec xs s = Ret s'"
  shows "inv s'"
  using assms
proof (induction xs arbitrary: s)
  case (Cons x xs)
  then obtain t where t: "exec x s = Ret t" "run_all exec xs t = Ret s'"
    by auto
  with Cons.prems have "inv t" by (auto intro: keeps)
  with Cons t show ?case by auto
qed simp

lemma run_returns:
  assumes "inv s" and "list_all admitted xs"
  shows "\<exists>s'. run_all exec xs s = Ret s' \<and> inv s'"
  using assms
proof (induction xs arbitrary: s)
  case (Cons x xs)
  then have "returns (exec x s)" by (auto intro: no_panic)
  then obtain t where t: "exec x s = Ret t" by (auto simp: returns_iff)
  with Cons.prems have "inv t" by (auto intro: keeps)
  with Cons t show ?case by auto
qed simp

end

text \<open>
  The interface of a wire format that is its own delimiter: whatever follows an encoded value is
  left for the next read. A client may then send values back to back.
\<close>

locale framed_codec =
  fixes enc :: "'a \<Rightarrow> string"
    and dec :: "string \<Rightarrow> ('e + 'a) \<times> string"
    and valid :: "'a \<Rightarrow> bool"
  assumes dec_enc: "valid x \<Longrightarrow> dec (enc x @ rest) = (Inr x, rest)"
begin

fun dec_many :: "nat \<Rightarrow> string \<Rightarrow> ('e + 'a) list \<times> string" where
  "dec_many 0 s = ([], s)"
| "dec_many (Suc n) s = (let (r, s') = dec s; (rs, s'') = dec_many n s' in (r # rs, s''))"

lemma dec_many_pipeline:
  "list_all valid xs \<Longrightarrow> dec_many (length xs) (concat (map enc xs) @ rest) = (map Inr xs, rest)"
proof (induction xs)
  case (Cons x xs)
  then have "dec (enc x @ concat (map enc xs) @ rest) = (Inr x, concat (map enc xs) @ rest)"
    by (simp add: dec_enc)
  with Cons show ?case by simp
qed simp

lemma enc_prefix_free:
  assumes "valid x" "valid y" "enc x @ r = enc y @ r'"
  shows "x = y \<and> r = r'"
proof -
  have "(Inr x, r) = (Inr y :: 'e + 'a, r')"
    unfolding dec_enc [OF assms(1), of r, symmetric] assms(3) by (rule dec_enc [OF assms(2)])
  then show ?thesis by simp
qed

end

end
