(* ===== verification/Cookbook_Types.thy ===== *)
theory Cookbook_Types
  imports Go_Prelude
begin

text \<open>
  The cookbook's data (\<^verbatim>\<open>cookbook_types.go\<close>): a service kind with its image matchers, its
  defaults and its seeds. A seed is a scenario: an initial state patch, the transitions that Docker
  and service events trigger, and the scripted HTTP and Redis responses. Absent optional fields of a
  patch are \<open>None\<close>, the nil pointer of the source.
\<close>

section \<open>Statuses and health values\<close>

text \<open>The status and health strings of the source, each as a constant.\<close>

definition sCreated :: string where "sCreated = ''created''"
definition sRunning :: string where "sRunning = ''running''"
definition sPaused :: string where "sPaused = ''paused''"
definition sRestarting :: string where "sRestarting = ''restarting''"
definition sExited :: string where "sExited = ''exited''"
definition sDead :: string where "sDead = ''dead''"
definition hStarting :: string where "hStarting = ''starting''"
definition hHealthy :: string where "hHealthy = ''healthy''"
definition hUnhealthy :: string where "hUnhealthy = ''unhealthy''"

lemmas state_string_defs = sCreated_def sRunning_def sPaused_def sRestarting_def sExited_def sDead_def hStarting_def hHealthy_def hUnhealthy_def

lemma status_distinct [simp]:
  "sCreated \<noteq> sRunning"
  "sCreated \<noteq> sPaused"
  "sCreated \<noteq> sRestarting"
  "sCreated \<noteq> sExited"
  "sCreated \<noteq> sDead"
  "sRunning \<noteq> sCreated"
  "sRunning \<noteq> sPaused"
  "sRunning \<noteq> sRestarting"
  "sRunning \<noteq> sExited"
  "sRunning \<noteq> sDead"
  "sPaused \<noteq> sCreated"
  "sPaused \<noteq> sRunning"
  "sPaused \<noteq> sRestarting"
  "sPaused \<noteq> sExited"
  "sPaused \<noteq> sDead"
  "sRestarting \<noteq> sCreated"
  "sRestarting \<noteq> sRunning"
  "sRestarting \<noteq> sPaused"
  "sRestarting \<noteq> sExited"
  "sRestarting \<noteq> sDead"
  "sExited \<noteq> sCreated"
  "sExited \<noteq> sRunning"
  "sExited \<noteq> sPaused"
  "sExited \<noteq> sRestarting"
  "sExited \<noteq> sDead"
  "sDead \<noteq> sCreated"
  "sDead \<noteq> sRunning"
  "sDead \<noteq> sPaused"
  "sDead \<noteq> sRestarting"
  "sDead \<noteq> sExited"
  by (simp_all add: state_string_defs)

lemma health_distinct [simp]:
  "hStarting \<noteq> hHealthy"
  "hStarting \<noteq> hUnhealthy"
  "hHealthy \<noteq> hStarting"
  "hHealthy \<noteq> hUnhealthy"
  "hUnhealthy \<noteq> hStarting"
  "hUnhealthy \<noteq> hHealthy"
  by (simp_all add: state_string_defs)

lemma state_string_nonempty [simp]:
  "sCreated \<noteq> []"
  "sRunning \<noteq> []"
  "sPaused \<noteq> []"
  "sRestarting \<noteq> []"
  "sExited \<noteq> []"
  "sDead \<noteq> []"
  "hStarting \<noteq> []"
  "hHealthy \<noteq> []"
  "hUnhealthy \<noteq> []"
  by (simp_all add: state_string_defs)

section \<open>The cookbook\<close>

record StatePatch =
  p_Status :: "string option"
  p_Running :: "bool option"
  p_Restarting :: "bool option"
  p_Dead :: "bool option"
  p_Health :: "string option"
  p_ExitCode :: "int option"
  p_Error :: "string option"
  p_RestartCount :: "int option"
  p_RestartCountDelta :: int

definition zeroPatch :: StatePatch where
  "zeroPatch = \<lparr>p_Status = None, p_Running = None, p_Restarting = None, p_Dead = None,
     p_Health = None, p_ExitCode = None, p_Error = None, p_RestartCount = None,
     p_RestartCountDelta = 0\<rparr>"

record Transition =
  t_Event :: string
  t_Count :: int
  t_WhenStatus :: string
  t_WhenHealth :: string
  t_Once :: bool
  t_Set :: StatePatch

record HTTPResponse =
  hr_From :: int
  hr_WhenStatus :: string
  hr_WhenHealth :: string
  hr_Status :: int
  hr_Headers :: "(string, string) gomap"
  hr_Body :: string
  hr_DelayMS :: int
  hr_Close :: bool
  hr_StatePatch :: StatePatch

record RedisResponse =
  rr_From :: int
  rr_WhenStatus :: string
  rr_WhenHealth :: string
  rr_Reply :: string
  rr_DelayMS :: int
  rr_Close :: bool
  rr_StatePatch :: StatePatch

record Scenario =
  s_Description :: string
  s_Initial :: StatePatch
  s_Transitions :: "Transition list"
  s_HTTP :: "(string, HTTPResponse list) gomap"
  s_Redis :: "(string, RedisResponse list) gomap"

record ServiceDefaults =
  d_Name :: string
  d_Image :: string
  d_ServiceType :: string
  d_IPAddress :: string
  d_ContainerPort :: int
  d_HostIP :: string
  d_HostPort :: int

record Cookbook =
  cb_Kind :: string
  cb_ImageNames :: "string list"
  cb_Defaults :: ServiceDefaults
  cb_Seeds :: "(string, Scenario) gomap"

record ValidationError =
  ve_Path :: string
  ve_Message :: string

definition validationError :: "string \<Rightarrow> string \<Rightarrow> ValidationError" where
  "validationError path message = \<lparr>ve_Path = path, ve_Message = message\<rparr>"

definition zeroDefaults :: ServiceDefaults where
  "zeroDefaults = \<lparr>d_Name = [], d_Image = [], d_ServiceType = [], d_IPAddress = [], d_ContainerPort = 0,
     d_HostIP = [], d_HostPort = 0\<rparr>"

definition zeroScenario :: Scenario where
  "zeroScenario = \<lparr>s_Description = [], s_Initial = zeroPatch, s_Transitions = [], s_HTTP = [], s_Redis = []\<rparr>"

definition zeroHTTPResponse :: HTTPResponse where
  "zeroHTTPResponse = \<lparr>hr_From = 0, hr_WhenStatus = [], hr_WhenHealth = [], hr_Status = 0,
     hr_Headers = [], hr_Body = [], hr_DelayMS = 0, hr_Close = False, hr_StatePatch = zeroPatch\<rparr>"

definition zeroRedisResponse :: RedisResponse where
  "zeroRedisResponse = \<lparr>rr_From = 0, rr_WhenStatus = [], rr_WhenHealth = [], rr_Reply = [],
     rr_DelayMS = 0, rr_Close = False, rr_StatePatch = zeroPatch\<rparr>"

end
