(* ===== verification/Cookbook_Responses.thy ===== *)
theory Cookbook_Responses
  imports Cookbook_Types
begin

text \<open>
  The scripted responses of a cookbook (\<^verbatim>\<open>cookbook_responses.go\<close>): the check on their order, the
  RESP2 check on Redis replies and the selection of the response to serve.
\<close>

section \<open>Order of responses\<close>

text \<open>The loop both order checks share, over the \<^verbatim>\<open>From\<close> fields from index \<open>i\<close> on.\<close>

fun order_check :: "string \<Rightarrow> nat \<Rightarrow> int \<Rightarrow> int list \<Rightarrow> ValidationError option" where
  "order_check path i prev [] = None"
| "order_check path i prev (f # fs) =
     (let at = path @ ''/'' @ itoa (int i) @ ''/from'' in
      if f < 1 then Some (validationError at ''response from must be >= 1'')
      else if f < prev then Some (validationError at ''response from values must be non-decreasing'')
      else order_check path (Suc i) f fs)"

text \<open>The read \<^verbatim>\<open>items[0]\<close> of the source panics on an empty slice.\<close>

definition response_order :: "string \<Rightarrow> int list \<Rightarrow> ValidationError option go" where
  "response_order path froms =
     (case order_check path 0 0 froms of
        Some e \<Rightarrow> Ret (Some e)
      | None \<Rightarrow> (case froms of
            [] \<Rightarrow> Panic ''index out of range [0] with length 0''
          | f # _ \<Rightarrow> Ret (check (f \<noteq> 1)
              (validationError (path @ ''/0/from'') ''the first response must start from request 1''))))"

definition validateResponseOrderHTTP :: "string \<Rightarrow> HTTPResponse list \<Rightarrow> ValidationError option go" where
  "validateResponseOrderHTTP path items = response_order path (map hr_From items)"

definition validateResponseOrderRedis :: "string \<Rightarrow> RedisResponse list \<Rightarrow> ValidationError option go" where
  "validateResponseOrderRedis path items = response_order path (map rr_From items)"

section \<open>Selection\<close>

definition isZeroStatePatch :: "StatePatch \<Rightarrow> bool" where
  "isZeroStatePatch patch \<longleftrightarrow> patch = zeroPatch"

definition response_applies :: "int \<Rightarrow> string \<Rightarrow> string \<Rightarrow> int \<Rightarrow> string \<Rightarrow> string \<Rightarrow> bool" where
  "response_applies from whenStatus whenHealth count status health \<longleftrightarrow>
     \<not> count < from \<and> \<not> (whenStatus \<noteq> [] \<and> whenStatus \<noteq> status) \<and>
     \<not> (whenHealth \<noteq> [] \<and> whenHealth \<noteq> health)"

fun selectHTTPResponse_loop ::
  "HTTPResponse list \<Rightarrow> int \<Rightarrow> string \<Rightarrow> string \<Rightarrow> HTTPResponse \<times> bool \<Rightarrow> HTTPResponse \<times> bool" where
  "selectHTTPResponse_loop [] count status health acc = acc"
| "selectHTTPResponse_loop (item # items) count status health acc =
     selectHTTPResponse_loop items count status health
       (if response_applies (hr_From item) (hr_WhenStatus item) (hr_WhenHealth item) count status health
        then (item, True) else acc)"

definition selectHTTPResponse ::
  "HTTPResponse list \<Rightarrow> int \<Rightarrow> string \<Rightarrow> string \<Rightarrow> HTTPResponse \<times> bool" where
  "selectHTTPResponse items count status health =
     selectHTTPResponse_loop items count status health (zeroHTTPResponse, False)"

fun selectRedisResponse_loop ::
  "RedisResponse list \<Rightarrow> int \<Rightarrow> string \<Rightarrow> string \<Rightarrow> RedisResponse \<times> bool \<Rightarrow> RedisResponse \<times> bool" where
  "selectRedisResponse_loop [] count status health acc = acc"
| "selectRedisResponse_loop (item # items) count status health acc =
     selectRedisResponse_loop items count status health
       (if response_applies (rr_From item) (rr_WhenStatus item) (rr_WhenHealth item) count status health
        then (item, True) else acc)"

definition selectRedisResponse ::
  "RedisResponse list \<Rightarrow> int \<Rightarrow> string \<Rightarrow> string \<Rightarrow> RedisResponse \<times> bool" where
  "selectRedisResponse items count status health =
     selectRedisResponse_loop items count status health (zeroRedisResponse, False)"

definition sortedCookbookKinds :: "(string, Cookbook) gomap \<Rightarrow> string list" where
  "sortedCookbookKinds cookbooks = sort (mkeys cookbooks)"

section \<open>RESP2 replies\<close>

text \<open>
  A reader is the bytes it has not read yet. \<open>read_until\<close> is \<^verbatim>\<open>ReadBytes\<close> and
  \<^verbatim>\<open>ReadString\<close>: the bytes up to and including the delimiter, \<open>None\<close> at the end of input.
\<close>

fun read_until :: "char \<Rightarrow> string \<Rightarrow> (string \<times> string) option" where
  "read_until d [] = None"
| "read_until d (c # s) =
     (if c = d then Some ([c], s)
      else map_option (\<lambda>(line, rest). (c # line, rest)) (read_until d s))"

definition readRESPLine :: "string \<Rightarrow> string + (string \<times> string)" where
  "readRESPLine s =
     (case read_until LF s of
        None \<Rightarrow> Inl ''truncated line''
      | Some (line, rest) \<Rightarrow>
          if length line < 2 \<or> line ! (length line - 2) \<noteq> CR then Inl ''line lacks CRLF terminator''
          else Inr (take (length line - 2) line, rest))"

text \<open>\<^verbatim>\<open>strconv.ParseInt(s, 10, 64)\<close> accepts what \<^verbatim>\<open>Atoi\<close> accepts on a 64-bit machine.\<close>

definition max_bulk :: int where
  "max_bulk = 16 * 2 ^ 20"

text \<open>
  A frame is parsed from its prefix byte on; \<open>parse_items\<close> is the loop over the items of an
  array, at the depth of the items. The result is the error or the bytes left.
\<close>

function (sequential) parseRESPFrame :: "nat \<Rightarrow> string \<Rightarrow> string + string"
  and parse_items :: "nat \<Rightarrow> nat \<Rightarrow> nat \<Rightarrow> string \<Rightarrow> string + string" where
  "parseRESPFrame depth s =
     (if depth > 64 then Inl ''nesting exceeds 64 levels''
      else (case s of
          [] \<Rightarrow> Inl ''EOF''
        | pre # s1 \<Rightarrow>
          if pre = CHR ''+'' \<or> pre = CHR ''-'' then
            (case readRESPLine s1 of
               Inl e \<Rightarrow> Inl e
             | Inr (line, rest) \<Rightarrow>
                 if NUL \<in> set line then Inl ''simple string contains NUL'' else Inr rest)
          else if pre = CHR '':'' then
            (case readRESPLine s1 of
               Inl e \<Rightarrow> Inl e
             | Inr (line, rest) \<Rightarrow> if snd (atoi line) then Inr rest else Inl ''invalid integer reply'')
          else if pre = CHR ''$'' then
            (case readRESPLine s1 of
               Inl e \<Rightarrow> Inl e
             | Inr (line, rest) \<Rightarrow>
                 let (len, ok) = atoi line in
                 if \<not> ok \<or> len < -1 \<or> len > max_bulk then Inl ''invalid bulk string length''
                 else if len = -1 then Inr rest
                 else if length rest < nat len + 2 then Inl ''truncated bulk string''
                 else if rest ! nat len \<noteq> CR \<or> rest ! (nat len + 1) \<noteq> LF
                   then Inl ''bulk string lacks CRLF terminator''
                 else Inr (drop (nat len + 2) rest))
          else if pre = CHR ''*'' then
            (case readRESPLine s1 of
               Inl e \<Rightarrow> Inl e
             | Inr (line, rest) \<Rightarrow>
                 let (count, ok) = atoi line in
                 if \<not> ok \<or> count < -1 \<or> count > 1024 then Inl ''invalid array length''
                 else if count = -1 then Inr rest
                 else parse_items (Suc depth) (nat count) 0 rest)
          else Inl (''unsupported RESP2 prefix '' @ quote_rune pre)))"
| "parse_items depth 0 i s = Inr s"
| "parse_items depth (Suc n) i s =
     (case parseRESPFrame depth s of
        Inl e \<Rightarrow> Inl (''array item '' @ itoa (int i) @ '': '' @ e)
      | Inr rest \<Rightarrow> parse_items depth n (Suc i) rest)"
  by pat_completeness auto
termination
  by (relation "measures [case_sum (\<lambda>(d, s). 65 - d) (\<lambda>(d, n, i, s). 65 - d),
        case_sum (\<lambda>(d, s). 0) (\<lambda>(d, n, i, s). Suc n)]") auto

declare parseRESPFrame.simps [simp del]

lemma read_until_length: "read_until d s = Some (line, rest) \<Longrightarrow> length s = length line + length rest \<and> line \<noteq> []"
  by (induction s arbitrary: line) (auto split: if_splits)

lemma readRESPLine_length: "readRESPLine s = Inr (line, rest) \<Longrightarrow> length rest < length s"
  by (auto simp: readRESPLine_def dest!: read_until_length split: option.splits if_splits)

text \<open>The equation of \<^const>\<open>parseRESPFrame\<close>, one prefix at a time.\<close>

lemma frame_array:
  "parseRESPFrame depth (CHR ''*'' # s) =
     (if depth > 64 then Inl ''nesting exceeds 64 levels''
      else (case readRESPLine s of
          Inl e \<Rightarrow> Inl e
        | Inr (line, rest) \<Rightarrow>
            if \<not> snd (atoi line) \<or> fst (atoi line) < -1 \<or> fst (atoi line) > 1024
            then Inl ''invalid array length''
            else if fst (atoi line) = -1 then Inr rest
            else parse_items (Suc depth) (nat (fst (atoi line))) 0 rest))"
  by (auto simp: parseRESPFrame.simps case_prod_beta Let_def split: sum.splits)

lemma frame_other:
  assumes "pre \<noteq> CHR ''*''" and "parseRESPFrame depth (pre # s) = Inr rest"
  shows "length rest \<le> length s"
proof (cases "readRESPLine s")
  case (Inl e)
  with assms show ?thesis by (simp add: parseRESPFrame.simps split: if_splits)
next
  case (Inr p)
  then have "length (snd p) < length s" by (cases p) (simp add: readRESPLine_length)
  with assms Inr show ?thesis
    by (auto simp: parseRESPFrame.simps case_prod_beta Let_def split: if_splits)
qed

text \<open>A frame consumes at least its prefix, so the loop over the frames of a reply ends.\<close>

lemma items_shrink:
  assumes "\<And>s rest. parseRESPFrame d s = Inr rest \<Longrightarrow> length rest < length s"
    and "parse_items d n i s = Inr rest"
  shows "length rest \<le> length s"
  using assms(2)
proof (induction n arbitrary: i s)
  case (Suc n)
  then obtain r where "parseRESPFrame d s = Inr r" "parse_items d n (Suc i) r = Inr rest"
    by (auto split: sum.splits)
  with assms(1) [of s r] Suc.IH show ?case by fastforce
qed simp

lemma parseRESPFrame_shrinks: "parseRESPFrame d s = Inr rest \<Longrightarrow> length rest < length s"
proof (induction "65 - d" arbitrary: d s rest rule: less_induct)
  case less
  show ?case
  proof (cases s)
    case Nil
    with less.prems show ?thesis by (simp add: parseRESPFrame.simps split: if_splits)
  next
    case (Cons pre s1)
    show ?thesis
    proof (cases "pre = CHR ''*''")
      case True
      with less.prems Cons obtain line r n where d: "d \<le> 64"
        and line: "readRESPLine s1 = Inr (line, r)"
        and rest: "rest = r \<or> parse_items (Suc d) n 0 r = Inr rest"
        by (simp add: frame_array split: if_splits sum.splits prod.splits) blast+
      from d have "65 - Suc d < 65 - d" by simp
      then have "parse_items (Suc d) n 0 r = Inr rest \<Longrightarrow> length rest \<le> length r"
        using items_shrink less.hyps by blast
      with rest line Cons show ?thesis by (auto dest: readRESPLine_length)
    next
      case False
      with less.prems Cons show ?thesis by (simp add: frame_other less_Suc_eq_le)
    qed
  qed
qed

function validateRESPReply_loop :: "nat \<Rightarrow> string \<Rightarrow> string option" where
  "validateRESPReply_loop frames s =
     (if s = [] then check (frames = 0) ''reply is empty''
      else (case parseRESPFrame 0 s of
          Inl e \<Rightarrow> Some e
        | Inr rest \<Rightarrow> validateRESPReply_loop (Suc frames) rest))"
  by pat_completeness auto
termination
  by (relation "measure (\<lambda>(frames, s). length s)") (auto dest: parseRESPFrame_shrinks)

declare validateRESPReply_loop.simps [simp del]

text \<open>\<^verbatim>\<open>validateRESPReply\<close>: \<open>None\<close> is the nil error.\<close>

definition validateRESPReply :: "string \<Rightarrow> string option" where
  "validateRESPReply value = validateRESPReply_loop 0 value"

end
