(* ===== verification/Go_Hash.thy ===== *)
theory Go_Hash
  imports Go_Prelude "HOL-Library.Word"
begin

text \<open>
  \<^verbatim>\<open>crypto/sha256\<close> and \<^verbatim>\<open>encoding/hex\<close>, from which the engine makes its image, container,
  network and endpoint identifiers. The function is the one of FIPS 180-4, on byte strings. Proofs
  use its result's length and alphabet only; where two identifiers have to differ, a theorem says
  so in a hypothesis.
\<close>

unbundle bit_operations_syntax

type_synonym u32 = "32 word"

definition sha_K :: "u32 list" where
  "sha_K =
    [1116352408, 1899447441, 3049323471, 3921009573, 961987163, 1508970993, 2453635748, 2870763221,
     3624381080, 310598401, 607225278, 1426881987, 1925078388, 2162078206, 2614888103, 3248222580,
     3835390401, 4022224774, 264347078, 604807628, 770255983, 1249150122, 1555081692, 1996064986,
     2554220882, 2821834349, 2952996808, 3210313671, 3336571891, 3584528711, 113926993, 338241895,
     666307205, 773529912, 1294757372, 1396182291, 1695183700, 1986661051, 2177026350, 2456956037,
     2730485921, 2820302411, 3259730800, 3345764771, 3516065817, 3600352804, 4094571909, 275423344,
     430227734, 506948616, 659060556, 883997877, 958139571, 1322822218, 1537002063, 1747873779,
     1955562222, 2024104815, 2227730452, 2361852424, 2428436474, 2756734187, 3204031479, 3329325298]"

definition sha_H0 :: "u32 list" where
  "sha_H0 =
    [1779033703, 3144134277, 1013904242, 2773480762, 1359893119, 2600822924, 528734635, 1541459225]"

definition rotr :: "nat \<Rightarrow> u32 \<Rightarrow> u32" where
  "rotr n x = drop_bit n x OR push_bit (32 - n) x"

definition big_sigma0 :: "u32 \<Rightarrow> u32" where
  "big_sigma0 x = rotr 2 x XOR rotr 13 x XOR rotr 22 x"

definition big_sigma1 :: "u32 \<Rightarrow> u32" where
  "big_sigma1 x = rotr 6 x XOR rotr 11 x XOR rotr 25 x"

definition small_sigma0 :: "u32 \<Rightarrow> u32" where
  "small_sigma0 x = rotr 7 x XOR rotr 18 x XOR drop_bit 3 x"

definition small_sigma1 :: "u32 \<Rightarrow> u32" where
  "small_sigma1 x = rotr 17 x XOR rotr 19 x XOR drop_bit 10 x"

definition sha_ch :: "u32 \<Rightarrow> u32 \<Rightarrow> u32 \<Rightarrow> u32" where
  "sha_ch x y z = (x AND y) XOR (NOT x AND z)"

definition sha_maj :: "u32 \<Rightarrow> u32 \<Rightarrow> u32 \<Rightarrow> u32" where
  "sha_maj x y z = (x AND y) XOR (x AND z) XOR (y AND z)"

text \<open>Big-endian bytes of a word of \<open>n\<close> bytes, and back.\<close>

fun be_bytes :: "nat \<Rightarrow> nat \<Rightarrow> nat list" where
  "be_bytes 0 v = []"
| "be_bytes (Suc n) v = be_bytes n (v div 256) @ [v mod 256]"

definition be_word :: "nat list \<Rightarrow> u32" where
  "be_word bs = of_nat (foldl (\<lambda>v b. 256 * v + b) 0 bs)"

definition sha_pad :: "nat list \<Rightarrow> nat list" where
  "sha_pad m = m @ [128] @ replicate ((119 - length m mod 64) mod 64) 0 @ be_bytes 8 (8 * length m)"

fun chunks :: "nat \<Rightarrow> 'a list \<Rightarrow> 'a list list" where
  "chunks n xs = (if n = 0 \<or> xs = [] then [] else take n xs # chunks n (drop n xs))"

declare chunks.simps [simp del]

text \<open>The message schedule, newest word first.\<close>

fun sha_schedule :: "nat \<Rightarrow> u32 list \<Rightarrow> u32 list" where
  "sha_schedule 0 w = w"
| "sha_schedule (Suc n) w =
     sha_schedule n ((small_sigma1 (w ! 1) + w ! 6 + small_sigma0 (w ! 14) + w ! 15) # w)"

text \<open>One round on the eight working words.\<close>

definition sha_round :: "u32 list \<Rightarrow> u32 \<times> u32 \<Rightarrow> u32 list" where
  "sha_round v kw =
     (let e = v ! 4;
          t1 = v ! 7 + big_sigma1 e + sha_ch e (v ! 5) (v ! 6) + fst kw + snd kw;
          t2 = big_sigma0 (v ! 0) + sha_maj (v ! 0) (v ! 1) (v ! 2)
      in [t1 + t2, v ! 0, v ! 1, v ! 2, v ! 3 + t1, v ! 4, v ! 5, v ! 6])"

definition sha_block :: "u32 list \<Rightarrow> nat list \<Rightarrow> u32 list" where
  "sha_block hs bytes =
     (let w = rev (sha_schedule 48 (rev (map be_word (chunks 4 bytes))))
      in map2 (+) hs (foldl sha_round hs (zip sha_K w)))"

definition sha256 :: "string \<Rightarrow> u32 list" where
  "sha256 s = foldl sha_block sha_H0 (chunks 64 (sha_pad (map byte s)))"

definition hex_digit :: "nat \<Rightarrow> char" where
  "hex_digit d = (if d < 10 then char_of (48 + d) else char_of (87 + d))"

fun fixed_hex :: "nat \<Rightarrow> nat \<Rightarrow> string" where
  "fixed_hex 0 v = []"
| "fixed_hex (Suc n) v = fixed_hex n (v div 16) @ [hex_digit (v mod 16)]"

text \<open>\<^verbatim>\<open>hex.EncodeToString\<close> of the eight words of a digest.\<close>

definition sha256_hex :: "string \<Rightarrow> string" where
  "sha256_hex s = concat (map (\<lambda>w. fixed_hex 8 (unat w)) (sha256 s))"

lemma length_sha_rounds: "length hs = 8 \<Longrightarrow> length (foldl sha_round hs kws) = 8"
  by (induction kws arbitrary: hs) (simp_all add: sha_round_def Let_def)

lemma length_sha_block: "length hs = 8 \<Longrightarrow> length (sha_block hs bytes) = 8"
  by (simp add: sha_block_def Let_def length_sha_rounds)

lemma length_sha256: "length (sha256 s) = 8"
proof -
  have "length hs = 8 \<Longrightarrow> length (foldl sha_block hs bs) = 8" for hs bs
    by (induction bs arbitrary: hs) (simp_all add: length_sha_block)
  then show ?thesis by (simp add: sha256_def sha_H0_def)
qed

lemma length_fixed_hex: "length (fixed_hex n v) = n"
  by (induction n arbitrary: v) auto

lemma length_sha256_hex [simp]: "length (sha256_hex s) = 64"
proof -
  have "sum_list (map (\<lambda>w. length (fixed_hex 8 (unat (w :: u32)))) ws) = 8 * length ws" for ws
    by (induction ws) (simp_all add: length_fixed_hex)
  then show ?thesis
    by (simp add: sha256_hex_def length_concat comp_def length_sha256)
qed

lemma sha256_hex_nonempty [simp]: "sha256_hex s \<noteq> []"
  using length_sha256_hex by (metis list.size(3) zero_neq_numeral)

end
