(* ===== verification/Go_Time.thy ===== *)
theory Go_Time
  imports Go_Prelude
begin

text \<open>
  \<^verbatim>\<open>time.Time\<close>: the zero time, or nanoseconds since 1970-01-01 UTC. An operation that reads the
  clock takes the reading as an argument. \<open>rfc3339nano\<close> is \<^verbatim>\<open>t.UTC().Format(time.RFC3339Nano)\<close>.
\<close>

datatype gotime = ZeroTime | UnixNano nat

instantiation gotime :: linorder
begin

fun less_eq_gotime :: "gotime \<Rightarrow> gotime \<Rightarrow> bool" where
  "less_eq_gotime ZeroTime t = True"
| "less_eq_gotime (UnixNano m) ZeroTime = False"
| "less_eq_gotime (UnixNano m) (UnixNano n) = (m \<le> n)"

definition less_gotime :: "gotime \<Rightarrow> gotime \<Rightarrow> bool" where
  "less_gotime s t \<longleftrightarrow> s \<le> t \<and> \<not> t \<le> s"

instance
proof
  fix r s t :: gotime
  show "(s < t) = (s \<le> t \<and> \<not> t \<le> s)" by (simp add: less_gotime_def)
  show "s \<le> s" by (cases s) auto
  show "r \<le> s \<Longrightarrow> s \<le> t \<Longrightarrow> r \<le> t" by (cases r; cases s; cases t) auto
  show "s \<le> t \<Longrightarrow> t \<le> s \<Longrightarrow> s = t" by (cases s; cases t) auto
  show "s \<le> t \<or> t \<le> s" by (cases s; cases t) auto
qed

end

definition pad_digits :: "nat \<Rightarrow> nat \<Rightarrow> string" where
  "pad_digits w n = replicate (w - length (nat_digits n)) (CHR ''0'') @ nat_digits n"

text \<open>The civil date of a day number, counted from 1970-01-01 (proleptic Gregorian calendar).\<close>

definition civil_date :: "nat \<Rightarrow> nat \<times> nat \<times> nat" where
  "civil_date days =
     (let z = days + 719468; era = z div 146097; doe = z mod 146097;
          yoe = (doe - doe div 1460 + doe div 36524 - doe div 146096) div 365;
          doy = doe - (365 * yoe + yoe div 4 - yoe div 100);
          mp = (5 * doy + 2) div 153;
          d = doy - (153 * mp + 2) div 5 + 1;
          m = (if mp < 10 then mp + 3 else mp - 9)
      in (yoe + era * 400 + (if m \<le> 2 then 1 else 0), m, d))"

definition fraction :: "nat \<Rightarrow> string" where
  "fraction ns =
     (if ns = 0 then []
      else CHR ''.'' # rev (dropWhile (\<lambda>c. c = CHR ''0'') (rev (pad_digits 9 ns))))"

definition rfc3339nano :: "nat \<Rightarrow> string" where
  "rfc3339nano t =
     (let secs = t div 1000000000; (y, m, d) = civil_date (secs div 86400); s = secs mod 86400
      in pad_digits 4 y @ ''-'' @ pad_digits 2 m @ ''-'' @ pad_digits 2 d @ ''T'' @
         pad_digits 2 (s div 3600) @ '':'' @ pad_digits 2 (s div 60 mod 60) @ '':'' @
         pad_digits 2 (s mod 60) @ fraction (t mod 1000000000) @ ''Z'')"

definition formatDockerTime :: "gotime \<Rightarrow> string" where
  "formatDockerTime t =
     (case t of ZeroTime \<Rightarrow> ''0001-01-01T00:00:00Z'' | UnixNano n \<Rightarrow> rfc3339nano n)"

definition optionalDockerTime :: "gotime \<Rightarrow> string" where
  "optionalDockerTime t = (if t = ZeroTime then [] else formatDockerTime t)"

end
