(* ===== verification/Go_Json.thy ===== *)
theory Go_Json
  imports Go_Prelude
begin

text \<open>
  JSON values, as the engine builds them for responses and for its ledger: the contents of a Go value
  of type \<^verbatim>\<open>any\<close>. An object is a Go map or a struct; where a program reads a field it uses \<open>jget\<close>.
\<close>

datatype json =
    JNull
  | JBool bool
  | JInt int
  | JString string
  | JArray "json list"
  | JObject "(string \<times> json) list"

fun jget :: "json \<Rightarrow> string \<Rightarrow> json" where
  "jget (JObject m) k = mget_or JNull m k"
| "jget v k = JNull"

definition jstrings :: "string list \<Rightarrow> json" where
  "jstrings xs = JArray (map JString xs)"

definition jmap :: "(string, string) gomap \<Rightarrow> json" where
  "jmap m = JObject (mmap JString m)"

lemma jget_JObject [simp]: "jget (JObject m) k = mget_or JNull m k"
  by simp

end
