(* ===== verification/Container_State.thy ===== *)
theory Container_State
  imports Cookbook_Responses Go_Hash Go_Time Go_Json
begin

text \<open>
  A container (\<^verbatim>\<open>state.go\<close>, \<^verbatim>\<open>container_wait.go\<close> and the types of \<^verbatim>\<open>container_config.go\<close> and
  \<^verbatim>\<open>network_types.go\<close>): its record and the operations that run under its mutex. Each operation is
  atomic in the source, so each is one function from the container, and from the process-wide PID
  counter where it may start a process, to what it returns and the new state. A reading of the clock
  is an argument.
\<close>

record RestartPolicy =
  rp_Name :: string
  rp_MaximumRetryCount :: int

record HealthLog =
  hl_Start :: string
  hl_End :: string
  hl_ExitCode :: int
  hl_Output :: string

record HealthState =
  h_Status :: string
  h_FailingStreak :: int
  h_Log :: "HealthLog list"

record PortBinding =
  pb_HostIP :: string
  pb_RequestedHostPort :: int
  pb_HostPort :: int
  pb_Protocol :: string
  pb_ContainerPort :: int

record RedisReplicationState =
  r_Role :: string
  r_MasterHost :: string
  r_MasterPort :: int
  r_MasterID :: string
  r_MasterLinkStatus :: string

record containerWaitResult =
  w_StatusCode :: int
  w_Error :: "string option"

text \<open>
  \<open>c_waiters\<close> maps each registered waiter to its condition; a waiter is a pointer, numbered from
  \<open>c_nextWaiter\<close> in the order of allocation. \<open>c_sent\<close> lists what was sent on the
  waiters' channels, each of which has room for one result.
\<close>

record Container =
  c_waiters :: "(nat, string) gomap"
  c_nextWaiter :: nat
  c_sent :: "(nat \<times> containerWaitResult) list"
  c_removed :: bool
  c_requestedConfig :: "(string, json) gomap"
  c_requestedHostConfig :: "(string, json) gomap"
  c_metadataOnlyFields :: "string list"
  c_healthDisabled :: bool
  c_RestartPolicy :: RestartPolicy
  c_manuallyStopped :: bool
  c_automaticRestarts :: int
  c_ID :: string
  c_Name :: string
  c_Image :: string
  c_ImageID :: string
  c_Kind :: string
  c_Seed :: int
  c_Created :: gotime
  c_Started :: gotime
  c_Finished :: gotime
  c_Spec :: ServiceDefaults
  c_Scenario :: Scenario
  c_Status :: string
  c_Running :: bool
  c_Paused :: bool
  c_Restarting :: bool
  c_OOMKilled :: bool
  c_Dead :: bool
  c_Pid :: int
  c_ExitCode :: int
  c_Error :: string
  c_RestartCount :: int
  c_Health :: HealthState
  c_NetworkMode :: string
  c_PrimaryIP :: string
  c_PortBindings :: "(string, PortBinding list) gomap"
  c_Redis :: RedisReplicationState
  c_Counters :: "(string, int) gomap"
  c_AppliedTransitions :: "(nat, bool) gomap"
  c_Labels :: "(string, string) gomap"
  c_Env :: "string list"
  c_Command :: "string list"
  c_KV :: "(string, string) gomap"
  c_Logs :: "string list"
  c_StartCount :: int

section \<open>Creation\<close>

definition imageID :: "string \<Rightarrow> string" where
  "imageID img = ''sha256:'' @ sha256_hex (''image:'' @ img)"

definition containerID :: "string \<Rightarrow> int \<Rightarrow> string" where
  "containerID name n = sha256_hex (''container:'' @ name @ '':'' @ itoa n)"

definition newContainer ::
  "gotime \<Rightarrow> string \<Rightarrow> string \<Rightarrow> string \<Rightarrow> Cookbook \<Rightarrow> int \<Rightarrow> Container" where
  "newContainer now cid name img cb seed =
     \<lparr>c_waiters = [], c_nextWaiter = 0, c_sent = [], c_removed = False,
      c_requestedConfig = [], c_requestedHostConfig = [], c_metadataOnlyFields = [],
      c_healthDisabled = False, c_RestartPolicy = \<lparr>rp_Name = ''no'', rp_MaximumRetryCount = 0\<rparr>,
      c_manuallyStopped = False, c_automaticRestarts = 0,
      c_ID = cid, c_Name = name, c_Image = img, c_ImageID = imageID img, c_Kind = cb_Kind cb,
      c_Seed = seed, c_Created = now, c_Started = ZeroTime, c_Finished = ZeroTime,
      c_Spec = cb_Defaults cb, c_Scenario = mget_or zeroScenario (cb_Seeds cb) (itoa seed),
      c_Status = sCreated, c_Running = False, c_Paused = False, c_Restarting = False,
      c_OOMKilled = False, c_Dead = False, c_Pid = 0, c_ExitCode = 0, c_Error = [],
      c_RestartCount = 0, c_Health = \<lparr>h_Status = [], h_FailingStreak = 0, h_Log = []\<rparr>,
      c_NetworkMode = ''default'', c_PrimaryIP = [], c_PortBindings = [],
      c_Redis = \<lparr>r_Role = ''master'', r_MasterHost = [], r_MasterPort = 0, r_MasterID = [],
        r_MasterLinkStatus = ''up''\<rparr>,
      c_Counters = [], c_AppliedTransitions = [], c_Labels = [], c_Env = [], c_Command = [],
      c_KV = [], c_Logs = [''docker-zero: container created'' @ [LF]], c_StartCount = 0\<rparr>"

section \<open>Snapshots and ports\<close>

record ContainerStateSnapshot =
  ss_Status :: string
  ss_Running :: bool
  ss_Restarting :: bool
  ss_Paused :: bool
  ss_Dead :: bool
  ss_Health :: string
  ss_ExitCode :: int
  ss_RestartCount :: int
  ss_Error :: string

definition stateSnapshot :: "Container \<Rightarrow> ContainerStateSnapshot" where
  "stateSnapshot c =
     \<lparr>ss_Status = c_Status c, ss_Running = c_Running c, ss_Restarting = c_Restarting c,
      ss_Paused = c_Paused c, ss_Dead = c_Dead c, ss_Health = h_Status (c_Health c),
      ss_ExitCode = c_ExitCode c, ss_RestartCount = c_RestartCount c, ss_Error = c_Error c\<rparr>"

definition primaryHostPort :: "Container \<Rightarrow> int" where
  "primaryHostPort c =
     (case mget_or [] (c_PortBindings c) (itoa (d_ContainerPort (c_Spec c)) @ ''/tcp'') of
        [] \<Rightarrow> 0 | b # _ \<Rightarrow> pb_HostPort b)"

record ContainerSnapshot =
  cs_ID :: string
  cs_Name :: string
  cs_Image :: string
  cs_Kind :: string
  cs_Seed :: int
  cs_Created :: string
  cs_Started :: string
  cs_Finished :: string
  cs_State :: ContainerStateSnapshot
  cs_Counters :: "(string, int) gomap"
  cs_IPAddress :: string
  cs_ContainerPort :: int
  cs_HostPort :: int
  cs_NetworkMode :: string

definition snapshot :: "Container \<Rightarrow> ContainerSnapshot" where
  "snapshot c =
     \<lparr>cs_ID = c_ID c, cs_Name = c_Name c, cs_Image = c_Image c, cs_Kind = c_Kind c,
      cs_Seed = c_Seed c, cs_Created = formatDockerTime (c_Created c),
      cs_Started = optionalDockerTime (c_Started c), cs_Finished = optionalDockerTime (c_Finished c),
      cs_State = stateSnapshot c, cs_Counters = c_Counters c, cs_IPAddress = c_PrimaryIP c,
      cs_ContainerPort = d_ContainerPort (c_Spec c), cs_HostPort = primaryHostPort c,
      cs_NetworkMode = c_NetworkMode c\<rparr>"

definition setPrimaryIP :: "string \<Rightarrow> Container \<Rightarrow> Container" where
  "setPrimaryIP ip c = c\<lparr>c_PrimaryIP := ip\<rparr>"

definition clonePortBindings :: "Container \<Rightarrow> (string, PortBinding list) gomap" where
  "clonePortBindings c = c_PortBindings c"

definition setPortBindings :: "(string, PortBinding list) gomap \<Rightarrow> Container \<Rightarrow> Container" where
  "setPortBindings bindings c = c\<lparr>c_PortBindings := bindings\<rparr>"

definition updateAssignedPort :: "string \<Rightarrow> int \<Rightarrow> int \<Rightarrow> Container \<Rightarrow> Container" where
  "updateAssignedPort key index hostPort c =
     (let items = mget_or [] (c_PortBindings c) key in
      if index < 0 \<or> index \<ge> int (length items) then c
      else c\<lparr>c_PortBindings :=
             mput (c_PortBindings c) key (items[nat index := (items ! nat index)\<lparr>pb_HostPort := hostPort\<rparr>])\<rparr>)"

definition resetEphemeralAssignedPorts :: "Container \<Rightarrow> Container" where
  "resetEphemeralAssignedPorts c =
     c\<lparr>c_PortBindings :=
       mmap (map (\<lambda>b. if pb_RequestedHostPort b = 0 then b\<lparr>pb_HostPort := 0\<rparr> else b)) (c_PortBindings c)\<rparr>"

section \<open>Waiting for an exit\<close>

definition waitResult :: "Container \<Rightarrow> containerWaitResult" where
  "waitResult c = \<lparr>w_StatusCode = c_ExitCode c, w_Error = (if c_Error c = [] then None else Some (c_Error c))\<rparr>"

definition subscribeWait :: "string \<Rightarrow> Container \<Rightarrow> nat \<times> Container" where
  "subscribeWait condition c =
     (let w = c_nextWaiter c; c' = c\<lparr>c_nextWaiter := Suc w\<rparr> in
      if c_removed c \<or> condition = ''not-running'' \<and> \<not> c_Running c
      then (w, c'\<lparr>c_sent := c_sent c @ [(w, waitResult c)]\<rparr>)
      else (w, c'\<lparr>c_waiters := mput (c_waiters c) w condition\<rparr>))"

text \<open>The cancel function \<open>subscribeWait\<close> returns.\<close>

definition cancelWait :: "nat \<Rightarrow> Container \<Rightarrow> Container" where
  "cancelWait w c = c\<lparr>c_waiters := mdel (c_waiters c) w\<rparr>"

definition notified :: "bool \<Rightarrow> nat \<times> string \<Rightarrow> bool" where
  "notified removed w \<longleftrightarrow> \<not> (\<not> removed \<and> snd w = ''removed'')"

definition notifyWaitersLocked :: "bool \<Rightarrow> Container \<Rightarrow> Container" where
  "notifyWaitersLocked removed c =
     c\<lparr>c_sent := c_sent c @ map (\<lambda>w. (fst w, waitResult c)) (filter (notified removed) (c_waiters c)),
       c_waiters := filter (\<lambda>w. \<not> notified removed w) (c_waiters c)\<rparr>"

definition markRemoved :: "Container \<Rightarrow> Container" where
  "markRemoved c = notifyWaitersLocked True (c\<lparr>c_removed := True\<rparr>)"

section \<open>State patches\<close>

text \<open>A patch writes a field when its pointer is not nil.\<close>

definition patched :: "'a option \<Rightarrow> 'a \<Rightarrow> 'a" where
  "patched p old = (case p of None \<Rightarrow> old | Some v \<Rightarrow> v)"

definition patch_fields :: "StatePatch \<Rightarrow> Container \<Rightarrow> Container" where
  "patch_fields patch c =
     (let restarts = patched (p_RestartCount patch) (c_RestartCount c) in
      c\<lparr>c_Status := patched (p_Status patch) (c_Status c),
        c_Running := patched (p_Running patch) (c_Running c),
        c_Restarting := patched (p_Restarting patch) (c_Restarting c),
        c_Dead := patched (p_Dead patch) (c_Dead c),
        c_Health := (c_Health c)\<lparr>h_Status := patched (p_Health patch) (h_Status (c_Health c))\<rparr>,
        c_ExitCode := patched (p_ExitCode patch) (c_ExitCode c),
        c_Error := patched (p_Error patch) (c_Error c),
        c_RestartCount := (if p_RestartCountDelta patch \<noteq> 0
          then wrap64 (restarts + p_RestartCountDelta patch) else restarts)\<rparr>)"

text \<open>The switch that derives the lifecycle flags from the status.\<close>

definition set_flags :: "bool \<Rightarrow> bool \<Rightarrow> bool \<Rightarrow> bool \<Rightarrow> Container \<Rightarrow> Container" where
  "set_flags running paused restarting dead c =
     c\<lparr>c_Running := running, c_Paused := paused, c_Restarting := restarting, c_Dead := dead\<rparr>"

definition canonical_flags :: "Container \<Rightarrow> Container go" where
  "canonical_flags c =
     (if c_Status c = sRunning then Ret (set_flags True False False False c)
      else if c_Status c = sPaused then Ret (set_flags True True False False c)
      else if c_Status c = sRestarting then Ret (set_flags True False True False c)
      else if c_Status c = sCreated \<or> c_Status c = sExited then Ret (set_flags False False False False c)
      else if c_Status c = sDead then Ret (set_flags False False False True c)
      else Panic (''internal invalid container status '' @ quote (c_Status c)))"

definition patch_notify :: "bool \<Rightarrow> string \<Rightarrow> Container \<Rightarrow> Container" where
  "patch_notify oldRunning oldStatus c =
     (if oldRunning \<and> c_Status c \<noteq> oldStatus \<and>
         (c_Status c = sExited \<or> c_Status c = sDead \<or> c_Status c = sRestarting)
      then notifyWaitersLocked False c else c)"

text \<open>
  The start and finish times and the PID. \<open>pid\<close> is the number of PIDs handed out so far; the atomic
  \<^verbatim>\<open>syntheticPID\<close>, a 64-bit integer, holds \<open>wrap64 pid\<close>.
\<close>

definition mark_started :: "gotime \<Rightarrow> string \<Rightarrow> Container \<times> int \<Rightarrow> Container \<times> int" where
  "mark_started now oldStatus = (\<lambda>(c, pid).
     if c_Status c = sRunning \<and> oldStatus \<noteq> sRunning then
       let c1 = c\<lparr>c_Started := now, c_Finished := ZeroTime\<rparr> in
       if c_Pid c1 = 0 then (c1\<lparr>c_Pid := wrap64 (1000 + wrap64 (pid + 1))\<rparr>, pid + 1) else (c1, pid)
     else (c, pid))"

definition mark_exited :: "gotime \<Rightarrow> string \<Rightarrow> Container \<Rightarrow> Container" where
  "mark_exited now oldStatus c =
     (if (c_Status c = sExited \<or> c_Status c = sDead) \<and> oldStatus \<noteq> c_Status c
      then c\<lparr>c_Finished := now, c_Pid := 0\<rparr> else c)"

definition mark_restarting :: "gotime \<Rightarrow> string \<Rightarrow> Container \<Rightarrow> Container" where
  "mark_restarting now oldStatus c =
     (if c_Status c = sRestarting \<and> oldStatus \<noteq> sRestarting
      then c\<lparr>c_Finished := now, c_Pid := 0\<rparr> else c)"

definition mark_created :: "Container \<Rightarrow> Container" where
  "mark_created c = (if c_Status c = sCreated then c\<lparr>c_Pid := 0\<rparr> else c)"

definition patch_times :: "gotime \<Rightarrow> string \<Rightarrow> Container \<Rightarrow> int \<Rightarrow> Container \<times> int" where
  "patch_times now oldStatus c pid =
     (let (c1, pid') = mark_started now oldStatus (c, pid)
      in (mark_created (mark_restarting now oldStatus (mark_exited now oldStatus c1)), pid'))"

definition health_entry :: "gotime \<Rightarrow> string \<Rightarrow> HealthLog" where
  "health_entry now status =
     \<lparr>hl_Start = formatDockerTime now, hl_End = formatDockerTime now,
      hl_ExitCode = (if status = hUnhealthy then 1 else 0),
      hl_Output = ''docker-zero: health changed to '' @ status @ [LF]\<rparr>"

definition patch_health :: "gotime \<Rightarrow> string \<Rightarrow> Container \<Rightarrow> Container" where
  "patch_health now oldHealth c =
     (let h = c_Health c in
      if h_Status h \<noteq> oldHealth \<and> h_Status h \<noteq> [] then
        let streak = (if h_Status h = hUnhealthy then wrap64 (h_FailingStreak h + 1)
                      else if h_Status h = hHealthy then 0 else h_FailingStreak h);
            log = h_Log h @ [health_entry now (h_Status h)];
            log = (if length log > 5 then drop (length log - 5) log else log)
        in c\<lparr>c_Health := h\<lparr>h_FailingStreak := streak, h_Log := log\<rparr>\<rparr>
      else c)"

definition applyPatchLocked :: "gotime \<Rightarrow> StatePatch \<Rightarrow> Container \<times> int \<Rightarrow> (Container \<times> int) go" where
  "applyPatchLocked now patch = (\<lambda>(c, pid).
     (case canonical_flags (patch_fields patch c) of
        Panic e \<Rightarrow> Panic e
      | Ret c1 \<Rightarrow>
          let c2 = patch_notify (c_Running c) (c_Status c) c1;
              (c3, pid') = patch_times now (c_Status c) c2 pid
          in Ret (patch_health now (h_Status (c_Health c)) c3, pid')))"

definition applyPatch ::
  "gotime \<Rightarrow> StatePatch \<Rightarrow> Container \<times> int
    \<Rightarrow> ((ContainerStateSnapshot \<times> ContainerStateSnapshot) \<times> Container \<times> int) go" where
  "applyPatch now patch s =
     go_bind (applyPatchLocked now patch s)
       (\<lambda>s'. Ret ((stateSnapshot (fst s), stateSnapshot (fst s')), s'))"

section \<open>Docker operations\<close>

text \<open>
  \<open>startPatch\<close> is \<^verbatim>\<open>startPatchLocked\<close>: the whole initial state at the first start, the
  service-facing part of it at later ones.
\<close>

definition startPatch :: "Container \<Rightarrow> StatePatch" where
  "startPatch c =
     (let initial = s_Initial (c_Scenario c) in
      if c_StartCount c = 0 then
        initial\<lparr>p_Status := Some (patched (p_Status initial) sRunning),
          p_Running := Some (patched (p_Running initial) True),
          p_Restarting := Some (patched (p_Restarting initial) False),
          p_Dead := Some (patched (p_Dead initial) False),
          p_ExitCode := Some (patched (p_ExitCode initial) 0)\<rparr>
      else
        zeroPatch\<lparr>p_Status := Some (patched (p_Status initial) sRunning),
          p_Running := Some True, p_Restarting := Some False, p_Dead := Some False,
          p_Health := p_Health initial, p_ExitCode := Some 0, p_Error := Some []\<rparr>)"

type_synonym snapshots = "ContainerStateSnapshot \<times> ContainerStateSnapshot"

definition start_log :: "Container \<Rightarrow> string" where
  "start_log c = ''docker-zero: started with seed '' @ itoa (c_Seed c) @ '' ('' @
     s_Description (c_Scenario c) @ ''), start #'' @ itoa (c_StartCount c) @ [LF]"

definition start :: "gotime \<Rightarrow> Container \<times> int \<Rightarrow> (snapshots \<times> Container \<times> int) go" where
  "start now = (\<lambda>(c, pid).
     let c1 = c\<lparr>c_manuallyStopped := False, c_automaticRestarts := 0\<rparr> in
     go_bind (applyPatchLocked now (startPatch c1) (c1, pid)) (\<lambda>(c2, pid').
       let c3 = c2\<lparr>c_StartCount := wrap64 (c_StartCount c2 + 1)\<rparr>;
           c4 = c3\<lparr>c_Logs := c_Logs c3 @ [start_log c3]\<rparr>
       in Ret ((stateSnapshot c, stateSnapshot c4), c4, pid')))"

definition stopPatch :: "int \<Rightarrow> StatePatch" where
  "stopPatch exitCode = zeroPatch\<lparr>p_Status := Some sExited, p_Running := Some False,
     p_Restarting := Some False, p_ExitCode := Some exitCode\<rparr>"

definition stop :: "gotime \<Rightarrow> int \<Rightarrow> Container \<times> int \<Rightarrow> (snapshots \<times> Container \<times> int) go" where
  "stop now exitCode = (\<lambda>(c, pid).
     go_bind (applyPatchLocked now (stopPatch exitCode) (c\<lparr>c_manuallyStopped := True\<rparr>, pid))
       (\<lambda>(c', pid'). Ret ((stateSnapshot c, stateSnapshot c'), c', pid')))"

text \<open>The operations that may fail return the error's text beside the snapshots.\<close>

definition kill :: "gotime \<Rightarrow> Container \<times> int \<Rightarrow> ((snapshots \<times> string option) \<times> Container \<times> int) go" where
  "kill now = (\<lambda>(c, pid).
     let before = stateSnapshot c in
     if \<not> c_Running c \<or> c_Dead c \<or> c_removed c
     then Ret (((before, before), Some ''container is not running''), c, pid)
     else go_bind (applyPatchLocked now
              (zeroPatch\<lparr>p_Status := Some sExited, p_ExitCode := Some 137\<rparr>)
              (c\<lparr>c_manuallyStopped := True\<rparr>, pid))
            (\<lambda>(c', pid'). Ret (((before, stateSnapshot c'), None), c', pid')))"

definition pause :: "Container \<Rightarrow> (snapshots \<times> string option) \<times> Container" where
  "pause c =
     (let before = stateSnapshot c in
      if \<not> c_Running c \<or> c_Restarting c \<or> c_Dead c
      then (((before, before), Some (''container '' @ c_Name c @ '' is not running'')), c)
      else if c_Paused c then (((before, before), None), c)
      else let c' = c\<lparr>c_Status := sPaused, c_Paused := True\<rparr>
           in (((before, stateSnapshot c'), None), c'))"

definition unpause :: "Container \<Rightarrow> (snapshots \<times> string option) \<times> Container" where
  "unpause c =
     (let before = stateSnapshot c in
      if \<not> c_Paused c
      then (((before, before), Some (''container '' @ c_Name c @ '' is not paused'')), c)
      else let c' = c\<lparr>c_Status := sRunning, c_Running := True, c_Paused := False,
                      c_Restarting := False, c_Dead := False\<rparr>
           in (((before, stateSnapshot c'), None), c'))"

definition restartPatch :: StatePatch where
  "restartPatch = zeroPatch\<lparr>p_Status := Some sRestarting, p_Running := Some True,
     p_Restarting := Some True, p_Health := Some hStarting, p_ExitCode := Some 0,
     p_RestartCountDelta := 1\<rparr>"

definition restart :: "gotime \<Rightarrow> Container \<times> int \<Rightarrow> (snapshots \<times> Container \<times> int) go" where
  "restart now = (\<lambda>(c, pid).
     go_bind (applyPatchLocked now restartPatch
         (c\<lparr>c_manuallyStopped := False, c_automaticRestarts := 0\<rparr>, pid))
       (\<lambda>(c', pid'). Ret ((stateSnapshot c, stateSnapshot c'), c', pid')))"

section \<open>Scripted transitions\<close>

definition transitionRestartsStopped :: "string \<Rightarrow> StatePatch \<Rightarrow> bool" where
  "transitionRestartsStopped status patch \<longleftrightarrow>
     \<not> (status \<noteq> sExited \<and> status \<noteq> sCreated \<and> status \<noteq> sDead) \<and>
     (p_Status patch = Some sRunning \<or> p_Status patch = Some sRestarting \<or>
      p_Status patch = Some sPaused)"

definition automaticRestartAllowed :: "Container \<Rightarrow> bool" where
  "automaticRestartAllowed c \<longleftrightarrow>
     \<not> (c_manuallyStopped c \<or> c_removed c \<or> c_Status c \<noteq> sExited \<or> c_StartCount c = 0) \<and>
     (let policy = c_RestartPolicy c in
      if rp_Name policy = ''always'' \<or> rp_Name policy = ''unless-stopped'' then True
      else if rp_Name policy = ''on-failure'' then
        c_ExitCode c \<noteq> 0 \<and>
        (rp_MaximumRetryCount policy = 0 \<or> c_automaticRestarts c < rp_MaximumRetryCount policy)
      else False)"

definition isDockerObserveEvent :: "string \<Rightarrow> bool" where
  "isDockerObserveEvent event \<longleftrightarrow> event = ''docker.inspect'' \<or> event = ''docker.list''"

definition transitionEventMatches :: "string \<Rightarrow> string \<Rightarrow> bool" where
  "transitionEventMatches pattern event \<longleftrightarrow>
     pattern = event \<or> pattern = ''docker.observe'' \<and> isDockerObserveEvent event"

text \<open>The guards of the loop body of \<^verbatim>\<open>advance\<close>, each of which continues with the next transition.\<close>

definition transition_enabled :: "string \<Rightarrow> int \<Rightarrow> Container \<Rightarrow> nat \<Rightarrow> Transition \<Rightarrow> bool" where
  "transition_enabled event count c i t \<longleftrightarrow>
     \<not> (t_Once t \<and> mget_or False (c_AppliedTransitions c) i) \<and>
     transitionEventMatches (t_Event t) event \<and>
     (let n = (if t_Event t = ''docker.observe'' then mget_or 0 (c_Counters c) ''docker.observe'' else count)
      in \<not> (t_Count t > 0 \<and> t_Count t \<noteq> n)) \<and>
     \<not> (t_WhenStatus t \<noteq> [] \<and> t_WhenStatus t \<noteq> c_Status c) \<and>
     \<not> (t_WhenHealth t \<noteq> [] \<and> t_WhenHealth t \<noteq> h_Status (c_Health c)) \<and>
     \<not> (transitionRestartsStopped (c_Status c) (t_Set t) \<and> \<not> automaticRestartAllowed c)"

definition fire_transition ::
  "gotime \<Rightarrow> nat \<Rightarrow> Transition \<Rightarrow> Container \<times> int \<Rightarrow> (Container \<times> int) go" where
  "fire_transition now i t = (\<lambda>(c, pid).
     let c1 = (if transitionRestartsStopped (c_Status c) (t_Set t)
               then c\<lparr>c_automaticRestarts := wrap64 (c_automaticRestarts c + 1)\<rparr> else c) in
     go_bind (applyPatchLocked now (t_Set t) (c1, pid)) (\<lambda>(c2, pid').
       Ret (if t_Once t then c2\<lparr>c_AppliedTransitions := mput (c_AppliedTransitions c2) i True\<rparr> else c2,
            pid')))"

fun advance_loop ::
  "gotime \<Rightarrow> string \<Rightarrow> int \<Rightarrow> nat \<Rightarrow> Transition list \<Rightarrow> Container \<times> int
    \<Rightarrow> (nat option \<times> Container \<times> int) go" where
  "advance_loop now event count i [] s = Ret (None, s)"
| "advance_loop now event count i (t # ts) s =
     (if transition_enabled event count (fst s) i t
      then go_bind (fire_transition now i t s) (\<lambda>s'. Ret (Some i, s'))
      else advance_loop now event count (Suc i) ts s)"

text \<open>The event is counted first, and an inspect or list also as an observation.\<close>

definition increment :: "(string, int) gomap \<Rightarrow> string \<Rightarrow> (string, int) gomap" where
  "increment m event = mput m event (wrap64 (mget_or 0 m event + 1))"

definition count_event :: "string \<Rightarrow> Container \<Rightarrow> Container" where
  "count_event event c =
     (let m = increment (c_Counters c) event;
          m = (if isDockerObserveEvent event then increment m ''docker.observe'' else m)
      in c\<lparr>c_Counters := m\<rparr>)"

record eventAdvance =
  ea_Count :: int
  ea_Before :: ContainerStateSnapshot
  ea_After :: ContainerStateSnapshot
  ea_Transition :: string

definition advance :: "gotime \<Rightarrow> string \<Rightarrow> Container \<times> int \<Rightarrow> (eventAdvance \<times> Container \<times> int) go" where
  "advance now event = (\<lambda>(c, pid).
     let c2 = count_event event c;
         count = mget_or 0 (c_Counters c2) event
     in go_bind (advance_loop now event count 0 (s_Transitions (c_Scenario c2)) (c2, pid)) (\<lambda>(fired, c3, pid').
          Ret (\<lparr>ea_Count = count, ea_Before = stateSnapshot c, ea_After = stateSnapshot c3,
                ea_Transition = (case fired of None \<Rightarrow> []
                  | Some i \<Rightarrow> ''transition['' @ itoa (int i) @ '']'')\<rparr>,
               c3, pid')))"

section \<open>Queries and logs\<close>

definition eventCount :: "string \<Rightarrow> Container \<Rightarrow> int" where
  "eventCount event c = mget_or 0 (c_Counters c) event"

definition isRunning :: "Container \<Rightarrow> bool" where
  "isRunning c \<longleftrightarrow> c_Running c \<and> \<not> c_Restarting c \<and> \<not> c_Dead c"

definition isDockerPSVisible :: "Container \<Rightarrow> bool" where
  "isDockerPSVisible c \<longleftrightarrow> c_Running c \<and> \<not> c_Dead c"

definition routeResponse :: "string \<Rightarrow> int \<Rightarrow> Container \<Rightarrow> HTTPResponse \<times> bool" where
  "routeResponse route count c =
     (let http = s_HTTP (c_Scenario c);
          items = (case mget http route of Some its \<Rightarrow> Some its | None \<Rightarrow> mget http ''*'')
      in case items of
           None \<Rightarrow> (zeroHTTPResponse, False)
         | Some [] \<Rightarrow> (zeroHTTPResponse, False)
         | Some its \<Rightarrow> selectHTTPResponse its count (c_Status c) (h_Status (c_Health c)))"

definition redisResponse :: "string \<Rightarrow> int \<Rightarrow> Container \<Rightarrow> RedisResponse \<times> bool" where
  "redisResponse command count c =
     (let redis = s_Redis (c_Scenario c);
          items = (case mget redis (to_upper command) of Some its \<Rightarrow> Some its | None \<Rightarrow> mget redis ''*'')
      in case items of
           None \<Rightarrow> (zeroRedisResponse, False)
         | Some [] \<Rightarrow> (zeroRedisResponse, False)
         | Some its \<Rightarrow> selectRedisResponse its count (c_Status c) (h_Status (c_Health c)))"

definition appendLog :: "string \<Rightarrow> Container \<Rightarrow> Container" where
  "appendLog line c =
     (let logs = c_Logs c @ [line] in
      c\<lparr>c_Logs := (if length logs > 2000 then drop (length logs - 2000) logs else logs)\<rparr>)"

definition allLogs :: "Container \<Rightarrow> string" where
  "allLogs c = join [] (c_Logs c)"

end
