(* ===== verification/Ledger.thy ===== *)
theory Ledger
  imports Container_State Go_Json
begin

text \<open>
  The append-only ledger of a run (\<^verbatim>\<open>ledger.go\<close>): a global file and one file per container name, all
  written under one mutex. A file is the list of the entries written to it as whole lines. What the
  operating system answers to the coming file operations is part of the state (\<open>l_io\<close>), and so is
  what \<^verbatim>\<open>json.Marshal\<close> answers for the coming entries (\<open>l_marshal\<close>, \<open>None\<close> for success), so
  that theorems hold for every pattern of failures; an exhausted list means success.
\<close>

record LedgerEntry =
  le_Seq :: nat
  le_Timestamp :: string
  le_Seed :: int
  le_Scenario :: int
  le_Container :: string
  le_Kind :: string
  le_Channel :: string
  le_Event :: string
  le_Count :: int
  le_Request :: json
  le_Response :: json
  le_Transition :: string
  le_Before :: "ContainerStateSnapshot option"
  le_After :: "ContainerStateSnapshot option"
  le_Note :: string

definition zeroEntry :: LedgerEntry where
  "zeroEntry = \<lparr>le_Seq = 0, le_Timestamp = [], le_Seed = 0, le_Scenario = 0, le_Container = [],
     le_Kind = [], le_Channel = [], le_Event = [], le_Count = 0, le_Request = JNull, le_Response = JNull,
     le_Transition = [], le_Before = None, le_After = None, le_Note = []\<rparr>"

text \<open>
  A failed write may still have reached the file, a failed \<^verbatim>\<open>Sync\<close> after a full write for one:
  the flag of \<open>IoFail\<close> says whether the whole line did. A write that stopped within the line leaves
  a fragment after the whole lines, which the list of entries leaves out; nothing is ever written
  after it, because the first failure ends all logging.
\<close>

datatype io_outcome = IoOk | IoFail string bool

record Ledger =
  l_seq :: nat
  l_seed :: int
  l_runDir :: string
  l_global :: "LedgerEntry list"
  l_files :: "(string, string) gomap"
  l_disk :: "(string, LedgerEntry list) gomap"
  l_firstErr :: "string option"
  l_errors :: "string list"
  l_closed :: bool
  l_io :: "io_outcome list"
  l_marshal :: "string option list"

type_synonym ledger_io = "io_outcome list \<times> string option list"

definition newLedger :: "int \<Rightarrow> string \<Rightarrow> ledger_io \<Rightarrow> Ledger" where
  "newLedger seed runDir io = \<lparr>l_seq = 0, l_seed = seed, l_runDir = runDir, l_global = [], l_files = [],
     l_disk = [], l_firstErr = None, l_errors = [], l_closed = False,
     l_io = fst io, l_marshal = snd io\<rparr>"

definition next_io :: "Ledger \<Rightarrow> io_outcome \<times> Ledger" where
  "next_io l = (case l_io l of [] \<Rightarrow> (IoOk, l) | x # xs \<Rightarrow> (x, l\<lparr>l_io := xs\<rparr>))"

definition next_marshal :: "Ledger \<Rightarrow> string option \<times> Ledger" where
  "next_marshal l = (case l_marshal l of [] \<Rightarrow> (None, l) | x # xs \<Rightarrow> (x, l\<lparr>l_marshal := xs\<rparr>))"

definition sanitizeFilename :: "string \<Rightarrow> string" where
  "sanitizeFilename value =
     map (\<lambda>r. if is_alnum r \<or> r = CHR ''-'' \<or> r = CHR ''_'' \<or> r = CHR ''.'' then r else CHR ''_'') value"

definition container_path :: "Ledger \<Rightarrow> string \<Rightarrow> string" where
  "container_path l name = l_runDir l @ ''/containers/'' @ sanitizeFilename name @ ''.ledger.jsonl''"

text \<open>The error channel has room for one error; a full channel drops it.\<close>

definition failLocked :: "string \<Rightarrow> Ledger \<Rightarrow> Ledger" where
  "failLocked err l =
     (if l_firstErr l \<noteq> None then l
      else l\<lparr>l_firstErr := Some err, l_errors := (if l_errors l = [] then [err] else l_errors l)\<rparr>)"

text \<open>\<^verbatim>\<open>writeAndSync\<close> on the global file and on a container's file: the error, and the new state.\<close>

definition write_global :: "LedgerEntry \<Rightarrow> Ledger \<Rightarrow> string option \<times> Ledger" where
  "write_global entry l =
     (case next_io l of
        (IoOk, l1) \<Rightarrow> (None, l1\<lparr>l_global := l_global l1 @ [entry]\<rparr>)
      | (IoFail e reached, l1) \<Rightarrow>
          (Some e, if reached then l1\<lparr>l_global := l_global l1 @ [entry]\<rparr> else l1))"

definition write_file :: "string \<Rightarrow> LedgerEntry \<Rightarrow> Ledger \<Rightarrow> string option \<times> Ledger" where
  "write_file path entry l =
     (let app = (\<lambda>k. k\<lparr>l_disk := mput (l_disk k) path (mget_or [] (l_disk k) path @ [entry])\<rparr>) in
      case next_io l of
        (IoOk, l1) \<Rightarrow> (None, app l1)
      | (IoFail e reached, l1) \<Rightarrow> (Some e, if reached then app l1 else l1))"

text \<open>Opening a container's file creates it.\<close>

definition open_file :: "string \<Rightarrow> Ledger \<Rightarrow> string option \<times> Ledger" where
  "open_file name l =
     (let path = container_path l name in
      case next_io l of
        (IoOk, l1) \<Rightarrow>
          (None, l1\<lparr>l_files := mput (l_files l1) name path,
                   l_disk := (if mmem (l_disk l1) path then l_disk l1 else mput (l_disk l1) path [])\<rparr>)
      | (IoFail e reached, l1) \<Rightarrow> (Some e, l1))"

text \<open>The second half of \<^verbatim>\<open>Log\<close>, for an entry that names a container.\<close>

definition log_container :: "LedgerEntry \<Rightarrow> Ledger \<Rightarrow> Ledger" where
  "log_container entry l1 =
     (let name = le_Container entry in
      case (if mmem (l_files l1) name then (None, l1) else open_file name l1) of
        (Some e, l2) \<Rightarrow> failLocked (''open container ledger '' @ container_path l2 name @ '': '' @ e) l2
      | (None, l2) \<Rightarrow>
          (case write_file (mget_or [] (l_files l2) name) entry l2 of
             (Some e, l3) \<Rightarrow>
               failLocked (''write container ledger for '' @ name @ '' entry '' @ itoa (int (le_Seq entry)) @ '': '' @ e) l3
           | (None, l3) \<Rightarrow> l3))"

definition stamped :: "gotime \<Rightarrow> Ledger \<Rightarrow> LedgerEntry \<Rightarrow> LedgerEntry" where
  "stamped now l entry =
     entry\<lparr>le_Seq := (l_seq l + 1) mod 2 ^ 64, le_Seed := l_seed l, le_Timestamp := formatDockerTime now\<rparr>"

definition Log :: "gotime \<Rightarrow> LedgerEntry \<Rightarrow> Ledger \<Rightarrow> Ledger" where
  "Log now entry l =
     (if l_closed l \<or> l_firstErr l \<noteq> None then l
      else
        let entry = stamped now l entry in
        case next_marshal (l\<lparr>l_seq := le_Seq entry\<rparr>) of
          (Some e, l1) \<Rightarrow> failLocked (''marshal ledger entry '' @ itoa (int (le_Seq entry)) @ '': '' @ e) l1
        | (None, l1) \<Rightarrow>
            (case write_global entry l1 of
               (Some e, l2) \<Rightarrow> failLocked (''write global ledger entry '' @ itoa (int (le_Seq entry)) @ '': '' @ e) l2
             | (None, l2) \<Rightarrow> if le_Container entry = [] then l2 else log_container entry l2))"

text \<open>Closing visits every open file; the first failure is kept.\<close>

fun close_files :: "nat \<Rightarrow> string option \<Rightarrow> Ledger \<Rightarrow> string option \<times> Ledger" where
  "close_files 0 first l = (first, l)"
| "close_files (Suc n) first l =
     (case next_io l of
        (IoOk, l1) \<Rightarrow> close_files n first l1
      | (IoFail e _, l1) \<Rightarrow> close_files n (if first = None then Some e else first) l1)"

definition Close :: "Ledger \<Rightarrow> string option \<times> Ledger" where
  "Close l =
     (if l_closed l then (l_firstErr l, l)
      else
        let (first, l1) = close_files (length (l_files l) + 1) (l_firstErr l) (l\<lparr>l_closed := True\<rparr>) in
        (first, if l_firstErr l1 = None \<and> first \<noteq> None then l1\<lparr>l_firstErr := first\<rparr> else l1))"

section \<open>The ledger invariant\<close>

text \<open>
  While no operation has failed, the global file has every entry logged, numbered from 1 without
  gaps, and a container's file has exactly those of the containers that share its path. After a
  failure the numbering of what was written is still without gaps.
\<close>

definition entry_path :: "Ledger \<Rightarrow> string \<Rightarrow> LedgerEntry \<Rightarrow> bool" where
  "entry_path l path e \<longleftrightarrow> le_Container e \<noteq> [] \<and> container_path l (le_Container e) = path"

definition ledger_healthy :: "Ledger \<Rightarrow> bool" where
  "ledger_healthy l \<longleftrightarrow> \<not> l_closed l \<and> l_errors l = [] \<and> l_seq l = length (l_global l) \<and>
     (\<forall>name path. mget (l_files l) name = Some path \<longrightarrow> path = container_path l name) \<and>
     (\<forall>path. mget_or [] (l_disk l) path = filter (entry_path l path) (l_global l))"

definition ledger_inv :: "Ledger \<Rightarrow> bool" where
  "ledger_inv l \<longleftrightarrow> map le_Seq (l_global l) = [1..<Suc (length (l_global l))] \<and>
     (case l_firstErr l of None \<Rightarrow> ledger_healthy l | Some e \<Rightarrow> l_errors l = [e])"

lemma next_io_cases:
  obtains x xs where "next_io l = (x, l\<lparr>l_io := xs\<rparr>)"
proof (cases "l_io l")
  case Nil
  then have "next_io l = (IoOk, l\<lparr>l_io := []\<rparr>)" by (cases l) (simp add: next_io_def)
  then show thesis by (rule that)
next
  case (Cons x xs)
  then show thesis using that by (simp add: next_io_def)
qed

lemma next_marshal_cases:
  obtains x xs where "next_marshal l = (x, l\<lparr>l_marshal := xs\<rparr>)"
proof (cases "l_marshal l")
  case Nil
  then have "next_marshal l = (None, l\<lparr>l_marshal := []\<rparr>)" by (cases l) (simp add: next_marshal_def)
  then show thesis by (rule that)
next
  case (Cons x xs)
  then show thesis using that by (simp add: next_marshal_def)
qed

lemma container_path_cong: "l_runDir l' = l_runDir l \<Longrightarrow> container_path l' name = container_path l name"
  by (simp add: container_path_def)

lemma entry_path_cong: "l_runDir l' = l_runDir l \<Longrightarrow> entry_path l' path = entry_path l path"
  by (simp add: entry_path_def container_path_def fun_eq_iff)

text \<open>The file operations, each from a healthy ledger.\<close>

lemma write_global_cases:
  obtains (ok) xs where "write_global entry l = (None, l\<lparr>l_io := xs, l_global := l_global l @ [entry]\<rparr>)"
  | (fail) e xs g where "write_global entry l = (Some e, l\<lparr>l_io := xs, l_global := g\<rparr>)"
      "g = l_global l \<or> g = l_global l @ [entry]"
proof (rule next_io_cases [of l])
  fix x xs
  assume x: "next_io l = (x, l\<lparr>l_io := xs\<rparr>)"
  show thesis
  proof (cases x)
    case IoOk
    with x show thesis by (intro ok [of xs]) (simp add: write_global_def)
  next
    case (IoFail e b)
    with x show thesis
      by (intro fail [where e = e and xs = xs and g = "if b then l_global l @ [entry] else l_global l"]) (simp_all add: write_global_def)
  qed
qed

lemma write_file_cases:
  obtains (ok) xs where "write_file path entry l =
      (None, l\<lparr>l_io := xs, l_disk := mput (l_disk l) path (mget_or [] (l_disk l) path @ [entry])\<rparr>)"
  | (fail) e xs d where "write_file path entry l = (Some e, l\<lparr>l_io := xs, l_disk := d\<rparr>)"
proof (rule next_io_cases [of l])
  fix x xs
  assume x: "next_io l = (x, l\<lparr>l_io := xs\<rparr>)"
  show thesis
  proof (cases x)
    case IoOk
    with x show thesis by (intro ok [of xs]) (simp add: write_file_def)
  next
    case (IoFail e b)
    with x show thesis
      by (intro fail [where e = e and xs = xs and d = "if b then mput (l_disk l) path (mget_or [] (l_disk l) path @ [entry]) else l_disk l"])
         (simp_all add: write_file_def)
  qed
qed

lemma open_file_cases:
  obtains (ok) xs d where "open_file name l =
      (None, l\<lparr>l_io := xs, l_files := mput (l_files l) name (container_path l name), l_disk := d\<rparr>)"
      "\<forall>p. mget_or [] d p = mget_or [] (l_disk l) p"
  | (fail) e xs where "open_file name l = (Some e, l\<lparr>l_io := xs\<rparr>)"
proof (rule next_io_cases [of l])
  fix x xs
  assume x: "next_io l = (x, l\<lparr>l_io := xs\<rparr>)"
  show thesis
  proof (cases x)
    case IoOk
    let ?d = "if mmem (l_disk l) (container_path l name) then l_disk l else mput (l_disk l) (container_path l name) []"
    have "\<forall>p. mget_or [] ?d p = mget_or [] (l_disk l) p" by (auto simp: mmem_def mget_or_def)
    with x IoOk show thesis
      by (intro ok [where xs = xs and d = ?d]) (simp_all add: open_file_def Let_def)
  next
    case (IoFail e b)
    with x show thesis by (intro fail [of e xs]) (simp add: open_file_def)
  qed
qed

section \<open>Logging keeps the invariant\<close>

lemma failLocked_first: "l_firstErr l = None \<Longrightarrow> l_errors l = [] \<Longrightarrow>
   failLocked e l = l\<lparr>l_firstErr := Some e, l_errors := [e]\<rparr>"
  by (simp add: failLocked_def)

lemma seq_snoc: "map le_Seq es = [1..<Suc (length es)] \<Longrightarrow> le_Seq e = Suc (length es) \<Longrightarrow>
   map le_Seq (es @ [e]) = [1..<Suc (length (es @ [e]))]"
  by simp

text \<open>A failure leaves the numbering, and nothing else is promised.\<close>

lemma failed_inv:
  assumes "map le_Seq (l_global l) = [1..<Suc (length (l_global l))]" "l_firstErr l = None" "l_errors l = []"
  shows "ledger_inv (failLocked e l)"
  using assms by (simp add: failLocked_first ledger_inv_def)

lemma Log_frozen: "l_firstErr l \<noteq> None \<Longrightarrow> Log now entry l = l"
  by (simp add: Log_def)

lemma write_container_inv:
  assumes "map le_Seq (l_global l) = [1..<Suc (length (l_global l))]" "l_firstErr l = None" "l_errors l = []"
    and "\<not> l_closed l" "l_seq l = length (l_global l)"
    and "\<forall>name path. mget (l_files l) name = Some path \<longrightarrow> path = container_path l name"
    and "mget (l_files l) name = Some path" "name \<noteq> []" "le_Container entry = name" "l_global l = es @ [entry]"
    and "\<forall>p. mget_or [] (l_disk l) p = filter (entry_path l p) es"
  shows "ledger_inv (case write_file path entry l of (Some e, l3) \<Rightarrow> failLocked (msg e) l3 | (None, l3) \<Rightarrow> l3)"
proof (rule write_file_cases [of path entry l])
  fix xs
  assume ok: "write_file path entry l =
      (None, l\<lparr>l_io := xs, l_disk := mput (l_disk l) path (mget_or [] (l_disk l) path @ [entry])\<rparr>)"
  have path: "path = container_path l name" using assms(6,7) by blast
  have "mget_or [] (mput (l_disk l) path (mget_or [] (l_disk l) path @ [entry])) p = filter (entry_path l p) (l_global l)" for p
    using assms(8-11) path by (auto simp: entry_path_def)
  moreover have "entry_path (l\<lparr>l_io := xs, l_disk := d\<rparr>) = entry_path l"
    "container_path (l\<lparr>l_io := xs, l_disk := d\<rparr>) = container_path l" for d
    by (simp_all add: entry_path_def container_path_def fun_eq_iff)
  ultimately have "ledger_inv (l\<lparr>l_io := xs, l_disk := mput (l_disk l) path (mget_or [] (l_disk l) path @ [entry])\<rparr>)"
    using assms(1-6) unfolding ledger_inv_def ledger_healthy_def by simp
  with ok show ?thesis by simp
next
  fix e xs d
  assume "write_file path entry l = (Some e, l\<lparr>l_io := xs, l_disk := d\<rparr>)"
  with assms(1-3) show ?thesis by (simp add: failed_inv)
qed

lemma log_container_inv:
  assumes "map le_Seq (l_global l) = [1..<Suc (length (l_global l))]" "l_firstErr l = None" "l_errors l = []"
    and "\<not> l_closed l" "l_seq l = length (l_global l)"
    and "\<forall>name path. mget (l_files l) name = Some path \<longrightarrow> path = container_path l name"
    and "le_Container entry \<noteq> []" "l_global l = es @ [entry]"
    and "\<forall>p. mget_or [] (l_disk l) p = filter (entry_path l p) es"
  shows "ledger_inv (log_container entry l)"
proof (cases "mget (l_files l) (le_Container entry)")
  case (Some path)
  then have "mmem (l_files l) (le_Container entry)" "mget_or [] (l_files l) (le_Container entry) = path"
    by (simp_all add: mmem_def mget_or_def)
  then show ?thesis
    unfolding log_container_def Let_def
    using write_container_inv [OF assms(1-6) Some assms(7) refl assms(8,9)] by simp
next
  case None
  then have new: "\<not> mmem (l_files l) (le_Container entry)" by (simp add: mmem_def)
  show ?thesis
  proof (cases rule: open_file_cases [of "le_Container entry" l])
    case (ok xs d)
    let ?l2 = "l\<lparr>l_io := xs, l_files := mput (l_files l) (le_Container entry) (container_path l (le_Container entry)),
      l_disk := d\<rparr>"
    have paths: "entry_path ?l2 = entry_path l" "container_path ?l2 = container_path l"
      by (simp_all add: entry_path_def container_path_def fun_eq_iff)
    have "ledger_inv (case write_file (container_path l (le_Container entry)) entry ?l2 of
        (Some e, l3) \<Rightarrow> failLocked (msg e) l3 | (None, l3) \<Rightarrow> l3)" for msg
      by (rule write_container_inv [where es = es and name = "le_Container entry"])
         (use assms ok(2) paths in \<open>simp_all\<close>)
    with ok new show ?thesis by (simp add: log_container_def Let_def)
  next
    case (fail e xs)
    with new assms(1-3) show ?thesis by (simp add: log_container_def Let_def failed_inv)
  qed
qed

lemma Log_inv:
  assumes inv: "ledger_inv l" and small: "l_seq l + 1 < 2 ^ 64"
  shows "ledger_inv (Log now entry l)"
proof (cases "l_firstErr l")
  case (Some e)
  then show ?thesis using inv by (simp add: Log_frozen)
next
  case None
  then have h: "ledger_healthy l" and seqs: "map le_Seq (l_global l) = [1..<Suc (length (l_global l))]"
    using inv by (simp_all add: ledger_inv_def)
  note hs = h [unfolded ledger_healthy_def]
  define en where "en = stamped now l entry"
  obtain m ms where m: "next_marshal (l\<lparr>l_seq := le_Seq en\<rparr>) = (m, l\<lparr>l_seq := le_Seq en, l_marshal := ms\<rparr>)"
    by (rule next_marshal_cases [of "l\<lparr>l_seq := le_Seq en\<rparr>"]) simp
  define l0 where "l0 = l\<lparr>l_seq := le_Seq en, l_marshal := ms\<rparr>"
  have fail: "ledger_inv (failLocked msg l0)" for msg
    by (rule failed_inv) (use hs None seqs in \<open>simp_all add: l0_def\<close>)
  have Log: "m = None \<Longrightarrow> Log now entry l =
      (case write_global en l0 of
         (Some e, l1) \<Rightarrow> failLocked (''write global ledger entry '' @ itoa (int (le_Seq en)) @ '': '' @ e) l1
       | (None, l1) \<Rightarrow> if le_Container en = [] then l1 else log_container en l1)"
    using m unfolding l0_def en_def using None hs by (simp add: Log_def Let_def)
  have LogM: "m = Some e \<Longrightarrow> \<exists>msg. Log now entry l = failLocked msg l0" for e
    using m unfolding l0_def en_def using None hs by (auto simp: Log_def Let_def)
  have seq: "le_Seq en = Suc (length (l_global l))" using small hs by (simp add: en_def stamped_def)
  have seqs': "map le_Seq (l_global l @ [en]) = [1..<Suc (length (l_global l @ [en]))]"
    using seqs seq by (rule seq_snoc)
  show ?thesis
  proof (cases m)
    case (Some e)
    from LogM [OF this] fail show ?thesis by metis
  next
    case m: None
    show ?thesis
    proof (cases rule: write_global_cases [of en l0])
      case (fail e xs g)
      then have "map le_Seq g = [1..<Suc (length g)]" using seqs seqs' by (auto simp: l0_def)
      with fail hs None show ?thesis by (simp add: Log [OF m] failed_inv l0_def)
    next
      case (ok xs)
      let ?l1 = "l0\<lparr>l_io := xs, l_global := l_global l0 @ [en]\<rparr>"
      have paths: "entry_path (l\<lparr>l_seq := n, l_marshal := j, l_io := i, l_global := g\<rparr>) = entry_path l"
        "container_path (l\<lparr>l_seq := n, l_marshal := j, l_io := i, l_global := g\<rparr>) = container_path l" for n i j g
        by (simp_all add: entry_path_def container_path_def fun_eq_iff)
      show ?thesis
      proof (cases "le_Container en = []")
        case True
        then have "\<not> entry_path l p en" for p by (simp add: entry_path_def)
        then have "ledger_inv ?l1"
          using hs None seqs' seq unfolding ledger_inv_def ledger_healthy_def l0_def by (simp add: paths)
        with True ok show ?thesis by (simp add: Log [OF m])
      next
        case False
        have "ledger_inv (log_container en ?l1)"
          by (rule log_container_inv [where es = "l_global l"])
             (use hs None seqs' seq False in \<open>simp_all add: l0_def paths\<close>)
        with False ok show ?thesis by (simp add: Log [OF m])
      qed
    qed
  qed
qed

lemma failLocked_sel [simp]:
  "l_seq (failLocked e l) = l_seq l" "l_closed (failLocked e l) = l_closed l" "l_runDir (failLocked e l) = l_runDir l"
  by (simp_all add: failLocked_def)

lemma log_container_sel:
  "l_seq (log_container entry l) = l_seq l \<and> l_closed (log_container entry l) = l_closed l \<and>
   l_runDir (log_container entry l) = l_runDir l"
proof -
  have w: "l_seq (case write_file p entry l2 of (Some e, l3) \<Rightarrow> failLocked (msg e) l3 | (None, l3) \<Rightarrow> l3) = l_seq l2 \<and>
      l_closed (case write_file p entry l2 of (Some e, l3) \<Rightarrow> failLocked (msg e) l3 | (None, l3) \<Rightarrow> l3) = l_closed l2 \<and>
      l_runDir (case write_file p entry l2 of (Some e, l3) \<Rightarrow> failLocked (msg e) l3 | (None, l3) \<Rightarrow> l3) = l_runDir l2"
    for p l2 msg by (cases rule: write_file_cases [of p entry l2]) simp_all
  show ?thesis
    by (cases rule: open_file_cases [of "le_Container entry" l])
       (auto simp: log_container_def Let_def w)
qed

lemma Log_seq:
  "l_seq (Log now entry l) = (if l_closed l \<or> l_firstErr l \<noteq> None then l_seq l else (l_seq l + 1) mod 2 ^ 64)"
  "l_closed (Log now entry l) = l_closed l" "l_runDir (Log now entry l) = l_runDir l"
proof -
  let ?en = "stamped now l entry"
  obtain m ms where m: "next_marshal (l\<lparr>l_seq := le_Seq ?en\<rparr>) = (m, l\<lparr>l_seq := le_Seq ?en, l_marshal := ms\<rparr>)"
    by (rule next_marshal_cases [of "l\<lparr>l_seq := le_Seq ?en\<rparr>"]) simp
  let ?l0 = "l\<lparr>l_seq := le_Seq ?en, l_marshal := ms\<rparr>"
  have "le_Seq ?en = (l_seq l + 1) mod 2 ^ 64" by (simp add: stamped_def)
  then show "l_seq (Log now entry l) = (if l_closed l \<or> l_firstErr l \<noteq> None then l_seq l else (l_seq l + 1) mod 2 ^ 64)"
    "l_closed (Log now entry l) = l_closed l" "l_runDir (Log now entry l) = l_runDir l"
    using m by (cases m; cases rule: write_global_cases [of ?en ?l0]; simp add: Log_def Let_def log_container_sel)+
qed

text \<open>A run of the ledger from its creation.\<close>

definition log_all :: "(gotime \<times> LedgerEntry) list \<Rightarrow> Ledger \<Rightarrow> Ledger" where
  "log_all es l = foldl (\<lambda>l (now, e). Log now e l) l es"

lemma newLedger_inv: "ledger_inv (newLedger seed runDir io)"
  by (simp add: newLedger_def ledger_inv_def ledger_healthy_def)

lemma log_all_inv:
  assumes "length es < 2 ^ 64"
  shows "let l = log_all es (newLedger seed runDir io) in ledger_inv l \<and> l_seq l \<le> length es \<and> \<not> l_closed l \<and>
    l_runDir l = runDir \<and> (l_firstErr l = None \<longrightarrow> l_seq l = length es)"
  using assms
proof (induction es rule: rev_induct)
  case Nil
  show ?case by (simp add: log_all_def newLedger_inv) (simp add: newLedger_def)
next
  case (snoc x es)
  obtain now e where x: "x = (now, e)" by (cases x)
  define l where "l = log_all es (newLedger seed runDir io)"
  have IH: "ledger_inv l" "l_seq l \<le> length es" "\<not> l_closed l" "l_runDir l = runDir"
    "l_firstErr l = None \<longrightarrow> l_seq l = length es"
    using snoc by (simp_all add: l_def Let_def)
  have step: "log_all (es @ [x]) (newLedger seed runDir io) = Log now e l" by (simp add: log_all_def l_def x)
  have small: "l_seq l + 1 < 2 ^ 64" using IH(2) snoc.prems by simp
  show ?case
    unfolding step Let_def
    using Log_inv [OF IH(1) small] Log_seq [of now e l] IH small Log_frozen [of l now e]
    by (cases "l_firstErr l") auto
qed

section \<open>Properties\<close>

text \<open>
  C28: whatever the file system and the JSON encoder answer, the global ledger is numbered 1, 2, 3 without gaps or repetition.
  While no operation has failed it has one entry per call, and the file of a container holds, in
  order, exactly the entries of the containers whose names share its file name; after a failure the
  first error, and no other, is on the error channel.
\<close>

theorem ledger_numbered_without_gaps:
  assumes "length es < 2 ^ 64" and "l = log_all es (newLedger seed runDir io)"
  shows "map le_Seq (l_global l) = [1..<Suc (length (l_global l))] \<and>
    (case l_firstErr l of
       None \<Rightarrow> length (l_global l) = length es \<and> l_errors l = [] \<and>
         (\<forall>name. name \<noteq> [] \<longrightarrow> mget_or [] (l_disk l) (container_path l name) =
            filter (\<lambda>e. le_Container e \<noteq> [] \<and> sanitizeFilename (le_Container e) = sanitizeFilename name) (l_global l))
     | Some e \<Rightarrow> l_errors l = [e])"
proof -
  have inv: "ledger_inv l" "l_firstErr l = None \<longrightarrow> l_seq l = length es"
    using log_all_inv [OF assms(1), of seed runDir io] by (simp_all add: assms(2) Let_def)
  have "entry_path l (container_path l name) =
      (\<lambda>e. le_Container e \<noteq> [] \<and> sanitizeFilename (le_Container e) = sanitizeFilename name)" for name
    by (auto simp: entry_path_def container_path_def fun_eq_iff)
  with inv show ?thesis by (auto simp: ledger_inv_def ledger_healthy_def split: option.splits)
qed

theorem ledger_numbered_without_gaps_witness:
  "map le_Seq (l_global (log_all [(UnixNano 1, zeroEntry\<lparr>le_Container := ''web''\<rparr>), (UnixNano 2, zeroEntry),
      (UnixNano 3, zeroEntry)] (newLedger 0 ''run'' ([IoOk, IoOk, IoOk, IoFail ''disk full'' True], [])))) = [1, 2]"
proof -
  let ?es = "[(UnixNano 1, zeroEntry\<lparr>le_Container := ''web''\<rparr>), (UnixNano 2, zeroEntry), (UnixNano 3, zeroEntry)]"
  let ?l = "log_all ?es (newLedger 0 ''run'' ([IoOk, IoOk, IoOk, IoFail ''disk full'' True], []))"
  have len: "length (l_global ?l) = 2"
    by (simp add: log_all_def newLedger_def Log_def stamped_def zeroEntry_def write_global_def next_io_def next_marshal_def
        log_container_def open_file_def write_file_def failLocked_def Let_def mmem_def)
  have "length ?es < 2 ^ 64" by simp
  note seqs = conjunct1 [OF ledger_numbered_without_gaps [OF this refl]]
  have "[1..<Suc 2] = [1, 2]" by (simp add: upt_rec)
  then show ?thesis by (simp only: seqs len)
qed

end
