(* ===== verification/Image_Match.thy ===== *)
theory Image_Match
  imports Cookbook_Responses
begin

text \<open>
  The mapping from image references to cookbooks (\<^verbatim>\<open>image_match.go\<close>): references are compared by
  repository identity, an explicitly qualified matcher wins over a repository-only one, and a tie is
  refused.
\<close>

section \<open>References\<close>

text \<open>The last colon counts as the start of a tag when it comes after the last slash.\<close>

definition splitImageReference :: "string \<Rightarrow> string \<times> string" where
  "splitImageReference img =
     (let repository = trim_space img;
          (repository, qualifier) =
            (case index_byte (CHR ''@'') repository of
               Some i \<Rightarrow> (take i repository, drop i repository) | None \<Rightarrow> (repository, []));
          (repository, qualifier) =
            (case last_index_byte (CHR '':'') repository of
               Some i \<Rightarrow>
                 if (case last_index_byte (CHR ''/'') repository of Some j \<Rightarrow> j < i | None \<Rightarrow> True)
                 then (take i repository, drop i repository @ qualifier) else (repository, qualifier)
             | None \<Rightarrow> (repository, qualifier));
          (domain, path) =
            (case split2_on (CHR ''/'') repository of
               [d, p] \<Rightarrow> if contains_any d ''.:'' \<or> d = ''localhost'' then (d, p) else (''docker.io'', repository)
             | _ \<Rightarrow> (''docker.io'', repository));
          domain = (if domain = ''index.docker.io'' \<or> domain = ''registry-1.docker.io'' then ''docker.io'' else domain);
          path = (if domain = ''docker.io'' \<and> \<not> contains path ''/'' then ''library/'' @ path else path)
      in (domain @ ''/'' @ path, qualifier))"

section \<open>Selection\<close>

text \<open>The score of a cookbook, by the loop over its matchers.\<close>

definition score_step :: "string \<Rightarrow> string \<Rightarrow> nat \<Rightarrow> string \<Rightarrow> nat" where
  "score_step repository qualifier score candidate =
     (let (candidateRepository, candidateQualifier) = splitImageReference candidate in
      if candidateRepository \<noteq> repository then score
      else
        let score = (if candidateQualifier = [] then max score 1 else score);
            effectiveQualifier = (if qualifier = [] then '':latest'' else qualifier)
        in if candidateQualifier \<noteq> [] \<and> candidateQualifier = effectiveQualifier then 2 else score)"

definition image_score :: "string \<Rightarrow> Cookbook \<Rightarrow> nat" where
  "image_score img cb =
     (let (repository, qualifier) = splitImageReference img
      in foldl (score_step repository qualifier) 0 (cb_ImageNames cb))"

text \<open>One round of the loop over the kinds: selected, best and ambiguous.\<close>

definition select_step ::
  "string \<Rightarrow> (string, Cookbook) gomap \<Rightarrow> Cookbook option \<times> nat \<times> bool \<Rightarrow> string \<Rightarrow> Cookbook option \<times> nat \<times> bool" where
  "select_step img cookbooks = (\<lambda>(selected, best, ambiguous) kind.
     case mget cookbooks kind of
       None \<Rightarrow> (selected, best, ambiguous)
     | Some cb \<Rightarrow>
         let score = image_score img cb in
         if score > best then (Some cb, score, False)
         else if score \<noteq> 0 \<and> score = best then (selected, best, True)
         else (selected, best, ambiguous))"

definition cookbookFor :: "(string, Cookbook) gomap \<Rightarrow> string \<Rightarrow> string \<Rightarrow> string + Cookbook" where
  "cookbookFor cookbooks name img =
     (let (selected, best, ambiguous) =
            foldl (select_step img cookbooks) (None, 0, False) (sortedCookbookKinds cookbooks)
      in if ambiguous then Inl (''ambiguous cookbook mapping for image '' @ quote img)
         else case selected of
           None \<Rightarrow> Inl (''no cookbook matches name='' @ quote name @ '' image='' @ quote img @
             ''; add an explicit image_names mapping'')
         | Some cb \<Rightarrow> Inr cb)"

section \<open>The score, declaratively\<close>

definition matches_exactly :: "string \<Rightarrow> string \<Rightarrow> bool" where
  "matches_exactly img candidate \<longleftrightarrow>
     fst (splitImageReference candidate) = fst (splitImageReference img) \<and>
     snd (splitImageReference candidate) \<noteq> [] \<and>
     snd (splitImageReference candidate) =
       (if snd (splitImageReference img) = [] then '':latest'' else snd (splitImageReference img))"

definition matches_repository :: "string \<Rightarrow> string \<Rightarrow> bool" where
  "matches_repository img candidate \<longleftrightarrow>
     fst (splitImageReference candidate) = fst (splitImageReference img) \<and>
     snd (splitImageReference candidate) = []"

lemma score_step_cases:
  "score_step (fst (splitImageReference img)) (snd (splitImageReference img)) score candidate =
     (if matches_exactly img candidate then 2
      else if matches_repository img candidate then max score 1 else score)"
  by (auto simp: score_step_def matches_exactly_def matches_repository_def case_prod_beta Let_def)

lemma score_fold:
  "score \<le> 2 \<Longrightarrow>
   foldl (score_step (fst (splitImageReference img)) (snd (splitImageReference img))) score names =
     (if \<exists>c\<in>set names. matches_exactly img c then 2
      else if \<exists>c\<in>set names. matches_repository img c then max score 1 else score)"
proof (induction names arbitrary: score)
  case (Cons c names)
  show ?case
    using Cons.IH [of 2] Cons.IH [of "max score 1"] Cons.IH [of score] Cons.prems
    by (auto simp: score_step_cases)
qed simp

lemma image_score_eq:
  "image_score img cb =
     (if \<exists>c\<in>set (cb_ImageNames cb). matches_exactly img c then 2
      else if \<exists>c\<in>set (cb_ImageNames cb). matches_repository img c then 1 else 0)"
  using score_fold [of 0 img "cb_ImageNames cb"] by (simp add: image_score_def case_prod_beta)

section \<open>The selection, declaratively\<close>

definition unique_best :: "string \<Rightarrow> (string, Cookbook) gomap \<Rightarrow> string list \<Rightarrow> string \<Rightarrow> bool" where
  "unique_best img cookbooks kinds kind \<longleftrightarrow>
     kind \<in> set kinds \<and> 0 < image_score img (the (mget cookbooks kind)) \<and>
     (\<forall>k\<in>set kinds. k \<noteq> kind \<longrightarrow>
        image_score img (the (mget cookbooks k)) < image_score img (the (mget cookbooks kind)))"

text \<open>What the loop knows after the kinds seen so far.\<close>

definition loop_inv ::
  "string \<Rightarrow> (string, Cookbook) gomap \<Rightarrow> string list \<Rightarrow> Cookbook option \<times> nat \<times> bool \<Rightarrow> bool" where
  "loop_inv img cookbooks kinds = (\<lambda>(selected, best, ambiguous).
     (\<forall>k\<in>set kinds. image_score img (the (mget cookbooks k)) \<le> best) \<and>
     (if best = 0 then selected = None \<and> \<not> ambiguous
      else \<exists>kind\<in>set kinds. selected = mget cookbooks kind \<and> best = image_score img (the (mget cookbooks kind)) \<and>
        ambiguous = (\<exists>k\<in>set kinds. k \<noteq> kind \<and> image_score img (the (mget cookbooks k)) = best)))"

lemma select_step_inv:
  assumes inv: "loop_inv img cookbooks kinds st" and kind: "mget cookbooks kind = Some cb" "kind \<notin> set kinds"
  shows "loop_inv img cookbooks (kinds @ [kind]) (select_step img cookbooks st kind)"
proof -
  obtain selected best ambiguous where st: "st = (selected, best, ambiguous)" by (cases st)
  define n where "n = image_score img cb"
  have n: "image_score img (the (mget cookbooks kind)) = n" by (simp add: kind n_def)
  have le: "\<forall>k\<in>set kinds. image_score img (the (mget cookbooks k)) \<le> best"
    using inv by (simp add: loop_inv_def st)
  consider "n > best" | "n = best" "n \<noteq> 0" | "n < best" | "n = 0" "best = 0" by linarith
  then show ?thesis
  proof cases
    case 1
    then have "\<not> (\<exists>k\<in>set kinds. image_score img (the (mget cookbooks k)) = n)" using le by fastforce
    with 1 le kind show ?thesis
      by (fastforce simp: loop_inv_def select_step_def st Let_def n_def [symmetric] n)
  next
    case 2
    with inv obtain k0 where k0: "k0 \<in> set kinds" "selected = mget cookbooks k0"
      "best = image_score img (the (mget cookbooks k0))" by (auto simp: loop_inv_def st)
    have step: "select_step img cookbooks st kind = (selected, best, True)"
      using 2 kind by (simp add: select_step_def st n_def [symmetric])
    have "k0 \<noteq> kind" using k0(1) kind(2) by blast
    then have "\<exists>k\<in>set (kinds @ [kind]). k \<noteq> k0 \<and> image_score img (the (mget cookbooks k)) = best"
      using n 2(1) by auto
    moreover have "k0 \<in> set (kinds @ [kind])" using k0(1) by simp
    ultimately have "\<exists>kd\<in>set (kinds @ [kind]). selected = mget cookbooks kd \<and>
        best = image_score img (the (mget cookbooks kd)) \<and>
        True = (\<exists>k\<in>set (kinds @ [kind]). k \<noteq> kd \<and> image_score img (the (mget cookbooks k)) = best)"
      using k0(2,3) by blast
    moreover have "\<forall>k\<in>set (kinds @ [kind]). image_score img (the (mget cookbooks k)) \<le> best"
      using le n 2(1) by simp
    ultimately show ?thesis using 2 unfolding step loop_inv_def by simp
  next
    case 3
    with inv le kind show ?thesis
      by (auto simp: loop_inv_def select_step_def st Let_def n_def [symmetric] n)
  next
    case 4
    with inv le kind show ?thesis
      by (auto simp: loop_inv_def select_step_def st Let_def n_def [symmetric] n)
  qed
qed

lemma select_loop_inv:
  "distinct kinds \<Longrightarrow> \<forall>k\<in>set kinds. mget cookbooks k \<noteq> None \<Longrightarrow>
   loop_inv img cookbooks kinds (foldl (select_step img cookbooks) (None, 0, False) kinds)"
proof (induction kinds rule: rev_induct)
  case Nil
  then show ?case by (simp add: loop_inv_def)
next
  case (snoc kind kinds)
  then obtain cb where "mget cookbooks kind = Some cb" by auto
  with snoc show ?case by (simp add: select_step_inv)
qed

lemma sorted_kinds:
  "wf_map cookbooks \<Longrightarrow> distinct (sortedCookbookKinds cookbooks) \<and>
     set (sortedCookbookKinds cookbooks) = {k. mget cookbooks k \<noteq> None}"
  using set_mkeys [of cookbooks] by (simp add: sortedCookbookKinds_def wf_map_def)

section \<open>Properties\<close>

text \<open>
  C27: the cookbook for an image is the one with the strictly highest score, and there is none exactly
  when no matcher applies or the highest score is shared; the score is 2 for a matcher with the
  image's repository and tag or digest (latest where it has none), 1 for a matcher of the repository
  alone, 0 otherwise. In particular the order of the map does not matter.
\<close>

theorem cookbookFor_unique_best:
  assumes "wf_map cookbooks"
  shows "cookbookFor cookbooks name img = Inr cb \<longleftrightarrow>
    (\<exists>kind. mget cookbooks kind = Some cb \<and> 0 < image_score img cb \<and>
       (\<forall>k c. mget cookbooks k = Some c \<and> k \<noteq> kind \<longrightarrow> image_score img c < image_score img cb))"
proof -
  define kinds where "kinds = sortedCookbookKinds cookbooks"
  have kinds: "distinct kinds" "set kinds = {k. mget cookbooks k \<noteq> None}"
    using sorted_kinds [OF assms] by (simp_all add: kinds_def)
  obtain selected best ambiguous where
    st: "foldl (select_step img cookbooks) (None, 0, False) kinds = (selected, best, ambiguous)"
    by (metis prod_cases3)
  have inv: "loop_inv img cookbooks kinds (selected, best, ambiguous)"
    using select_loop_inv [of kinds cookbooks img] kinds st by simp
  have res: "cookbookFor cookbooks name img = Inr cb \<longleftrightarrow> \<not> ambiguous \<and> selected = Some cb"
    by (auto simp: cookbookFor_def kinds_def [symmetric] st split: option.splits)
  have mem: "k \<in> set kinds \<longleftrightarrow> (\<exists>c. mget cookbooks k = Some c)" for k
    by (auto simp: kinds(2))
  show ?thesis
    unfolding res
  proof
    assume sel: "\<not> ambiguous \<and> selected = Some cb"
    with inv have "best \<noteq> 0" by (auto simp: loop_inv_def split: if_splits)
    with inv obtain kind where k: "kind \<in> set kinds" "selected = mget cookbooks kind"
      "best = image_score img (the (mget cookbooks kind))"
      "ambiguous = (\<exists>k\<in>set kinds. k \<noteq> kind \<and> image_score img (the (mget cookbooks k)) = best)"
      by (auto simp: loop_inv_def)
    have "mget cookbooks kind = Some cb" using k(2) sel by simp
    moreover from this have "best = image_score img cb" using k(3) by simp
    moreover have "\<forall>k\<in>set kinds. k \<noteq> kind \<longrightarrow> image_score img (the (mget cookbooks k)) \<noteq> best"
      using k(4) sel by blast
    moreover note \<open>best \<noteq> 0\<close>
    moreover have "\<forall>k\<in>set kinds. image_score img (the (mget cookbooks k)) \<le> best"
      using inv by (simp add: loop_inv_def)
    ultimately show "\<exists>kind. mget cookbooks kind = Some cb \<and> 0 < image_score img cb \<and>
       (\<forall>k c. mget cookbooks k = Some c \<and> k \<noteq> kind \<longrightarrow> image_score img c < image_score img cb)"
      using mem by (metis le_neq_implies_less not_gr_zero option.sel)
  next
    assume "\<exists>kind. mget cookbooks kind = Some cb \<and> 0 < image_score img cb \<and>
       (\<forall>k c. mget cookbooks k = Some c \<and> k \<noteq> kind \<longrightarrow> image_score img c < image_score img cb)"
    then obtain kind where kind: "mget cookbooks kind = Some cb" "0 < image_score img cb"
      "\<And>k c. mget cookbooks k = Some c \<Longrightarrow> k \<noteq> kind \<Longrightarrow> image_score img c < image_score img cb" by blast
    have "image_score img cb \<le> best"
      using inv kind(1) mem by (force simp: loop_inv_def)
    with inv kind(2) obtain k0 where k0: "k0 \<in> set kinds" "selected = mget cookbooks k0"
      "best = image_score img (the (mget cookbooks k0))"
      "ambiguous = (\<exists>k\<in>set kinds. k \<noteq> k0 \<and> image_score img (the (mget cookbooks k)) = best)"
      by (auto simp: loop_inv_def split: if_splits)
    then have "k0 = kind"
      using kind(3) mem \<open>image_score img cb \<le> best\<close> by (metis not_less option.sel)
    with k0 kind show "\<not> ambiguous \<and> selected = Some cb"
      using mem by (metis nat_neq_iff option.sel)
  qed
qed

theorem cookbookFor_unique_best_witness:
  "cookbookFor [(''redis'', \<lparr>cb_Kind = ''redis'', cb_ImageNames = [''redis'', ''redis:7''],
      cb_Defaults = zeroDefaults, cb_Seeds = []\<rparr>)] ''db'' ''docker.io/library/redis:7'' =
    Inr \<lparr>cb_Kind = ''redis'', cb_ImageNames = [''redis'', ''redis:7''], cb_Defaults = zeroDefaults, cb_Seeds = []\<rparr>"
proof -
  let ?cb = "\<lparr>cb_Kind = ''redis'', cb_ImageNames = [''redis'', ''redis:7''], cb_Defaults = zeroDefaults, cb_Seeds = []\<rparr>"
  have "splitImageReference ''docker.io/library/redis:7'' = (''docker.io/library/redis'', '':7'')"
    "splitImageReference ''redis:7'' = (''docker.io/library/redis'', '':7'')" by code_simp+
  then have "image_score ''docker.io/library/redis:7'' ?cb = 2"
    by (simp add: image_score_eq matches_exactly_def)
  with cookbookFor_unique_best [of "[(''redis'', ?cb)]" "''db''" "''docker.io/library/redis:7''" ?cb]
  show ?thesis by (auto simp: wf_map_def mkeys_def)
qed

end
