(* ===== verification/Go_Net.thy ===== *)
theory Go_Net
  imports Go_Prelude
begin

text \<open>
  The part of package \<^verbatim>\<open>net\<close> the engine uses: parsing and printing of IP addresses and prefixes.
  An address is the list of its bytes, four or sixteen of them as \<^verbatim>\<open>net.IP\<close> may hold;
  \<open>ParseIP\<close> always gives the sixteen-byte form.
\<close>

section \<open>Parsing\<close>

text \<open>A decimal field: one to three digits without a leading zero, at most 255.\<close>

definition ipv4_field :: "string \<Rightarrow> nat option" where
  "ipv4_field s =
     (if s = [] \<or> \<not> list_all is_digit s \<or> length s > 1 \<and> hd s = CHR ''0'' \<or> digits_value s > 255
      then None else Some (digits_value s))"

fun all_some :: "'a option list \<Rightarrow> 'a list option" where
  "all_some [] = Some []"
| "all_some (None # xs) = None"
| "all_some (Some x # xs) = map_option ((#) x) (all_some xs)"

definition parse_ipv4 :: "string \<Rightarrow> nat list option" where
  "parse_ipv4 s =
     (let fs = split_on (CHR ''.'') s in
      if length fs = 4 then all_some (map ipv4_field fs) else None)"

definition hex_value :: "char \<Rightarrow> nat option" where
  "hex_value c =
     (if is_digit c then Some (byte c - 48)
      else if 97 \<le> byte c \<and> byte c \<le> (102::nat) then Some (byte c - 87)
      else if 65 \<le> byte c \<and> byte c \<le> (70::nat) then Some (byte c - 55)
      else None)"

definition hex_number :: "string \<Rightarrow> nat" where
  "hex_number = foldl (\<lambda>v c. 16 * v + the (hex_value c)) 0"

text \<open>
  The groups of an IPv6 address between \<^verbatim>\<open>::\<close> and either end, as bytes; the last may be an
  embedded IPv4 address.
\<close>

definition hex_group :: "string \<Rightarrow> nat list option" where
  "hex_group s =
     (if s = [] \<or> length s > 4 \<or> \<not> list_all (\<lambda>c. hex_value c \<noteq> None) s then None
      else Some [hex_number s div 256, hex_number s mod 256])"

fun ipv6_groups :: "string list \<Rightarrow> nat list option" where
  "ipv6_groups [] = Some []"
| "ipv6_groups [s] = (if CHR ''.'' \<in> set s then parse_ipv4 s else hex_group s)"
| "ipv6_groups (s # t # ss) =
     (case hex_group s of
        None \<Rightarrow> None
      | Some b \<Rightarrow> map_option ((@) b) (ipv6_groups (t # ss)))"

definition ipv6_part :: "string \<Rightarrow> nat list option" where
  "ipv6_part s = (if s = [] then Some [] else ipv6_groups (split_on (CHR '':'') s))"

text \<open>The text around the first \<^verbatim>\<open>::\<close>.\<close>

fun split_ellipsis :: "string \<Rightarrow> (string \<times> string) option" where
  "split_ellipsis (a # b # s) =
     (if a = CHR '':'' \<and> b = CHR '':'' then Some ([], s)
      else map_option (\<lambda>(l, r). (a # l, r)) (split_ellipsis (b # s)))"
| "split_ellipsis s = None"

definition parse_ipv6 :: "string \<Rightarrow> nat list option" where
  "parse_ipv6 s =
     (case split_ellipsis s of
        None \<Rightarrow>
          (case ipv6_part s of
             Some b \<Rightarrow> if length b = 16 then Some b else None
           | None \<Rightarrow> None)
      | Some (l, r) \<Rightarrow>
          (case (if CHR ''.'' \<in> set l then None else ipv6_part l, ipv6_part r) of
             (Some a, Some b) \<Rightarrow>
               if length a + length b < 16 then Some (a @ replicate (16 - (length a + length b)) 0 @ b)
               else None
           | _ \<Rightarrow> None))"

definition v4_in_v6 :: "nat list \<Rightarrow> nat list" where
  "v4_in_v6 b = replicate 10 0 @ [255, 255] @ b"

text \<open>The first of the bytes \<^verbatim>\<open>.\<close>, \<^verbatim>\<open>:\<close> and \<^verbatim>\<open>%\<close> decides the family; a zone is refused.\<close>

definition ParseIP :: "string \<Rightarrow> nat list option" where
  "ParseIP s =
     (case dropWhile (\<lambda>c. c \<notin> {CHR ''.'', CHR '':'', CHR ''%''}) s of
        [] \<Rightarrow> None
      | c # _ \<Rightarrow>
          if c = CHR ''.'' then map_option v4_in_v6 (parse_ipv4 s)
          else if c = CHR '':'' then (if CHR ''%'' \<in> set s then None else parse_ipv6 s)
          else None)"

section \<open>Addresses\<close>

definition To4 :: "nat list \<Rightarrow> nat list option" where
  "To4 b =
     (if length b = 4 then Some b
      else if length b = 16 \<and> take 12 b = v4_in_v6 [] then Some (drop 12 b)
      else None)"

definition IsLoopback :: "nat list \<Rightarrow> bool" where
  "IsLoopback b = (case To4 b of Some v \<Rightarrow> v ! 0 = 127 | None \<Rightarrow> b = replicate 15 0 @ [1])"

definition IsUnspecified :: "nat list \<Rightarrow> bool" where
  "IsUnspecified b \<longleftrightarrow> b = replicate 4 0 \<or> b = v4_in_v6 (replicate 4 0) \<or> b = replicate 16 0"

definition ipv4_string :: "nat list \<Rightarrow> string" where
  "ipv4_string b = join ''.'' (map nat_digits b)"

text \<open>An IPv6 address in lower-case hexadecimal, its longest run of two or more zero groups as \<^verbatim>\<open>::\<close>.\<close>

fun hex_digits :: "nat \<Rightarrow> string" where
  "hex_digits n = (if n < 16 then [hex_nibble n] else hex_digits (n div 16) @ [hex_nibble (n mod 16)])"

declare hex_digits.simps [simp del]

fun groups_of :: "nat list \<Rightarrow> nat list" where
  "groups_of (a # b # r) = (256 * a + b) # groups_of r"
| "groups_of r = []"

definition zero_run :: "nat list \<Rightarrow> nat \<Rightarrow> nat" where
  "zero_run gs i = length (takeWhile (\<lambda>g. g = 0) (drop i gs))"

definition best_run :: "nat list \<Rightarrow> nat \<times> nat" where
  "best_run gs =
     foldl (\<lambda>(i, n) j. if zero_run gs j > n then (j, zero_run gs j) else (i, n)) (0, 1) [0..<length gs]"

definition ipv6_string :: "nat list \<Rightarrow> string" where
  "ipv6_string b =
     (let gs = groups_of b; (i, n) = best_run gs in
      if n < 2 then join '':'' (map hex_digits gs)
      else join '':'' (map hex_digits (take i gs)) @ ''::'' @ join '':'' (map hex_digits (drop (i + n) gs)))"

definition ip_string :: "nat list \<Rightarrow> string" where
  "ip_string b =
     (if b = [] then ''<nil>''
      else case To4 b of Some v \<Rightarrow> ipv4_string v
      | None \<Rightarrow> if length b = 16 then ipv6_string b else ''?'')"

text \<open>
  The address of \<^verbatim>\<open>net.ParseCIDR\<close>: the text before the slash is an address without a zone, the rest
  a prefix length in range. \<^verbatim>\<open>dtoi\<close> reads plain digits.
\<close>

definition ParseCIDR_ip :: "string \<Rightarrow> nat list option" where
  "ParseCIDR_ip s =
     (case split2_on (CHR ''/'') s of
        [a, m] \<Rightarrow>
          (case ParseIP a of
             None \<Rightarrow> None
           | Some b \<Rightarrow>
               let bits = (if CHR '':'' \<in> set a then 128 else 32) in
               if m \<noteq> [] \<and> list_all is_digit m \<and> digits_value m \<le> bits then Some b else None)
      | _ \<Rightarrow> None)"

definition JoinHostPort :: "string \<Rightarrow> string \<Rightarrow> string" where
  "JoinHostPort host port =
     (if CHR '':'' \<in> set host then ''['' @ host @ '']:'' @ port else host @ '':'' @ port)"

section \<open>Lemmas\<close>

definition is_ipv4 :: "nat list \<Rightarrow> bool" where
  "is_ipv4 b \<longleftrightarrow> length b = 4 \<and> list_all (\<lambda>x. x \<le> 255) b"

lemma nat_digits_hd: "0 < n \<Longrightarrow> hd (nat_digits n) \<noteq> CHR ''0''"
proof (induction n rule: nat_digits.induct)
  case (1 n)
  show ?case
  proof (cases "n < 10")
    case True
    have "byte (digit_char n) \<noteq> (48::nat)" using True 1(2) by (simp add: byte_digit_char)
    then have "digit_char n \<noteq> CHR ''0''" by auto
    with True show ?thesis by (subst nat_digits.simps) simp
  next
    case False
    with 1 have "hd (nat_digits (n div 10)) \<noteq> CHR ''0''" by simp
    with False show ?thesis by (subst nat_digits.simps) simp
  qed
qed

lemma nat_digits_0: "nat_digits 0 = ''0''"
  by (subst nat_digits.simps) (simp add: digit_char_def, code_simp)

lemma ipv4_field_nat_digits: "n \<le> 255 \<Longrightarrow> ipv4_field (nat_digits n) = Some n"
  using nat_digits_hd [of n] nat_digits_all [of n] digits_value_nat_digits [of 0, unfolded nat_digits_0]
  by (cases "n = 0") (auto simp: ipv4_field_def nat_digits_0)

lemma nat_digits_no_sep: "\<not> is_digit d \<Longrightarrow> d \<notin> set (nat_digits n)"
  using nat_digits_all [of n] by (auto simp: list_all_iff)

lemma is_ipv4_cases:
  assumes "is_ipv4 b"
  obtains a1 a2 a3 a4 where "b = [a1, a2, a3, a4]" "a1 \<le> 255" "a2 \<le> 255" "a3 \<le> 255" "a4 \<le> 255"
proof -
  from assms have "length b = Suc (Suc (Suc (Suc 0)))" by (simp add: is_ipv4_def)
  with assms that show thesis by (auto simp: length_Suc_conv is_ipv4_def)
qed

lemma parse_ipv4_string: "is_ipv4 b \<Longrightarrow> parse_ipv4 (ipv4_string b) = Some b"
proof (erule is_ipv4_cases)
  fix a1 a2 a3 a4 :: nat
  assume b: "b = [a1, a2, a3, a4]" and le: "a1 \<le> 255" "a2 \<le> 255" "a3 \<le> 255" "a4 \<le> 255"
  have no_dot: "CHR ''.'' \<notin> set (nat_digits n)" for n
    by (rule nat_digits_no_sep) (simp add: is_digit_def)
  have "split_on (CHR ''.'') (ipv4_string b) = map nat_digits b"
    by (simp add: b ipv4_string_def split_on_append split_on_no_sep no_dot)
  with le show ?thesis by (simp add: parse_ipv4_def b ipv4_field_nat_digits)
qed

lemma ParseIP_ipv4_string:
  assumes "is_ipv4 b"
  shows "ParseIP (ipv4_string b) = Some (v4_in_v6 b)"
proof -
  from assms obtain a1 a2 a3 a4 where b: "b = [a1, a2, a3, a4]" by (rule is_ipv4_cases)
  let ?P = "\<lambda>c. c \<notin> {CHR ''.'', CHR '':'', CHR ''%''}"
  have "\<forall>c \<in> set (nat_digits a1). ?P c"
    using nat_digits_no_sep [of "CHR ''.''" a1] nat_digits_no_sep [of "CHR '':''" a1]
      nat_digits_no_sep [of "CHR ''%''" a1] by (auto simp: is_digit_def)
  then have "dropWhile ?P (nat_digits a1 @ CHR ''.'' # t) = CHR ''.'' # t" for t
    by (simp add: dropWhile_append3)
  then have "\<exists>t. dropWhile ?P (ipv4_string b) = CHR ''.'' # t"
    by (simp add: b ipv4_string_def)
  with parse_ipv4_string [OF assms] show ?thesis by (auto simp: ParseIP_def)
qed

lemma To4_v4_in_v6 [simp]: "length b = 4 \<Longrightarrow> To4 (v4_in_v6 b) = Some b"
  by (simp add: To4_def v4_in_v6_def)

lemma ip_string_v4: "is_ipv4 b \<Longrightarrow> ip_string (v4_in_v6 b) = ipv4_string b"
  by (simp add: ip_string_def is_ipv4_def) (simp add: v4_in_v6_def)

lemma ipv4_string_no_sep: "\<not> is_digit d \<Longrightarrow> d \<noteq> CHR ''.'' \<Longrightarrow> d \<notin> set (ipv4_string b)"
proof -
  assume d: "\<not> is_digit d" "d \<noteq> CHR ''.''"
  have "d \<notin> set (join ''.'' ws)" if "\<forall>w \<in> set ws. d \<notin> set w" for ws
    using that d by (induction "''.''" ws rule: join.induct) auto
  then show ?thesis using d by (simp add: ipv4_string_def nat_digits_no_sep)
qed

lemma ParseCIDR_ipv4:
  assumes "is_ipv4 b" and "m \<noteq> []" and "list_all is_digit m" and "digits_value m \<le> 32"
  shows "ParseCIDR_ip (ipv4_string b @ ''/'' @ m) = Some (v4_in_v6 b)"
proof -
  have "CHR ''/'' \<notin> set (ipv4_string b)" "CHR '':'' \<notin> set (ipv4_string b)"
    by (rule ipv4_string_no_sep; simp add: is_digit_def)+
  with assms show ?thesis
    by (simp add: ParseCIDR_ip_def split2_on_append ParseIP_ipv4_string)
qed

lemma ipv4_string_inj: "is_ipv4 a \<Longrightarrow> is_ipv4 b \<Longrightarrow> ipv4_string a = ipv4_string b \<longleftrightarrow> a = b"
  using parse_ipv4_string by (metis option.inject)

end
