(* ===== verification/Engine_State.thy ===== *)
theory Engine_State
  imports Ledger Image_Match Go_Net
begin

text \<open>
  The engine's state (\<^verbatim>\<open>engine_core.go\<close>): containers, names, networks, volumes and runtimes, with the
  ledger and the two process-wide counters. A container pointer of the source is the container's ID,
  the key under which the engine holds it; the PID counter of \<^verbatim>\<open>state.go\<close> is a field here because the
  engine runs the containers' operations. \<open>e_detached\<close> lists the removed containers, which clients
  that wait for one still point to.
\<close>

text \<open>An endpoint is a \<^verbatim>\<open>map[string]any\<close> in the source, always with these six keys.\<close>

record Endpoint =
  ep_Name :: string
  ep_EndpointID :: string
  ep_MacAddress :: string
  ep_IPv4Address :: string
  ep_IPv6Address :: string
  ep_Aliases :: "string list"

record Network =
  n_Name :: string
  n_ID :: string
  n_Created :: string
  n_Scope :: string
  n_Driver :: string
  n_EnableIPv6 :: bool
  n_Internal :: bool
  n_Attachable :: bool
  n_Ingress :: bool
  n_IPAM :: json
  n_Containers :: "(string, Endpoint) gomap"
  n_Options :: "(string, string) gomap"
  n_Labels :: "(string, string) gomap"
  n_Index :: int
  n_NextHost :: int

record Volume =
  v_CreatedAt :: string
  v_Driver :: string
  v_Labels :: "(string, string) gomap"
  v_Mountpoint :: string
  v_Name :: string
  v_Options :: "(string, string) gomap"
  v_Scope :: string

text \<open>A container's listeners, by the addresses they were opened for, and its open connections.\<close>

record ContainerRuntime =
  rt_active :: bool
  rt_listeners :: "string list"
  rt_connections :: "nat list"

text \<open>
  What the operating system answers, by the number of the question: a reading of the clock, a call of
  \<^verbatim>\<open>net.Listen\<close> with its address (an error, or the port that was bound), and whether a wait ended by its
  timeout, and the number of bytes that were written to a client. The last two are the constants of
  the build.
\<close>

record Env =
  env_now :: "nat \<Rightarrow> gotime"
  env_listen :: "nat \<Rightarrow> string \<Rightarrow> string + int"
  env_timeout :: "nat \<Rightarrow> bool"
  env_written :: "nat \<Rightarrow> int"
  env_GOARCH :: string
  env_GoVersion :: string

record Engine =
  e_cookbooks :: "(string, Cookbook) gomap"
  e_seed :: int
  e_overrides :: "(string, int) gomap"
  e_ledger :: Ledger
  e_startedAt :: gotime
  e_counter :: int
  e_containers :: "(string, Container) gomap"
  e_names :: "(string, string) gomap"
  e_networks :: "(string, Network) gomap"
  e_volumes :: "(string, Volume) gomap"
  e_runtimes :: "(string, ContainerRuntime) gomap"
  e_endpointMode :: string
  e_runtimeClosing :: bool
  e_pid :: int
  e_env :: Env
  e_tick :: nat
  e_detached :: "Container list"

definition hashID :: "string \<Rightarrow> string" where
  "hashID value = containerID value 0"

definition ipam :: "string \<Rightarrow> string \<Rightarrow> json" where
  "ipam subnet gateway =
     JObject [(''Driver'', JString ''default''), (''Options'', JNull),
       (''Config'', JArray [JObject [(''Subnet'', JString subnet), (''Gateway'', JString gateway)]])]"

definition bridgeNetwork :: "gotime \<Rightarrow> Network" where
  "bridgeNetwork now =
     \<lparr>n_Name = ''bridge'', n_ID = hashID ''network:bridge'', n_Created = formatDockerTime now,
      n_Scope = ''local'', n_Driver = ''bridge'', n_EnableIPv6 = False, n_Internal = False,
      n_Attachable = False, n_Ingress = False, n_IPAM = ipam ''127.19.0.0/24'' ''127.19.0.1'',
      n_Containers = [], n_Options = [], n_Labels = [], n_Index = 0, n_NextHost = 2\<rparr>"

definition newEngine ::
  "Env \<Rightarrow> (string, Cookbook) gomap \<Rightarrow> int \<Rightarrow> (string, int) gomap \<Rightarrow> Ledger \<Rightarrow> Engine" where
  "newEngine env cookbooks seed overrides ledger =
     \<lparr>e_cookbooks = cookbooks, e_seed = seed, e_overrides = overrides, e_ledger = ledger,
      e_startedAt = env_now env 0, e_counter = 0, e_containers = [], e_names = [],
      e_networks = [(''bridge'', bridgeNetwork (env_now env 1))], e_volumes = [], e_runtimes = [],
      e_endpointMode = ''auto'', e_runtimeClosing = False, e_pid = 0, e_env = env, e_tick = 2, e_detached = []\<rparr>"

definition seedFor :: "string \<Rightarrow> string \<Rightarrow> Engine \<Rightarrow> int" where
  "seedFor kind name e =
     (case mget (e_overrides e) (to_lower (trim_prefix name ''/'')) of
        Some value \<Rightarrow> value
      | None \<Rightarrow>
          (case mget (e_overrides e) (to_lower kind) of Some value \<Rightarrow> value | None \<Rightarrow> e_seed e))"

section \<open>Helpers\<close>

definition log_engine :: "gotime \<Rightarrow> LedgerEntry \<Rightarrow> Engine \<Rightarrow> Engine" where
  "log_engine now entry e = e\<lparr>e_ledger := Log now entry (e_ledger e)\<rparr>"

text \<open>A change of a container through its pointer.\<close>

definition set_container :: "Container \<Rightarrow> Engine \<Rightarrow> Engine" where
  "set_container c e = e\<lparr>e_containers := mput (e_containers e) (c_ID c) c\<rparr>"

lemma log_engine_sel [simp]:
  "e_containers (log_engine now entry e) = e_containers e"
  "e_names (log_engine now entry e) = e_names e"
  "e_networks (log_engine now entry e) = e_networks e"
  "e_volumes (log_engine now entry e) = e_volumes e"
  "e_runtimes (log_engine now entry e) = e_runtimes e"
  "e_counter (log_engine now entry e) = e_counter e"
  "e_cookbooks (log_engine now entry e) = e_cookbooks e"
  "e_overrides (log_engine now entry e) = e_overrides e"
  "e_seed (log_engine now entry e) = e_seed e"
  "e_pid (log_engine now entry e) = e_pid e"
  "e_runtimeClosing (log_engine now entry e) = e_runtimeClosing e"
  "e_endpointMode (log_engine now entry e) = e_endpointMode e"
  "e_env (log_engine now entry e) = e_env e"
  "e_tick (log_engine now entry e) = e_tick e"
  "e_detached (log_engine now entry e) = e_detached e"
  "e_startedAt (log_engine now entry e) = e_startedAt e"
  by (simp_all add: log_engine_def)

lemma set_container_sel [simp]:
  "e_containers (set_container c e) = mput (e_containers e) (c_ID c) c"
  "e_names (set_container c e) = e_names e"
  "e_networks (set_container c e) = e_networks e"
  "e_volumes (set_container c e) = e_volumes e"
  "e_runtimes (set_container c e) = e_runtimes e"
  "e_counter (set_container c e) = e_counter e"
  "e_cookbooks (set_container c e) = e_cookbooks e"
  "e_pid (set_container c e) = e_pid e"
  "e_runtimeClosing (set_container c e) = e_runtimeClosing e"
  "e_endpointMode (set_container c e) = e_endpointMode e"
  "e_overrides (set_container c e) = e_overrides e"
  "e_seed (set_container c e) = e_seed e"
  "e_ledger (set_container c e) = e_ledger e"
  "e_env (set_container c e) = e_env e"
  "e_tick (set_container c e) = e_tick e"
  "e_detached (set_container c e) = e_detached e"
  "e_startedAt (set_container c e) = e_startedAt e"
  by (simp_all add: set_container_def)

end
