(* ===== verification/Cookbook_State_Validation.thy ===== *)
theory Cookbook_State_Validation
  imports Cookbook_Responses
begin

text \<open>
  The validation of state patches, state values, transition events and routes
  (\<^verbatim>\<open>cookbook_state_validation.go\<close>). Each definition lists the checks of its function in their
  order; the first that fails is the error.
\<close>

definition status_values :: "string list" where
  "status_values = [sCreated, sRunning, sRestarting, sExited, sDead]"

definition health_values :: "string list" where
  "health_values = [hStarting, hHealthy, hUnhealthy]"

definition validateStateValue ::
  "string \<Rightarrow> string \<Rightarrow> string \<Rightarrow> bool \<Rightarrow> ValidationError option" where
  "validateStateValue path kind value allowEmpty =
     (if value = [] \<and> allowEmpty then None
      else let allowed = (if kind = ''status'' then status_values else health_values)
           in check (value \<notin> set allowed)
                (validationError path
                  (kind @ '' must be one of '' @ join '', '' (sort allowed) @ '', got '' @ quote value)))"

definition validateHealthyBaseline :: "string \<Rightarrow> StatePatch \<Rightarrow> ValidationError option" where
  "validateHealthyBaseline path patch = first_error
    [check (p_Status patch \<noteq> Some sRunning)
       (validationError (path @ ''/status'') ''seed 0 must start with status=running''),
     check (p_Running patch \<noteq> Some True)
       (validationError (path @ ''/running'') ''seed 0 must start with running=true''),
     check (p_Restarting patch \<noteq> Some False)
       (validationError (path @ ''/restarting'') ''seed 0 must start with restarting=false''),
     check (p_Health patch \<noteq> Some hHealthy)
       (validationError (path @ ''/health'') ''seed 0 must start with health=healthy''),
     check (p_ExitCode patch \<noteq> Some 0)
       (validationError (path @ ''/exit_code'') ''seed 0 must start with exit_code=0''),
     check (p_RestartCount patch \<noteq> Some 0)
       (validationError (path @ ''/restart_count'') ''seed 0 must start with restart_count=0'')]"

text \<open>The switch over the status a patch sets: which explicit flags contradict it.\<close>

definition status_flag_conflicts :: "string \<Rightarrow> string \<Rightarrow> StatePatch \<Rightarrow> ValidationError option" where
  "status_flag_conflicts path status patch =
     (if status = sRunning then first_error
        [check (p_Running patch = Some False)
           (validationError (path @ ''/running'') ''status=running conflicts with running=false''),
         check (p_Restarting patch = Some True)
           (validationError (path @ ''/restarting'') ''status=running conflicts with restarting=true''),
         check (p_Dead patch = Some True)
           (validationError (path @ ''/dead'') ''status=running conflicts with dead=true'')]
      else if status = sRestarting then first_error
        [check (p_Running patch = Some False)
           (validationError (path @ ''/running'') ''status=restarting conflicts with running=false''),
         check (p_Restarting patch = Some False)
           (validationError (path @ ''/restarting'') ''status=restarting conflicts with restarting=false''),
         check (p_Dead patch = Some True)
           (validationError (path @ ''/dead'') ''status=restarting conflicts with dead=true'')]
      else if status = sCreated \<or> status = sExited then first_error
        [check (p_Running patch = Some True)
           (validationError (path @ ''/running'') (''status='' @ status @ '' conflicts with running=true'')),
         check (p_Restarting patch = Some True)
           (validationError (path @ ''/restarting'') (''status='' @ status @ '' conflicts with restarting=true'')),
         check (p_Dead patch = Some True)
           (validationError (path @ ''/dead'') (''status='' @ status @ '' conflicts with dead=true''))]
      else if status = sDead then first_error
        [check (p_Running patch = Some True)
           (validationError (path @ ''/running'') ''status=dead conflicts with running=true''),
         check (p_Restarting patch = Some True)
           (validationError (path @ ''/restarting'') ''status=dead conflicts with restarting=true''),
         check (p_Dead patch = Some False)
           (validationError (path @ ''/dead'') ''status=dead conflicts with dead=false'')]
      else None)"

definition validateStatePatch :: "string \<Rightarrow> StatePatch \<Rightarrow> bool \<Rightarrow> ValidationError option" where
  "validateStatePatch path patch allowEmpty = first_error
    [check (\<not> allowEmpty \<and> isZeroStatePatch patch) (validationError path ''state patch cannot be empty''),
     (case p_Status patch of None \<Rightarrow> None
      | Some v \<Rightarrow> validateStateValue (path @ ''/status'') ''status'' v False),
     (case p_Health patch of None \<Rightarrow> None
      | Some v \<Rightarrow> validateStateValue (path @ ''/health'') ''health'' v True),
     (case p_ExitCode patch of None \<Rightarrow> None
      | Some v \<Rightarrow> check (v < 0 \<or> v > 255)
          (validationError (path @ ''/exit_code'') ''exit_code must be between 0 and 255'')),
     (case p_RestartCount patch of None \<Rightarrow> None
      | Some v \<Rightarrow> check (v < 0)
          (validationError (path @ ''/restart_count'') ''restart_count cannot be negative'')),
     check (p_RestartCountDelta patch < 0)
       (validationError (path @ ''/restart_count_delta'') ''restart_count_delta cannot be negative''),
     (case p_Error patch of None \<Rightarrow> None
      | Some v \<Rightarrow> check (NUL \<in> set v) (validationError (path @ ''/error'') ''error cannot contain a NUL byte'')),
     check (p_Status patch = None \<and>
         (p_Running patch \<noteq> None \<or> p_Restarting patch \<noteq> None \<or> p_Dead patch \<noteq> None))
       (validationError path ''running, restarting, and dead flags require status in the same patch''),
     (case p_Status patch of None \<Rightarrow> None | Some v \<Rightarrow> status_flag_conflicts path v patch),
     check (p_Dead patch = Some True \<and> p_Status patch \<noteq> Some sDead)
       (validationError (path @ ''/dead'') ''dead=true requires status=dead in the same patch'')]"

definition http_methods :: "string list" where
  "http_methods = [''GET'', ''HEAD'', ''POST'', ''PUT'', ''PATCH'', ''DELETE'', ''OPTIONS'']"

definition validateHTTPRoute :: "string \<Rightarrow> string \<Rightarrow> ValidationError option" where
  "validateHTTPRoute path route =
     (if route = ''*'' then None
      else (case split2_on (CHR '' '') route of
          [method, p] \<Rightarrow> first_error
            [check (method = [] \<or> p = [])
               (validationError path (''HTTP route '' @ quote route @ '' must use the form METHOD /path'')),
             check (method \<notin> set http_methods)
               (validationError path (''unsupported or non-uppercase HTTP method '' @ quote method)),
             check (\<not> has_prefix p ''/'' \<or> contains_any p [CR, LF, TAB, CHR '' ''])
               (validationError path
                 (''HTTP route path '' @ quote p @ '' must begin with / and contain no whitespace'')),
             check (contains p ''?'')
               (validationError path
                 ''HTTP route path must not include a query string; matching uses URL.Path'')]
        | _ \<Rightarrow> Some (validationError path
               (''HTTP route '' @ quote route @ '' must use the form METHOD /path''))))"

definition validHTTPHeaderName :: "string \<Rightarrow> bool" where
  "validHTTPHeaderName value \<longleftrightarrow>
     value \<noteq> [] \<and>
     list_all (\<lambda>r. is_alnum r \<or> r \<in> set (''!#$%&'' @ [CHR 0x27] @ ''*+-.^_'' @ [CHR 0x60] @ ''|~'')) value"

definition validRedisCommandName :: "string \<Rightarrow> bool" where
  "validRedisCommandName value \<longleftrightarrow>
     value \<noteq> [] \<and> list_all (\<lambda>r. is_upper r \<or> is_digit r \<or> r = CHR ''_'' \<or> r = CHR ''-'') value"

definition docker_events :: "string list" where
  "docker_events =
    [''docker.observe'', ''docker.inspect'', ''docker.list'', ''docker.start'', ''docker.stop'',
     ''docker.restart'', ''docker.kill'', ''docker.wait'', ''docker.logs'', ''docker.top'',
     ''docker.archive'']"

definition validateTransitionEvent :: "string \<Rightarrow> string \<Rightarrow> Scenario \<Rightarrow> ValidationError option" where
  "validateTransitionEvent path event scenario =
     (if has_prefix event ''docker.'' then
        check (event \<notin> set docker_events)
          (validationError path (''unsupported Docker transition event '' @ quote event))
      else if has_prefix event ''http.'' then
        let route = trim_prefix event ''http.'' in first_error
          [validateHTTPRoute path route,
           check (\<not> mmem (s_HTTP scenario) route \<and> \<not> mmem (s_HTTP scenario) ''*'')
             (validationError path (''transition event '' @ quote event @ '' has no matching HTTP route''))]
      else if has_prefix event ''redis.'' then
        let command = trim_prefix event ''redis.'' in first_error
          [check (command = [] \<or> command \<noteq> to_upper command \<or> \<not> validRedisCommandName command)
             (validationError path (''invalid Redis transition event '' @ quote event)),
           check (\<not> mmem (s_Redis scenario) command \<and> \<not> mmem (s_Redis scenario) ''*'')
             (validationError path (''transition event '' @ quote event @ '' has no matching Redis response''))]
      else Some (validationError path ''transition event must start with docker., http., or redis.''))"

end
