(* ===== verification/Container_Lifecycle.thy ===== *)
theory Container_Lifecycle
  imports Container_State Cookbook_State_Validation
begin

text \<open>
  What the operations of \<open>Container_State\<close> keep and guarantee: the lifecycle flags follow the
  status, PIDs exist exactly while a process does, waiters are answered once, restart policies are
  respected, and none of the operations panics on a cookbook that passed validation.
\<close>

section \<open>Effect of a patch\<close>

definition lifecycle_statuses :: "string list" where
  "lifecycle_statuses = [sCreated, sRunning, sPaused, sRestarting, sExited, sDead]"

text \<open>The flags are canonical: they are those the switch of \<^const>\<open>canonical_flags\<close> derives.\<close>

definition canonical :: "Container \<Rightarrow> bool" where
  "canonical c \<longleftrightarrow> canonical_flags c = Ret c"

lemma patched_simps [simp]: "patched None x = x" "patched (Some v) x = v"
  by (simp_all add: patched_def)

lemma patch_fields_sel [simp]:
  "c_Status (patch_fields p c) = patched (p_Status p) (c_Status c)"
  "h_Status (c_Health (patch_fields p c)) = patched (p_Health p) (h_Status (c_Health c))"
  "h_Log (c_Health (patch_fields p c)) = h_Log (c_Health c)"
  "c_ExitCode (patch_fields p c) = patched (p_ExitCode p) (c_ExitCode c)"
  "c_Error (patch_fields p c) = patched (p_Error p) (c_Error c)"
  "c_Pid (patch_fields p c) = c_Pid c"
  "c_waiters (patch_fields p c) = c_waiters c"
  "c_nextWaiter (patch_fields p c) = c_nextWaiter c"
  "c_sent (patch_fields p c) = c_sent c"
  "c_removed (patch_fields p c) = c_removed c"
  by (simp_all add: patch_fields_def Let_def)

lemma canonical_flags_sel:
  assumes "canonical_flags c = Ret c'"
  shows "c' = set_flags (c_Status c \<in> {sRunning, sPaused, sRestarting})
      (c_Status c = sPaused) (c_Status c = sRestarting) (c_Status c = sDead) c"
    and "c_Status c \<in> set lifecycle_statuses"
  using assms by (auto simp: canonical_flags_def lifecycle_statuses_def split: if_splits)

lemma canonical_flags_returns:
  "returns (canonical_flags c) \<longleftrightarrow> c_Status c \<in> set lifecycle_statuses"
  by (auto simp: canonical_flags_def lifecycle_statuses_def)

lemma canonical_iff:
  "canonical c \<longleftrightarrow> c_Status c \<in> set lifecycle_statuses \<and>
     c_Running c = (c_Status c \<in> {sRunning, sPaused, sRestarting}) \<and>
     c_Paused c = (c_Status c = sPaused) \<and> c_Restarting c = (c_Status c = sRestarting) \<and>
     c_Dead c = (c_Status c = sDead)"
proof -
  have "set_flags r p q d c = c \<longleftrightarrow> c_Running c = r \<and> c_Paused c = p \<and> c_Restarting c = q \<and> c_Dead c = d"
    for r p q d by (cases c) (auto simp: set_flags_def)
  then show ?thesis
    by (auto simp: canonical_def canonical_flags_def lifecycle_statuses_def)
qed

text \<open>The three stages after the switch, field by field.\<close>

lemma patch_notify_sel [simp]:
  "c_Status (patch_notify r o1 c) = c_Status c"
  "c_Pid (patch_notify r o1 c) = c_Pid c"
  "c_Health (patch_notify r o1 c) = c_Health c"
  "c_nextWaiter (patch_notify r o1 c) = c_nextWaiter c"
  "c_removed (patch_notify r o1 c) = c_removed c"
  "c_Running (patch_notify r o1 c) = c_Running c"
  "c_Paused (patch_notify r o1 c) = c_Paused c"
  "c_Restarting (patch_notify r o1 c) = c_Restarting c"
  "c_Dead (patch_notify r o1 c) = c_Dead c"
  "c_ExitCode (patch_notify r o1 c) = c_ExitCode c"
  "c_Error (patch_notify r o1 c) = c_Error c"
  by (simp_all add: patch_notify_def notifyWaitersLocked_def)

lemma mark_sel [simp]:
  "c_Status (fst (mark_started now o1 (c, pid))) = c_Status c"
  "c_Health (fst (mark_started now o1 (c, pid))) = c_Health c"
  "c_waiters (fst (mark_started now o1 (c, pid))) = c_waiters c"
  "c_nextWaiter (fst (mark_started now o1 (c, pid))) = c_nextWaiter c"
  "c_sent (fst (mark_started now o1 (c, pid))) = c_sent c"
  "c_removed (fst (mark_started now o1 (c, pid))) = c_removed c"
  "c_Running (fst (mark_started now o1 (c, pid))) = c_Running c"
  "c_Paused (fst (mark_started now o1 (c, pid))) = c_Paused c"
  "c_Restarting (fst (mark_started now o1 (c, pid))) = c_Restarting c"
  "c_Dead (fst (mark_started now o1 (c, pid))) = c_Dead c"
  "c_ExitCode (fst (mark_started now o1 (c, pid))) = c_ExitCode c"
  "c_Error (fst (mark_started now o1 (c, pid))) = c_Error c"
  "c_Status (mark_exited now o1 c) = c_Status c"
  "c_Health (mark_exited now o1 c) = c_Health c"
  "c_waiters (mark_exited now o1 c) = c_waiters c"
  "c_nextWaiter (mark_exited now o1 c) = c_nextWaiter c"
  "c_sent (mark_exited now o1 c) = c_sent c"
  "c_removed (mark_exited now o1 c) = c_removed c"
  "c_Running (mark_exited now o1 c) = c_Running c"
  "c_Paused (mark_exited now o1 c) = c_Paused c"
  "c_Restarting (mark_exited now o1 c) = c_Restarting c"
  "c_Dead (mark_exited now o1 c) = c_Dead c"
  "c_ExitCode (mark_exited now o1 c) = c_ExitCode c"
  "c_Error (mark_exited now o1 c) = c_Error c"
  "c_Status (mark_restarting now o1 c) = c_Status c"
  "c_Health (mark_restarting now o1 c) = c_Health c"
  "c_waiters (mark_restarting now o1 c) = c_waiters c"
  "c_nextWaiter (mark_restarting now o1 c) = c_nextWaiter c"
  "c_sent (mark_restarting now o1 c) = c_sent c"
  "c_removed (mark_restarting now o1 c) = c_removed c"
  "c_Running (mark_restarting now o1 c) = c_Running c"
  "c_Paused (mark_restarting now o1 c) = c_Paused c"
  "c_Restarting (mark_restarting now o1 c) = c_Restarting c"
  "c_Dead (mark_restarting now o1 c) = c_Dead c"
  "c_ExitCode (mark_restarting now o1 c) = c_ExitCode c"
  "c_Error (mark_restarting now o1 c) = c_Error c"
  "c_Status (mark_created c) = c_Status c"
  "c_Health (mark_created c) = c_Health c"
  "c_waiters (mark_created c) = c_waiters c"
  "c_nextWaiter (mark_created c) = c_nextWaiter c"
  "c_sent (mark_created c) = c_sent c"
  "c_removed (mark_created c) = c_removed c"
  "c_Running (mark_created c) = c_Running c"
  "c_Paused (mark_created c) = c_Paused c"
  "c_Restarting (mark_created c) = c_Restarting c"
  "c_Dead (mark_created c) = c_Dead c"
  "c_ExitCode (mark_created c) = c_ExitCode c"
  "c_Error (mark_created c) = c_Error c"
  by (simp_all add: mark_started_def mark_exited_def mark_restarting_def mark_created_def Let_def)

lemma patch_times_sel [simp]:
  "c_Status (fst (patch_times now o1 c pid)) = c_Status c"
  "c_Health (fst (patch_times now o1 c pid)) = c_Health c"
  "c_waiters (fst (patch_times now o1 c pid)) = c_waiters c"
  "c_nextWaiter (fst (patch_times now o1 c pid)) = c_nextWaiter c"
  "c_sent (fst (patch_times now o1 c pid)) = c_sent c"
  "c_removed (fst (patch_times now o1 c pid)) = c_removed c"
  "c_Running (fst (patch_times now o1 c pid)) = c_Running c"
  "c_Paused (fst (patch_times now o1 c pid)) = c_Paused c"
  "c_Restarting (fst (patch_times now o1 c pid)) = c_Restarting c"
  "c_Dead (fst (patch_times now o1 c pid)) = c_Dead c"
  "c_ExitCode (fst (patch_times now o1 c pid)) = c_ExitCode c"
  "c_Error (fst (patch_times now o1 c pid)) = c_Error c"
  by (simp_all add: patch_times_def case_prod_beta)

lemma patch_health_sel [simp]:
  "c_Status (patch_health now o1 c) = c_Status c"
  "c_Pid (patch_health now o1 c) = c_Pid c"
  "c_waiters (patch_health now o1 c) = c_waiters c"
  "c_nextWaiter (patch_health now o1 c) = c_nextWaiter c"
  "c_sent (patch_health now o1 c) = c_sent c"
  "c_removed (patch_health now o1 c) = c_removed c"
  "h_Status (c_Health (patch_health now o1 c)) = h_Status (c_Health c)"
  "c_Running (patch_health now o1 c) = c_Running c"
  "c_Paused (patch_health now o1 c) = c_Paused c"
  "c_Restarting (patch_health now o1 c) = c_Restarting c"
  "c_Dead (patch_health now o1 c) = c_Dead c"
  "c_ExitCode (patch_health now o1 c) = c_ExitCode c"
  "c_Error (patch_health now o1 c) = c_Error c"
  by (simp_all add: patch_health_def Let_def)

lemma canonical_set_flags:
  assumes "canonical_flags c = Ret c'"
  shows "canonical c'"
  using canonical_flags_sel [OF assms] by (simp add: canonical_iff set_flags_def)

lemma canonical_stages:
  "canonical (patch_notify r o1 c) = canonical c"
  "canonical (fst (patch_times now o2 c pid)) = canonical c"
  "canonical (patch_health now o3 c) = canonical c"
  by (simp_all add: canonical_iff)

text \<open>A patch as its stages; every later lemma on patches starts from this one.\<close>

lemma applyPatchLocked_stages:
  assumes "applyPatchLocked now p (c, pid) = Ret (c', pid')"
  obtains c1 where "canonical_flags (patch_fields p c) = Ret c1"
    and "c' = patch_health now (h_Status (c_Health c))
           (fst (patch_times now (c_Status c) (patch_notify (c_Running c) (c_Status c) c1) pid))"
    and "pid' = snd (patch_times now (c_Status c) (patch_notify (c_Running c) (c_Status c) c1) pid)"
  using assms by (auto simp: applyPatchLocked_def Let_def case_prod_beta split: go.splits)

lemma set_flags_sel [simp]:
  "c_Status (set_flags r p q d c) = c_Status c" "c_Pid (set_flags r p q d c) = c_Pid c"
  "c_Health (set_flags r p q d c) = c_Health c" "c_waiters (set_flags r p q d c) = c_waiters c"
  "c_nextWaiter (set_flags r p q d c) = c_nextWaiter c" "c_sent (set_flags r p q d c) = c_sent c"
  "c_removed (set_flags r p q d c) = c_removed c" "c_ExitCode (set_flags r p q d c) = c_ExitCode c"
  "c_Error (set_flags r p q d c) = c_Error c"
  by (simp_all add: set_flags_def)

lemma applyPatchLocked_status:
  assumes "applyPatchLocked now p (c, pid) = Ret (c', pid')"
  shows "c_Status c' = patched (p_Status p) (c_Status c)" and "canonical c'"
    and "h_Status (c_Health c') = patched (p_Health p) (h_Status (c_Health c))"
    and "c_ExitCode c' = patched (p_ExitCode p) (c_ExitCode c)"
    and "c_removed c' = c_removed c" and "c_nextWaiter c' = c_nextWaiter c"
proof -
  from assms obtain c1 where c1: "canonical_flags (patch_fields p c) = Ret c1"
    and c': "c' = patch_health now (h_Status (c_Health c))
           (fst (patch_times now (c_Status c) (patch_notify (c_Running c) (c_Status c) c1) pid))"
    by (rule applyPatchLocked_stages)
  from c1 show "canonical c'" by (simp add: c' canonical_stages canonical_set_flags)
  show "c_Status c' = patched (p_Status p) (c_Status c)"
    and "h_Status (c_Health c') = patched (p_Health p) (h_Status (c_Health c))"
    and "c_ExitCode c' = patched (p_ExitCode p) (c_ExitCode c)"
    and "c_removed c' = c_removed c" and "c_nextWaiter c' = c_nextWaiter c"
    by (simp_all add: c' canonical_flags_sel(1) [OF c1])
qed

lemma applyPatchLocked_returns:
  "returns (applyPatchLocked now p (c, pid)) \<longleftrightarrow> patched (p_Status p) (c_Status c) \<in> set lifecycle_statuses"
  using canonical_flags_returns [of "patch_fields p c"]
  by (auto simp: applyPatchLocked_def Let_def case_prod_beta returns_iff split: go.splits)

text \<open>The fields that no patch writes.\<close>

definition unpatched where
  "unpatched c = (c_Scenario c, c_RestartPolicy c, c_manuallyStopped c, c_automaticRestarts c, c_StartCount c, c_Counters c, 
     c_AppliedTransitions c, c_ID c, c_Name c, c_Kind c, c_KV c, c_Redis c, 
     c_PortBindings c, c_Labels c, c_Command c, c_PrimaryIP c, c_Spec c, c_Image c, c_Created c)"

lemma unpatched_stages:
  "unpatched (patch_fields p c) = unpatched c"
  "unpatched (set_flags r pa re d c) = unpatched c"
  "unpatched (patch_notify r o1 c) = unpatched c"
  "unpatched (patch_health now o1 c) = unpatched c"
  by (simp_all add: unpatched_def patch_fields_def set_flags_def patch_notify_def
      notifyWaitersLocked_def patch_health_def Let_def)

lemma unpatched_times: "unpatched (fst (patch_times now o1 c pid)) = unpatched c"
proof -
  have "unpatched (fst (mark_started now o1 (c, pid))) = unpatched c" for c pid
    by (simp add: unpatched_def mark_started_def Let_def)
  moreover have "unpatched (mark_exited now o1 c) = unpatched c" for c
    by (simp add: unpatched_def mark_exited_def)
  moreover have "unpatched (mark_restarting now o1 c) = unpatched c" for c
    by (simp add: unpatched_def mark_restarting_def)
  moreover have "unpatched (mark_created c) = unpatched c" for c
    by (simp add: unpatched_def mark_created_def)
  ultimately show ?thesis
    by (simp add: patch_times_def case_prod_beta)
qed

lemma applyPatchLocked_unpatched:
  assumes "applyPatchLocked now p (c, pid) = Ret (c', pid')"
  shows "unpatched c' = unpatched c"
  using assms
  by (auto elim!: applyPatchLocked_stages simp: unpatched_stages unpatched_times dest!: canonical_flags_sel(1))

lemma applyPatchLocked_frame:
  assumes "applyPatchLocked now p (c, pid) = Ret (c', pid')"
  shows "c_Scenario c' = c_Scenario c"
    and "c_RestartPolicy c' = c_RestartPolicy c"
    and "c_manuallyStopped c' = c_manuallyStopped c"
    and "c_automaticRestarts c' = c_automaticRestarts c"
    and "c_StartCount c' = c_StartCount c"
    and "c_Counters c' = c_Counters c"
    and "c_AppliedTransitions c' = c_AppliedTransitions c"
    and "c_ID c' = c_ID c"
    and "c_Name c' = c_Name c"
    and "c_Kind c' = c_Kind c"
    and "c_KV c' = c_KV c"
    and "c_Redis c' = c_Redis c"
    and "c_PortBindings c' = c_PortBindings c"
    and "c_Labels c' = c_Labels c"
    and "c_Command c' = c_Command c"
    and "c_PrimaryIP c' = c_PrimaryIP c"
    and "c_Spec c' = c_Spec c"
    and "c_Image c' = c_Image c"
    and "c_Created c' = c_Created c"
  using applyPatchLocked_unpatched [OF assms] by (simp_all add: unpatched_def)

section \<open>Invariants\<close>

text \<open>
  Only a container with a process has a PID. While the counter has not wrapped around, every
  process has one, and it comes from the counter.
\<close>

definition pids_left :: "int \<Rightarrow> bool" where
  "pids_left pid \<longleftrightarrow> pid \<le> maxInt64 - 1000"

definition pid_ok :: "Container \<times> int \<Rightarrow> bool" where
  "pid_ok = (\<lambda>(c, pid). 0 \<le> pid \<and> (c_Status c \<notin> {sRunning, sPaused} \<longrightarrow> c_Pid c = 0) \<and>
     (pids_left pid \<longrightarrow> 0 \<le> c_Pid c \<and> c_Pid c \<le> 1000 + pid \<and>
        (c_Status c \<in> {sRunning, sPaused} \<longrightarrow> c_Pid c \<noteq> 0)))"

lemma wrap64_next_pid: "wrap64 (1000 + wrap64 (pid + 1)) = wrap64 (1001 + pid)"
  by (simp add: wrap64_def algebra_simps mod_simps)

lemma fresh_pid: "0 \<le> pid \<Longrightarrow> pids_left (pid + 1) \<Longrightarrow> wrap64 (1001 + pid) = 1001 + pid \<and> pids_left pid"
  by (auto simp: pids_left_def wrap64_id minInt64_def)

lemma pids_left_mono: "pids_left pid' \<Longrightarrow> pid \<le> pid' \<Longrightarrow> pids_left pid"
  by (simp add: pids_left_def)

text \<open>
  A waiter gets at most one result: what was sent goes to distinct waiters, none of which is still
  registered; a removed container has no waiter left.
\<close>

definition waiters_ok :: "Container \<Rightarrow> bool" where
  "waiters_ok c \<longleftrightarrow> wf_map (c_waiters c) \<and> distinct (map fst (c_sent c)) \<and>
     set (map fst (c_sent c)) \<inter> set (mkeys (c_waiters c)) = {} \<and>
     (\<forall>w \<in> set (map fst (c_sent c)) \<union> set (mkeys (c_waiters c)). w < c_nextWaiter c) \<and>
     (c_removed c \<longrightarrow> c_waiters c = [])"

text \<open>A patch is safe when it sets one of the statuses that validation admits.\<close>

definition patch_safe :: "StatePatch \<Rightarrow> bool" where
  "patch_safe p \<longleftrightarrow> (case p_Status p of None \<Rightarrow> True | Some v \<Rightarrow> v \<in> set status_values)"

definition scenario_safe :: "Scenario \<Rightarrow> bool" where
  "scenario_safe sc \<longleftrightarrow> patch_safe (s_Initial sc) \<and> list_all (\<lambda>t. patch_safe (t_Set t)) (s_Transitions sc)"

definition lifecycle_inv :: "Container \<times> int \<Rightarrow> bool" where
  "lifecycle_inv s \<longleftrightarrow> canonical (fst s) \<and> pid_ok s \<and> waiters_ok (fst s) \<and>
     length (h_Log (c_Health (fst s))) \<le> 5 \<and> scenario_safe (c_Scenario (fst s))"

lemma patch_safe_status:
  "patch_safe p \<Longrightarrow> canonical c \<Longrightarrow>
     patched (p_Status p) (c_Status c) \<in> set lifecycle_statuses"
  by (auto simp: patch_safe_def canonical_iff status_values_def lifecycle_statuses_def
      split: option.splits)

lemma mark_pid:
  "c_Pid (fst (mark_started now o1 (c, pid))) =
     (if c_Status c = sRunning \<and> o1 \<noteq> sRunning \<and> c_Pid c = 0 then wrap64 (1001 + pid) else c_Pid c)"
  "snd (mark_started now o1 (c, pid)) =
     (if c_Status c = sRunning \<and> o1 \<noteq> sRunning \<and> c_Pid c = 0 then pid + 1 else pid)"
  "c_Pid (mark_exited now o1 c) =
     (if (c_Status c = sExited \<or> c_Status c = sDead) \<and> o1 \<noteq> c_Status c then 0 else c_Pid c)"
  "c_Pid (mark_restarting now o1 c) =
     (if c_Status c = sRestarting \<and> o1 \<noteq> sRestarting then 0 else c_Pid c)"
  "c_Pid (mark_created c) = (if c_Status c = sCreated then 0 else c_Pid c)"
  by (simp_all add: mark_started_def mark_exited_def mark_restarting_def mark_created_def wrap64_next_pid Let_def)

lemma patch_times_pid:
  "c_Pid (fst (patch_times now o1 c pid)) =
     (if c_Status c = sCreated \<or> c_Status c \<in> {sExited, sDead, sRestarting} \<and> o1 \<noteq> c_Status c then 0
      else if c_Status c = sRunning \<and> o1 \<noteq> sRunning \<and> c_Pid c = 0 then wrap64 (1001 + pid) else c_Pid c)"
  "snd (patch_times now o1 c pid) =
     (if c_Status c = sRunning \<and> o1 \<noteq> sRunning \<and> c_Pid c = 0 then pid + 1 else pid)"
  by (auto simp: patch_times_def case_prod_beta mark_pid)

lemma applyPatchLocked_pid:
  assumes "applyPatchLocked now p (c, pid) = Ret (c', pid')" and "pid_ok (c, pid)" and "patch_safe p"
  shows "pid_ok (c', pid')"
proof -
  from assms(1) obtain c1 where c1: "canonical_flags (patch_fields p c) = Ret c1"
    and c': "c' = patch_health now (h_Status (c_Health c))
           (fst (patch_times now (c_Status c) (patch_notify (c_Running c) (c_Status c) c1) pid))"
    and pid': "pid' = snd (patch_times now (c_Status c) (patch_notify (c_Running c) (c_Status c) c1) pid)"
    by (rule applyPatchLocked_stages)
  define c2 where "c2 = patch_notify (c_Running c) (c_Status c) c1"
  have st: "c_Status c2 = patched (p_Status p) (c_Status c)" and pd: "c_Pid c2 = c_Pid c"
    by (simp_all add: c2_def canonical_flags_sel(1) [OF c1])
  have "c_Status c2 \<in> set lifecycle_statuses"
    using canonical_flags_sel(2) [OF c1] st by simp
  moreover have "c_Status c2 = sPaused \<Longrightarrow> c_Status c = sPaused"
    using assms(3) st by (auto simp: patch_safe_def status_values_def split: option.splits)
  ultimately show ?thesis
    using assms(2) pd
    by (simp add: c' pid' pid_ok_def c2_def [symmetric] patch_times_pid lifecycle_statuses_def)
       (elim disjE; auto dest: fresh_pid)
qed

lemma waiters_ok_notify:
  assumes "waiters_ok c"
  shows "waiters_ok (notifyWaitersLocked r c)"
proof -
  have sub: "set (map fst (filter P (c_waiters c))) \<subseteq> set (mkeys (c_waiters c))" for P
    by (auto simp: mkeys_def)
  have "distinct (map fst (c_waiters c))"
    using assms by (simp add: waiters_ok_def wf_map_def mkeys_def)
  then have "distinct (map fst (filter P (c_waiters c)))" for P
    by (rule distinct_map_filter)
  moreover have "set (map fst (filter (notified r) (c_waiters c))) \<inter>
      set (map fst (filter (\<lambda>w. \<not> notified r w) (c_waiters c))) = {}"
    using \<open>distinct (map fst (c_waiters c))\<close> by (fastforce simp: distinct_map inj_on_def)
  ultimately show ?thesis
    using assms sub
    by (auto simp: waiters_ok_def notifyWaitersLocked_def wf_map_def mkeys_def comp_def)
qed

lemma waiters_ok_cong:
  "c_waiters c' = c_waiters c \<Longrightarrow> c_sent c' = c_sent c \<Longrightarrow> c_nextWaiter c' = c_nextWaiter c \<Longrightarrow>
   c_removed c' = c_removed c \<Longrightarrow> waiters_ok c' = waiters_ok c"
  by (simp add: waiters_ok_def)

text \<open>What a patch does to the waiters: all but those waiting for removal learn of an exit.\<close>

definition patch_exits :: "StatePatch \<Rightarrow> Container \<Rightarrow> bool" where
  "patch_exits p c \<longleftrightarrow> c_Running c \<and> patched (p_Status p) (c_Status c) \<noteq> c_Status c \<and>
     patched (p_Status p) (c_Status c) \<in> {sExited, sDead, sRestarting}"

lemma applyPatchLocked_waiters:
  assumes "applyPatchLocked now p (c, pid) = Ret (c', pid')"
  shows "c_waiters c' = (if patch_exits p c then filter (\<lambda>w. \<not> notified False w) (c_waiters c) else c_waiters c)"
    and "c_sent c' = (if patch_exits p c
      then c_sent c @ map (\<lambda>w. (fst w, waitResult c')) (filter (notified False) (c_waiters c)) else c_sent c)"
proof -
  from assms obtain c1 where c1: "canonical_flags (patch_fields p c) = Ret c1"
    and c': "c' = patch_health now (h_Status (c_Health c))
           (fst (patch_times now (c_Status c) (patch_notify (c_Running c) (c_Status c) c1) pid))"
    by (rule applyPatchLocked_stages)
  have w: "waitResult c' = waitResult c1" by (simp add: c' waitResult_def)
  show "c_waiters c' = (if patch_exits p c then filter (\<lambda>w. \<not> notified False w) (c_waiters c) else c_waiters c)"
    by (auto simp: c' patch_notify_def notifyWaitersLocked_def patch_exits_def canonical_flags_sel(1) [OF c1])
  show "c_sent c' = (if patch_exits p c
      then c_sent c @ map (\<lambda>w. (fst w, waitResult c')) (filter (notified False) (c_waiters c)) else c_sent c)"
    unfolding w
    by (auto simp: c' patch_notify_def notifyWaitersLocked_def patch_exits_def canonical_flags_sel(1) [OF c1])
qed

lemma applyPatchLocked_waiters_ok:
  assumes "applyPatchLocked now p (c, pid) = Ret (c', pid')" and "waiters_ok c"
  shows "waiters_ok c'"
proof -
  note eff = applyPatchLocked_waiters [OF assms(1)] applyPatchLocked_status(5,6) [OF assms(1)]
  show ?thesis
  proof (cases "patch_exits p c")
    case True
    have "waiters_ok (notifyWaitersLocked False c)"
      using assms(2) by (rule waiters_ok_notify)
    then show ?thesis
      using eff True by (simp add: waiters_ok_def notifyWaitersLocked_def comp_def)
  next
    case False
    with eff assms(2) show ?thesis by (simp cong: waiters_ok_cong add: waiters_ok_def)
  qed
qed

lemma applyPatchLocked_log:
  assumes "applyPatchLocked now p (c, pid) = Ret (c', pid')" and "length (h_Log (c_Health c)) \<le> 5"
  shows "length (h_Log (c_Health c')) \<le> 5"
  using assms(1)
proof (rule applyPatchLocked_stages)
  fix c1
  assume c1: "canonical_flags (patch_fields p c) = Ret c1"
    and c': "c' = patch_health now (h_Status (c_Health c))
           (fst (patch_times now (c_Status c) (patch_notify (c_Running c) (c_Status c) c1) pid))"
  show "length (h_Log (c_Health c')) \<le> 5"
    using assms(2) by (simp add: c' patch_health_def Let_def canonical_flags_sel(1) [OF c1])
qed

lemma applyPatchLocked_inv [inv_intros]:
  assumes "lifecycle_inv (c, pid)" and "patch_safe p"
    and "applyPatchLocked now p (c, pid) = Ret (c', pid')"
  shows "lifecycle_inv (c', pid')"
  using assms applyPatchLocked_status(2) applyPatchLocked_pid applyPatchLocked_waiters_ok
    applyPatchLocked_log applyPatchLocked_frame(1)
  by (fastforce simp: lifecycle_inv_def)

lemma applyPatchLocked_safe:
  "lifecycle_inv (c, pid) \<Longrightarrow> patch_safe p \<Longrightarrow> returns (applyPatchLocked now p (c, pid))"
  by (simp add: applyPatchLocked_returns lifecycle_inv_def patch_safe_status)

lemma lifecycle_inv_cong:
  assumes "c_Status c' = c_Status c" "c_Running c' = c_Running c" "c_Paused c' = c_Paused c"
    "c_Restarting c' = c_Restarting c" "c_Dead c' = c_Dead c" "c_Pid c' = c_Pid c"
    "c_waiters c' = c_waiters c" "c_sent c' = c_sent c" "c_nextWaiter c' = c_nextWaiter c"
    "c_removed c' = c_removed c" "c_Health c' = c_Health c" "c_Scenario c' = c_Scenario c"
  shows "lifecycle_inv (c', pid) = lifecycle_inv (c, pid)"
  using assms by (simp add: lifecycle_inv_def canonical_iff pid_ok_def waiters_ok_def)

section \<open>The container as a machine\<close>

text \<open>
  Every operation that changes a container, as the data of a run. \<open>exec_op\<close> drops what the
  operation returns and keeps the state.
\<close>

datatype container_op =
    OpStart gotime | OpStop gotime int | OpKill gotime | OpPause | OpUnpause | OpRestart gotime
  | OpAdvance gotime string | OpPatch gotime StatePatch
  | OpSubscribe string | OpCancel nat | OpRemoved
  | OpLog string | OpPrimaryIP string | OpPorts "(string, PortBinding list) gomap"
  | OpAssignPort string int int | OpResetPorts

fun exec_op :: "container_op \<Rightarrow> Container \<times> int \<Rightarrow> (Container \<times> int) go" where
  "exec_op (OpStart now) s = go_bind (start now s) (\<lambda>r. Ret (snd r))"
| "exec_op (OpStop now code) s = go_bind (stop now code s) (\<lambda>r. Ret (snd r))"
| "exec_op (OpKill now) s = go_bind (kill now s) (\<lambda>r. Ret (snd r))"
| "exec_op OpPause s = Ret (snd (pause (fst s)), snd s)"
| "exec_op OpUnpause s = Ret (snd (unpause (fst s)), snd s)"
| "exec_op (OpRestart now) s = go_bind (restart now s) (\<lambda>r. Ret (snd r))"
| "exec_op (OpAdvance now event) s = go_bind (advance now event s) (\<lambda>r. Ret (snd r))"
| "exec_op (OpPatch now patch) s = go_bind (applyPatch now patch s) (\<lambda>r. Ret (snd r))"
| "exec_op (OpSubscribe condition) s = Ret (snd (subscribeWait condition (fst s)), snd s)"
| "exec_op (OpCancel w) s = Ret (cancelWait w (fst s), snd s)"
| "exec_op OpRemoved s = Ret (markRemoved (fst s), snd s)"
| "exec_op (OpLog line) s = Ret (appendLog line (fst s), snd s)"
| "exec_op (OpPrimaryIP ip) s = Ret (setPrimaryIP ip (fst s), snd s)"
| "exec_op (OpPorts bindings) s = Ret (setPortBindings bindings (fst s), snd s)"
| "exec_op (OpAssignPort key index port) s = Ret (updateAssignedPort key index port (fst s), snd s)"
| "exec_op OpResetPorts s = Ret (resetEphemeralAssignedPorts (fst s), snd s)"

text \<open>Patches from outside the scenario come from scripted responses, which validation checks too.\<close>

fun op_safe :: "container_op \<Rightarrow> bool" where
  "op_safe (OpPatch now patch) = patch_safe patch"
| "op_safe x = True"

text \<open>Which transition a run of the loop fires: the first enabled one, or none.\<close>

lemma advance_loop_fires:
  assumes "advance_loop now event count i ts s = Ret (r, s')"
  shows "r = None \<and> s' = s \<and> (\<forall>k < length ts. \<not> transition_enabled event count (fst s) (i + k) (ts ! k)) \<or>
    (\<exists>k < length ts. r = Some (i + k) \<and> transition_enabled event count (fst s) (i + k) (ts ! k) \<and>
       (\<forall>j < k. \<not> transition_enabled event count (fst s) (i + j) (ts ! j)) \<and>
       fire_transition now (i + k) (ts ! k) s = Ret s')"
  using assms
proof (induction ts arbitrary: i)
  case (Cons t ts)
  show ?case
  proof (cases "transition_enabled event count (fst s) i t")
    case True
    with Cons.prems show ?thesis by auto
  next
    case False
    with Cons.prems have "advance_loop now event count (Suc i) ts s = Ret (r, s')" by simp
    from Cons.IH [OF this] False show ?thesis
      by (auto simp: less_Suc_eq_0_disj)
  qed
qed simp

lemma advance_loop_returns:
  assumes "\<And>t i. t \<in> set ts \<Longrightarrow> returns (fire_transition now i t s)"
  shows "returns (advance_loop now event count i ts s)"
  using assms by (induction ts arbitrary: i) (auto simp: returns_iff)

lemma patch_safe_zero [simp]:
  "p_Status p = None \<Longrightarrow> patch_safe p"
  by (simp add: patch_safe_def)

lemma patch_safe_set [simp]:
  "p_Status p = Some v \<Longrightarrow> patch_safe p = (v \<in> set status_values)"
  by (simp add: patch_safe_def)

lemma status_values_mem [simp]:
  "sCreated \<in> set status_values" "sRunning \<in> set status_values" "sRestarting \<in> set status_values"
  "sExited \<in> set status_values" "sDead \<in> set status_values" "sPaused \<notin> set status_values"
  by (simp_all add: status_values_def)

lemma startPatch_status [simp]:
  "p_Status (startPatch c) = Some (patched (p_Status (s_Initial (c_Scenario c))) sRunning)"
  by (simp add: startPatch_def Let_def)

lemma startPatch_safe: "scenario_safe (c_Scenario c) \<Longrightarrow> patch_safe (startPatch c)"
  by (auto simp: scenario_safe_def patch_safe_def patched_def split: option.splits)

text \<open>The operations that go through a patch, reduced to it.\<close>

lemma start_patch:
  assumes "start now (c, pid) = Ret (snaps, c', pid')"
  obtains c2 where "applyPatchLocked now (startPatch (c\<lparr>c_manuallyStopped := False, c_automaticRestarts := 0\<rparr>))
      (c\<lparr>c_manuallyStopped := False, c_automaticRestarts := 0\<rparr>, pid) = Ret (c2, pid')"
    and "c' = c2\<lparr>c_StartCount := wrap64 (c_StartCount c2 + 1),
      c_Logs := c_Logs c2 @ [start_log (c2\<lparr>c_StartCount := wrap64 (c_StartCount c2 + 1)\<rparr>)]\<rparr>"
    and "snaps = (stateSnapshot c, stateSnapshot c')"
  using assms by (auto simp: start_def Let_def)

lemma stop_patch:
  assumes "stop now code (c, pid) = Ret (snaps, c', pid')"
  shows "applyPatchLocked now (stopPatch code) (c\<lparr>c_manuallyStopped := True\<rparr>, pid) = Ret (c', pid')"
    and "snaps = (stateSnapshot c, stateSnapshot c')"
  using assms by (auto simp: stop_def)

lemma kill_patch:
  assumes "kill now (c, pid) = Ret (res, c', pid')"
  shows "c_Running c \<and> \<not> c_Dead c \<and> \<not> c_removed c \<Longrightarrow>
      applyPatchLocked now (zeroPatch\<lparr>p_Status := Some sExited, p_ExitCode := Some 137\<rparr>)
        (c\<lparr>c_manuallyStopped := True\<rparr>, pid) = Ret (c', pid') \<and> snd res = None"
    and "\<not> (c_Running c \<and> \<not> c_Dead c \<and> \<not> c_removed c) \<Longrightarrow>
      c' = c \<and> pid' = pid \<and> snd res = Some ''container is not running''"
  using assms by (auto simp: kill_def Let_def split: if_splits)

lemma restart_patch:
  assumes "restart now (c, pid) = Ret (snaps, c', pid')"
  shows "applyPatchLocked now restartPatch (c\<lparr>c_manuallyStopped := False, c_automaticRestarts := 0\<rparr>, pid)
    = Ret (c', pid')"
  using assms by (auto simp: restart_def)

lemma mget_or_increment:
  "mget_or 0 (increment m event) e = (if e = event then wrap64 (mget_or 0 m event + 1) else mget_or 0 m e)"
  by (simp add: increment_def)

lemma count_event_number:
  "mget_or 0 (c_Counters (count_event event c)) event = wrap64 (mget_or 0 (c_Counters c) event + 1)"
  by (auto simp: count_event_def Let_def mget_or_increment isDockerObserveEvent_def)

lemma advance_steps:
  assumes "advance now event (c, pid) = Ret (ea, c', pid')"
  obtains r where "advance_loop now event (wrap64 (mget_or 0 (c_Counters c) event + 1)) 0 (s_Transitions (c_Scenario c))
      (count_event event c, pid) = Ret (r, c', pid')"
    and "ea = \<lparr>ea_Count = wrap64 (mget_or 0 (c_Counters c) event + 1), ea_Before = stateSnapshot c,
      ea_After = stateSnapshot c',
      ea_Transition = (case r of None \<Rightarrow> [] | Some i \<Rightarrow> ''transition['' @ itoa (int i) @ '']'')\<rparr>"
proof -
  have "c_Scenario (count_event event c) = c_Scenario c" by (simp add: count_event_def Let_def)
  with assms that show thesis by (auto simp: advance_def Let_def count_event_number)
qed

text \<open>The invariant through each of them.\<close>

lemma lifecycle_inv_flags:
  "lifecycle_inv (c\<lparr>c_manuallyStopped := b, c_automaticRestarts := n\<rparr>, pid) = lifecycle_inv (c, pid)"
  "lifecycle_inv (c\<lparr>c_manuallyStopped := b\<rparr>, pid) = lifecycle_inv (c, pid)"
  "lifecycle_inv (c\<lparr>c_automaticRestarts := n\<rparr>, pid) = lifecycle_inv (c, pid)"
  "lifecycle_inv (c\<lparr>c_AppliedTransitions := a\<rparr>, pid) = lifecycle_inv (c, pid)"
  "lifecycle_inv (c\<lparr>c_StartCount := n, c_Logs := ls\<rparr>, pid) = lifecycle_inv (c, pid)"
  "lifecycle_inv (count_event event c, pid) = lifecycle_inv (c, pid)"
  by (rule lifecycle_inv_cong; simp add: count_event_def Let_def)+

lemma lifecycle_inv_scenario: "lifecycle_inv (c, pid) \<Longrightarrow> scenario_safe (c_Scenario c)"
  by (simp add: lifecycle_inv_def)

lemma start_inv [inv_intros]:
  assumes "lifecycle_inv (c, pid)" and "start now (c, pid) = Ret (snaps, c', pid')"
  shows "lifecycle_inv (c', pid')"
  using assms(2)
proof (rule start_patch)
  let ?c = "c\<lparr>c_manuallyStopped := False, c_automaticRestarts := 0\<rparr>"
  fix c2
  assume "applyPatchLocked now (startPatch ?c) (?c, pid) = Ret (c2, pid')"
    and c': "c' = c2\<lparr>c_StartCount := wrap64 (c_StartCount c2 + 1),
      c_Logs := c_Logs c2 @ [start_log (c2\<lparr>c_StartCount := wrap64 (c_StartCount c2 + 1)\<rparr>)]\<rparr>"
  moreover have "patch_safe (startPatch ?c)"
    using lifecycle_inv_scenario [OF assms(1)] by (intro startPatch_safe) simp
  moreover have "lifecycle_inv (?c, pid)"
    using assms(1) by (simp only: lifecycle_inv_flags)
  ultimately have "lifecycle_inv (c2, pid')" by (blast intro: applyPatchLocked_inv)
  then show ?thesis by (simp add: c' lifecycle_inv_flags)
qed

lemma stop_inv [inv_intros]:
  assumes "lifecycle_inv (c, pid)" and "stop now code (c, pid) = Ret (snaps, c', pid')"
  shows "lifecycle_inv (c', pid')"
  by (rule applyPatchLocked_inv [OF _ _ stop_patch(1) [OF assms(2)]])
     (simp_all add: lifecycle_inv_flags assms(1) stopPatch_def)

lemma kill_inv [inv_intros]:
  assumes "lifecycle_inv (c, pid)" and "kill now (c, pid) = Ret (res, c', pid')"
  shows "lifecycle_inv (c', pid')"
proof (cases "c_Running c \<and> \<not> c_Dead c \<and> \<not> c_removed c")
  case True
  show ?thesis
    by (rule applyPatchLocked_inv [OF _ _ kill_patch(1) [OF assms(2) True, THEN conjunct1]])
       (simp_all add: lifecycle_inv_flags assms(1))
qed (use kill_patch(2) [OF assms(2)] assms(1) in simp)

lemma restart_inv [inv_intros]:
  assumes "lifecycle_inv (c, pid)" and "restart now (c, pid) = Ret (snaps, c', pid')"
  shows "lifecycle_inv (c', pid')"
  by (rule applyPatchLocked_inv [OF _ _ restart_patch [OF assms(2)]])
     (simp_all add: lifecycle_inv_flags assms(1) restartPatch_def)

lemma fire_patch:
  assumes "fire_transition now i t (c, pid) = Ret (c', pid')"
  obtains c2 where "applyPatchLocked now (t_Set t)
      (if transitionRestartsStopped (c_Status c) (t_Set t)
       then c\<lparr>c_automaticRestarts := wrap64 (c_automaticRestarts c + 1)\<rparr> else c, pid) = Ret (c2, pid')"
    and "c' = (if t_Once t then c2\<lparr>c_AppliedTransitions := mput (c_AppliedTransitions c2) i True\<rparr> else c2)"
  using assms by (auto simp: fire_transition_def Let_def)

lemma fire_transition_inv [inv_intros]:
  assumes "lifecycle_inv (c, pid)" and "patch_safe (t_Set t)"
    and "fire_transition now i t (c, pid) = Ret (c', pid')"
  shows "lifecycle_inv (c', pid')"
  using assms(3)
proof (rule fire_patch)
  let ?c = "if transitionRestartsStopped (c_Status c) (t_Set t)
       then c\<lparr>c_automaticRestarts := wrap64 (c_automaticRestarts c + 1)\<rparr> else c"
  fix c2
  assume ap: "applyPatchLocked now (t_Set t) (?c, pid) = Ret (c2, pid')"
    and c': "c' = (if t_Once t then c2\<lparr>c_AppliedTransitions := mput (c_AppliedTransitions c2) i True\<rparr> else c2)"
  have "lifecycle_inv (?c, pid)" using assms(1) by (simp add: lifecycle_inv_flags)
  then have "lifecycle_inv (c2, pid')" using assms(2) ap by (rule applyPatchLocked_inv)
  then show ?thesis by (simp add: c' lifecycle_inv_flags)
qed

lemma scenario_safe_nth:
  "scenario_safe sc \<Longrightarrow> k < length (s_Transitions sc) \<Longrightarrow> patch_safe (t_Set (s_Transitions sc ! k))"
  by (simp add: scenario_safe_def list_all_length)

lemma advance_inv [inv_intros]:
  assumes "lifecycle_inv (c, pid)" and "advance now event (c, pid) = Ret (ea, c', pid')"
  shows "lifecycle_inv (c', pid')"
  using assms(2)
proof (rule advance_steps)
  fix r
  assume "advance_loop now event (wrap64 (mget_or 0 (c_Counters c) event + 1)) 0 (s_Transitions (c_Scenario c))
    (count_event event c, pid) = Ret (r, c', pid')"
  from advance_loop_fires [OF this] consider "(c', pid') = (count_event event c, pid)"
    | k where "k < length (s_Transitions (c_Scenario c))"
      "fire_transition now k (s_Transitions (c_Scenario c) ! k) (count_event event c, pid) = Ret (c', pid')"
    by auto
  then show ?thesis
  proof cases
    case 1
    with assms(1) show ?thesis by (simp add: lifecycle_inv_flags)
  next
    case 2
    have "lifecycle_inv (count_event event c, pid)" using assms(1) by (simp add: lifecycle_inv_flags)
    then show ?thesis
      using scenario_safe_nth [OF lifecycle_inv_scenario [OF assms(1)] 2(1)] 2(2)
      by (rule fire_transition_inv)
  qed
qed

lemma pause_inv [inv_intros]:
  assumes "lifecycle_inv (c, pid)"
  shows "lifecycle_inv (snd (pause c), pid)"
proof (cases "c_Running c \<and> \<not> c_Restarting c \<and> \<not> c_Dead c \<and> \<not> c_Paused c")
  case True
  then have "c_Status c = sRunning" using assms by (auto simp: lifecycle_inv_def canonical_iff)
  with True assms show ?thesis
    by (simp add: lifecycle_inv_def pause_def canonical_iff pid_ok_def waiters_ok_def lifecycle_statuses_def Let_def)
next
  case False
  then have "snd (pause c) = c" by (auto simp: pause_def Let_def)
  with assms show ?thesis by simp
qed

lemma unpause_inv [inv_intros]:
  assumes "lifecycle_inv (c, pid)"
  shows "lifecycle_inv (snd (unpause c), pid)"
proof (cases "c_Paused c")
  case True
  then have "c_Status c = sPaused" using assms by (simp add: lifecycle_inv_def canonical_iff)
  with True assms show ?thesis
    by (simp add: lifecycle_inv_def unpause_def canonical_iff pid_ok_def waiters_ok_def lifecycle_statuses_def Let_def)
next
  case False
  with assms show ?thesis by (simp add: unpause_def Let_def)
qed

lemma waiters_ok_subscribe:
  assumes "waiters_ok c"
  shows "waiters_ok (snd (subscribeWait condition c))"
proof -
  let ?w = "c_nextWaiter c"
  from assms have fresh: "?w \<notin> set (mkeys (c_waiters c))" "?w \<notin> set (map fst (c_sent c))"
    by (auto simp: waiters_ok_def)
  show ?thesis
  proof (cases "c_removed c \<or> condition = ''not-running'' \<and> \<not> c_Running c")
    case True
    then have "snd (subscribeWait condition c) =
        c\<lparr>c_nextWaiter := Suc ?w, c_sent := c_sent c @ [(?w, waitResult c)]\<rparr>"
      by (simp add: subscribeWait_def Let_def)
    with assms fresh show ?thesis by (simp add: waiters_ok_def less_Suc_eq)
  next
    case False
    then have "snd (subscribeWait condition c) =
        c\<lparr>c_nextWaiter := Suc ?w, c_waiters := mput (c_waiters c) ?w condition\<rparr>"
      by (auto simp: subscribeWait_def Let_def)
    with assms fresh False show ?thesis
      by (simp add: waiters_ok_def mkeys_mput less_Suc_eq)
  qed
qed

lemma waiters_ok_cancel: "waiters_ok c \<Longrightarrow> waiters_ok (cancelWait w c)"
  by (auto simp: waiters_ok_def cancelWait_def set_mkeys split: if_splits)

lemma waiters_ok_removed: "waiters_ok c \<Longrightarrow> waiters_ok (markRemoved c)"
  using waiters_ok_notify [of c True]
  by (auto simp: waiters_ok_def markRemoved_def notifyWaitersLocked_def notified_def comp_def waitResult_def)

lemma wait_ops_inv [inv_intros]:
  "lifecycle_inv (c, pid) \<Longrightarrow> lifecycle_inv (snd (subscribeWait condition c), pid)"
  "lifecycle_inv (c, pid) \<Longrightarrow> lifecycle_inv (cancelWait w c, pid)"
  "lifecycle_inv (c, pid) \<Longrightarrow> lifecycle_inv (markRemoved c, pid)"
  using waiters_ok_subscribe [of c condition] waiters_ok_cancel [of c w] waiters_ok_removed [of c]
  by (auto simp: lifecycle_inv_def canonical_iff pid_ok_def subscribeWait_def cancelWait_def
      markRemoved_def notifyWaitersLocked_def Let_def split: if_splits)

lemma plain_ops_inv [inv_intros]:
  "lifecycle_inv (c, pid) \<Longrightarrow> lifecycle_inv (appendLog line c, pid)"
  "lifecycle_inv (c, pid) \<Longrightarrow> lifecycle_inv (setPrimaryIP ip c, pid)"
  "lifecycle_inv (c, pid) \<Longrightarrow> lifecycle_inv (setPortBindings bindings c, pid)"
  "lifecycle_inv (c, pid) \<Longrightarrow> lifecycle_inv (updateAssignedPort key index port c, pid)"
  "lifecycle_inv (c, pid) \<Longrightarrow> lifecycle_inv (resetEphemeralAssignedPorts c, pid)"
  by (subst lifecycle_inv_cong; simp add: appendLog_def setPrimaryIP_def setPortBindings_def
      updateAssignedPort_def resetEphemeralAssignedPorts_def Let_def)+

text \<open>No admitted operation panics.\<close>

lemma fire_transition_safe:
  assumes "lifecycle_inv (c, pid)" and "patch_safe (t_Set t)"
  shows "returns (fire_transition now i t (c, pid))"
proof -
  let ?c = "if transitionRestartsStopped (c_Status c) (t_Set t)
       then c\<lparr>c_automaticRestarts := wrap64 (c_automaticRestarts c + 1)\<rparr> else c"
  have "lifecycle_inv (?c, pid)" using assms(1) by (simp add: lifecycle_inv_flags)
  from applyPatchLocked_safe [OF this assms(2), of now] show ?thesis
    by (auto simp: fire_transition_def Let_def returns_iff)
qed

lemma start_safe: "lifecycle_inv (c, pid) \<Longrightarrow> returns (start now (c, pid))"
proof -
  assume inv: "lifecycle_inv (c, pid)"
  let ?c = "c\<lparr>c_manuallyStopped := False, c_automaticRestarts := 0\<rparr>"
  have "lifecycle_inv (?c, pid)" using inv by (simp only: lifecycle_inv_flags)
  moreover have "patch_safe (startPatch ?c)"
    using lifecycle_inv_scenario [OF inv] by (intro startPatch_safe) simp
  ultimately have "returns (applyPatchLocked now (startPatch ?c) (?c, pid))"
    by (rule applyPatchLocked_safe)
  then show ?thesis by (auto simp: start_def Let_def returns_iff)
qed

lemma patch_ops_safe:
  assumes "lifecycle_inv (c, pid)"
  shows "returns (stop now code (c, pid))" and "returns (kill now (c, pid))"
    and "returns (restart now (c, pid))"
proof -
  have inv: "lifecycle_inv (c\<lparr>c_manuallyStopped := b\<rparr>, pid)"
    "lifecycle_inv (c\<lparr>c_manuallyStopped := b, c_automaticRestarts := n\<rparr>, pid)" for b n
    using assms by (simp_all only: lifecycle_inv_flags)
  show "returns (stop now code (c, pid))"
    using applyPatchLocked_safe [OF inv(1) [of True], of "stopPatch code" now]
    by (auto simp: stop_def stopPatch_def returns_iff)
  show "returns (kill now (c, pid))"
    using applyPatchLocked_safe [OF inv(1) [of True],
        of "zeroPatch\<lparr>p_Status := Some sExited, p_ExitCode := Some 137\<rparr>" now]
    by (auto simp: kill_def Let_def returns_iff)
  show "returns (restart now (c, pid))"
    using applyPatchLocked_safe [OF inv(2) [where b = False and n = 0], of restartPatch now]
    by (auto simp: restart_def restartPatch_def returns_iff)
qed

lemma advance_safe:
  assumes "lifecycle_inv (c, pid)"
  shows "returns (advance now event (c, pid))"
proof -
  have inv: "lifecycle_inv (count_event event c, pid)"
    using assms by (simp only: lifecycle_inv_flags)
  have "returns (advance_loop now event n 0 (s_Transitions (c_Scenario c)) (count_event event c, pid))" for n
    using lifecycle_inv_scenario [OF assms]
    by (intro advance_loop_returns fire_transition_safe [OF inv]) (simp add: scenario_safe_def list_all_iff)
  then obtain r c' pid' where "advance_loop now event (wrap64 (mget_or 0 (c_Counters c) event + 1)) 0
      (s_Transitions (c_Scenario c)) (count_event event c, pid) = Ret (r, c', pid')"
    by (metis returns_iff prod_cases3)
  moreover have "c_Scenario (count_event event c) = c_Scenario c" by (simp add: count_event_def Let_def)
  ultimately show ?thesis by (simp add: advance_def Let_def count_event_number)
qed

lemma exec_op_keeps:
  assumes "lifecycle_inv (c, pid)" and "op_safe x" and "exec_op x (c, pid) = Ret (c', pid')"
  shows "lifecycle_inv (c', pid')"
  using assms
  by (cases x) (auto simp: applyPatch_def intro: inv_intros)

lemma exec_op_returns:
  assumes "lifecycle_inv (c, pid)" and "op_safe x"
  shows "returns (exec_op x (c, pid))"
  using assms start_safe [OF assms(1)] patch_ops_safe [OF assms(1)] advance_safe [OF assms(1)]
    applyPatchLocked_safe [OF assms(1)]
  by (cases x) (fastforce simp: applyPatch_def returns_iff)+

interpretation container: invariant_machine exec_op lifecycle_inv op_safe
proof
  fix s s' :: "Container \<times> int" and x
  assume "lifecycle_inv s" "op_safe x"
  then show "returns (exec_op x s)" by (cases s) (simp add: exec_op_returns)
  assume "exec_op x s = Ret s'"
  with \<open>lifecycle_inv s\<close> \<open>op_safe x\<close> show "lifecycle_inv s'"
    by (cases s; cases s') (simp add: exec_op_keeps)
qed

end
