(* ===== verification/Engine_Monad.thy ===== *)
theory Engine_Monad
  imports Engine_State Container_Lifecycle
begin

text \<open>
  The engine's operations as state transformers that may panic. The primitives are the ones the source
  has: a reading of the clock, an entry for the ledger, and an operation of a container through its
  pointer, which also moves the PID counter. An operation through the pointer of a container that the
  engine does not hold is a panic here; the operations are shown not to do it.
\<close>

type_synonym 'a em = "Engine \<Rightarrow> ('a \<times> Engine) go"

definition ereturn :: "'a \<Rightarrow> 'a em" where
  "ereturn x = (\<lambda>e. Ret (x, e))"

definition ebind :: "'a em \<Rightarrow> ('a \<Rightarrow> 'b em) \<Rightarrow> 'b em" where
  "ebind m f = (\<lambda>e. go_bind (m e) (\<lambda>(x, e'). f x e'))"

definition ethen :: "'a em \<Rightarrow> 'b em \<Rightarrow> 'b em" where
  "ethen m k = ebind m (\<lambda>_. k)"

definition eread :: "(Engine \<Rightarrow> 'a) \<Rightarrow> 'a em" where
  "eread f = (\<lambda>e. Ret (f e, e))"

definition elift :: "(Engine \<Rightarrow> 'a \<times> Engine) \<Rightarrow> 'a em" where
  "elift f = (\<lambda>e. Ret (f e))"

definition emodify :: "(Engine \<Rightarrow> Engine) \<Rightarrow> unit em" where
  "emodify f = (\<lambda>e. Ret ((), f e))"

fun eforeach :: "('a \<Rightarrow> unit em) \<Rightarrow> 'a list \<Rightarrow> unit em" where
  "eforeach f [] = ereturn ()"
| "eforeach f (x # xs) = ethen (f x) (eforeach f xs)"

fun emap :: "('a \<Rightarrow> 'b em) \<Rightarrow> 'a list \<Rightarrow> 'b list em" where
  "emap f [] = ereturn []"
| "emap f (x # xs) = ebind (f x) (\<lambda>y. ebind (emap f xs) (\<lambda>ys. ereturn (y # ys)))"

text \<open>A question to the operating system.\<close>

definition eask :: "(Env \<Rightarrow> nat \<Rightarrow> 'a) \<Rightarrow> 'a em" where
  "eask f = (\<lambda>e. Ret (f (e_env e) (e_tick e), e\<lparr>e_tick := Suc (e_tick e)\<rparr>))"

definition enow :: "gotime em" where
  "enow = eask env_now"

definition elog :: "LedgerEntry \<Rightarrow> unit em" where
  "elog entry = ebind enow (\<lambda>now. emodify (log_engine now entry))"

section \<open>Containers\<close>

definition container_do ::
  "string \<Rightarrow> (Container \<times> int \<Rightarrow> ('a \<times> Container \<times> int) go) \<Rightarrow> 'a em" where
  "container_do cid op = (\<lambda>e.
     case mget (e_containers e) cid of
       None \<Rightarrow> Panic ''invalid memory address or nil pointer dereference''
     | Some c \<Rightarrow> go_bind (op (c, e_pid e)) (\<lambda>(r, c', pid'). Ret (r, (set_container c' e)\<lparr>e_pid := pid'\<rparr>)))"

definition container_get :: "string \<Rightarrow> (Container \<Rightarrow> 'a) \<Rightarrow> 'a em" where
  "container_get cid f = container_do cid (\<lambda>(c, pid). Ret (f c, c, pid))"

definition container_set :: "string \<Rightarrow> (Container \<Rightarrow> Container) \<Rightarrow> unit em" where
  "container_set cid f = container_do cid (\<lambda>(c, pid). Ret ((), f c, pid))"

text \<open>An operation that neither reads the clock nor starts a process.\<close>

definition of_pure :: "(Container \<Rightarrow> 'a \<times> Container) \<Rightarrow> Container \<times> int \<Rightarrow> ('a \<times> Container \<times> int) go" where
  "of_pure f = (\<lambda>(c, pid). Ret (fst (f c), snd (f c), pid))"

text \<open>An operation that reads the clock once.\<close>

definition container_at ::
  "string \<Rightarrow> (gotime \<Rightarrow> Container \<times> int \<Rightarrow> ('a \<times> Container \<times> int) go) \<Rightarrow> 'a em" where
  "container_at cid op = ebind enow (\<lambda>now. container_do cid (op now))"

text \<open>An entry about a container names it, its kind and its scenario.\<close>

definition container_entry :: "Container \<Rightarrow> LedgerEntry" where
  "container_entry c = zeroEntry\<lparr>le_Container := c_Name c, le_Kind := c_Kind c, le_Scenario := c_Seed c\<rparr>"

definition elog_container :: "string \<Rightarrow> (LedgerEntry \<Rightarrow> LedgerEntry) \<Rightarrow> unit em" where
  "elog_container cid f = ebind (container_get cid container_entry) (\<lambda>entry. elog (f entry))"

definition logContainerEvent :: "string \<Rightarrow> string \<Rightarrow> eventAdvance \<Rightarrow> json \<Rightarrow> json \<Rightarrow> unit em" where
  "logContainerEvent cid event adv request response =
     elog_container cid (\<lambda>entry. entry\<lparr>le_Channel := ''docker'', le_Event := event, le_Count := ea_Count adv,
       le_Request := request, le_Response := response, le_Transition := ea_Transition adv,
       le_Before := Some (ea_Before adv), le_After := Some (ea_After adv)\<rparr>)"

section \<open>Reasoning\<close>

text \<open>
  \<open>keeps P m Q\<close>: from a state with \<open>P\<close> the operation returns, in a state with \<open>P\<close> and
  a result with \<open>Q\<close>.
\<close>

definition keeps :: "(Engine \<Rightarrow> bool) \<Rightarrow> 'a em \<Rightarrow> ('a \<Rightarrow> bool) \<Rightarrow> bool" where
  "keeps P m Q \<longleftrightarrow> (\<forall>e. P e \<longrightarrow> (\<exists>x e'. m e = Ret (x, e') \<and> P e' \<and> Q x))"

abbreviation always :: "'a \<Rightarrow> bool" where
  "always \<equiv> (\<lambda>_. True)"

named_theorems keeps_intros \<open>operations that return and keep the engine's invariant\<close>

lemma keepsI: "(\<And>e. P e \<Longrightarrow> \<exists>x e'. m e = Ret (x, e') \<and> P e' \<and> Q x) \<Longrightarrow> keeps P m Q"
  by (simp add: keeps_def)

lemma keepsD: "keeps P m Q \<Longrightarrow> P e \<Longrightarrow> \<exists>x e'. m e = Ret (x, e') \<and> P e' \<and> Q x"
  by (simp add: keeps_def)

lemma keepsE:
  assumes "keeps P m Q" and "P e"
  obtains x e' where "m e = Ret (x, e')" and "P e'" and "Q x"
  using assms by (auto simp: keeps_def)

lemma keeps_weaken: "keeps P m Q \<Longrightarrow> (\<And>x. Q x \<Longrightarrow> R x) \<Longrightarrow> keeps P m R"
  by (auto simp: keeps_def)

lemma keeps_ebind:
  assumes "keeps P m Q" and "\<And>x. Q x \<Longrightarrow> keeps P (f x) R"
  shows "keeps P (ebind m f) R"
  using assms by (fastforce simp: keeps_def ebind_def)

lemma keeps_ereturn: "Q x \<Longrightarrow> keeps P (ereturn x) Q"
  by (simp add: keeps_def ereturn_def)

lemma keeps_ethen: "keeps P m Q \<Longrightarrow> keeps P k R \<Longrightarrow> keeps P (ethen m k) R"
  unfolding ethen_def by (rule keeps_ebind)

lemma keeps_eread: "(\<And>e. P e \<Longrightarrow> Q (f e)) \<Longrightarrow> keeps P (eread f) Q"
  by (simp add: keeps_def eread_def)

lemma keeps_emodify: "(\<And>e. P e \<Longrightarrow> P (f e)) \<Longrightarrow> keeps P (emodify f) always"
  by (simp add: keeps_def emodify_def)

lemma keeps_elift: "(\<And>e. P e \<Longrightarrow> P (snd (f e)) \<and> Q (fst (f e))) \<Longrightarrow> keeps P (elift f) Q"
  by (simp add: keeps_def elift_def) (metis prod.collapse)

lemma keeps_eforeach: "(\<And>x. x \<in> set xs \<Longrightarrow> keeps P (f x) always) \<Longrightarrow> keeps P (eforeach f xs) always"
  by (induction xs) (auto intro: keeps_ereturn keeps_ethen)

lemma keeps_emap: "(\<And>x. x \<in> set xs \<Longrightarrow> keeps P (f x) always) \<Longrightarrow> keeps P (emap f xs) always"
proof (induction xs)
  case (Cons x xs)
  show ?case
    unfolding emap.simps
    by (rule keeps_ebind [OF Cons.prems], simp, rule keeps_ebind [OF Cons.IH], simp add: Cons.prems, rule keeps_ereturn, simp)
qed (simp add: keeps_ereturn)

lemma ebind_simps [simp]:
  "ebind (ereturn x) f = f x"
  "ethen (ereturn x) k = k"
  by (simp_all add: ebind_def ereturn_def ethen_def)

lemma ebind_Ret: "m e = Ret (x, e') \<Longrightarrow> ebind m f e = f x e'"
  by (simp add: ebind_def)

lemma ethen_Ret: "m e = Ret (x, e') \<Longrightarrow> ethen m k e = k e'"
  by (simp add: ethen_def ebind_def)

lemma ebind_eq_Ret:
  "ebind m f e = Ret (y, e'') \<longleftrightarrow> (\<exists>x e'. m e = Ret (x, e') \<and> f x e' = Ret (y, e''))"
  by (auto simp: ebind_def)

lemma ethen_eq_Ret:
  "ethen m k e = Ret (y, e'') \<longleftrightarrow> (\<exists>x e'. m e = Ret (x, e') \<and> k e' = Ret (y, e''))"
  by (simp add: ethen_def ebind_eq_Ret)

lemmas em_defs = ereturn_def eread_def elift_def emodify_def eask_def

end
