(* ===== verification/Engine_Lookup.thy ===== *)
theory Engine_Lookup
  imports Engine_Monad
begin

text \<open>
  Names and lookups of the engine (\<^verbatim>\<open>engine_core.go\<close>): a container is found by its name, its ID or a
  prefix of its ID that no other container shares. Iteration over a map is iteration in the order of
  the association list; sorting is by creation time.
\<close>

definition validateContainerName :: "string \<Rightarrow> string option" where
  "validateContainerName name =
     (if length name > 255 then
        Some (''invalid container name '' @ quote name @ '': maximum length is 255 bytes'')
      else case name of
             [] \<Rightarrow> None
           | r # rs \<Rightarrow>
               if \<not> is_alnum r then
                 Some (''invalid container name '' @ quote name @ '': first character must be ASCII alphanumeric'')
               else check (list_ex (\<lambda>r. \<not> is_alnum r \<and> r \<noteq> CHR ''_'' \<and> r \<noteq> CHR ''.'' \<and> r \<noteq> CHR ''-'') rs)
                 (''invalid container name '' @ quote name @
                  '': allowed characters are ASCII letters, digits, underscore, period, and hyphen''))"

definition container_ref :: "string \<Rightarrow> string" where
  "container_ref ref = trim_prefix (trim_space ref) ''/''"

definition findContainer :: "string \<Rightarrow> Engine \<Rightarrow> string + string" where
  "findContainer ref0 e =
     (let ref = container_ref ref0 in
      case mget (e_names e) ref of
        Some cid \<Rightarrow> Inr cid
      | None \<Rightarrow>
          if mmem (e_containers e) ref then Inr ref
          else (case filter (\<lambda>cid. has_prefix cid ref) (mkeys (e_containers e)) of
                  [] \<Rightarrow> Inl (''no such container: '' @ ref)
                | [cid] \<Rightarrow> Inr cid
                | _ \<Rightarrow> Inl (''ambiguous container reference '' @ quote ref)))"

definition findContainerByKind :: "string \<Rightarrow> Engine \<Rightarrow> string + string" where
  "findContainerByKind kind e =
     (case sort_key c_Created (filter (\<lambda>c. c_Kind c = kind) (mvals (e_containers e))) of
        [] \<Rightarrow> Inl (''no '' @ kind @ '' container exists'')
      | c # cs \<Rightarrow> (case find isRunning (c # cs) of Some r \<Rightarrow> Inr (c_ID r) | None \<Rightarrow> Inr (c_ID c)))"

definition listContainers :: "bool \<Rightarrow> Engine \<Rightarrow> Container list" where
  "listContainers all e = sort_key c_Created (filter (\<lambda>c. all \<or> isRunning c) (mvals (e_containers e)))"

definition snapshots :: "Engine \<Rightarrow> ContainerSnapshot list" where
  "snapshots e = map snapshot (listContainers True e)"

section \<open>Names\<close>

definition name_char :: "char \<Rightarrow> bool" where
  "name_char r \<longleftrightarrow> is_alnum r \<or> r \<in> {CHR ''_'', CHR ''.'', CHR ''-''}"

lemma validateContainerName_iff:
  "validateContainerName name = None \<longleftrightarrow>
     length name \<le> 255 \<and> (name \<noteq> [] \<longrightarrow> is_alnum (hd name)) \<and> list_all name_char name"
  by (cases name)
     (auto simp: validateContainerName_def name_char_def list_ex_iff list_all_iff)

lemma name_char_plain: "name_char r \<Longrightarrow> \<not> is_space r \<and> r \<noteq> CHR ''/'' \<and> r \<noteq> NUL"
  by (auto simp: name_char_def is_alnum_def is_digit_def is_upper_def is_lower_def is_space_def)

lemma container_ref_name: "validateContainerName name = None \<Longrightarrow> container_ref name = name"
proof -
  assume "validateContainerName name = None"
  then have "list_all name_char name" by (simp add: validateContainerName_iff)
  then have "list_all (\<lambda>r. \<not> is_space r) name" "\<forall>r\<in>set name. r \<noteq> CHR ''/''"
    by (auto simp: list_all_iff dest: name_char_plain)
  then show ?thesis
    by (cases name) (simp_all add: container_ref_def all_non_space_trim trim_prefix_def)
qed

end
