(* ===== verification/Engine_Network.thy ===== *)
theory Engine_Network
  imports Engine_State
begin

text \<open>
  Networks, addresses and names (\<^verbatim>\<open>engine_network.go\<close>): a container is attached to networks through
  endpoints with an address of the network's /24; the DNS of a container answers from the networks it
  has joined.
\<close>

section \<open>Addresses\<close>

definition isDefaultNetworkMode :: "string \<Rightarrow> bool" where
  "isDefaultNetworkMode m \<longleftrightarrow>
     trim_space m = [] \<or> trim_space m = ''default'' \<or> trim_space m = ''bridge''"

definition endpointIPv4 :: "Endpoint \<Rightarrow> string" where
  "endpointIPv4 ep =
     (let value = ep_IPv4Address ep in
      if value = [] then []
      else case ParseCIDR_ip value of
             Some ip \<Rightarrow> ip_string ip
           | None \<Rightarrow> hd (split2_on (CHR ''/'') value))"

text \<open>The last field of the addresses other containers have.\<close>

definition host_of :: "Endpoint \<Rightarrow> int option" where
  "host_of ep =
     (let ip = endpointIPv4 ep; parts = split_on (CHR ''.'') ip in
      if ip = [] \<or> length parts \<noteq> 4 then None
      else let (host, ok) = atoi (parts ! 3) in if ok then Some host else None)"

definition usedHosts :: "Network \<Rightarrow> string \<Rightarrow> int option list" where
  "usedHosts n cid = map (\<lambda>(cid', ep). host_of ep) (filter (\<lambda>(cid', ep). cid' \<noteq> cid) (n_Containers n))"

definition network_prefix :: "Network \<Rightarrow> string" where
  "network_prefix n = (if n_Index n = 0 then ''127.19.0.'' else ''127.20.'' @ itoa (n_Index n) @ ''.'')"

definition candidateHosts :: "int list" where
  "candidateHosts = [2..254]"

definition planNetworkIPLocked :: "Network \<Rightarrow> string \<Rightarrow> string + string \<times> int" where
  "planNetworkIPLocked n cid =
     (let existing = (case mget (n_Containers n) cid of Some ep \<Rightarrow> endpointIPv4 ep | None \<Rightarrow> []) in
      if existing \<noteq> [] then Inr (existing, n_NextHost n)
      else case find (\<lambda>host. Some host \<notin> set (usedHosts n cid)) candidateHosts of
             Some host \<Rightarrow>
               Inr (network_prefix n @ itoa host, if host \<ge> n_NextHost n then host + 1 else n_NextHost n)
           | None \<Rightarrow> Inl (''network '' @ n_Name n @ '' exhausted its docker-zero /24 address space''))"

definition allocateNetworkIPLocked :: "Network \<Rightarrow> string + string \<times> Network" where
  "allocateNetworkIPLocked n =
     (case planNetworkIPLocked n [] of
        Inl e \<Rightarrow> Inl e
      | Inr (ip, nextHost) \<Rightarrow> Inr (ip, if nextHost > n_NextHost n then n\<lparr>n_NextHost := nextHost\<rparr> else n))"

definition macForContainer :: "string \<Rightarrow> string" where
  "macForContainer cid =
     (if length cid < 8 then ''02:42:7f:14:00:02''
      else ''02:42:'' @ join '':'' [take 2 cid, take 2 (drop 2 cid), take 2 (drop 4 cid), take 2 (drop 6 cid)])"

fun unique_loop :: "string list \<Rightarrow> string list \<Rightarrow> string list" where
  "unique_loop seen [] = []"
| "unique_loop seen (v # vs) =
     (let value = trim_space v; key = to_lower value in
      if value = [] \<or> key \<in> set seen then unique_loop seen vs
      else value # unique_loop (key # seen) vs)"

definition uniqueStrings :: "string list \<Rightarrow> string list" where
  "uniqueStrings values = sort (unique_loop [] values)"

definition service_label :: "Container \<Rightarrow> string" where
  "service_label c = mget_or [] (c_Labels c) ''com.docker.compose.service''"

definition new_endpoint :: "Container \<Rightarrow> Network \<Rightarrow> string \<Rightarrow> string list \<Rightarrow> Endpoint" where
  "new_endpoint c n ip aliases =
     \<lparr>ep_Name = c_Name c, ep_EndpointID = hashID (''endpoint:'' @ n_ID n @ c_ID c),
      ep_MacAddress = macForContainer (c_ID c), ep_IPv4Address = ip @ ''/24'', ep_IPv6Address = [],
      ep_Aliases = aliases\<rparr>"

section \<open>Attaching containers\<close>

text \<open>The loops that look a network up take the first that matches, in the order of the map.\<close>

definition network_matches :: "string \<Rightarrow> string \<times> Network \<Rightarrow> bool" where
  "network_matches ref = (\<lambda>(key, n). key = ref \<or> n_Name n = ref \<or> has_prefix key ref)"

definition find_network_key :: "string \<Rightarrow> Engine \<Rightarrow> (string \<times> Network) option" where
  "find_network_key ref e = find (network_matches ref) (e_networks e)"

definition detach_all :: "string \<Rightarrow> (string, Network) gomap \<Rightarrow> (string, Network) gomap" where
  "detach_all cid networks = mmap (\<lambda>n. n\<lparr>n_Containers := mdel (n_Containers n) cid\<rparr>) networks"

text \<open>An attachment that is planned: the network's key, the endpoint, its address and the next host.\<close>

record endpointPlan =
  pl_network :: string
  pl_endpoint :: Endpoint
  pl_ip :: string
  pl_nextHost :: int

definition plan_endpoint ::
  "Container \<Rightarrow> (string, string list) gomap \<Rightarrow> Engine \<Rightarrow> string \<Rightarrow> string + endpointPlan \<times> string" where
  "plan_endpoint c wanted e ref =
     (case find_network_key ref e of
        None \<Rightarrow> Inl (''network '' @ ref @ '' not found'')
      | Some (key, n) \<Rightarrow>
          (case planNetworkIPLocked n (c_ID c) of
             Inl err \<Rightarrow> Inl err
           | Inr (ip, nextHost) \<Rightarrow>
               let aliases = uniqueStrings (mget_or [] wanted ref @ [c_Name c]);
                   service = trim_space (service_label c);
                   aliases = (if service \<noteq> [] then uniqueStrings (aliases @ [service]) else aliases)
               in Inr (\<lparr>pl_network = key, pl_endpoint = new_endpoint c n ip aliases, pl_ip = ip,
                        pl_nextHost = nextHost\<rparr>, n_Name n)))"

fun collect :: "('e + 'a) list \<Rightarrow> 'e + 'a list" where
  "collect [] = Inr []"
| "collect (Inl e # xs) = Inl e"
| "collect (Inr x # xs) = (case collect xs of Inl e \<Rightarrow> Inl e | Inr ys \<Rightarrow> Inr (x # ys))"

definition apply_plan :: "string \<Rightarrow> (string, Network) gomap \<Rightarrow> endpointPlan \<Rightarrow> (string, Network) gomap" where
  "apply_plan cid networks pl =
     (case mget networks (pl_network pl) of
        None \<Rightarrow> networks
      | Some n \<Rightarrow>
          mput networks (pl_network pl)
            (n\<lparr>n_Containers := mput (n_Containers n) cid (pl_endpoint pl),
               n_NextHost := (if pl_nextHost pl > n_NextHost n then pl_nextHost pl else n_NextHost n)\<rparr>))"

definition wanted_networks :: "string \<Rightarrow> (string, string list) gomap \<Rightarrow> (string, string list) gomap" where
  "wanted_networks m aliases =
     (let wanted = (if \<not> isDefaultNetworkMode m \<and> \<not> mmem aliases m then mput aliases m [] else aliases)
      in if wanted = [] then [(''bridge'', [])] else wanted)"

text \<open>
  The references are resolved in the order of the map and planned in sorted order, all before the
  first change.
\<close>

definition configureContainerNetworks ::
  "string \<Rightarrow> string \<Rightarrow> (string, string list) gomap \<Rightarrow> Engine \<Rightarrow> string option \<times> Engine" where
  "configureContainerNetworks cid networkMode aliases e =
     (case mget (e_containers e) cid of
        None \<Rightarrow> (None, e)
      | Some c \<Rightarrow>
          let m = trim_space networkMode in
          if m = ''host'' \<or> m = ''none'' then
            (None, set_container (c\<lparr>c_NetworkMode := m, c_PrimaryIP := []\<rparr>)
               (e\<lparr>e_networks := detach_all cid (e_networks e)\<rparr>))
          else
            let wanted = wanted_networks m aliases in
            (case first_error (map (\<lambda>ref. check (find_network_key ref e = None)
                (''network '' @ ref @ '' not found'')) (mkeys wanted)) of
               Some err \<Rightarrow> (Some err, e)
             | None \<Rightarrow>
                 (case collect (map (plan_endpoint c wanted e) (sort (mkeys wanted))) of
                    Inl err \<Rightarrow> (Some err, e)
                  | Inr plans \<Rightarrow>
                      let networks = foldl (apply_plan cid) (detach_all cid (e_networks e)) (map fst plans);
                          primaryIP = (case filter (\<lambda>ip. ip \<noteq> []) (map (pl_ip \<circ> fst) plans) of
                            [] \<Rightarrow> [] | ip # _ \<Rightarrow> ip);
                          m' = (if isDefaultNetworkMode m then
                                  (case sort (map snd plans) of [] \<Rightarrow> ''default'' | nm # _ \<Rightarrow> nm)
                                else m)
                      in (None, set_container (c\<lparr>c_NetworkMode := m', c_PrimaryIP := primaryIP\<rparr>)
                            (e\<lparr>e_networks := networks\<rparr>)))))"

text \<open>The address a container keeps after a change: the first it has, in the order of the map.\<close>

definition primary_ip :: "string \<Rightarrow> (string, Network) gomap \<Rightarrow> string" where
  "primary_ip cid networks =
     (let ips = concat (map (\<lambda>(key, n). case mget (n_Containers n) cid of
            Some ep \<Rightarrow> [endpointIPv4 ep] | None \<Rightarrow> []) networks)
      in case filter (\<lambda>ip. ip \<noteq> []) ips of ip # _ \<Rightarrow> ip | [] \<Rightarrow> [])"

definition connectContainerNetwork ::
  "string \<Rightarrow> string \<Rightarrow> string list \<Rightarrow> Engine \<Rightarrow> string option \<times> Engine" where
  "connectContainerNetwork cid networkRef aliases e =
     (case mget (e_containers e) cid of
        None \<Rightarrow> (None, e)
      | Some c \<Rightarrow>
          (case find_network_key networkRef e of
             None \<Rightarrow> (Some (''network '' @ networkRef @ '' not found''), e)
           | Some (key, n) \<Rightarrow>
               if mmem (n_Containers n) cid then
                 (Some (''endpoint with name '' @ c_Name c @ '' already exists in network '' @ n_Name n), e)
               else
                 (case allocateNetworkIPLocked n of
                    Inl err \<Rightarrow> (Some err, e)
                  | Inr (ip, n1) \<Rightarrow>
                      let als = uniqueStrings (aliases @ [c_Name c, service_label c]);
                          n2 = n1\<lparr>n_Containers := mput (n_Containers n1) cid (new_endpoint c n ip als)\<rparr>;
                          networks = mput (e_networks e) key n2
                      in (None, set_container (setPrimaryIP (primary_ip cid networks) c)
                            (e\<lparr>e_networks := networks\<rparr>)))))"

definition disconnectContainerNetwork :: "string \<Rightarrow> string \<Rightarrow> Engine \<Rightarrow> string option \<times> Engine" where
  "disconnectContainerNetwork cid networkRef e =
     (case mget (e_containers e) cid of
        None \<Rightarrow> (None, e)
      | Some c \<Rightarrow>
          (case find_network_key networkRef e of
             None \<Rightarrow> (Some (''network '' @ networkRef @ '' not found''), e)
           | Some (key, n) \<Rightarrow>
               let networks = mput (e_networks e) key (n\<lparr>n_Containers := mdel (n_Containers n) cid\<rparr>)
               in (None, set_container (setPrimaryIP (primary_ip cid networks) c)
                     (e\<lparr>e_networks := networks\<rparr>))))"

definition containerConnectedToNetwork :: "string \<Rightarrow> string \<Rightarrow> Engine \<Rightarrow> bool \<times> Network option" where
  "containerConnectedToNetwork cid networkRef e =
     (case find_network_key networkRef e of
        None \<Rightarrow> (False, None)
      | Some (key, n) \<Rightarrow> (mmem (n_Containers n) cid, Some n))"

section \<open>Lookups\<close>

definition containerEndpointAddresses :: "Container \<Rightarrow> Engine \<Rightarrow> string list" where
  "containerEndpointAddresses c e =
     sort (concat (map (\<lambda>(key, n). case mget (n_Containers n) (c_ID c) of
        None \<Rightarrow> []
      | Some ep \<Rightarrow>
          (let ip = endpointIPv4 ep in
           if ip = [] then [] else [JoinHostPort ip (itoa (d_ContainerPort (c_Spec c)))])) (e_networks e)))"

definition endpointMatchesDNSName :: "Container \<Rightarrow> Endpoint \<Rightarrow> string \<Rightarrow> bool" where
  "endpointMatchesDNSName c ep name =
     list_ex (\<lambda>candidate. equal_fold (trim_space candidate) name)
       ([c_Name c, trim_prefix (c_Name c) ''/'', c_ID c, take (min 12 (length (c_ID c))) (c_ID c), service_label c] @
        ep_Aliases ep)"

record DNSResult =
  dr_Name :: string
  dr_Network :: string
  dr_Container :: string
  dr_IP :: string

definition dns_key :: "DNSResult \<Rightarrow> string list" where
  "dns_key r = [dr_Network r, dr_Container r, dr_IP r]"

definition resolveDNS :: "string option \<Rightarrow> string \<Rightarrow> Engine \<Rightarrow> DNSResult list" where
  "resolveDNS requester nm e =
     (let name = to_lower (trim_space (trim_suffix nm ''.'')) in
      case requester of
        None \<Rightarrow> []
      | Some rid \<Rightarrow>
          if name = [] then []
          else sort_key dns_key (concat (map (\<lambda>(key, n).
            if \<not> mmem (n_Containers n) rid then []
            else concat (map (\<lambda>(cid, ep).
              (case mget (e_containers e) cid of
                 None \<Rightarrow> []
               | Some c \<Rightarrow>
                   if \<not> endpointMatchesDNSName c ep name \<or> endpointIPv4 ep = [] then []
                   else [\<lparr>dr_Name = name, dr_Network = n_Name n, dr_Container = c_Name c, dr_IP = endpointIPv4 ep\<rparr>]))
              (n_Containers n))) (e_networks e))))"

definition findContainerByEndpointIP :: "string \<Rightarrow> Engine \<Rightarrow> Container option" where
  "findContainerByEndpointIP ip e =
     (case filter (\<lambda>(cid, ep). endpointIPv4 ep = ip) (concat (map (n_Containers \<circ> snd) (e_networks e))) of
        [] \<Rightarrow> None | (cid, ep) # _ \<Rightarrow> mget (e_containers e) cid)"

end
