(* ===== verification/Network_Invariant.thy ===== *)
theory Network_Invariant
  imports Engine_Network
begin

text \<open>
  The addresses of endpoints: each lies in the /24 of its network, and no two endpoints of the engine
  share one. The operations of \<^verbatim>\<open>engine_network.go\<close> keep this.
\<close>

section \<open>Addresses of a network\<close>

definition host_ok :: "int \<Rightarrow> bool" where
  "host_ok h \<longleftrightarrow> 2 \<le> h \<and> h \<le> 254"

definition index_ok :: "Network \<Rightarrow> bool" where
  "index_ok n \<longleftrightarrow> 0 \<le> n_Index n \<and> n_Index n \<le> 220"

definition host_bytes :: "Network \<Rightarrow> int \<Rightarrow> nat list" where
  "host_bytes n h = (if n_Index n = 0 then [127, 19, 0, nat h] else [127, 20, nat (n_Index n), nat h])"

definition endpoint_at :: "Network \<Rightarrow> int \<Rightarrow> Endpoint \<Rightarrow> bool" where
  "endpoint_at n h ep \<longleftrightarrow> host_ok h \<and> ep_IPv4Address ep = network_prefix n @ itoa h @ ''/24''"

definition network_ok :: "Network \<Rightarrow> bool" where
  "network_ok n \<longleftrightarrow> wf_map (n_Containers n) \<and> index_ok n \<and> mget (n_Containers n) [] = None \<and>
     (\<forall>cid ep. mget (n_Containers n) cid = Some ep \<longrightarrow> (\<exists>h. endpoint_at n h ep)) \<and>
     (\<forall>a b ea eb. mget (n_Containers n) a = Some ea \<and> mget (n_Containers n) b = Some eb \<and>
        ep_IPv4Address ea = ep_IPv4Address eb \<longrightarrow> a = b)"

lemma candidateHosts_iff: "h \<in> set candidateHosts \<longleftrightarrow> host_ok h"
  unfolding candidateHosts_def host_ok_def set_upto atLeastAtMost_iff ..

lemma find_in: "find P xs = Some x \<Longrightarrow> x \<in> set xs \<and> P x"
  by (auto simp: find_Some_iff)

lemma network_okD:
  assumes "network_ok n"
  shows "wf_map (n_Containers n)" "index_ok n"
    and "mget (n_Containers n) cid = Some ep \<Longrightarrow> \<exists>h. endpoint_at n h ep"
    and "mget (n_Containers n) a = Some ea \<Longrightarrow> mget (n_Containers n) b = Some eb \<Longrightarrow>
      ep_IPv4Address ea = ep_IPv4Address eb \<Longrightarrow> a = b"
    and "mget (n_Containers n) [] = None"
  using assms unfolding network_ok_def by blast+

lemma itoa_nat: "0 \<le> n \<Longrightarrow> itoa n = nat_digits (nat n)"
  by (simp add: itoa_def)

lemma fixed_digits: "nat_digits 127 = ''127''" "nat_digits 19 = ''19''" "nat_digits 20 = ''20''" "nat_digits 0 = ''0''"
  by code_simp+

lemma host_address:
  assumes "index_ok n" "host_ok h"
  shows "network_prefix n @ itoa h = ipv4_string (host_bytes n h)" "is_ipv4 (host_bytes n h)"
  using assms
  by (auto simp: network_prefix_def host_bytes_def ipv4_string_def itoa_nat fixed_digits index_ok_def host_ok_def
      is_ipv4_def nat_le_iff)

lemma endpointIPv4_at:
  assumes "index_ok n" "endpoint_at n h ep"
  shows "endpointIPv4 ep = network_prefix n @ itoa h"
proof -
  have h: "host_ok h" and v: "ep_IPv4Address ep = ipv4_string (host_bytes n h) @ ''/'' @ ''24''"
    using assms host_address(1) [of n h] by (simp_all add: endpoint_at_def)
  note ip = host_address(2) [OF assms(1) h]
  have d: "digits_value ''24'' = 24" "list_all is_digit ''24''" by code_simp+
  have "ParseCIDR_ip (ep_IPv4Address ep) = Some (v4_in_v6 (host_bytes n h))"
    unfolding v by (rule ParseCIDR_ipv4 [OF ip]) (simp_all add: d is_digit_def)
  moreover have "ep_IPv4Address ep \<noteq> []" by (simp add: v)
  ultimately show ?thesis
    using host_address(1) [OF assms(1) h] by (simp add: endpointIPv4_def ip_string_v4 [OF ip])
qed

lemma host_of_at:
  assumes "index_ok n" "endpoint_at n h ep"
  shows "host_of ep = Some h"
proof -
  have h: "host_ok h" using assms(2) by (simp add: endpoint_at_def)
  have no_dot: "CHR ''.'' \<notin> set (itoa k)" for k by (rule itoa_no_sep) (simp_all add: is_digit_def)
  have "endpointIPv4 ep = network_prefix n @ itoa h" using assms by (rule endpointIPv4_at)
  moreover have "\<exists>p. split_on (CHR ''.'') (network_prefix n @ itoa h) = [''127'', if n_Index n = 0 then ''19'' else ''20'', p, itoa h]"
    using no_dot by (auto simp: network_prefix_def split_on_append split_on_no_sep)
  moreover have "atoi (itoa h) = (h, True)"
    using h by (intro atoi_itoa) (simp_all add: host_ok_def minInt64_def maxInt64_def)
  ultimately show ?thesis by (auto simp: host_of_def Let_def)
qed

lemma endpoint_at_inj:
  assumes "index_ok n" "host_ok h" "host_ok k" "network_prefix n @ itoa h = network_prefix n @ itoa k"
  shows "h = k"
  using assms(4) by (simp add: itoa_inj)

section \<open>Planning an address\<close>

lemma usedHosts_iff:
  assumes "network_ok n"
  shows "Some h \<in> set (usedHosts n cid) \<longleftrightarrow>
    (\<exists>a ep. a \<noteq> cid \<and> mget (n_Containers n) a = Some ep \<and> endpoint_at n h ep)"
proof -
  have wf: "wf_map (n_Containers n)" and idx: "index_ok n" using assms by (simp_all add: network_ok_def)
  have at: "host_of ep = Some h \<longleftrightarrow> endpoint_at n h ep" if "mget (n_Containers n) a = Some ep" for a ep
    using network_okD(3) [OF assms that] host_of_at [OF idx] by (metis option.inject)
  have "Some h \<in> set (usedHosts n cid) \<longleftrightarrow> (\<exists>a ep. (a, ep) \<in> set (n_Containers n) \<and> a \<noteq> cid \<and> host_of ep = Some h)"
    by (auto simp: usedHosts_def image_iff) force+
  then show ?thesis unfolding in_mget [OF wf] using at by blast
qed

lemma planNetworkIP_ok:
  assumes "network_ok n" and "planNetworkIPLocked n cid = Inr (ip, nextHost)"
  obtains h where "host_ok h" "ip = network_prefix n @ itoa h"
    "\<And>a ep. a \<noteq> cid \<Longrightarrow> mget (n_Containers n) a = Some ep \<Longrightarrow> ep_IPv4Address ep \<noteq> ip @ ''/24''"
proof -
  have idx: "index_ok n" using assms(1) by (simp add: network_ok_def)
  show thesis
  proof (cases "mget (n_Containers n) cid")
    case (Some ep)
    then obtain h where h: "endpoint_at n h ep" using network_okD(3) [OF assms(1)] by blast
    have e: "endpointIPv4 ep = network_prefix n @ itoa h" using idx h by (rule endpointIPv4_at)
    then have "ip = network_prefix n @ itoa h"
      using assms(2) Some by (simp add: planNetworkIPLocked_def network_prefix_def split: if_splits)
    moreover have "ep_IPv4Address ea \<noteq> ip @ ''/24''" if "a \<noteq> cid" "mget (n_Containers n) a = Some ea" for a ea
      using that network_okD(4) [OF assms(1) _ Some, of a ea] h calculation by (auto simp: endpoint_at_def)
    ultimately show thesis using that h by (auto simp: endpoint_at_def)
  next
    case None
    then obtain h where f: "find (\<lambda>host. Some host \<notin> set (usedHosts n cid)) candidateHosts = Some h"
      and ip: "ip = network_prefix n @ itoa h"
      using assms(2) by (auto simp: planNetworkIPLocked_def split: option.splits)
    then have h: "host_ok h" "Some h \<notin> set (usedHosts n cid)"
      using find_in [OF f] by (simp_all add: candidateHosts_iff)
    have "ep_IPv4Address ea \<noteq> ip @ ''/24''" if "a \<noteq> cid" "mget (n_Containers n) a = Some ea" for a ea
      using that h usedHosts_iff [OF assms(1), of h cid] by (auto simp: ip endpoint_at_def)
    with h ip that show thesis by blast
  qed
qed

text \<open>An address is refused only when the other containers have all 253 of them.\<close>

lemma planNetworkIP_exhausted:
  assumes "network_ok n" and "planNetworkIPLocked n cid = Inl err"
  shows "mget (n_Containers n) cid = None \<and>
    (\<forall>h. host_ok h \<longrightarrow> (\<exists>a ep. a \<noteq> cid \<and> mget (n_Containers n) a = Some ep \<and> endpoint_at n h ep))"
proof -
  have idx: "index_ok n" using assms(1) by (simp add: network_ok_def)
  have none: "mget (n_Containers n) cid = None"
  proof (rule ccontr)
    assume "mget (n_Containers n) cid \<noteq> None"
    then obtain ep h where "mget (n_Containers n) cid = Some ep" "endpoint_at n h ep"
      using network_okD(3) [OF assms(1)] by blast
    with endpointIPv4_at [OF idx] assms(2) show False
      by (simp add: planNetworkIPLocked_def network_prefix_def split: if_splits)
  qed
  then have "find (\<lambda>host. Some host \<notin> set (usedHosts n cid)) candidateHosts = None"
    using assms(2) by (auto simp: planNetworkIPLocked_def split: option.splits)
  then have "\<forall>h. host_ok h \<longrightarrow> Some h \<in> set (usedHosts n cid)"
    by (simp add: find_None_iff candidateHosts_iff)
  with none usedHosts_iff [OF assms(1)] show ?thesis by blast
qed

section \<open>Changing a network\<close>

lemma network_okI:
  assumes "wf_map (n_Containers n)" "index_ok n" "mget (n_Containers n) [] = None"
    and "\<And>cid ep. mget (n_Containers n) cid = Some ep \<Longrightarrow> \<exists>h. endpoint_at n h ep"
    and "\<And>a b ea eb. mget (n_Containers n) a = Some ea \<Longrightarrow> mget (n_Containers n) b = Some eb \<Longrightarrow>
      ep_IPv4Address ea = ep_IPv4Address eb \<Longrightarrow> a = b"
  shows "network_ok n"
  using assms unfolding network_ok_def by blast

lemma network_ok_cong:
  "n_Containers n' = n_Containers n \<Longrightarrow> n_Index n' = n_Index n \<Longrightarrow> network_ok n' = network_ok n"
  by (simp add: network_ok_def index_ok_def endpoint_at_def network_prefix_def)

lemma attach_ok:
  assumes ok: "network_ok n" and h: "endpoint_at n h ep" and cid: "cid \<noteq> []"
    and free: "\<And>a ea. a \<noteq> cid \<Longrightarrow> mget (n_Containers n) a = Some ea \<Longrightarrow> ep_IPv4Address ea \<noteq> ep_IPv4Address ep"
  shows "network_ok (n\<lparr>n_Containers := mput (n_Containers n) cid ep, n_NextHost := x\<rparr>)"
proof -
  let ?n = "n\<lparr>n_Containers := mput (n_Containers n) cid ep, n_NextHost := x\<rparr>"
  have at: "endpoint_at ?n = endpoint_at n" by (simp add: endpoint_at_def network_prefix_def fun_eq_iff)
  show ?thesis
  proof (rule network_okI)
    show "wf_map (n_Containers ?n)" "index_ok ?n" "mget (n_Containers ?n) [] = None"
      using network_okD(1,2,5) [OF ok] cid by (simp_all add: index_ok_def)
    show "\<exists>k. endpoint_at ?n k ea" if "mget (n_Containers ?n) a = Some ea" for a ea
      unfolding at using that h network_okD(3) [OF ok, of a ea] by (cases "a = cid") auto
    show "a = b" if "mget (n_Containers ?n) a = Some ea" "mget (n_Containers ?n) b = Some eb"
      "ep_IPv4Address ea = ep_IPv4Address eb" for a b ea eb
      using that free [of a ea] free [of b eb] network_okD(4) [OF ok, of a ea b eb]
      by (cases "a = cid"; cases "b = cid") auto
  qed
qed

lemma detach_ok: "network_ok n \<Longrightarrow> network_ok (n\<lparr>n_Containers := mdel (n_Containers n) cid\<rparr>)"
proof -
  assume ok: "network_ok n"
  let ?n = "n\<lparr>n_Containers := mdel (n_Containers n) cid\<rparr>"
  have at: "endpoint_at ?n = endpoint_at n" by (simp add: endpoint_at_def network_prefix_def fun_eq_iff)
  have old: "mget (n_Containers ?n) a = Some ea \<Longrightarrow> mget (n_Containers n) a = Some ea" for a ea
    by (cases "a = cid") auto
  show ?thesis
  proof (rule network_okI)
    show "wf_map (n_Containers ?n)" "index_ok ?n" "mget (n_Containers ?n) [] = None"
      using network_okD(1,2,5) [OF ok] by (simp_all add: index_ok_def)
    show "\<exists>k. endpoint_at ?n k ea" if "mget (n_Containers ?n) a = Some ea" for a ea
      unfolding at using old [OF that] by (rule network_okD(3) [OF ok])
    show "a = b" if "mget (n_Containers ?n) a = Some ea" "mget (n_Containers ?n) b = Some eb"
      "ep_IPv4Address ea = ep_IPv4Address eb" for a b ea eb
      using old [OF that(1)] old [OF that(2)] that(3) by (rule network_okD(4) [OF ok])
  qed
qed

section \<open>All networks\<close>

text \<open>The engine's networks have different indices, hence different subnets.\<close>

definition networks_ok :: "(string, Network) gomap \<Rightarrow> bool" where
  "networks_ok ns \<longleftrightarrow> wf_map ns \<and> (\<forall>key n. mget ns key = Some n \<longrightarrow> network_ok n) \<and>
     (\<forall>k1 k2 n1 n2. mget ns k1 = Some n1 \<and> mget ns k2 = Some n2 \<and> n_Index n1 = n_Index n2 \<longrightarrow> k1 = k2)"

lemma networks_okD:
  assumes "networks_ok ns"
  shows "wf_map ns" and "mget ns key = Some n \<Longrightarrow> network_ok n"
    and "mget ns k1 = Some n1 \<Longrightarrow> mget ns k2 = Some n2 \<Longrightarrow> n_Index n1 = n_Index n2 \<Longrightarrow> k1 = k2"
  using assms unfolding networks_ok_def by blast+

lemma networks_ok_update:
  assumes "networks_ok ns" and "mget ns key = Some n" and "network_ok n'" and "n_Index n' = n_Index n"
  shows "networks_ok (mput ns key n')"
  using assms networks_okD(3) [OF assms(1) assms(2)] networks_okD(3) [OF assms(1) _ assms(2)]
  unfolding networks_ok_def by (simp add: wf_map_mput) metis

lemma networks_ok_mmap:
  assumes "networks_ok ns" and "\<And>n. network_ok n \<Longrightarrow> network_ok (f n)" and "\<And>n. n_Index (f n) = n_Index n"
  shows "networks_ok (mmap f ns)"
  using assms unfolding networks_ok_def by (auto simp: map_option_case split: option.splits)

lemma detach_all_ok: "networks_ok ns \<Longrightarrow> networks_ok (detach_all cid ns)"
  unfolding detach_all_def by (rule networks_ok_mmap) (simp_all add: detach_ok)

lemma find_network_key_Some:
  "wf_map (e_networks e) \<Longrightarrow> find_network_key ref e = Some (key, n) \<Longrightarrow> mget (e_networks e) key = Some n"
  using find_in [of "network_matches ref" "e_networks e" "(key, n)"]
  by (simp add: find_network_key_def in_mget)

section \<open>The operations\<close>

text \<open>Between two states of the networks only the endpoints of one container differ.\<close>

definition same_others :: "string \<Rightarrow> (string, Network) gomap \<Rightarrow> (string, Network) gomap \<Rightarrow> bool" where
  "same_others cid ns0 ns \<longleftrightarrow> (\<forall>key n. mget ns key = Some n \<longrightarrow>
     (\<exists>n0. mget ns0 key = Some n0 \<and> n_Index n = n_Index n0 \<and>
        (\<forall>a. a \<noteq> cid \<longrightarrow> mget (n_Containers n) a = mget (n_Containers n0) a)))"

lemma same_others_detach: "same_others cid ns (detach_all cid ns)"
  by (auto simp: same_others_def detach_all_def)

definition plan_ok :: "string \<Rightarrow> (string, Network) gomap \<Rightarrow> endpointPlan \<Rightarrow> bool" where
  "plan_ok cid ns0 pl \<longleftrightarrow> (\<forall>n0. mget ns0 (pl_network pl) = Some n0 \<longrightarrow>
     (\<exists>h. endpoint_at n0 h (pl_endpoint pl)) \<and>
     (\<forall>a ea. a \<noteq> cid \<and> mget (n_Containers n0) a = Some ea \<longrightarrow>
        ep_IPv4Address ea \<noteq> ep_IPv4Address (pl_endpoint pl)))"

lemma endpoint_at_cong: "n_Index n = n_Index n0 \<Longrightarrow> endpoint_at n h ep = endpoint_at n0 h ep"
  by (simp add: endpoint_at_def network_prefix_def)

lemma apply_plan_ok:
  assumes ns: "networks_ok ns" and same: "same_others cid ns0 ns" and pl: "plan_ok cid ns0 pl" and cid: "cid \<noteq> []"
  shows "networks_ok (apply_plan cid ns pl) \<and> same_others cid ns0 (apply_plan cid ns pl)"
proof (cases "mget ns (pl_network pl)")
  case None
  with ns same show ?thesis by (simp add: apply_plan_def)
next
  case (Some n)
  then obtain n0 where n0: "mget ns0 (pl_network pl) = Some n0" "n_Index n = n_Index n0"
    "\<And>a. a \<noteq> cid \<Longrightarrow> mget (n_Containers n) a = mget (n_Containers n0) a"
    using same unfolding same_others_def by blast
  let ?n = "n\<lparr>n_Containers := mput (n_Containers n) cid (pl_endpoint pl),
       n_NextHost := if pl_nextHost pl > n_NextHost n then pl_nextHost pl else n_NextHost n\<rparr>"
  obtain h where "endpoint_at n0 h (pl_endpoint pl)"
    using pl n0(1) unfolding plan_ok_def by blast
  then have h: "endpoint_at n h (pl_endpoint pl)" by (simp only: endpoint_at_cong [OF n0(2)])
  have "network_ok ?n"
  proof (rule attach_ok [OF _ h cid])
    show "network_ok n" using networks_okD(2) [OF ns Some] .
    show "ep_IPv4Address ea \<noteq> ep_IPv4Address (pl_endpoint pl)"
      if "a \<noteq> cid" "mget (n_Containers n) a = Some ea" for a ea
      using that pl n0(1) n0(3) [OF that(1)] unfolding plan_ok_def by metis
  qed
  then have "networks_ok (mput ns (pl_network pl) ?n)"
    by (rule networks_ok_update [OF ns Some]) simp
  moreover have "same_others cid ns0 (mput ns (pl_network pl) ?n)"
    unfolding same_others_def
  proof (intro allI impI)
    fix key k
    assume k: "mget (mput ns (pl_network pl) ?n) key = Some k"
    show "\<exists>n1. mget ns0 key = Some n1 \<and> n_Index k = n_Index n1 \<and>
        (\<forall>a. a \<noteq> cid \<longrightarrow> mget (n_Containers k) a = mget (n_Containers n1) a)"
    proof (cases "key = pl_network pl")
      case True
      with k have "k = ?n" by simp
      with True n0 show ?thesis by simp
    next
      case False
      with k same show ?thesis by (simp add: same_others_def)
    qed
  qed
  ultimately show ?thesis using Some by (simp add: apply_plan_def)
qed

lemma apply_plans_ok:
  assumes "networks_ok ns" and "same_others cid ns0 ns" and "\<forall>pl\<in>set pls. plan_ok cid ns0 pl" and "cid \<noteq> []"
  shows "networks_ok (foldl (apply_plan cid) ns pls)"
  using assms by (induction pls arbitrary: ns) (simp_all add: apply_plan_ok)

lemma collect_Inr: "collect xs = Inr ys \<Longrightarrow> y \<in> set ys \<Longrightarrow> Inr y \<in> set xs"
  by (induction xs arbitrary: ys rule: collect.induct) (auto split: sum.splits)

lemma new_endpoint_address [simp]: "ep_IPv4Address (new_endpoint c n ip aliases) = ip @ ''/24''"
  by (simp add: new_endpoint_def)

lemma plan_endpoint_ok:
  assumes "networks_ok (e_networks e)" and "plan_endpoint c wanted e ref = Inr (pl, nm)"
  shows "plan_ok (c_ID c) (e_networks e) pl"
proof -
  obtain key n ip nextHost als where f: "find_network_key ref e = Some (key, n)"
    and p: "planNetworkIPLocked n (c_ID c) = Inr (ip, nextHost)"
    and pl: "pl_network pl = key" "pl_endpoint pl = new_endpoint c n ip als"
    using assms(2) by (auto simp: plan_endpoint_def Let_def split: option.splits sum.splits)
  have n: "mget (e_networks e) key = Some n"
    using networks_okD(1) [OF assms(1)] f by (rule find_network_key_Some)
  obtain h where "host_ok h" "ip = network_prefix n @ itoa h"
    "\<And>a ep. a \<noteq> c_ID c \<Longrightarrow> mget (n_Containers n) a = Some ep \<Longrightarrow> ep_IPv4Address ep \<noteq> ip @ ''/24''"
    using networks_okD(2) [OF assms(1) n] p by (rule planNetworkIP_ok) blast
  then show ?thesis
    by (auto simp: plan_ok_def pl n endpoint_at_def)
qed

lemma configure_networks_ok [inv_intros]:
  assumes "networks_ok (e_networks e)" and "\<And>c. mget (e_containers e) cid = Some c \<Longrightarrow> c_ID c = cid \<and> cid \<noteq> []"
  shows "networks_ok (e_networks (snd (configureContainerNetworks cid networkMode aliases e)))"
proof (cases "mget (e_containers e) cid")
  case None
  with assms show ?thesis by (simp add: configureContainerNetworks_def)
next
  case (Some c)
  then have cid: "c_ID c = cid" "cid \<noteq> []" using assms(2) by simp_all
  have plans: "networks_ok (foldl (apply_plan cid) (detach_all cid (e_networks e)) (map fst plans))"
    if "collect (map (plan_endpoint c wanted e) refs) = Inr plans" for wanted refs plans
  proof (rule apply_plans_ok [OF detach_all_ok [OF assms(1)] same_others_detach])
    show "\<forall>pl\<in>set (map fst plans). plan_ok cid (e_networks e) pl"
    proof
      fix pl
      assume "pl \<in> set (map fst plans)"
      then obtain nm where "(pl, nm) \<in> set plans" by auto
      from collect_Inr [OF that this] obtain ref where "plan_endpoint c wanted e ref = Inr (pl, nm)" by auto
      from plan_endpoint_ok [OF assms(1) this] show "plan_ok cid (e_networks e) pl" by (simp add: cid(1))
    qed
  qed (rule cid(2))
  show ?thesis
    using Some assms(1) detach_all_ok [OF assms(1)] plans
    by (auto simp: configureContainerNetworks_def Let_def split: option.splits sum.splits)
qed

lemma connect_networks_ok [inv_intros]:
  assumes "networks_ok (e_networks e)" and "\<And>c. mget (e_containers e) cid = Some c \<Longrightarrow> cid \<noteq> []"
  shows "networks_ok (e_networks (snd (connectContainerNetwork cid ref aliases e)))"
proof (cases "mget (e_containers e) cid")
  case None
  with assms show ?thesis by (simp add: connectContainerNetwork_def)
next
  case c: (Some c)
  show ?thesis
  proof (cases "find_network_key ref e")
    case None
    with c assms show ?thesis by (simp add: connectContainerNetwork_def)
  next
    case (Some kn)
    obtain key n where kn: "kn = (key, n)" by (cases kn)
    have n: "mget (e_networks e) key = Some n"
      using networks_okD(1) [OF assms(1)] Some kn by (simp add: find_network_key_Some)
    have ok: "network_ok n" using assms(1) n by (rule networks_okD(2))
    show ?thesis
    proof (cases "planNetworkIPLocked n []")
      case (Inl err)
      with Some kn c assms show ?thesis
        by (simp add: connectContainerNetwork_def allocateNetworkIPLocked_def)
    next
      case (Inr p)
      obtain ip nextHost where p: "p = (ip, nextHost)" by (cases p)
      obtain h where h: "host_ok h" "ip = network_prefix n @ itoa h"
        "\<And>a ep. a \<noteq> [] \<Longrightarrow> mget (n_Containers n) a = Some ep \<Longrightarrow> ep_IPv4Address ep \<noteq> ip @ ''/24''"
        using ok Inr [unfolded p] by (rule planNetworkIP_ok) blast
      define n1 where "n1 = (if nextHost > n_NextHost n then n\<lparr>n_NextHost := nextHost\<rparr> else n)"
      have n1: "n_Containers n1 = n_Containers n" "n_Index n1 = n_Index n" by (simp_all add: n1_def)
      have "network_ok (n1\<lparr>n_Containers := mput (n_Containers n1) cid (new_endpoint c n ip als)\<rparr>)" for als
      proof -
        have at: "endpoint_at n h (new_endpoint c n ip als)" using h(1,2) by (simp add: endpoint_at_def)
        have "ep_IPv4Address ea \<noteq> ep_IPv4Address (new_endpoint c n ip als)"
          if "mget (n_Containers n) a = Some ea" for a ea
          using that h(3) [OF _ that] network_okD(5) [OF ok] by (cases "a = []") auto
        then have "network_ok (n\<lparr>n_Containers := mput (n_Containers n) cid (new_endpoint c n ip als), n_NextHost := n_NextHost n1\<rparr>)"
          using attach_ok [OF ok at assms(2) [OF c]] by blast
        then show ?thesis by (subst network_ok_cong) (simp_all add: n1)
      qed
      then have "networks_ok (mput (e_networks e) key (n1\<lparr>n_Containers := mput (n_Containers n1) cid (new_endpoint c n ip als)\<rparr>))" for als
        by (rule networks_ok_update [OF assms(1) n]) (simp add: n1)
      moreover have "allocateNetworkIPLocked n = Inr (ip, n1)"
        by (simp add: allocateNetworkIPLocked_def Inr p n1_def)
      ultimately show ?thesis
        using c Some kn assms(1) by (simp add: connectContainerNetwork_def Let_def)
    qed
  qed
qed

lemma disconnect_networks_ok [inv_intros]:
  assumes "networks_ok (e_networks e)"
  shows "networks_ok (e_networks (snd (disconnectContainerNetwork cid ref e)))"
proof (cases "find_network_key ref e")
  case None
  with assms show ?thesis by (simp add: disconnectContainerNetwork_def split: option.splits)
next
  case (Some kn)
  obtain key n where kn: "kn = (key, n)" by (cases kn)
  have n: "mget (e_networks e) key = Some n"
    using networks_okD(1) [OF assms] Some kn by (simp add: find_network_key_Some)
  have "networks_ok (mput (e_networks e) key (n\<lparr>n_Containers := mdel (n_Containers n) cid\<rparr>))"
    by (rule networks_ok_update [OF assms n]) (simp_all add: detach_ok networks_okD(2) [OF assms n])
  with Some kn assms show ?thesis
    by (simp add: disconnectContainerNetwork_def Let_def split: option.splits)
qed

text \<open>Two endpoints with the same address are the same.\<close>

lemma addresses_unique:
  assumes ok: "networks_ok ns"
    and n1: "mget ns k1 = Some n1" "mget (n_Containers n1) c1 = Some ep1"
    and n2: "mget ns k2 = Some n2" "mget (n_Containers n2) c2 = Some ep2"
    and eq: "endpointIPv4 ep1 = endpointIPv4 ep2"
  shows "k1 = k2 \<and> c1 = c2"
proof -
  note o1 = networks_okD(2) [OF ok n1(1)] and o2 = networks_okD(2) [OF ok n2(1)]
  obtain h1 h2 where h: "endpoint_at n1 h1 ep1" "endpoint_at n2 h2 ep2"
    using network_okD(3) [OF o1 n1(2)] network_okD(3) [OF o2 n2(2)] by blast
  have hosts: "host_ok h1" "host_ok h2" using h by (simp_all add: endpoint_at_def)
  have "ipv4_string (host_bytes n1 h1) = ipv4_string (host_bytes n2 h2)"
    using eq endpointIPv4_at [OF network_okD(2) [OF o1] h(1)] endpointIPv4_at [OF network_okD(2) [OF o2] h(2)]
      host_address(1) [OF network_okD(2) [OF o1] hosts(1)] host_address(1) [OF network_okD(2) [OF o2] hosts(2)]
    by simp
  then have "host_bytes n1 h1 = host_bytes n2 h2"
    using ipv4_string_inj host_address(2) network_okD(2) o1 o2 hosts by blast
  then have "n_Index n1 = n_Index n2 \<and> h1 = h2"
    using network_okD(2) [OF o1] network_okD(2) [OF o2] hosts
    by (auto simp: host_bytes_def index_ok_def host_ok_def split: if_splits)
  then have "k1 = k2" "h1 = h2" using networks_okD(3) [OF ok n1(1) n2(1)] by simp_all
  moreover from this have "n1 = n2" using n1(1) n2(1) by simp
  moreover have "ep_IPv4Address ep1 = ep_IPv4Address ep2"
    using h calculation by (simp add: endpoint_at_def)
  ultimately show ?thesis using network_okD(4) [OF o1 n1(2)] n2(2) by simp
qed

end
