(* ===== verification/Network_Frame.thy ===== *)
theory Network_Frame
  imports Network_Invariant
begin

text \<open>
  What the network operations of one container leave alone: the set of networks, their names and IDs,
  and the endpoints of every other container.
\<close>

definition net_frame :: "string \<Rightarrow> (string, Network) gomap \<Rightarrow> (string, Network) gomap \<Rightarrow> bool" where
  "net_frame cid ns ns' \<longleftrightarrow> (\<forall>key.
     (mget ns' key = None \<longleftrightarrow> mget ns key = None) \<and>
     (\<forall>n n'. mget ns key = Some n \<and> mget ns' key = Some n' \<longrightarrow>
        n_Name n' = n_Name n \<and> n_ID n' = n_ID n \<and> n_Labels n' = n_Labels n \<and>
        (\<forall>a. a \<noteq> cid \<longrightarrow> mget (n_Containers n') a = mget (n_Containers n) a)))"

lemma net_frame_refl [simp]: "net_frame cid ns ns"
  by (auto simp: net_frame_def)

lemma net_frameD:
  assumes "net_frame cid ns ns'"
  shows "mget ns' key = None \<longleftrightarrow> mget ns key = None"
    and "mget ns key = Some n \<Longrightarrow> mget ns' key = Some n' \<Longrightarrow> n_Name n' = n_Name n"
    and "mget ns key = Some n \<Longrightarrow> mget ns' key = Some n' \<Longrightarrow> n_ID n' = n_ID n"
    and "mget ns key = Some n \<Longrightarrow> mget ns' key = Some n' \<Longrightarrow> n_Labels n' = n_Labels n"
    and "mget ns key = Some n \<Longrightarrow> mget ns' key = Some n' \<Longrightarrow> a \<noteq> cid \<Longrightarrow>
      mget (n_Containers n') a = mget (n_Containers n) a"
  using assms unfolding net_frame_def by blast+

lemma net_frame_trans: "net_frame cid ns ns' \<Longrightarrow> net_frame cid ns' ns'' \<Longrightarrow> net_frame cid ns ns''"
proof -
  assume *: "net_frame cid ns ns'" "net_frame cid ns' ns''"
  show ?thesis
    unfolding net_frame_def
  proof (intro allI conjI impI)
    fix key
    show "mget ns'' key = None \<longleftrightarrow> mget ns key = None"
      using * by (simp add: net_frameD(1))
    fix n n''
    assume n: "mget ns key = Some n \<and> mget ns'' key = Some n''"
    then obtain n' where n': "mget ns' key = Some n'" using net_frameD(1) [OF *(1), of key] by auto
    show "n_Name n'' = n_Name n" "n_ID n'' = n_ID n" "n_Labels n'' = n_Labels n"
      using n n' net_frameD(2-4) [OF *(1), of key n n'] net_frameD(2-4) [OF *(2), of key n' n''] by simp_all
    show "mget (n_Containers n'') a = mget (n_Containers n) a" if "a \<noteq> cid" for a
      using n n' net_frameD(5) [OF *(1), of key n n' a] net_frameD(5) [OF *(2), of key n' n'' a] that by simp
  qed
qed

lemma net_frame_mput:
  assumes "mget ns key = Some n" and "n_Name n' = n_Name n" "n_ID n' = n_ID n" "n_Labels n' = n_Labels n"
    and "\<And>a. a \<noteq> cid \<Longrightarrow> mget (n_Containers n') a = mget (n_Containers n) a"
  shows "net_frame cid ns (mput ns key n')"
  using assms by (auto simp: net_frame_def)

lemma net_frame_detach: "net_frame cid ns (detach_all cid ns)"
  by (auto simp: net_frame_def detach_all_def)

lemma net_frame_apply: "net_frame cid ns (apply_plan cid ns pl)"
  by (auto simp: apply_plan_def intro!: net_frame_mput split: option.splits)

lemma net_frame_plans: "net_frame cid ns (foldl (apply_plan cid) ns pls)"
  by (induction pls arbitrary: ns) (auto intro: net_frame_trans net_frame_apply)

lemma configure_frame:
  assumes "\<And>c. mget (e_containers e) cid = Some c \<Longrightarrow> c_ID c = cid"
  shows "net_frame cid (e_networks e) (e_networks (snd (configureContainerNetworks cid networkMode aliases e)))"
proof (cases "mget (e_containers e) cid")
  case None
  then show ?thesis by (simp add: configureContainerNetworks_def)
next
  case (Some c)
  have "net_frame cid (e_networks e) (foldl (apply_plan cid) (detach_all cid (e_networks e)) pls)" for pls
    by (rule net_frame_trans [OF net_frame_detach net_frame_plans])
  with Some show ?thesis
    by (auto simp: configureContainerNetworks_def Let_def net_frame_detach split: option.splits sum.splits)
qed

lemma connect_frame:
  assumes "wf_map (e_networks e)"
  shows "net_frame cid (e_networks e) (e_networks (snd (connectContainerNetwork cid ref aliases e)))"
proof (cases "mget (e_containers e) cid")
  case None
  then show ?thesis by (simp add: connectContainerNetwork_def)
next
  case c: (Some c)
  show ?thesis
  proof (cases "find_network_key ref e")
    case None
    with c show ?thesis by (simp add: connectContainerNetwork_def)
  next
    case (Some kn)
    obtain key n where kn: "kn = (key, n)" by (cases kn)
    have n: "mget (e_networks e) key = Some n"
      using assms Some kn by (simp add: find_network_key_Some)
    have "net_frame cid (e_networks e) (mput (e_networks e) key (n\<lparr>n_Containers := mput (n_Containers n) cid ep\<rparr>))"
      "net_frame cid (e_networks e)
        (mput (e_networks e) key (n\<lparr>n_NextHost := h, n_Containers := mput (n_Containers n) cid ep\<rparr>))" for ep h
      by (rule net_frame_mput [OF n]; simp)+
    with c Some kn show ?thesis
      by (auto simp: connectContainerNetwork_def allocateNetworkIPLocked_def Let_def split: sum.splits)
  qed
qed

lemma disconnect_frame:
  assumes "wf_map (e_networks e)"
  shows "net_frame cid (e_networks e) (e_networks (snd (disconnectContainerNetwork cid ref e)))"
proof (cases "find_network_key ref e")
  case None
  then show ?thesis by (simp add: disconnectContainerNetwork_def split: option.splits)
next
  case (Some kn)
  obtain key n where kn: "kn = (key, n)" by (cases kn)
  have n: "mget (e_networks e) key = Some n" using assms Some kn by (simp add: find_network_key_Some)
  have "net_frame cid (e_networks e) (mput (e_networks e) key (n\<lparr>n_Containers := mdel (n_Containers n) cid\<rparr>))"
    by (rule net_frame_mput [OF n]) simp_all
  with Some kn show ?thesis
    by (simp add: disconnectContainerNetwork_def Let_def split: option.splits)
qed

section \<open>Names\<close>

text \<open>
  The predefined network keeps its key; every other network is filed under its ID; names are unique.
\<close>

definition named_ok :: "(string, Network) gomap \<Rightarrow> bool" where
  "named_ok ns \<longleftrightarrow> (\<exists>b. mget ns ''bridge'' = Some b \<and> n_Name b = ''bridge'') \<and>
     (\<forall>key n. mget ns key = Some n \<longrightarrow> key = (if n_Name n = ''bridge'' then ''bridge'' else n_ID n)) \<and>
     (\<forall>k1 k2 n1 n2. mget ns k1 = Some n1 \<and> mget ns k2 = Some n2 \<and> n_Name n1 = n_Name n2 \<longrightarrow> k1 = k2)"

lemma named_okD:
  assumes "named_ok ns"
  shows "\<exists>b. mget ns ''bridge'' = Some b \<and> n_Name b = ''bridge''"
    and "mget ns key = Some n \<Longrightarrow> key = (if n_Name n = ''bridge'' then ''bridge'' else n_ID n)"
    and "mget ns k1 = Some n1 \<Longrightarrow> mget ns k2 = Some n2 \<Longrightarrow> n_Name n1 = n_Name n2 \<Longrightarrow> k1 = k2"
  using assms unfolding named_ok_def by blast+

lemma net_frame_named:
  assumes f: "net_frame cid ns ns'" and ok: "named_ok ns"
  shows "named_ok ns'"
proof -
  have old: "\<exists>n. mget ns key = Some n \<and> n_Name n = n_Name n' \<and> n_ID n = n_ID n'" if "mget ns' key = Some n'" for key n'
  proof -
    from that obtain n where "mget ns key = Some n" using net_frameD(1) [OF f, of key] by auto
    with net_frameD(2,3) [OF f this that] show ?thesis by simp
  qed
  have forth: "\<exists>n'. mget ns' key = Some n' \<and> n_Name n' = n_Name n" if "mget ns key = Some n" for key n
  proof -
    from that obtain n' where "mget ns' key = Some n'" using net_frameD(1) [OF f, of key] by auto
    with net_frameD(2) [OF f that this] show ?thesis by simp
  qed
  show ?thesis
    unfolding named_ok_def
  proof (intro conjI allI impI)
    obtain b where "mget ns ''bridge'' = Some b" and b: "n_Name b = ''bridge''"
      using named_okD(1) [OF ok] by blast
    from forth [OF this(1)] show "\<exists>b. mget ns' ''bridge'' = Some b \<and> n_Name b = ''bridge''"
      unfolding b .
  next
    fix key n
    assume "mget ns' key = Some n"
    with old obtain n0 where "mget ns key = Some n0" "n_Name n0 = n_Name n" "n_ID n0 = n_ID n" by blast
    with named_okD(2) [OF ok this(1)] show "key = (if n_Name n = ''bridge'' then ''bridge'' else n_ID n)" by simp
  next
    fix k1 k2 n1 n2
    assume *: "mget ns' k1 = Some n1 \<and> mget ns' k2 = Some n2 \<and> n_Name n1 = n_Name n2"
    with old obtain m1 m2 where "mget ns k1 = Some m1" "n_Name m1 = n_Name n1"
      "mget ns k2 = Some m2" "n_Name m2 = n_Name n2" by blast
    with * show "k1 = k2" using named_okD(3) [OF ok, of k1 m1 k2 m2] by simp
  qed
qed

lemma net_frame_endpoints:
  assumes "net_frame cid ns ns'" and "mget ns' key = Some n'" and "mmem (n_Containers n') a" and "a \<noteq> cid"
  shows "\<exists>n. mget ns key = Some n \<and> mmem (n_Containers n) a"
proof -
  from assms(2) obtain n where "mget ns key = Some n" using net_frameD(1) [OF assms(1), of key] by auto
  with net_frameD(5) [OF assms(1) this assms(2,4)] assms(3) show ?thesis by (simp add: mmem_def)
qed

end
