(* ===== verification/Container_Contracts.thy ===== *)
theory Container_Contracts
  imports Container_Lifecycle
begin

text \<open>
  What a container promises to its clients, over single operations and over whole runs: scripted
  transitions fire one at a time, restart policies are respected, an exit reaches every waiter
  once, and patches that passed validation mean what they say.
\<close>

section \<open>Scripted transitions and restart policies\<close>

text \<open>The counters, the policy and the restart bookkeeping through the plain operations.\<close>

definition unattended_frame where
  "unattended_frame c = (c_RestartPolicy c, c_manuallyStopped c, c_automaticRestarts c,
     c_StartCount c, c_Status c)"

lemma plain_ops_frame [simp]:
  "unattended_frame (snd (subscribeWait condition c)) = unattended_frame c"
  "unattended_frame (cancelWait w c) = unattended_frame c"
  "unattended_frame (markRemoved c) = unattended_frame c"
  "unattended_frame (appendLog line c) = unattended_frame c"
  "unattended_frame (setPrimaryIP ip c) = unattended_frame c"
  "unattended_frame (setPortBindings bindings c) = unattended_frame c"
  "unattended_frame (updateAssignedPort key index port c) = unattended_frame c"
  "unattended_frame (resetEphemeralAssignedPorts c) = unattended_frame c"
  "unattended_frame (count_event event c) = unattended_frame c"
  by (simp_all add: unattended_frame_def subscribeWait_def cancelWait_def markRemoved_def
      notifyWaitersLocked_def appendLog_def setPrimaryIP_def setPortBindings_def
      updateAssignedPort_def resetEphemeralAssignedPorts_def count_event_def Let_def)

lemma plain_ops_removed:
  "c_removed (snd (subscribeWait condition c)) = c_removed c"
  "c_removed (cancelWait w c) = c_removed c"
  "c_removed (markRemoved c)"
  "c_removed (appendLog line c) = c_removed c"
  "c_removed (setPrimaryIP ip c) = c_removed c"
  "c_removed (setPortBindings bindings c) = c_removed c"
  "c_removed (updateAssignedPort key index port c) = c_removed c"
  "c_removed (resetEphemeralAssignedPorts c) = c_removed c"
  "c_removed (count_event event c) = c_removed c"
  by (simp_all add: subscribeWait_def cancelWait_def markRemoved_def
      notifyWaitersLocked_def appendLog_def setPrimaryIP_def setPortBindings_def
      updateAssignedPort_def resetEphemeralAssignedPorts_def count_event_def Let_def)

text \<open>What a fired transition does, and what a container did when an event advanced it.\<close>

lemma fire_transition_effect:
  assumes "fire_transition now i t (c, pid) = Ret (c', pid')"
  shows "c_Status c' = patched (p_Status (t_Set t)) (c_Status c)"
    and "c_RestartPolicy c' = c_RestartPolicy c" and "c_manuallyStopped c' = c_manuallyStopped c"
    and "c_StartCount c' = c_StartCount c" and "c_removed c' = c_removed c"
    and "c_Counters c' = c_Counters c"
    and "c_AppliedTransitions c' =
      (if t_Once t then mput (c_AppliedTransitions c) i True else c_AppliedTransitions c)"
    and "c_automaticRestarts c' = (if transitionRestartsStopped (c_Status c) (t_Set t)
      then wrap64 (c_automaticRestarts c + 1) else c_automaticRestarts c)"
proof -
  let ?c = "if transitionRestartsStopped (c_Status c) (t_Set t)
       then c\<lparr>c_automaticRestarts := wrap64 (c_automaticRestarts c + 1)\<rparr> else c"
  from assms obtain c2 where ap: "applyPatchLocked now (t_Set t) (?c, pid) = Ret (c2, pid')"
    and c': "c' = (if t_Once t then c2\<lparr>c_AppliedTransitions := mput (c_AppliedTransitions c2) i True\<rparr> else c2)"
    by (rule fire_patch)
  note eff = applyPatchLocked_status(1,5) [OF ap] applyPatchLocked_frame(2,3,4,5,6,7) [OF ap]
  show "c_Status c' = patched (p_Status (t_Set t)) (c_Status c)" "c_removed c' = c_removed c"
    "c_RestartPolicy c' = c_RestartPolicy c" "c_manuallyStopped c' = c_manuallyStopped c"
    "c_StartCount c' = c_StartCount c" "c_Counters c' = c_Counters c"
    "c_AppliedTransitions c' = (if t_Once t then mput (c_AppliedTransitions c) i True else c_AppliedTransitions c)"
    "c_automaticRestarts c' = (if transitionRestartsStopped (c_Status c) (t_Set t)
      then wrap64 (c_automaticRestarts c + 1) else c_automaticRestarts c)"
    using eff by (simp_all add: c')
qed

lemma advance_cases:
  assumes "advance now event (c, pid) = Ret (ea, c', pid')"
  obtains (none) "c' = count_event event c" "pid' = pid" "ea_Transition ea = []"
      "\<forall>k < length (s_Transitions (c_Scenario c)).
         \<not> transition_enabled event (wrap64 (mget_or 0 (c_Counters c) event + 1)) (count_event event c) k
             (s_Transitions (c_Scenario c) ! k)"
  | (fired) k where "k < length (s_Transitions (c_Scenario c))"
      "transition_enabled event (wrap64 (mget_or 0 (c_Counters c) event + 1)) (count_event event c) k
         (s_Transitions (c_Scenario c) ! k)"
      "\<forall>j < k. \<not> transition_enabled event (wrap64 (mget_or 0 (c_Counters c) event + 1)) (count_event event c) j
         (s_Transitions (c_Scenario c) ! j)"
      "fire_transition now k (s_Transitions (c_Scenario c) ! k) (count_event event c, pid) = Ret (c', pid')"
      "ea_Transition ea = ''transition['' @ itoa (int k) @ '']''"
  using assms
proof (rule advance_steps)
  fix r
  assume loop: "advance_loop now event (wrap64 (mget_or 0 (c_Counters c) event + 1)) 0 (s_Transitions (c_Scenario c))
      (count_event event c, pid) = Ret (r, c', pid')"
    and ea: "ea = \<lparr>ea_Count = wrap64 (mget_or 0 (c_Counters c) event + 1), ea_Before = stateSnapshot c,
      ea_After = stateSnapshot c',
      ea_Transition = (case r of None \<Rightarrow> [] | Some i \<Rightarrow> ''transition['' @ itoa (int i) @ '']'')\<rparr>"
  show thesis
    using advance_loop_fires [OF loop] ea by (elim disjE exE conjE) (auto intro: none fired)
qed

text \<open>The transition an event selects, as a search.\<close>

definition first_enabled :: "string \<Rightarrow> int \<Rightarrow> Container \<Rightarrow> nat option" where
  "first_enabled event count c =
     find (\<lambda>k. transition_enabled event count c k (s_Transitions (c_Scenario c) ! k))
       [0..<length (s_Transitions (c_Scenario c))]"

lemma first_enabled_None:
  "\<forall>k < length (s_Transitions (c_Scenario c)).
     \<not> transition_enabled event count c k (s_Transitions (c_Scenario c) ! k) \<Longrightarrow>
   first_enabled event count c = None"
  by (simp add: first_enabled_def find_None_iff)

lemma first_enabled_Some:
  "k < length (s_Transitions (c_Scenario c)) \<Longrightarrow>
   transition_enabled event count c k (s_Transitions (c_Scenario c) ! k) \<Longrightarrow>
   \<forall>j < k. \<not> transition_enabled event count c j (s_Transitions (c_Scenario c) ! j) \<Longrightarrow>
   first_enabled event count c = Some k"
  by (auto simp: first_enabled_def find_Some_iff)

lemma count_event_sel: "c_Scenario (count_event event c) = c_Scenario c"
  by (simp add: count_event_def Let_def)

text \<open>What counting an event changes.\<close>

lemma count_event_counts:
  "eventCount e (count_event event c) =
     (if e = event \<or> e = ''docker.observe'' \<and> (event = ''docker.inspect'' \<or> event = ''docker.list'')
      then wrap64 (eventCount e c + 1) else eventCount e c)"
  by (auto simp: eventCount_def count_event_def Let_def mget_or_increment isDockerObserveEvent_def)

lemma count_event_frame:
  "(count_event event c)\<lparr>c_Counters := m\<rparr> = c\<lparr>c_Counters := m\<rparr>"
  "c_Status (count_event event c) = c_Status c"
  "c_AppliedTransitions (count_event event c) = c_AppliedTransitions c"
  by (simp_all add: count_event_def Let_def)

lemma count_event_only: "count_event event c = c\<lparr>c_Counters := c_Counters (count_event event c)\<rparr>"
  by (simp add: count_event_def Let_def)

section \<open>Restart policies\<close>

definition stopped :: "Container \<Rightarrow> bool" where
  "stopped c \<longleftrightarrow> c_Status c \<in> {sCreated, sExited, sDead}"

text \<open>Reasons for which no scripted transition may bring a stopped container back.\<close>

definition barred :: "Container \<Rightarrow> bool" where
  "barred c \<longleftrightarrow> c_manuallyStopped c \<or> c_removed c \<or> c_StartCount c = 0 \<or>
     rp_Name (c_RestartPolicy c) \<notin> {''always'', ''unless-stopped'', ''on-failure''}"

text \<open>The operations other than the two by which a client starts a container, and direct patches.\<close>

fun unattended :: "container_op \<Rightarrow> bool" where
  "unattended (OpStart now) = False"
| "unattended (OpRestart now) = False"
| "unattended (OpPatch now patch) = False"
| "unattended x = True"

definition stopped_inv :: "Container \<times> int \<Rightarrow> bool" where
  "stopped_inv s \<longleftrightarrow> lifecycle_inv s \<and> stopped (fst s) \<and> barred (fst s)"

lemma barred_not_allowed: "barred c \<Longrightarrow> \<not> automaticRestartAllowed c"
  by (auto simp: barred_def automaticRestartAllowed_def Let_def)

lemma barred_frame:
  "unattended_frame c' = unattended_frame c \<Longrightarrow> c_removed c' = c_removed c \<or> c_removed c' \<Longrightarrow>
   stopped c \<Longrightarrow> barred c \<Longrightarrow> stopped c' \<and> barred c'"
  by (auto simp: unattended_frame_def stopped_def barred_def)

lemma advance_stopped:
  assumes inv: "lifecycle_inv (c, pid)" and st: "stopped c" "barred c"
    and adv: "advance now event (c, pid) = Ret (ea, c', pid')"
  shows "stopped c' \<and> barred c'"
  using adv
proof (cases rule: advance_cases)
  case none
  then show ?thesis using st barred_frame [of "count_event event c" c] by (simp add: plain_ops_removed)
next
  case (fired k)
  let ?t = "s_Transitions (c_Scenario c) ! k" and ?c = "count_event event c"
  have frame: "unattended_frame ?c = unattended_frame c" "c_removed ?c = c_removed c"
    by (simp_all add: plain_ops_removed)
  then have st': "stopped ?c" "barred ?c" using st barred_frame by blast+
  have "\<not> transitionRestartsStopped (c_Status ?c) (t_Set ?t)"
    using fired(2) barred_not_allowed [OF st'(2)] by (simp add: transition_enabled_def)
  then have "p_Status (t_Set ?t) \<noteq> Some sRunning" "p_Status (t_Set ?t) \<noteq> Some sRestarting"
    using st'(1) by (auto simp: transitionRestartsStopped_def stopped_def)
  moreover have "patch_safe (t_Set ?t)"
    using scenario_safe_nth [OF lifecycle_inv_scenario [OF inv] fired(1)] .
  ultimately have "patched (p_Status (t_Set ?t)) (c_Status ?c) \<in> {sCreated, sExited, sDead}"
    using st'(1) by (auto simp: patch_safe_def status_values_def stopped_def split: option.splits)
  with fire_transition_effect [OF fired(4)] st'(2) show ?thesis
    by (simp add: stopped_def barred_def)
qed

lemma stopped_not_running: "canonical c \<Longrightarrow> stopped c \<Longrightarrow> \<not> c_Running c \<and> \<not> c_Paused c"
  by (auto simp: canonical_iff stopped_def)

lemma exec_op_stopped:
  assumes inv: "lifecycle_inv (c, pid)" "stopped c" "barred c" and "unattended x"
    and ex: "exec_op x (c, pid) = Ret (c', pid')"
  shows "stopped c' \<and> barred c'"
proof -
  have run: "\<not> c_Running c" "\<not> c_Paused c"
    using stopped_not_running inv by (auto simp: lifecycle_inv_def)
  note frame = barred_frame [OF _ _ inv(2,3)]
  show ?thesis
  proof (cases x)
    case (OpStop now code)
    then obtain snaps where "stop now code (c, pid) = Ret (snaps, c', pid')"
      using ex by (auto simp: go_bind_Ret)
    note ap = stop_patch(1) [OF this]
    show ?thesis
      using applyPatchLocked_status(1) [OF ap] applyPatchLocked_frame(3) [OF ap]
      by (simp add: stopped_def barred_def stopPatch_def)
  next
    case (OpKill now)
    then obtain res where "kill now (c, pid) = Ret (res, c', pid')" using ex by auto
    from kill_patch(2) [OF this] run inv show ?thesis by simp
  next
    case (OpAdvance now event)
    then obtain ea where "advance now event (c, pid) = Ret (ea, c', pid')" using ex by auto
    with inv show ?thesis by (rule advance_stopped)
  next
    case OpPause
    with ex run inv show ?thesis by (simp add: pause_def Let_def)
  next
    case OpUnpause
    with ex run inv show ?thesis by (simp add: unpause_def Let_def)
  qed (use ex \<open>unattended x\<close> in \<open>auto intro!: frame simp: plain_ops_removed\<close>)
qed

interpretation idle: invariant_machine exec_op stopped_inv unattended
proof
  fix s s' :: "Container \<times> int" and x
  assume inv: "stopped_inv s" and x: "unattended x"
  then have li: "lifecycle_inv s" by (simp add: stopped_inv_def)
  have safe: "op_safe x" using x by (cases x) auto
  show "returns (exec_op x s)" using li safe by (rule container.no_panic)
  assume ex: "exec_op x s = Ret s'"
  have "lifecycle_inv s'" using li safe ex by (rule container.keeps)
  moreover obtain c pid c' pid' where [simp]: "s = (c, pid)" "s' = (c', pid')" by (cases s; cases s')
  ultimately show "stopped_inv s'"
    using exec_op_stopped [of c pid x c' pid'] inv x ex by (simp add: stopped_inv_def)
qed

text \<open>The retry budget of the policy \<^verbatim>\<open>on-failure\<close>.\<close>

definition limited :: "Container \<Rightarrow> bool" where
  "limited c \<longleftrightarrow> rp_Name (c_RestartPolicy c) = ''on-failure'' \<and>
     0 < rp_MaximumRetryCount (c_RestartPolicy c) \<and> rp_MaximumRetryCount (c_RestartPolicy c) \<le> maxInt64"

definition in_budget :: "Container \<Rightarrow> bool" where
  "in_budget c \<longleftrightarrow> 0 \<le> c_automaticRestarts c \<and>
     c_automaticRestarts c \<le> rp_MaximumRetryCount (c_RestartPolicy c)"

definition budget_inv :: "Container \<times> int \<Rightarrow> bool" where
  "budget_inv s \<longleftrightarrow> lifecycle_inv s \<and> (limited (fst s) \<longrightarrow> in_budget (fst s))"

text \<open>What a step does to the budget; \<open>revives\<close> tells a step that brings a stopped container back.\<close>

definition revives :: "Container \<Rightarrow> Container \<Rightarrow> bool" where
  "revives c c' \<longleftrightarrow> \<not> c_Running c \<and> c_Running c'"

lemma advance_budget:
  assumes inv: "lifecycle_inv (c, pid)" and adv: "advance now event (c, pid) = Ret (ea, c', pid')"
    and lim: "limited c" "in_budget c"
  shows "in_budget c' \<and> (if revives c c' then 1 else 0) + c_automaticRestarts c \<le> c_automaticRestarts c'"
  using adv
proof (cases rule: advance_cases)
  case none
  with lim(2) show ?thesis by (simp add: count_event_def Let_def revives_def in_budget_def)
next
  case (fired k)
  let ?t = "s_Transitions (c_Scenario c) ! k" and ?c = "count_event event c"
  have frame: "c_Status ?c = c_Status c" "c_RestartPolicy ?c = c_RestartPolicy c"
    "c_automaticRestarts ?c = c_automaticRestarts c"
    by (simp_all add: count_event_def Let_def)
  note eff = fire_transition_effect [OF fired(4), unfolded frame]
  have can: "canonical c" "canonical c'"
    using inv advance_inv [OF inv adv] by (simp_all add: lifecycle_inv_def)
  have allowed: "transitionRestartsStopped (c_Status c) (t_Set ?t) \<Longrightarrow> automaticRestartAllowed ?c"
    using fired(2) by (simp add: transition_enabled_def frame)
  have "c_automaticRestarts c < rp_MaximumRetryCount (c_RestartPolicy c)"
    if "automaticRestartAllowed ?c"
    using that lim(1) by (auto simp: limited_def automaticRestartAllowed_def Let_def frame)
  moreover from this have "wrap64 (c_automaticRestarts c + 1) = c_automaticRestarts c + 1"
    if "automaticRestartAllowed ?c"
    using that lim by (intro wrap64_id) (auto simp: limited_def in_budget_def minInt64_def)
  moreover have "revives c c' \<Longrightarrow> transitionRestartsStopped (c_Status c) (t_Set ?t)"
    using can eff(1)
    by (cases "p_Status (t_Set ?t)")
       (auto simp: revives_def canonical_iff transitionRestartsStopped_def lifecycle_statuses_def)
  ultimately show ?thesis using eff allowed lim(2) by (auto simp: in_budget_def)
qed

text \<open>
  Every operation either patches the container, apart from bookkeeping before and after, or leaves
  the lifecycle alone. \<open>core\<close> is what the bookkeeping does not touch.
\<close>

definition core where
  "core c = (c_waiters c, c_sent c, c_nextWaiter c, c_removed c, c_RestartPolicy c, c_Scenario c,
     c_Status c, c_Running c, c_ExitCode c, c_Error c, c_ID c, c_Name c, c_Kind c)"

fun patching :: "container_op \<Rightarrow> bool" where
  "patching (OpStart now) = True"
| "patching (OpStop now code) = True"
| "patching (OpKill now) = True"
| "patching (OpRestart now) = True"
| "patching (OpAdvance now event) = True"
| "patching (OpPatch now patch) = True"
| "patching x = False"

lemma advance_via_patch:
  assumes "advance now event (c, pid) = Ret (ea, c', pid')"
  shows "core c' = core c \<or> (\<exists>p c0 c2. core c0 = core c \<and> core c2 = core c' \<and>
     applyPatchLocked now p (c0, pid) = Ret (c2, pid'))"
  using assms
proof (cases rule: advance_cases)
  case none
  then show ?thesis by (simp add: core_def count_event_def Let_def)
next
  case (fired k)
  from fired(4) show ?thesis
  proof (rule fire_patch)
    fix c2
    let ?t = "t_Set (s_Transitions (c_Scenario c) ! k)" and ?c = "count_event event c"
    let ?c0 = "if transitionRestartsStopped (c_Status ?c) ?t
       then ?c\<lparr>c_automaticRestarts := wrap64 (c_automaticRestarts ?c + 1)\<rparr> else ?c"
    assume ap: "applyPatchLocked now ?t (?c0, pid) = Ret (c2, pid')"
      and c': "c' = (if t_Once (s_Transitions (c_Scenario c) ! k)
        then c2\<lparr>c_AppliedTransitions := mput (c_AppliedTransitions c2) k True\<rparr> else c2)"
    have "core ?c0 = core c" "core c2 = core c'"
      by (simp_all add: core_def count_event_def c' Let_def)
    with ap show ?thesis by blast
  qed
qed

lemma exec_op_via_patch:
  assumes "exec_op x (c, pid) = Ret (c', pid')" and "patching x"
  shows "core c' = core c \<or> (\<exists>now p c0 c2. core c0 = core c \<and> core c2 = core c' \<and>
     applyPatchLocked now p (c0, pid) = Ret (c2, pid'))"
proof (cases x)
  case (OpStart now)
  with assms obtain snaps where "start now (c, pid) = Ret (snaps, c', pid')" by auto
  then show ?thesis
  proof (rule start_patch)
    fix c2
    let ?c0 = "c\<lparr>c_manuallyStopped := False, c_automaticRestarts := 0\<rparr>"
    assume "applyPatchLocked now (startPatch ?c0) (?c0, pid) = Ret (c2, pid')"
      and "c' = c2\<lparr>c_StartCount := wrap64 (c_StartCount c2 + 1),
        c_Logs := c_Logs c2 @ [start_log (c2\<lparr>c_StartCount := wrap64 (c_StartCount c2 + 1)\<rparr>)]\<rparr>"
    moreover from this(2) have "core c2 = core c'" by (simp add: core_def)
    moreover have "core ?c0 = core c" by (simp add: core_def)
    ultimately show ?thesis by blast
  qed
next
  case (OpStop now code)
  with assms obtain snaps where "stop now code (c, pid) = Ret (snaps, c', pid')" by auto
  from stop_patch(1) [OF this] show ?thesis
    by (intro disjI2 exI conjI) (auto simp: core_def)
next
  case (OpKill now)
  with assms obtain res where k: "kill now (c, pid) = Ret (res, c', pid')" by auto
  have "core (c\<lparr>c_manuallyStopped := True\<rparr>) = core c" by (simp add: core_def)
  with kill_patch [OF k] show ?thesis
    by (cases "c_Running c \<and> \<not> c_Dead c \<and> \<not> c_removed c") blast+
next
  case (OpRestart now)
  with assms obtain snaps where "restart now (c, pid) = Ret (snaps, c', pid')" by auto
  from restart_patch [OF this] show ?thesis
    by (intro disjI2 exI conjI) (auto simp: core_def)
next
  case (OpAdvance now event)
  with assms obtain ea where "advance now event (c, pid) = Ret (ea, c', pid')" by auto
  from advance_via_patch [OF this] show ?thesis by blast
next
  case (OpPatch now p)
  with assms show ?thesis by (auto simp: applyPatch_def)
qed (use assms in auto)

lemmas plain_op_defs = pause_def unpause_def subscribeWait_def cancelWait_def markRemoved_def
  notifyWaitersLocked_def appendLog_def setPrimaryIP_def setPortBindings_def
  updateAssignedPort_def resetEphemeralAssignedPorts_def Let_def

lemma exec_op_policy:
  assumes "exec_op x (c, pid) = Ret (c', pid')"
  shows "c_RestartPolicy c' = c_RestartPolicy c"
proof (cases "patching x")
  case True
  from exec_op_via_patch [OF assms this] show ?thesis
    by (auto simp: core_def dest: applyPatchLocked_frame(2))
next
  case False
  with assms show ?thesis by (cases x) (auto simp: plain_op_defs)
qed

text \<open>Results already sent stay.\<close>

lemma exec_op_sent:
  assumes "exec_op x (c, pid) = Ret (c', pid')"
  shows "\<exists>new. c_sent c' = c_sent c @ new"
proof (cases "patching x")
  case True
  have step: "\<exists>new. c_sent c2 = c_sent c0 @ new" if "applyPatchLocked now p (c0, pid) = Ret (c2, pid')" for now p c0 c2
    using applyPatchLocked_waiters(2) [OF that] by (auto split: if_splits)
  from exec_op_via_patch [OF assms True] consider "core c' = core c"
    | now p c0 c2 where "core c0 = core c" "core c2 = core c'" "applyPatchLocked now p (c0, pid) = Ret (c2, pid')"
    by blast
  then show ?thesis
  proof cases
    case 2
    from step [OF 2(3)] 2(1,2) show ?thesis by (simp add: core_def)
  qed (simp add: core_def)
next
  case False
  with assms show ?thesis by (cases x) (auto simp: plain_op_defs)
qed

lemma run_sent:
  "run_all exec_op xs (c, pid) = Ret (c', pid') \<Longrightarrow> \<exists>new. c_sent c' = c_sent c @ new"
proof (induction xs arbitrary: c pid)
  case (Cons x xs)
  then obtain c1 pid1 where "exec_op x (c, pid) = Ret (c1, pid1)" "run_all exec_op xs (c1, pid1) = Ret (c', pid')"
    by auto
  with Cons.IH exec_op_sent show ?case by (metis append.assoc)
qed simp

lemma exec_op_budget:
  assumes inv: "lifecycle_inv (c, pid)" and ex: "exec_op x (c, pid) = Ret (c', pid')"
    and lim: "limited c" "in_budget c"
  shows "in_budget c'"
proof -
  have pol: "c_RestartPolicy c' = c_RestartPolicy c" using ex by (rule exec_op_policy)
  have zero: "c_automaticRestarts c' = 0 \<Longrightarrow> in_budget c'"
    and same: "c_automaticRestarts c' = c_automaticRestarts c \<Longrightarrow> in_budget c'"
    using lim pol by (simp_all add: in_budget_def limited_def)
  show ?thesis
  proof (cases x)
    case (OpAdvance now event)
    with ex obtain ea where "advance now event (c, pid) = Ret (ea, c', pid')" by auto
    from advance_budget [OF inv this lim] show ?thesis by simp
  next
    case (OpStart now)
    with ex obtain snaps where "start now (c, pid) = Ret (snaps, c', pid')" by auto
    then have "c_automaticRestarts c' = 0"
      by (rule start_patch) (simp add: applyPatchLocked_frame(4))
    then show ?thesis by (rule zero)
  next
    case (OpRestart now)
    with ex obtain snaps where "restart now (c, pid) = Ret (snaps, c', pid')" by auto
    from applyPatchLocked_frame(4) [OF restart_patch [OF this]] show ?thesis by (simp add: zero)
  next
    case (OpStop now code)
    with ex obtain snaps where "stop now code (c, pid) = Ret (snaps, c', pid')" by auto
    from applyPatchLocked_frame(4) [OF stop_patch(1) [OF this]] show ?thesis by (simp add: same)
  next
    case (OpKill now)
    with ex obtain res where k: "kill now (c, pid) = Ret (res, c', pid')" by auto
    show ?thesis
      using kill_patch [OF k] applyPatchLocked_frame(4) [of now _ "c\<lparr>c_manuallyStopped := True\<rparr>" pid c' pid']
      by (cases "c_Running c \<and> \<not> c_Dead c \<and> \<not> c_removed c") (auto intro: same lim(2))
  next
    case (OpPatch now p)
    with ex have "applyPatchLocked now p (c, pid) = Ret (c', pid')" by (auto simp: applyPatch_def)
    from applyPatchLocked_frame(4) [OF this] show ?thesis by (rule same)
  qed (use ex in \<open>auto intro!: same simp: plain_op_defs split: if_splits\<close>)
qed

interpretation budget: invariant_machine exec_op budget_inv op_safe
proof
  fix s s' :: "Container \<times> int" and x
  assume inv: "budget_inv s" and x: "op_safe x"
  then have li: "lifecycle_inv s" by (simp add: budget_inv_def)
  show "returns (exec_op x s)" using li x by (rule container.no_panic)
  assume ex: "exec_op x s = Ret s'"
  have "lifecycle_inv s'" using li x ex by (rule container.keeps)
  moreover obtain c pid c' pid' where [simp]: "s = (c, pid)" "s' = (c', pid')" by (cases s; cases s')
  ultimately show "budget_inv s'"
    using exec_op_budget [of c pid x c' pid'] exec_op_policy [of x c pid c' pid'] inv ex
    by (simp add: budget_inv_def limited_def)
qed

text \<open>How often a run brings the container back from a stop.\<close>

fun revivals :: "container_op list \<Rightarrow> Container \<times> int \<Rightarrow> int" where
  "revivals [] s = 0"
| "revivals (x # xs) s =
     (case exec_op x s of
        Panic e \<Rightarrow> 0
      | Ret s' \<Rightarrow> (if revives (fst s) (fst s') then 1 else 0) + revivals xs s')"

lemma unattended_revives:
  assumes inv: "lifecycle_inv (c, pid)" and un: "unattended x" and ex: "exec_op x (c, pid) = Ret (c', pid')"
    and lim: "limited c" "in_budget c"
  shows "(if revives c c' then 1 else 0) + c_automaticRestarts c \<le> c_automaticRestarts c'"
proof (cases x)
  case (OpAdvance now event)
  with ex obtain ea where "advance now event (c, pid) = Ret (ea, c', pid')" by auto
  from advance_budget [OF inv this lim] show ?thesis by simp
next
  case (OpStop now code)
  with ex obtain snaps where "stop now code (c, pid) = Ret (snaps, c', pid')" by auto
  note ap = stop_patch(1) [OF this]
  have "c_Status c' = sExited" "canonical c'"
    using applyPatchLocked_status(1,2) [OF ap] by (simp_all add: stopPatch_def)
  with applyPatchLocked_frame(4) [OF ap] show ?thesis by (simp add: revives_def canonical_iff)
next
  case (OpKill now)
  with ex obtain res where k: "kill now (c, pid) = Ret (res, c', pid')" by auto
  show ?thesis
    using kill_patch [OF k] applyPatchLocked_frame(4) [of now _ "c\<lparr>c_manuallyStopped := True\<rparr>" pid c' pid']
    by (cases "c_Running c \<and> \<not> c_Dead c \<and> \<not> c_removed c") (auto simp: revives_def)
next
  case OpUnpause
  have "c_Paused c \<Longrightarrow> c_Running c" using inv by (simp add: lifecycle_inv_def canonical_iff)
  with ex OpUnpause show ?thesis by (auto simp: revives_def unpause_def Let_def split: if_splits)
qed (use ex un in \<open>auto simp: plain_op_defs revives_def split: if_splits\<close>)

lemma revivals_bound:
  assumes "budget_inv (c, pid)" and "list_all unattended xs" and "limited c"
  shows "revivals xs (c, pid) + c_automaticRestarts c \<le> rp_MaximumRetryCount (c_RestartPolicy c)"
  using assms
proof (induction xs arbitrary: c pid)
  case Nil
  then show ?case by (simp add: budget_inv_def in_budget_def)
next
  case (Cons x xs)
  have safe: "op_safe x" using Cons.prems(2) by (cases x) auto
  obtain c1 pid1 where ex: "exec_op x (c, pid) = Ret (c1, pid1)"
    using budget.no_panic [OF Cons.prems(1) safe] by (auto simp: returns_iff)
  have b1: "budget_inv (c1, pid1)" using Cons.prems(1) safe ex by (rule budget.keeps)
  have pol: "c_RestartPolicy c1 = c_RestartPolicy c" using ex by (rule exec_op_policy)
  have "revivals xs (c1, pid1) + c_automaticRestarts c1 \<le> rp_MaximumRetryCount (c_RestartPolicy c)"
    using Cons.IH [OF b1] Cons.prems(2,3) pol by (simp add: limited_def)
  moreover have "(if revives c c1 then 1 else 0) + c_automaticRestarts c \<le> c_automaticRestarts c1"
    using Cons.prems ex by (intro unattended_revives) (auto simp: budget_inv_def)
  ultimately show ?case using ex by simp
qed

section \<open>Waiting for an exit\<close>

text \<open>What arrived on a waiter's channel.\<close>

definition results_of :: "nat \<Rightarrow> Container \<Rightarrow> containerWaitResult list" where
  "results_of w c = map snd (filter (\<lambda>r. fst r = w) (c_sent c))"

lemma mget_filter:
  "wf_map m \<Longrightarrow> mget (filter P m) k = (case mget m k of Some v \<Rightarrow> if P (k, v) then Some v else None | None \<Rightarrow> None)"
proof (induction m)
  case (Cons e m)
  then have "mget m (fst e) = None" "wf_map m" by (cases e; simp add: wf_map_Cons)+
  with Cons.IH show ?case by (cases e) (auto split: option.splits)
qed simp

lemma filter_key_single:
  "wf_map m \<Longrightarrow> mget m k = Some v \<Longrightarrow> filter (\<lambda>e. fst e = k \<and> P e) m = (if P (k, v) then [(k, v)] else [])"
proof (induction m)
  case (Cons e m)
  have none: "mget m (fst e) = None" using Cons.prems(1) by (cases e) (simp add: wf_map_Cons)
  then have "fst e \<notin> fst ` set m" by (simp add: mget_def map_of_eq_None_iff)
  then have "filter (\<lambda>a. fst a = fst e \<and> P a) m = []"
    by (metis (mono_tags, lifting) filter_False imageI)
  with Cons show ?case by (cases e) (auto simp: wf_map_Cons split: if_splits)
qed simp

text \<open>An exit, seen from one waiter.\<close>

lemma exit_results:
  assumes ok: "waiters_ok c" and w: "mget (c_waiters c) w = Some condition"
    and sent: "c_sent c' = c_sent c @ map (\<lambda>v. (fst v, res)) (filter (notified False) (c_waiters c))"
    and reg: "c_waiters c' = filter (\<lambda>v. \<not> notified False v) (c_waiters c)"
  shows "results_of w c' = (if condition = ''removed'' then [] else [res])"
    and "mget (c_waiters c') w = (if condition = ''removed'' then Some condition else None)"
proof -
  have wf: "wf_map (c_waiters c)" using ok by (simp add: waiters_ok_def)
  have "w \<in> set (mkeys (c_waiters c))" using w by (simp add: set_mkeys)
  then have "w \<notin> fst ` set (c_sent c)" using ok by (auto simp: waiters_ok_def)
  then have "filter (\<lambda>r. fst r = w) (c_sent c) = []" by (force simp: filter_empty_conv)
  moreover have "filter (\<lambda>v. fst v = w \<and> notified False v) (c_waiters c) =
      (if condition = ''removed'' then [] else [(w, condition)])"
    using filter_key_single [OF wf w, of "notified False"] by (simp add: notified_def)
  ultimately show "results_of w c' = (if condition = ''removed'' then [] else [res])"
    by (simp add: results_of_def sent filter_map comp_def conj_commute)
  show "mget (c_waiters c') w = (if condition = ''removed'' then Some condition else None)"
    by (simp add: reg mget_filter [OF wf] w notified_def)
qed

lemma results_stay:
  assumes "distinct (map fst (c_sent c'))" and "c_sent c' = c_sent c @ new" and "results_of w c = [r]"
  shows "results_of w c' = results_of w c"
proof -
  from assms(3) have "w \<in> fst ` set (c_sent c)"
    by (force simp: results_of_def filter_eq_Cons_iff map_eq_Cons_conv)
  with assms(1,2) have "w \<notin> fst ` set new" by auto
  then have "filter (\<lambda>r. fst r = w) new = []" by (force simp: filter_empty_conv)
  then show ?thesis by (simp add: results_of_def assms(2))
qed

text \<open>A registered waiter stays registered until it has a result or is cancelled.\<close>

lemma waiting_notify:
  assumes "mget (c_waiters c) w = Some condition"
    and "c_waiters c' = filter (\<lambda>v. \<not> P v) (c_waiters c)"
    and "c_sent c' = c_sent c @ map (\<lambda>v. (fst v, res)) (filter P (c_waiters c))" and "wf_map (c_waiters c)"
  shows "mget (c_waiters c') w = Some condition \<or> w \<in> fst ` set (c_sent c')"
proof (cases "P (w, condition)")
  case True
  have "(w, condition) \<in> set (c_waiters c)" using assms(1) by (rule mget_Some_in)
  with True assms(3) show ?thesis by force
next
  case False
  with assms show ?thesis by (simp add: mget_filter)
qed

lemma exec_op_waiting:
  assumes inv: "lifecycle_inv (c, pid)" and w: "mget (c_waiters c) w = Some condition" and x: "x \<noteq> OpCancel w"
    and ex: "exec_op x (c, pid) = Ret (c', pid')"
  shows "mget (c_waiters c') w = Some condition \<or> w \<in> fst ` set (c_sent c')"
proof (cases "patching x")
  case True
  have wf: "wf_map (c_waiters c)" using inv by (simp add: lifecycle_inv_def waiters_ok_def)
  from exec_op_via_patch [OF ex True] consider "core c' = core c"
    | now p c0 c2 where "core c0 = core c" "core c2 = core c'" "applyPatchLocked now p (c0, pid) = Ret (c2, pid')"
    by blast
  then show ?thesis
  proof cases
    case 2
    note eff = applyPatchLocked_waiters [OF 2(3)]
    show ?thesis
    proof (cases "patch_exits p c0")
      case True
      have "mget (c_waiters c2) w = Some condition \<or> w \<in> fst ` set (c_sent c2)"
        using w wf 2(1) eff True
        by (intro waiting_notify [of c0 w condition c2 "notified False" "waitResult c2"]) (simp_all add: core_def)
      with 2(2) show ?thesis by (simp add: core_def)
    qed (use eff 2(1,2) w in \<open>simp add: core_def\<close>)
  qed (use w in \<open>simp add: core_def\<close>)
next
  case False
  have lt: "w < c_nextWaiter c" using inv w by (auto simp: lifecycle_inv_def waiters_ok_def set_mkeys)
  have "w \<in> fst ` set (c_waiters c)" using mget_Some_in [OF w] by force
  with ex False x w lt show ?thesis
    by (cases x) (auto simp: plain_op_defs notified_def image_Un image_image split: if_splits, force)
qed

lemma run_waiting:
  assumes "lifecycle_inv (c, pid)" and "list_all op_safe xs" and "OpCancel w \<notin> set xs"
    and "run_all exec_op xs (c, pid) = Ret (c', pid')"
    and "mget (c_waiters c) w = Some condition" and "results_of w c' = []"
  shows "mget (c_waiters c') w = Some condition"
  using assms
proof (induction xs arbitrary: c pid)
  case (Cons x xs)
  from Cons.prems(4) obtain c1 pid1 where ex: "exec_op x (c, pid) = Ret (c1, pid1)"
    and run: "run_all exec_op xs (c1, pid1) = Ret (c', pid')" by auto
  have i1: "lifecycle_inv (c1, pid1)" using Cons.prems(1,2) ex by (auto intro: container.keeps)
  have "w \<notin> fst ` set (c_sent c1)"
    using run_sent [OF run] Cons.prems(6) by (force simp: results_of_def filter_empty_conv)
  then have "mget (c_waiters c1) w = Some condition"
    using exec_op_waiting [OF Cons.prems(1,5) _ ex] Cons.prems(3) by auto
  then show ?case using Cons.IH [OF i1 _ _ run] Cons.prems(2,3,6) by simp
qed simp

section \<open>Validated patches\<close>

lemma validateStateValue_None:
  "validateStateValue path ''status'' v False = None \<longleftrightarrow> v \<in> set status_values"
  by (simp add: validateStateValue_def Let_def)

lemma validated_patch_safe: "validateStatePatch path p b = None \<Longrightarrow> patch_safe p"
  by (auto simp: validateStatePatch_def patch_safe_def validateStateValue_None split: option.splits)

text \<open>The explicit flags a validated patch may carry, by the status it sets.\<close>

lemma validated_flags:
  assumes "validateStatePatch path p b = None"
  shows "p_Status p = None \<Longrightarrow> p_Running p = None \<and> p_Restarting p = None \<and> p_Dead p = None"
    and "p_Status p = Some v \<Longrightarrow> v \<in> set status_values \<and>
      p_Running p \<in> {None, Some (v \<in> {sRunning, sRestarting})} \<and>
      p_Restarting p \<in> {None, Some (v = sRestarting)} \<and> p_Dead p \<in> {None, Some (v = sDead)}"
proof -
  show "p_Status p = None \<Longrightarrow> p_Running p = None \<and> p_Restarting p = None \<and> p_Dead p = None"
    using assms by (auto simp: validateStatePatch_def)
  assume v: "p_Status p = Some v"
  then have st: "v \<in> set status_values"
    using validated_patch_safe [OF assms] by (simp add: patch_safe_def)
  moreover have "status_flag_conflicts path v p = None"
    using assms v by (simp add: validateStatePatch_def)
  ultimately show "v \<in> set status_values \<and>
      p_Running p \<in> {None, Some (v \<in> {sRunning, sRestarting})} \<and>
      p_Restarting p \<in> {None, Some (v = sRestarting)} \<and> p_Dead p \<in> {None, Some (v = sDead)}"
    by (cases "p_Running p"; cases "p_Restarting p"; cases "p_Dead p")
       (auto simp: status_flag_conflicts_def status_values_def)
qed

lemma validated_flags_kept:
  assumes "validateStatePatch path p b = None" and "canonical c" and "c_Status c = patched (p_Status p) old"
  shows "c_Running c = patched (p_Running p) (c_Running c) \<and>
    c_Restarting c = patched (p_Restarting p) (c_Restarting c) \<and> c_Dead c = patched (p_Dead p) (c_Dead c)"
proof (cases "p_Status p")
  case None
  from validated_flags(1) [OF assms(1) this] show ?thesis by simp
next
  case (Some v)
  then have "c_Status c = v" "v \<noteq> sPaused"
    using assms(3) validated_flags(2) [OF assms(1) Some] by auto
  then have "c_Running c = (v \<in> {sRunning, sRestarting})" "c_Restarting c = (v = sRestarting)"
    "c_Dead c = (v = sDead)"
    using assms(2) by (auto simp: canonical_iff)
  with validated_flags(2) [OF assms(1) Some] show ?thesis by (elim conjE) (simp, fastforce)
qed

section \<open>Concrete containers\<close>

text \<open>
  A crash-looping scenario, for the witnesses: healthy at first, the first inspection finds the
  container exited with code 1, every later one brings it back.
\<close>

definition crash_scenario :: Scenario where
  "crash_scenario = zeroScenario\<lparr>
     s_Initial := zeroPatch\<lparr>p_Status := Some sRunning, p_Running := Some True, p_Restarting := Some False,
       p_Health := Some hHealthy, p_ExitCode := Some 0, p_RestartCount := Some 0\<rparr>,
     s_Transitions :=
       [\<lparr>t_Event = ''docker.observe'', t_Count = 1, t_WhenStatus = [], t_WhenHealth = [], t_Once = True,
         t_Set = zeroPatch\<lparr>p_Status := Some sExited, p_ExitCode := Some 1\<rparr>\<rparr>,
        \<lparr>t_Event = ''docker.observe'', t_Count = 0, t_WhenStatus = sExited, t_WhenHealth = [], t_Once = False,
         t_Set = zeroPatch\<lparr>p_Status := Some sRunning\<rparr>\<rparr>]\<rparr>"

definition crash_cookbook :: Cookbook where
  "crash_cookbook = \<lparr>cb_Kind = ''redis'', cb_ImageNames = [''redis''], cb_Defaults = zeroDefaults,
     cb_Seeds = [(''0'', crash_scenario)]\<rparr>"

definition crash_container :: "string \<Rightarrow> int \<Rightarrow> Container" where
  "crash_container policy retries =
     (newContainer (UnixNano 0) ''id'' ''db'' ''redis'' crash_cookbook 0)
       \<lparr>c_RestartPolicy := \<lparr>rp_Name = policy, rp_MaximumRetryCount = retries\<rparr>\<rparr>"

lemma newContainer_inv:
  assumes "scenario_safe (mget_or zeroScenario (cb_Seeds cb) (itoa seed))" and "0 \<le> pid"
  shows "lifecycle_inv (newContainer now cid name img cb seed, pid)"
  using assms
  by (simp add: lifecycle_inv_def newContainer_def canonical_iff pid_ok_def waiters_ok_def
      lifecycle_statuses_def mkeys_def)

lemma itoa_0 [simp]: "itoa 0 = ''0''"
  by code_simp

lemma crash_scenario_safe [simp]: "scenario_safe crash_scenario"
  by (simp add: scenario_safe_def crash_scenario_def zeroScenario_def)

lemma crash_container_sel [simp]:
  "c_Scenario (crash_container policy retries) = crash_scenario"
  "c_Status (crash_container policy retries) = sCreated"
  "c_RestartPolicy (crash_container policy retries) = \<lparr>rp_Name = policy, rp_MaximumRetryCount = retries\<rparr>"
  "c_StartCount (crash_container policy retries) = 0"
  "c_removed (crash_container policy retries) = False"
  "c_automaticRestarts (crash_container policy retries) = 0"
  "c_Running (crash_container policy retries) = False"
  by (simp_all add: crash_container_def newContainer_def crash_cookbook_def)

lemma crash_container_inv [simp]: "lifecycle_inv (crash_container policy retries, 0)"
proof -
  have "lifecycle_inv (newContainer (UnixNano 0) ''id'' ''db'' ''redis'' crash_cookbook 0, 0)"
    by (rule newContainer_inv) (simp_all add: crash_cookbook_def)
  then show ?thesis
    by (subst lifecycle_inv_cong [of _ "newContainer (UnixNano 0) ''id'' ''db'' ''redis'' crash_cookbook 0"])
       (simp_all add: crash_container_def)
qed

text \<open>The same container after its first start, with one waiter per condition.\<close>

definition running_container :: "string \<Rightarrow> int \<Rightarrow> Container" where
  "running_container policy retries =
     (crash_container policy retries)
       \<lparr>c_Status := sRunning, c_Running := True, c_Pid := 1001, c_StartCount := 1,
        c_nextWaiter := 2, c_waiters := [(0, ''next-exit''), (1, ''removed'')]\<rparr>"

lemma running_container_sel [simp]:
  "c_Scenario (running_container policy retries) = crash_scenario"
  "c_Status (running_container policy retries) = sRunning"
  "c_RestartPolicy (running_container policy retries) = \<lparr>rp_Name = policy, rp_MaximumRetryCount = retries\<rparr>"
  "c_removed (running_container policy retries) = False"
  "c_Running (running_container policy retries) = True"
  "c_Paused (running_container policy retries) = False"
  "c_Restarting (running_container policy retries) = False"
  "c_Dead (running_container policy retries) = False"
  "c_waiters (running_container policy retries) = [(0, ''next-exit''), (1, ''removed'')]"
  "c_AppliedTransitions (running_container policy retries) = []"
  "c_Counters (running_container policy retries) = []"
  "c_sent (running_container policy retries) = []"
  by (simp_all add: running_container_def crash_container_def newContainer_def crash_cookbook_def)

lemma running_container_runs: "c_Running (running_container policy retries)"
  by simp

lemma running_container_inv [simp]: "lifecycle_inv (running_container policy retries, 1)"
  by (simp add: lifecycle_inv_def canonical_iff pid_ok_def waiters_ok_def lifecycle_statuses_def mkeys_def
      wf_map_def running_container_def crash_container_def newContainer_def crash_cookbook_def)

section \<open>Properties\<close>

text \<open>
  C8: a stopped container that a client stopped, that was removed or never started, or whose policy
  does not restart, stays stopped through any sequence of events, waits, stops, kills, pauses and
  bookkeeping; none of these operations panics.
\<close>

theorem barred_container_stays_stopped:
  assumes "lifecycle_inv (c, pid)" and "c_Status c \<in> {sCreated, sExited, sDead}"
    and "c_manuallyStopped c \<or> c_removed c \<or> c_StartCount c = 0 \<or>
      rp_Name (c_RestartPolicy c) \<notin> {''always'', ''unless-stopped'', ''on-failure''}"
    and "list_all unattended ops"
  shows "\<exists>c' pid'. run_all exec_op ops (c, pid) = Ret (c', pid') \<and> \<not> c_Running c' \<and>
    c_Status c' \<in> {sCreated, sExited, sDead}"
proof -
  have "stopped_inv (c, pid)" using assms by (simp add: stopped_inv_def stopped_def barred_def)
  from idle.run_returns [OF this assms(4)] show ?thesis
    using stopped_not_running by (fastforce simp: stopped_inv_def lifecycle_inv_def stopped_def)
qed

theorem barred_container_stays_stopped_witness:
  "\<exists>c' pid'. run_all exec_op [OpAdvance (UnixNano 5) ''docker.inspect'', OpKill (UnixNano 6)]
      (crash_container ''always'' 0, 0) = Ret (c', pid') \<and> \<not> c_Running c' \<and>
    c_Status c' \<in> {sCreated, sExited, sDead}"
  by (rule barred_container_stays_stopped) simp_all

text \<open>
  C9: under the policy \<^verbatim>\<open>on-failure\<close> with a positive retry limit, a 64-bit int, scripted
  transitions bring a container back at most that many times between two starts by a client, whatever events, waits,
  stops and kills happen in between.
\<close>

theorem on_failure_retry_limit:
  assumes "lifecycle_inv (c, pid)" and "start now (c, pid) = Ret (snaps, c1, pid1)"
    and "rp_Name (c_RestartPolicy c) = ''on-failure''"
    and "0 < rp_MaximumRetryCount (c_RestartPolicy c)" and "rp_MaximumRetryCount (c_RestartPolicy c) \<le> maxInt64"
    and "list_all unattended ops"
  shows "revivals ops (c1, pid1) \<le> rp_MaximumRetryCount (c_RestartPolicy c)"
proof -
  have pol: "c_RestartPolicy c1 = c_RestartPolicy c"
    using exec_op_policy [of "OpStart now" c pid c1 pid1] assms(2) by simp
  have "c_automaticRestarts c1 = 0"
    using assms(2) by (rule start_patch) (simp add: applyPatchLocked_frame(4))
  moreover from this have "budget_inv (c1, pid1)"
    using start_inv [OF assms(1,2)] by (simp add: budget_inv_def limited_def in_budget_def)
  ultimately show ?thesis
    using revivals_bound [of c1 pid1 ops] assms(3-6) pol by (simp add: limited_def)
qed

theorem on_failure_retry_limit_witness:
  "\<exists>snaps c1 pid1. start (UnixNano 1) (crash_container ''on-failure'' 2, 0) = Ret (snaps, c1, pid1) \<and>
     revivals (replicate 9 (OpAdvance (UnixNano 2) ''docker.inspect'')) (c1, pid1) \<le> 2"
proof -
  obtain snaps c1 pid1 where st: "start (UnixNano 1) (crash_container ''on-failure'' 2, 0) = Ret (snaps, c1, pid1)"
    using start_safe [OF crash_container_inv] by (metis returns_iff prod_cases3)
  show ?thesis
    using on_failure_retry_limit [OF crash_container_inv st,
        of "replicate 9 (OpAdvance (UnixNano 2) ''docker.inspect'')"] st by (simp add: list_all_iff maxInt64_def)
qed

text \<open>
  C20: an event is counted once: its own counter grows by one (modulo the wrap-around of an int), an
  inspect or a list also adds one to the observations, and every other counter keeps its value. The
  count it reports is its own counter. It fires at most one transition, the first in cookbook order
  whose guards all hold on the counted container; that transition sets its status, is marked when it
  fires only once, and gives the reported name. With none enabled only the counters change.
\<close>

theorem advance_fires_first_enabled:
  assumes "advance now event (c, pid) = Ret (ea, c', pid')"
  shows "\<exists>counted. counted = c\<lparr>c_Counters := c_Counters counted\<rparr> \<and>
    (\<forall>e. eventCount e counted =
       (if e = event \<or> e = ''docker.observe'' \<and> (event = ''docker.inspect'' \<or> event = ''docker.list'')
        then wrap64 (eventCount e c + 1) else eventCount e c)) \<and>
    ea_Count ea = wrap64 (eventCount event c + 1) \<and> c_Counters c' = c_Counters counted \<and>
    (case first_enabled event (ea_Count ea) counted of
       None \<Rightarrow> c' = counted \<and> pid' = pid \<and> ea_Transition ea = []
     | Some k \<Rightarrow>
         let t = s_Transitions (c_Scenario c) ! k in
         fire_transition now k t (counted, pid) = Ret (c', pid') \<and>
         c_Status c' = patched (p_Status (t_Set t)) (c_Status c) \<and>
         c_AppliedTransitions c' =
           (if t_Once t then mput (c_AppliedTransitions c) k True else c_AppliedTransitions c) \<and>
         ea_Transition ea = ''transition['' @ itoa (int k) @ '']'')"
proof -
  let ?counted = "count_event event c"
  have count: "ea_Count ea = wrap64 (eventCount event c + 1)"
    using assms by (rule advance_steps) (simp add: eventCount_def)
  have "case first_enabled event (ea_Count ea) ?counted of
       None \<Rightarrow> c' = ?counted \<and> pid' = pid \<and> ea_Transition ea = []
     | Some k \<Rightarrow> fire_transition now k (s_Transitions (c_Scenario c) ! k) (?counted, pid) = Ret (c', pid') \<and>
         ea_Transition ea = ''transition['' @ itoa (int k) @ '']''"
    using assms
  proof (cases rule: advance_cases)
    case none
    then show ?thesis by (simp add: count eventCount_def first_enabled_None count_event_sel)
  next
    case (fired k)
    then have "first_enabled event (ea_Count ea) ?counted = Some k"
      by (intro first_enabled_Some) (simp_all add: count eventCount_def count_event_sel)
    with fired show ?thesis by simp
  qed
  then show ?thesis
    using count count_event_only [of event c]
    by (intro exI [of _ ?counted] conjI allI count_event_counts)
       (auto simp: count_event_frame Let_def fire_transition_effect split: option.splits)
qed

theorem advance_fires_first_enabled_witness:
  "\<exists>ea c' pid'. advance (UnixNano 9) ''docker.list'' (running_container ''no'' 0, 1) = Ret (ea, c', pid') \<and>
     ea_Count ea = 1 \<and> eventCount ''docker.list'' c' = 1 \<and> eventCount ''docker.observe'' c' = 1 \<and>
     eventCount ''docker.inspect'' c' = 0 \<and> c_Status c' = sExited \<and> ea_Transition ea = ''transition[0]''"
proof -
  let ?c = "running_container ''no'' 0"
  obtain ea c' pid' where adv: "advance (UnixNano 9) ''docker.list'' (?c, 1) = Ret (ea, c', pid')"
    using advance_safe [OF running_container_inv, of "UnixNano 9"] by (metis returns_iff prod_cases3)
  have zero: "eventCount e ?c = 0" for e by (simp add: eventCount_def)
  from advance_fires_first_enabled [OF adv, unfolded zero running_container_sel] obtain counted where
    counted: "counted = ?c\<lparr>c_Counters := c_Counters counted\<rparr>" "c_Counters c' = c_Counters counted"
    and all: "\<forall>e. eventCount e counted =
      (if e = ''docker.list'' \<or> e = ''docker.observe'' \<and> (''docker.list'' = ''docker.inspect'' \<or> ''docker.list'' = ''docker.list'')
       then wrap64 (0 + 1) else 0)"
    and count: "ea_Count ea = wrap64 (0 + 1)"
    and fired: "case first_enabled ''docker.list'' (ea_Count ea) counted of
        None \<Rightarrow> c' = counted \<and> pid' = 1 \<and> ea_Transition ea = []
      | Some k \<Rightarrow> let t = s_Transitions crash_scenario ! k in
          fire_transition (UnixNano 9) k t (counted, 1) = Ret (c', pid') \<and>
          c_Status c' = patched (p_Status (t_Set t)) sRunning \<and>
          c_AppliedTransitions c' = (if t_Once t then mput [] k True else []) \<and>
          ea_Transition ea = ''transition['' @ itoa (int k) @ '']''"
    by blast
  have one: "wrap64 (0 + 1) = 1" by (simp add: wrap64_def)
  have cnt: "eventCount ''docker.observe'' counted = 1" using all [THEN spec, of "''docker.observe''"] one by simp
  have sel: "c_Scenario counted = crash_scenario" "c_Status counted = sRunning" "c_AppliedTransitions counted = []"
    by (subst counted(1); simp)+
  have "first_enabled ''docker.list'' 1 counted = Some 0"
    using cnt by (simp add: first_enabled_def sel crash_scenario_def zeroScenario_def upt_rec eventCount_def
        transition_enabled_def transitionEventMatches_def isDockerObserveEvent_def Let_def
        transitionRestartsStopped_def)
  with fired count one have "c_Status c' = sExited \<and> ea_Transition ea = ''transition[0]''"
    by (simp add: Let_def crash_scenario_def)
  moreover have "eventCount e c' = eventCount e counted" for e
    using counted(2) by (simp add: eventCount_def)
  ultimately show ?thesis using adv count all one by simp
qed

text \<open>
  C10: no exit is lost. A waiter for anything but the removal registers on a running container, then
  any operations happen that do not cancel it and end with no result for it and the container still
  running. A stop now sends it the exit code of that stop, and nothing that happens afterwards, a new
  start included, replaces the result or adds a second one. A waiter for the removal gets nothing at
  the stop and stays registered.
\<close>

theorem wait_keeps_exit_status:
  assumes "lifecycle_inv (c, pid)" and "c_Running c" and "\<not> c_removed c"
    and "subscribeWait condition c = (w, c1)"
    and "list_all op_safe before" and "OpCancel w \<notin> set before"
    and "run_all exec_op before (c1, pid) = Ret (c2, pid2)" and "results_of w c2 = []" and "c_Running c2"
    and "stop now code (c2, pid2) = Ret (snaps, c3, pid3)"
    and "list_all op_safe after" and "run_all exec_op after (c3, pid3) = Ret (c4, pid4)"
  shows "(condition \<noteq> ''removed'' \<longrightarrow> results_of w c4 = [waitResult c3] \<and> w_StatusCode (waitResult c3) = code) \<and>
    (condition = ''removed'' \<longrightarrow> results_of w c3 = [] \<and> mget (c_waiters c3) w = Some condition)"
proof -
  have c1: "c1 = c\<lparr>c_nextWaiter := Suc w, c_waiters := mput (c_waiters c) w condition\<rparr>"
    using assms(2-4) by (auto simp: subscribeWait_def Let_def split: if_splits)
  have i1: "lifecycle_inv (c1, pid)" using wait_ops_inv(1) [OF assms(1), of condition] assms(4) by simp
  have i2: "lifecycle_inv (c2, pid2)" using i1 assms(5,7) by (rule container.run_keeps)
  have "mget (c_waiters c1) w = Some condition" by (simp add: c1)
  then have w: "mget (c_waiters c2) w = Some condition"
    using run_waiting [OF i1 assms(5,6,7)] assms(8) by simp
  have ap: "applyPatchLocked now (stopPatch code) (c2\<lparr>c_manuallyStopped := True\<rparr>, pid2) = Ret (c3, pid3)"
    using assms(10) by (rule stop_patch)
  have "patch_exits (stopPatch code) (c2\<lparr>c_manuallyStopped := True\<rparr>)"
    using i2 assms(9) by (auto simp: patch_exits_def stopPatch_def lifecycle_inv_def canonical_iff)
  note eff = applyPatchLocked_waiters [OF ap, unfolded if_P [OF this], simplified]
  have res: "results_of w c3 = (if condition = ''removed'' then [] else [waitResult c3])"
    "mget (c_waiters c3) w = (if condition = ''removed'' then Some condition else None)"
    using i2 exit_results [OF _ w eff(2,1)] by (simp_all add: lifecycle_inv_def)
  have "lifecycle_inv (c4, pid4)" using stop_inv [OF i2 assms(10)] assms(11,12) by (rule container.run_keeps)
  then have "distinct (map fst (c_sent c4))" by (simp add: lifecycle_inv_def waiters_ok_def)
  moreover obtain new where "c_sent c4 = c_sent c3 @ new" using run_sent [OF assms(12)] by blast
  ultimately have "condition \<noteq> ''removed'' \<Longrightarrow> results_of w c4 = results_of w c3"
    using res(1) by (intro results_stay) auto
  moreover have "w_StatusCode (waitResult c3) = code"
    using applyPatchLocked_status(4) [OF ap] by (simp add: waitResult_def stopPatch_def)
  ultimately show ?thesis using res by simp
qed

theorem wait_keeps_exit_status_witness:
  "\<exists>w c1 c2 snaps c3 pid3 c4 pid4.
     subscribeWait ''next-exit'' (running_container ''always'' 0) = (w, c1) \<and>
     run_all exec_op [OpPause, OpSubscribe ''removed'', OpUnpause] (c1, 1) = Ret (c2, 1) \<and>
     stop (UnixNano 7) 9 (c2, 1) = Ret (snaps, c3, pid3) \<and>
     run_all exec_op [OpStart (UnixNano 8), OpStop (UnixNano 9) 0] (c3, pid3) = Ret (c4, pid4) \<and>
     map w_StatusCode (results_of w c4) = [9]"
proof -
  obtain w c1 where sub: "subscribeWait ''next-exit'' (running_container ''always'' 0) = (w, c1)"
    by fastforce
  then have c1: "c1 = (running_container ''always'' 0)
      \<lparr>c_nextWaiter := Suc w, c_waiters := mput [(0, ''next-exit''), (1, ''removed'')] w ''next-exit''\<rparr>"
    by (auto simp: subscribeWait_def Let_def)
  have i1: "lifecycle_inv (c1, 1)"
    using wait_ops_inv(1) [OF running_container_inv, of "''next-exit''" "''always''" 0] sub by simp
  define c2 where "c2 = snd (unpause (snd (subscribeWait ''removed'' (snd (pause c1)))))"
  have before: "run_all exec_op [OpPause, OpSubscribe ''removed'', OpUnpause] (c1, 1) = Ret (c2, 1)"
    by (simp add: c2_def)
  have c2: "c_Running c2" "results_of w c2 = []"
    by (simp_all add: c2_def c1 results_of_def unpause_def pause_def subscribeWait_def Let_def)
  have i2: "lifecycle_inv (c2, 1)" using i1 _ before by (rule container.run_keeps) simp
  obtain snaps c3 pid3 where st: "stop (UnixNano 7) 9 (c2, 1) = Ret (snaps, c3, pid3)"
    using patch_ops_safe(1) [OF i2, of "UnixNano 7"] by (metis returns_iff prod_cases3)
  obtain c4 pid4 where run: "run_all exec_op [OpStart (UnixNano 8), OpStop (UnixNano 9) 0] (c3, pid3) = Ret (c4, pid4)"
    using container.run_returns [OF stop_inv [OF i2 st], of "[OpStart (UnixNano 8), OpStop (UnixNano 9) 0]"] by auto
  have "results_of w c4 = [waitResult c3] \<and> w_StatusCode (waitResult c3) = 9"
    using wait_keeps_exit_status [OF running_container_inv _ _ sub _ _ before c2(2,1) st _ run] by simp
  with sub before st run show ?thesis by auto
qed

text \<open>
  C21: a patch that validation accepted never panics, keeps the invariant, sets the status it names,
  and every lifecycle flag it states explicitly is the flag the container ends with, although the
  flags are derived from the status again.
\<close>

theorem validated_patch_means_what_it_says:
  assumes "lifecycle_inv (c, pid)" and "validateStatePatch path p allowEmpty = None"
  shows "\<exists>c' pid'. applyPatchLocked now p (c, pid) = Ret (c', pid') \<and> lifecycle_inv (c', pid') \<and>
    c_Status c' = patched (p_Status p) (c_Status c) \<and>
    c_Running c' = patched (p_Running p) (c_Running c') \<and>
    c_Restarting c' = patched (p_Restarting p) (c_Restarting c') \<and>
    c_Dead c' = patched (p_Dead p) (c_Dead c')"
proof -
  have safe: "patch_safe p" using assms(2) by (rule validated_patch_safe)
  obtain c' pid' where ap: "applyPatchLocked now p (c, pid) = Ret (c', pid')"
    using applyPatchLocked_safe [OF assms(1) safe] by (metis returns_iff surj_pair)
  have st: "c_Status c' = patched (p_Status p) (c_Status c)" and can: "canonical c'"
    using applyPatchLocked_status(1,2) [OF ap] by simp_all
  show ?thesis
    using ap applyPatchLocked_inv [OF assms(1) safe ap] st validated_flags_kept [OF assms(2) can st] by blast
qed

theorem validated_patch_means_what_it_says_witness:
  "\<exists>c' pid'. applyPatchLocked (UnixNano 3) (zeroPatch\<lparr>p_Status := Some sDead, p_Dead := Some True\<rparr>)
      (running_container ''no'' 0, 1) = Ret (c', pid') \<and> c_Status c' = sDead \<and> c_Dead c'"
proof -
  have "validateStatePatch [] (zeroPatch\<lparr>p_Status := Some sDead, p_Dead := Some True\<rparr>) True = None"
    by (simp add: validateStatePatch_def validateStateValue_def status_flag_conflicts_def zeroPatch_def
        status_values_def Let_def)
  from validated_patch_means_what_it_says [OF running_container_inv this, of "UnixNano 3" "''no''" 0]
  show ?thesis by (auto simp: zeroPatch_def)
qed

text \<open>
  C36: \<^verbatim>\<open>kill\<close> succeeds exactly on a container that runs and is not removed; it then exits with 137,
  loses its PID and counts as stopped by hand. Otherwise it fails and changes nothing. A second kill
  always fails.
\<close>

theorem kill_once:
  assumes "lifecycle_inv (c, pid)" and "kill now (c, pid) = Ret ((snaps, err), c', pid')"
  shows "(if c_Running c \<and> \<not> c_removed c
      then err = None \<and> c_Status c' = sExited \<and> c_ExitCode c' = 137 \<and> c_Pid c' = 0 \<and> c_manuallyStopped c'
      else err = Some ''container is not running'' \<and> c' = c \<and> pid' = pid) \<and>
    kill later (c', pid') =
      Ret (((stateSnapshot c', stateSnapshot c'), Some ''container is not running''), c', pid')"
proof (cases "c_Running c \<and> \<not> c_removed c")
  case True
  then have "\<not> c_Dead c" using assms(1) by (auto simp: lifecycle_inv_def canonical_iff)
  with True kill_patch(1) [OF assms(2)] have
    ap: "applyPatchLocked now (zeroPatch\<lparr>p_Status := Some sExited, p_ExitCode := Some 137\<rparr>)
        (c\<lparr>c_manuallyStopped := True\<rparr>, pid) = Ret (c', pid')" and err: "err = None" by auto
  have "lifecycle_inv (c', pid')" using assms by (rule kill_inv)
  moreover have "c_Status c' = sExited" "c_ExitCode c' = 137" "c_manuallyStopped c'"
    using applyPatchLocked_status(1,4) [OF ap] applyPatchLocked_frame(3) [OF ap] by simp_all
  ultimately show ?thesis
    using True err by (simp add: lifecycle_inv_def canonical_iff pid_ok_def kill_def Let_def)
next
  case False
  then have "c' = c" "pid' = pid" "err = Some ''container is not running''"
    using kill_patch(2) [OF assms(2)] by auto
  with False show ?thesis by (auto simp: kill_def Let_def)
qed

theorem kill_once_witness:
  "\<exists>snaps c' pid'. kill (UnixNano 4) (running_container ''always'' 0, 1) = Ret ((snaps, None), c', pid') \<and>
     c_ExitCode c' = 137 \<and>
     kill (UnixNano 5) (c', pid') =
      Ret (((stateSnapshot c', stateSnapshot c'), Some ''container is not running''), c', pid')"
proof -
  obtain snaps err c' pid' where k: "kill (UnixNano 4) (running_container ''always'' 0, 1) = Ret ((snaps, err), c', pid')"
    using patch_ops_safe(2) [OF running_container_inv, of "UnixNano 4"] by (metis returns_iff surj_pair)
  from kill_once [OF running_container_inv this, of "UnixNano 5"] k show ?thesis by auto
qed

text \<open>
  C37: \<^verbatim>\<open>pause\<close> succeeds exactly on a running or already paused container and \<^verbatim>\<open>unpause\<close> exactly on
  a paused one; a running container that is paused keeps its process, and an unpause then gives back the
  container as it was.
\<close>

theorem pause_unpause:
  assumes "lifecycle_inv (c, pid)"
  shows "(snd (fst (pause c)) = None \<longleftrightarrow> c_Status c \<in> {sRunning, sPaused}) \<and>
    (snd (fst (unpause c)) = None \<longleftrightarrow> c_Status c = sPaused) \<and>
    (c_Status c = sRunning \<longrightarrow> c_Status (snd (pause c)) = sPaused \<and> c_Pid (snd (pause c)) = c_Pid c \<and>
       snd (unpause (snd (pause c))) = c)"
proof -
  have can: "canonical c" using assms by (simp add: lifecycle_inv_def)
  have "snd (unpause (snd (pause c))) = c" if "c_Status c = sRunning"
    using can that by (cases c) (simp add: pause_def unpause_def canonical_iff Let_def)
  with can show ?thesis
    by (auto simp: pause_def unpause_def canonical_iff lifecycle_statuses_def Let_def)
qed

theorem pause_unpause_witness:
  "snd (unpause (snd (pause (running_container ''no'' 0)))) = running_container ''no'' 0"
  using pause_unpause [OF running_container_inv, of "''no''" 0] by simp

end
