(* ===== verification/Diagnostic.thy ===== *)
theory Diagnostic
  imports Go_Prelude
begin

text \<open>
  Diagnostics for cookbook mistakes (\<^verbatim>\<open>diagnostic.go\<close> and the pointer helper of
  \<^verbatim>\<open>cookbook_load.go\<close>): JSON pointers, source coordinates, the search for a key's position and
  the rendered message. The decoder of \<^verbatim>\<open>encoding/json\<close> is not modelled.
\<close>

section \<open>JSON pointers\<close>

definition escapeJSONPointer :: "string \<Rightarrow> string" where
  "escapeJSONPointer value =
     concat (map (\<lambda>c. if c = CHR ''/'' then ''~1'' else [c])
       (concat (map (\<lambda>c. if c = CHR ''~'' then ''~0'' else [c]) value)))"

text \<open>\<^verbatim>\<open>strings.ReplaceAll\<close> for an old string of two different bytes.\<close>

fun replace_pair :: "char \<Rightarrow> char \<Rightarrow> string \<Rightarrow> string \<Rightarrow> string" where
  "replace_pair a b new (x # y # s) =
     (if x = a \<and> y = b then new @ replace_pair a b new s else x # replace_pair a b new (y # s))"
| "replace_pair a b new s = s"

definition lastJSONPointerSegment :: "string \<Rightarrow> string" where
  "lastJSONPointerSegment path =
     (if path = [] then []
      else let value = last (split_on (CHR ''/'') (trim_prefix path ''/''))
           in replace_pair (CHR ''~'') (CHR ''0'') ''~'' (replace_pair (CHR ''~'') (CHR ''1'') ''/'' value))"

lemma replace_pair_skip: "x \<noteq> a \<Longrightarrow> replace_pair a b new (x # s) = x # replace_pair a b new s"
  by (cases s) auto

lemma unescape_escape:
  "replace_pair (CHR ''~'') (CHR ''0'') ''~'' (replace_pair (CHR ''~'') (CHR ''1'') ''/'' (escapeJSONPointer s)) = s"
proof -
  let ?half = "\<lambda>s. concat (map (\<lambda>c. if c = CHR ''~'' then ''~0'' else [c]) s)"
  have "replace_pair (CHR ''~'') (CHR ''1'') ''/'' (escapeJSONPointer s) = ?half s"
    by (induction s) (auto simp: escapeJSONPointer_def replace_pair_skip)
  moreover have "replace_pair (CHR ''~'') (CHR ''0'') ''~'' (?half s) = s"
    by (induction s) (auto simp: replace_pair_skip)
  ultimately show ?thesis by simp
qed

lemma escape_no_slash: "CHR ''/'' \<notin> set (escapeJSONPointer s)"
  by (auto simp: escapeJSONPointer_def)

lemma split_on_at: "split_on d (s @ d # t) = split_on d s @ split_on d t"
proof (induction s)
  case (Cons c s)
  then show ?case by (cases "split_on d s") auto
qed simp

lemma last_split_on: "d \<notin> set t \<Longrightarrow> last (split_on d (s @ d # t)) = t"
  by (simp add: split_on_at split_on_no_sep)

section \<open>Runes\<close>

text \<open>
  \<^verbatim>\<open>utf8.RuneCount\<close>: a well-formed UTF-8 sequence counts as one rune, and so does every byte
  that starts none. The range of the second byte depends on the first, which excludes overlong
  encodings, surrogates and values above U+10FFFF.
\<close>

definition continuation :: "nat \<Rightarrow> bool" where
  "continuation b \<longleftrightarrow> 128 \<le> b \<and> b \<le> 191"

definition accept_range :: "nat \<Rightarrow> nat \<times> nat" where
  "accept_range b0 =
     (if b0 = 224 then (160, 191) else if b0 = 237 then (128, 159)
      else if b0 = 240 then (144, 191) else if b0 = 244 then (128, 143) else (128, 191))"

definition sequence_size :: "nat \<Rightarrow> nat" where
  "sequence_size b0 =
     (if 194 \<le> b0 \<and> b0 \<le> 223 then 2 else if 224 \<le> b0 \<and> b0 \<le> 239 then 3
      else if 240 \<le> b0 \<and> b0 \<le> 244 then 4 else 1)"

definition rune_size :: "nat list \<Rightarrow> nat" where
  "rune_size bs =
     (case bs of
        b0 # b1 # rest \<Rightarrow>
          (let size = sequence_size b0; (lo, hi) = accept_range b0 in
           if size \<le> 1 \<or> length bs < size \<or> b1 < lo \<or> hi < b1 \<or>
              \<not> list_all continuation (take (size - 2) rest) then 1 else size)
      | _ \<Rightarrow> 1)"

lemma rune_size_pos: "0 < rune_size bs"
  by (simp add: rune_size_def Let_def sequence_size_def split: list.split prod.split)

function count_runes :: "nat list \<Rightarrow> nat" where
  "count_runes bs = (if bs = [] then 0 else Suc (count_runes (drop (rune_size bs) bs)))"
  by pat_completeness auto
termination
  by (relation "measure length") (auto simp: rune_size_pos)

declare count_runes.simps [simp del]

definition RuneCount :: "string \<Rightarrow> nat" where
  "RuneCount s = count_runes (map of_char s)"

text \<open>The encoding of a Unicode scalar value, to state what is counted.\<close>

definition scalar_value :: "nat \<Rightarrow> bool" where
  "scalar_value n \<longleftrightarrow> n < 55296 \<or> 57344 \<le> n \<and> n < 1114112"

definition utf8_bytes :: "nat \<Rightarrow> nat list" where
  "utf8_bytes n =
     (if n < 128 then [n]
      else if n < 2048 then [192 + n div 64, 128 + n mod 64]
      else if n < 65536 then [224 + n div 4096, 128 + n div 64 mod 64, 128 + n mod 64]
      else [240 + n div 262144, 128 + n div 4096 mod 64, 128 + n div 64 mod 64, 128 + n mod 64])"

definition utf8_encode :: "nat list \<Rightarrow> string" where
  "utf8_encode ns = map char_of (concat (map utf8_bytes ns))"

lemma rune_size_ascii: "n < 128 \<Longrightarrow> rune_size (n # bs) = 1"
  by (auto simp: rune_size_def sequence_size_def Let_def split: list.splits)

lemma rune_size_two:
  assumes "128 \<le> n" "n < 2048"
  shows "rune_size ([192 + n div 64, 128 + n mod 64] @ bs) = 2"
proof -
  have "2 \<le> n div 64" "n div 64 < 32" using assms by auto
  then show ?thesis by (simp add: rune_size_def sequence_size_def accept_range_def Let_def)
qed

lemma continuation_low: "continuation (128 + n mod 64)"
  using mod_less_divisor [of 64 n] by (simp add: continuation_def)

lemma digit_split: "n div 4096 = n div 64 div 64" "n div 262144 = n div 4096 div 64" for n :: nat
  by (simp_all flip: div_mult2_eq)

lemma digits: "n = 64 * (n div 64) + n mod 64" "n mod 64 < 64" for n :: nat
  by simp_all

lemma rune_size_lead3:
  "h < 16 \<Longrightarrow> (h = 0 \<Longrightarrow> 32 \<le> m) \<Longrightarrow> (h = 13 \<Longrightarrow> m < 32) \<Longrightarrow> m < 64 \<Longrightarrow> continuation c \<Longrightarrow>
    rune_size ([224 + h, 128 + m, c] @ bs) = 3"
  by (cases h) (auto simp: rune_size_def sequence_size_def accept_range_def Let_def)

lemma rune_size_lead4:
  "h < 5 \<Longrightarrow> (h = 0 \<Longrightarrow> 16 \<le> m) \<Longrightarrow> (h = 4 \<Longrightarrow> m < 16) \<Longrightarrow> m < 64 \<Longrightarrow> continuation c \<Longrightarrow>
    continuation d \<Longrightarrow> rune_size ([240 + h, 128 + m, c, d] @ bs) = 4"
  by (cases h) (auto simp: rune_size_def sequence_size_def accept_range_def Let_def)

lemma rune_size_three:
  assumes "2048 \<le> n" "n < 65536" "scalar_value n"
  shows "rune_size ([224 + n div 4096, 128 + n div 64 mod 64, 128 + n mod 64] @ bs) = 3"
proof -
  define q where "q = n div 64"
  have q: "32 \<le> q" "q < 1024" "q < 864 \<or> 896 \<le> q"
    using assms digits [of n] by (auto simp: q_def scalar_value_def)
  have d: "q div 64 < 16" "q div 64 = 0 \<Longrightarrow> 32 \<le> q mod 64" "q div 64 = 13 \<Longrightarrow> q mod 64 < 32"
    "q mod 64 < 64"
    using q digits [of q] by linarith+
  show ?thesis
    unfolding digit_split(1) q_def [symmetric] by (rule rune_size_lead3) (use d continuation_low in auto)
qed

lemma rune_size_four:
  assumes "65536 \<le> n" "n < 1114112"
  shows "rune_size ([240 + n div 262144, 128 + n div 4096 mod 64, 128 + n div 64 mod 64,
     128 + n mod 64] @ bs) = 4"
proof -
  define q where "q = n div 4096"
  have q: "16 \<le> q" "q < 272" using assms by (auto simp: q_def)
  have d: "q div 64 < 5" "q div 64 = 0 \<Longrightarrow> 16 \<le> q mod 64" "q div 64 = 4 \<Longrightarrow> q mod 64 < 16"
    "q mod 64 < 64"
    using q digits [of q] by linarith+
  show ?thesis
    unfolding digit_split(2) q_def [symmetric] by (rule rune_size_lead4) (use d continuation_low in auto)
qed

lemma rune_size_utf8: "scalar_value n \<Longrightarrow> rune_size (utf8_bytes n @ bs) = length (utf8_bytes n)"
  using rune_size_two [of n bs] rune_size_three [of n bs] rune_size_four [of n bs]
  by (auto simp: utf8_bytes_def rune_size_ascii scalar_value_def)

lemma count_runes_utf8:
  "list_all scalar_value ns \<Longrightarrow> count_runes (concat (map utf8_bytes ns)) = length ns"
proof (induction ns)
  case (Cons n ns)
  have "utf8_bytes n \<noteq> []" by (simp add: utf8_bytes_def)
  with Cons show ?case by (subst count_runes.simps) (simp add: rune_size_utf8)
qed (simp add: count_runes.simps)

lemma utf8_bytes_bound: "scalar_value n \<Longrightarrow> b \<in> set (utf8_bytes n) \<Longrightarrow> b < 256"
  by (auto simp: utf8_bytes_def scalar_value_def split: if_splits)

lemma RuneCount_utf8:
  assumes "list_all scalar_value ns"
  shows "RuneCount (utf8_encode ns) = length ns"
proof -
  have "map (of_char \<circ> char_of) (concat (map utf8_bytes ns)) = concat (map utf8_bytes ns)"
    using assms by (intro map_idI) (auto simp: list_all_iff dest!: utf8_bytes_bound)
  then show ?thesis
    using count_runes_utf8 [OF assms] by (simp add: RuneCount_def utf8_encode_def)
qed

lemma count_runes_ascii: "list_all (\<lambda>b. b < 128) bs \<Longrightarrow> count_runes bs = length bs"
  by (induction bs) (simp_all add: count_runes.simps rune_size_ascii)

lemma RuneCount_ascii: "list_all (\<lambda>c. of_char c < (128 :: nat)) s \<Longrightarrow> RuneCount s = length s"
  by (simp add: RuneCount_def count_runes_ascii list_all_iff)

lemma count_runes_le: "count_runes bs \<le> length bs"
proof (induction bs rule: count_runes.induct)
  case (1 bs)
  show ?case
  proof (cases "bs = []")
    case False
    have "count_runes (drop (rune_size bs) bs) < length bs"
      using 1 [OF False] rune_size_pos [of bs] False by (cases bs) auto
    with False show ?thesis by (subst count_runes.simps) simp
  qed (simp add: count_runes.simps)
qed

lemma RuneCount_le: "RuneCount s \<le> length s"
  using count_runes_le [of "map of_char s"] by (simp add: RuneCount_def)

section \<open>Source coordinates\<close>

text \<open>Lines and offsets count bytes, columns count runes.\<close>

definition sourceCoordinates :: "string \<Rightarrow> int \<Rightarrow> nat \<times> nat \<times> string" where
  "sourceCoordinates data offset =
     (if data = [] then (1, 1, [])
      else
        let off = (if offset < 0 then 0 else nat offset);
            off = (if off \<ge> length data then length data - 1 else off);
            lineStart = (case last_index_byte LF (take off data) of None \<Rightarrow> 0 | Some i \<Rightarrow> i + 1);
            lineEnd = (case index_byte LF (drop off data) of None \<Rightarrow> length data | Some i \<Rightarrow> off + i);
            line = length (filter (\<lambda>c. c = LF) (take lineStart data)) + 1;
            column = RuneCount (drop lineStart (take off data)) + 1
        in (line, column, trim_suffix (drop lineStart (take lineEnd data)) [CR]))"

lemma last_index_byte_None: "last_index_byte d s = None \<longleftrightarrow> d \<notin> set s"
  by (induction s) (auto split: option.splits)

lemma last_index_byte_Some:
  "last_index_byte d s = Some i \<Longrightarrow> \<exists>a b. s = a @ d # b \<and> d \<notin> set b \<and> length a = i"
proof (induction s arbitrary: i)
  case (Cons c s)
  show ?case
  proof (cases "last_index_byte d s")
    case None
    with Cons.prems show ?thesis by (auto simp: last_index_byte_None split: if_splits)
  next
    case (Some j)
    with Cons obtain a b where "s = a @ d # b" "d \<notin> set b" "length a = j" "i = Suc j" by auto
    then show ?thesis by (metis append_Cons length_Cons)
  qed
qed simp

lemma index_byte_split:
  "case index_byte d s of None \<Rightarrow> d \<notin> set s
   | Some i \<Rightarrow> \<exists>b. s = take i s @ d # b \<and> d \<notin> set (take i s) \<and> i < length s"
  by (induction s) (auto split: option.splits)

lemma length_split_on: "length (split_on d s) = Suc (length (filter (\<lambda>c. c = d) s))"
proof (induction s)
  case (Cons c s)
  then show ?case by (cases "split_on d s") auto
qed simp

lemma concat_split_on: "concat (map (\<lambda>l. l @ [d]) (split_on d s)) = s @ [d]"
proof (induction s)
  case (Cons c s)
  then show ?case by (cases "split_on d s") auto
qed simp

lemma split_on_hd: "d \<notin> set a \<Longrightarrow> split_on d (a @ b) ! 0 = a @ (split_on d b ! 0)"
proof (induction a)
  case (Cons c a)
  then show ?case by (cases "split_on d (a @ b)") auto
qed simp

text \<open>The line around a position: what precedes it, and the position's text up to the line's end.\<close>

lemma line_before:
  obtains p l where "take off data = p @ l" "LF \<notin> set l"
    "(case last_index_byte LF (take off data) of None \<Rightarrow> 0 | Some i \<Rightarrow> i + 1) = length p"
    "p = [] \<or> (\<exists>q. p = q @ [LF])"
proof (cases "last_index_byte LF (take off data)")
  case None
  then have "LF \<notin> set (take off data)" by (simp add: last_index_byte_None)
  with None show thesis using that [of "[]" "take off data"] by simp
next
  case (Some i)
  then obtain a b where "take off data = a @ LF # b" "LF \<notin> set b" "length a = i"
    using last_index_byte_Some by metis
  then show thesis using that [of "a @ [LF]" b] Some by simp
qed

lemma line_after:
  obtains r t where "drop off data = r @ t" "LF \<notin> set r" "t = [] \<or> (\<exists>u. t = LF # u)"
    "(case index_byte LF (drop off data) of None \<Rightarrow> length data | Some i \<Rightarrow> off + i) - off = length r"
proof (cases "index_byte LF (drop off data)")
  case None
  then show thesis using that [of "drop off data" "[]"] index_byte_split [of LF "drop off data"] by simp
next
  case (Some i)
  with index_byte_split [of LF "drop off data"] obtain b where
    "drop off data = take i (drop off data) @ LF # b" "LF \<notin> set (take i (drop off data))" "i < length (drop off data)"
    by auto
  then show thesis using that [of "take i (drop off data)" "LF # b"] Some by simp
qed

section \<open>Searching for a key\<close>

definition is_json_space :: "char \<Rightarrow> bool" where
  "is_json_space c \<longleftrightarrow> c = CHR '' '' \<or> c = TAB \<or> c = CR \<or> c = LF"

text \<open>\<^verbatim>\<open>bytes.Index\<close>: the first occurrence of a needle.\<close>

fun index_of :: "string \<Rightarrow> string \<Rightarrow> nat option" where
  "index_of needle [] = (if needle = [] then Some 0 else None)"
| "index_of needle (c # s) =
     (if has_prefix (c # s) needle then Some 0 else map_option Suc (index_of needle s))"

text \<open>A quoted key is followed by a colon after white space.\<close>

definition colon_follows :: "string \<Rightarrow> bool" where
  "colon_follows s = (case dropWhile is_json_space s of c # _ \<Rightarrow> c = CHR '':'' | [] \<Rightarrow> False)"

text \<open>Each round moves past a needle, which is a quoted string and so never empty.\<close>

lemma search_advances: "needle \<noteq> [] \<Longrightarrow> start < n \<Longrightarrow> n - (start + i + length needle) < n - start"
  by (cases needle) auto

function findJSONKeyOffset_loop :: "string \<Rightarrow> string \<Rightarrow> nat \<Rightarrow> nat" where
  "findJSONKeyOffset_loop data needle start =
     (if start \<ge> length data \<or> needle = [] then 0
      else (case index_of needle (drop start data) of
              None \<Rightarrow> 0
            | Some i \<Rightarrow>
                let index = start + i in
                if colon_follows (drop (index + length needle) data) then index
                else findJSONKeyOffset_loop data needle (index + length needle)))"
  by pat_completeness auto
termination
  by (relation "measure (\<lambda>(data, needle, start). length data - start)") (auto intro: search_advances)

declare findJSONKeyOffset_loop.simps [simp del]

definition findJSONKeyOffset :: "string \<Rightarrow> string \<Rightarrow> nat" where
  "findJSONKeyOffset data key = findJSONKeyOffset_loop data (quote key) 0"

text \<open>The last occurrence before a position; the colon may lie beyond it.\<close>

function findJSONKeyOffsetBefore_loop :: "string \<Rightarrow> string \<Rightarrow> nat \<Rightarrow> nat option \<Rightarrow> nat \<Rightarrow> nat option" where
  "findJSONKeyOffsetBefore_loop data needle before best start =
     (if start \<ge> before \<or> needle = [] then best
      else (case index_of needle (drop start (take before data)) of
              None \<Rightarrow> best
            | Some i \<Rightarrow>
                let index = start + i in
                findJSONKeyOffsetBefore_loop data needle before
                  (if colon_follows (drop (index + length needle) data) then Some index else best)
                  (index + length needle)))"
  by pat_completeness auto
termination
  by (relation "measure (\<lambda>(data, needle, before, best, start). before - start)") (auto intro: search_advances)

declare findJSONKeyOffsetBefore_loop.simps [simp del]

definition findJSONKeyOffsetBefore :: "string \<Rightarrow> string \<Rightarrow> int \<Rightarrow> nat" where
  "findJSONKeyOffsetBefore data key before =
     (let before = (if before \<le> 0 \<or> before > int (length data) then length data else nat before) in
      case findJSONKeyOffsetBefore_loop data (quote key) before None 0 of
        Some best \<Rightarrow> best
      | None \<Rightarrow> findJSONKeyOffset data key)"

text \<open>Back from the end of a string token to its opening quote.\<close>

fun trailing_backslashes :: "string \<Rightarrow> nat" where
  "trailing_backslashes s = length (takeWhile (\<lambda>c. c = BACKSLASH) (rev s))"

fun opening_quote :: "string \<Rightarrow> nat \<Rightarrow> nat" where
  "opening_quote data 0 = 0"
| "opening_quote data (Suc i) =
     (if data ! i = DQUOTE \<and> even (trailing_backslashes (take i data)) then i else opening_quote data i)"

definition jsonStringTokenStart :: "string \<Rightarrow> int \<Rightarrow> nat" where
  "jsonStringTokenStart data endOffset =
     (let body = take (nat (min (int (length data)) endOffset)) data;
          n = length (dropWhile is_json_space (rev body))
      in if n = 0 then 0
         else if data ! (n - 1) \<noteq> DQUOTE then n - 1
         else opening_quote data (n - 1))"

text \<open>
  The position closest to a target among the pointers that end in the field; the first visited wins
  a tie.
\<close>

definition closestJSONPath :: "(string, int) gomap \<Rightarrow> string \<Rightarrow> int \<Rightarrow> string" where
  "closestJSONPath locations field targetOffset =
     fst (foldl (\<lambda>(bestPath, bestDistance) (path, offset).
            if has_suffix path (''/'' @ escapeJSONPointer field) \<and> \<bar>offset - targetOffset\<bar> < bestDistance
            then (path, \<bar>offset - targetOffset\<bar>) else (bestPath, bestDistance))
          ([], maxInt64) locations)"

section \<open>Rendering\<close>

record DiagnosticError =
  de_Code :: string
  de_File :: string
  de_JSONPath :: string
  de_Message :: string
  de_Hint :: string
  de_Line :: int
  de_Column :: int
  de_SourceLine :: string

definition newSourceDiagnostic ::
  "string \<Rightarrow> string \<Rightarrow> string \<Rightarrow> string \<Rightarrow> string \<Rightarrow> string \<Rightarrow> int \<Rightarrow> DiagnosticError" where
  "newSourceDiagnostic code file jsonPath message hint data offset =
     (let (line, column, sourceLine) = sourceCoordinates data offset in
      \<lparr>de_Code = code, de_File = file, de_JSONPath = jsonPath, de_Message = message, de_Hint = hint,
       de_Line = int line, de_Column = int column, de_SourceLine = sourceLine\<rparr>)"

definition Render :: "DiagnosticError \<Rightarrow> string" where
  "Render e =
     (let code = (if de_Code e = [] then ''CONFIG_ERROR'' else de_Code e);
          width = length (itoa (de_Line e));
          out = code @ '': '' @ de_Message e @ [LF] @
            (if de_File e \<noteq> [] then ''  file   : '' @ de_File e @ [LF] else []) @
            (if de_JSONPath e \<noteq> [] then ''  path   : '' @ de_JSONPath e @ [LF] else []) @
            (if de_Line e > 0 then
               ''  line   : '' @ itoa (de_Line e) @ [LF] @
               ''  column : '' @ itoa (de_Column e) @ [LF] @
               (if de_SourceLine e \<noteq> [] then
                  [LF] @ ''  '' @ itoa (de_Line e) @ '' | '' @ de_SourceLine e @ [LF] @
                  ''  '' @ replicate width (CHR '' '') @ '' | '' @
                    replicate (nat (de_Column e - 1)) (CHR '' '') @ ''^'' @ [LF]
                else [])
             else []) @
            (if de_Hint e \<noteq> [] then [LF] @ ''  hint   : '' @ de_Hint e @ [LF] else [])
      in rev (dropWhile (\<lambda>c. c = LF) (rev out)))"

section \<open>Properties\<close>

text \<open>
  C40: the coordinates of a diagnostic identify the position. The text up to the position is the
  lines before the reported one followed by a part of the reported line, the column is one more than
  the number of runes in that part (of its characters, where it is UTF-8; of its bytes, where it is
  ASCII), and the quoted source line is the reported line without a carriage return at its end.
\<close>

theorem source_coordinates_locate_offset:
  assumes "0 \<le> offset" and "offset < int (length data)"
    and "sourceCoordinates data offset = (line, column, sourceLine)"
  shows "1 \<le> line \<and> line \<le> length (split_on LF data) \<and>
    sourceLine = trim_suffix (split_on LF data ! (line - 1)) [CR] \<and>
    (\<exists>before after. split_on LF data ! (line - 1) = before @ after \<and>
       take (nat offset) data =
         concat (map (\<lambda>l. l @ [LF]) (take (line - 1) (split_on LF data))) @ before \<and>
       column = RuneCount before + 1 \<and> column \<le> length before + 1 \<and>
       (\<forall>ns. list_all scalar_value ns \<and> before = utf8_encode ns \<longrightarrow> column = length ns + 1) \<and>
       (list_all (\<lambda>c. of_char c < (128 :: nat)) before \<longrightarrow> column = length before + 1))"
proof -
  define off where "off = nat offset"
  have off: "off < length data" using assms(1,2) by (simp add: off_def)
  obtain p l where pl: "take off data = p @ l" "LF \<notin> set l"
    "(case last_index_byte LF (take off data) of None \<Rightarrow> 0 | Some i \<Rightarrow> i + 1) = length p"
    "p = [] \<or> (\<exists>q. p = q @ [LF])" by (rule line_before)
  obtain r t where rt: "drop off data = r @ t" "LF \<notin> set r" "t = [] \<or> (\<exists>u. t = LF # u)"
    "(case index_byte LF (drop off data) of None \<Rightarrow> length data | Some i \<Rightarrow> off + i) - off = length r"
    by (rule line_after)
  have data: "data = p @ l @ r @ t" using append_take_drop_id [of off data] pl(1) rt(1) by simp
  have len: "off = length p + length l" using arg_cong [OF pl(1), of length] off by simp
  have ends: "(case index_byte LF (drop off data) of None \<Rightarrow> length data | Some i \<Rightarrow> off + i) = off + length r"
    using rt(4) off by (cases "index_byte LF (drop off data)") auto
  have parts: "drop (length p) (take (off + length r) data) = l @ r" "take (length p) data = p"
    "drop (length p) (take off data) = l"
    by (simp_all add: data len)
  have "data \<noteq> []" "\<not> offset < 0" "\<not> length data \<le> off" using off assms(1) by auto
  then have "sourceCoordinates data offset =
      (length (filter (\<lambda>c. c = LF) p) + 1, RuneCount l + 1, trim_suffix (l @ r) [CR])"
    by (simp only: sourceCoordinates_def Let_def off_def [symmetric] pl(3) ends parts if_False)
  then have co: "line = Suc (length (filter (\<lambda>c. c = LF) p))" "column = RuneCount l + 1"
    "sourceLine = trim_suffix (l @ r) [CR]"
    using assms(3) by simp_all
  have first: "split_on LF (l @ r @ t) ! 0 = l @ r"
    using rt(3) split_on_hd [of LF "l @ r" t] pl(2) rt(2) by auto
  have lines: "split_on LF data ! (line - 1) = l @ r \<and> line \<le> length (split_on LF data) \<and>
      concat (map (\<lambda>l. l @ [LF]) (take (line - 1) (split_on LF data))) = p"
    using pl(4)
  proof
    assume "p = []"
    then show ?thesis using first by (simp add: data co(1) length_split_on)
  next
    assume "\<exists>q. p = q @ [LF]"
    then obtain q where q: "p = q @ [LF]" by blast
    then have sp: "split_on LF data = split_on LF q @ split_on LF (l @ r @ t)"
      by (simp add: data split_on_at)
    have ln: "line - 1 = length (split_on LF q)" by (simp add: co(1) q length_split_on)
    have "length (split_on LF (l @ r @ t)) \<ge> 1" by (simp add: length_split_on)
    with sp ln co(1) first q show ?thesis by (simp add: nth_append concat_split_on)
  qed
  have "take (nat offset) data = concat (map (\<lambda>l. l @ [LF]) (take (line - 1) (split_on LF data))) @ l"
    using lines pl(1) by (simp add: off_def)
  with lines co show ?thesis by (auto simp: RuneCount_utf8 RuneCount_ascii RuneCount_le)
qed

text \<open>A line with the two-byte character U+00E9, a bare continuation byte and a carriage return.\<close>

definition sample_text :: string where
  "sample_text = ''a'' @ [LF] @ ''b'' @ map char_of [195 :: nat, 169, 128] @ ''c'' @ [CR, LF]"

lemma sample_lines: "split_on LF sample_text =
    [''a'', ''b'' @ map char_of [195 :: nat, 169, 128] @ ''c'' @ [CR], []]"
  by code_simp

theorem source_coordinates_locate_offset_witness:
  "sourceCoordinates sample_text 6 = (2, 4, ''b'' @ map char_of [195 :: nat, 169, 128] @ ''c'') \<and>
   (\<exists>before after. split_on LF sample_text ! 1 = before @ after \<and>
      take 6 sample_text = ''a'' @ [LF] @ before \<and> RuneCount before = 3)"
proof -
  have co: "sourceCoordinates sample_text 6 = (2, 4, ''b'' @ map char_of [195 :: nat, 169, 128] @ ''c'')"
    by code_simp
  from source_coordinates_locate_offset [OF _ _ this]
  have "\<exists>before after. split_on LF sample_text ! 1 = before @ after \<and>
      take 6 sample_text = ''a'' @ [LF] @ before \<and> 4 = RuneCount before + 1"
    by (auto simp: sample_lines) (simp add: sample_text_def)
  then show ?thesis using co by auto
qed

end
