(* ===== verification/Cookbook_Validate.thy ===== *)
theory Cookbook_Validate
  imports Cookbook_State_Validation Diagnostic Go_Net
begin

text \<open>
  The validation of a whole cookbook (\<^verbatim>\<open>Cookbook.validate\<close> in \<^verbatim>\<open>cookbook_validate.go\<close>) and of the set
  of cookbooks (\<^verbatim>\<open>validateCookbookSet\<close> in \<^verbatim>\<open>cookbook_load.go\<close>). The method is long; each part of
  it is a definition here, composed in the order of the source.
\<close>

section \<open>Defaults and image matchers\<close>

definition forbidden_name_chars :: string where
  "forbidden_name_chars = [CHR ''/'', BACKSLASH, NUL, CR, LF, TAB, CHR '' '']"

definition expectedServiceType :: "string \<Rightarrow> string" where
  "expectedServiceType kind = mget_or [] [(''nginx'', ''http''), (''redis'', ''redis'')] kind"

definition validate_defaults :: "string \<Rightarrow> ServiceDefaults \<Rightarrow> ValidationError option" where
  "validate_defaults kind d = first_error
    [check (trim_space (d_Name d) = []) (validationError ''/defaults/name'' ''defaults.name is required''),
     check (contains_any (d_Name d) forbidden_name_chars)
       (validationError ''/defaults/name''
         (''defaults.name '' @ quote (d_Name d) @ '' contains a forbidden character'')),
     check (trim_space (d_Image d) = []) (validationError ''/defaults/image'' ''defaults.image is required''),
     check (d_ServiceType d \<noteq> expectedServiceType kind)
       (validationError ''/defaults/service_type''
         (''defaults.service_type for '' @ kind @ '' must be '' @ quote (expectedServiceType kind))),
     (case ParseIP (d_IPAddress d) of
        None \<Rightarrow> Some (validationError ''/defaults/ip_address''
          (''defaults.ip_address '' @ quote (d_IPAddress d) @ '' is not a valid IP address''))
      | Some ip \<Rightarrow> check (\<not> IsLoopback ip) (validationError ''/defaults/ip_address''
          (''defaults.ip_address '' @ quote (d_IPAddress d) @
           '' is not loopback; docker-zero refuses to expose fake services on a non-loopback container address''))),
     check (d_ContainerPort d < 1 \<or> d_ContainerPort d > 65535)
       (validationError ''/defaults/container_port'' ''defaults.container_port must be between 1 and 65535''),
     check (trim_space (d_HostIP d) = [] \<or> ParseIP (d_HostIP d) = None)
       (validationError ''/defaults/host_ip''
         (''defaults.host_ip '' @ quote (d_HostIP d) @ '' is not a valid IP address'')),
     check (d_HostPort d < 1 \<or> d_HostPort d > 65535)
       (validationError ''/defaults/host_port'' ''defaults.host_port must be between 1 and 65535'')]"

fun validate_images :: "nat \<Rightarrow> string list \<Rightarrow> string list \<Rightarrow> ValidationError option" where
  "validate_images index seen [] = None"
| "validate_images index seen (img # imgs) =
     (let img' = trim_space img; key = to_lower img'; at = ''/image_names/'' @ itoa (int index) in
      if img' = [] then Some (validationError at ''image matcher cannot be empty'')
      else if key \<in> set seen then Some (validationError at (''duplicate image matcher '' @ quote img'))
      else validate_images (Suc index) (key # seen) imgs)"

definition validate_seed_keys :: "(string, Scenario) gomap \<Rightarrow> ValidationError option" where
  "validate_seed_keys seeds = first_error
    (check (length seeds \<noteq> 3) (validationError ''/seeds'' ''seeds must contain exactly 0, 1, and 2'') #
     map (\<lambda>seed. check (seed \<noteq> ''0'' \<and> seed \<noteq> ''1'' \<and> seed \<noteq> ''2'')
       (validationError (''/seeds/'' @ escapeJSONPointer seed)
         (''unsupported seed '' @ quote seed @ ''; this release supports exactly 0, 1, and 2'')))
       (mkeys seeds) @
     map (\<lambda>seed. check (\<not> mmem seeds seed)
       (validationError ''/seeds'' (''seed '' @ seed @ '' is required''))) [''0'', ''1'', ''2''])"

section \<open>Scenarios\<close>

definition validate_services :: "string \<Rightarrow> string \<Rightarrow> Scenario \<Rightarrow> ValidationError option" where
  "validate_services kind basePath scenario =
     (if kind = ''nginx'' then first_error
        [check (s_HTTP scenario = [])
           (validationError (basePath @ ''/http'') ''nginx scenario must define HTTP responses''),
         check (\<not> mmem (s_HTTP scenario) ''GET /health'')
           (validationError (basePath @ ''/http'') ''nginx scenario must define GET /health''),
         check (s_Redis scenario \<noteq> [])
           (validationError (basePath @ ''/redis'') ''nginx cookbook cannot contain Redis responses'')]
      else first_error
        [check (s_Redis scenario = [])
           (validationError (basePath @ ''/redis'') ''redis scenario must define Redis responses''),
         check (\<not> mmem (s_Redis scenario) ''PING'')
           (validationError (basePath @ ''/redis'') ''redis scenario must define PING''),
         check (s_HTTP scenario \<noteq> [])
           (validationError (basePath @ ''/http'') ''redis cookbook cannot contain HTTP responses'')])"

definition validate_transition :: "string \<Rightarrow> Scenario \<Rightarrow> nat \<times> Transition \<Rightarrow> ValidationError option" where
  "validate_transition basePath scenario = (\<lambda>(index, t).
     let path = basePath @ ''/transitions/'' @ itoa (int index) in first_error
      [check (trim_space (t_Event t) = [])
         (validationError (path @ ''/event'') ''transition event is required''),
       check (t_Count t < 0) (validationError (path @ ''/count'') ''transition count cannot be negative''),
       validateStateValue (path @ ''/when_status'') ''status'' (t_WhenStatus t) True,
       validateStateValue (path @ ''/when_health'') ''health'' (t_WhenHealth t) True,
       check (isZeroStatePatch (t_Set t))
         (validationError (path @ ''/set'') ''transition set patch cannot be empty''),
       validateStatePatch (path @ ''/set'') (t_Set t) True,
       validateTransitionEvent (path @ ''/event'') (t_Event t) scenario])"

definition validate_header :: "string \<Rightarrow> string \<times> string \<Rightarrow> ValidationError option" where
  "validate_header path = (\<lambda>(header, value).
     let at = path @ ''/headers/'' @ escapeJSONPointer header in first_error
      [check (\<not> validHTTPHeaderName header)
         (validationError at (''invalid HTTP header name '' @ quote header)),
       check (contains_any value [CR, LF])
         (validationError at ''HTTP header value contains a newline'')])"

definition validate_http_response :: "string \<Rightarrow> nat \<times> HTTPResponse \<Rightarrow> ValidationError option" where
  "validate_http_response routePath = (\<lambda>(index, response).
     let path = routePath @ ''/'' @ itoa (int index) in first_error
      ([validateStateValue (path @ ''/when_status'') ''status'' (hr_WhenStatus response) True,
        validateStateValue (path @ ''/when_health'') ''health'' (hr_WhenHealth response) True,
        check (hr_Status response < 100 \<or> hr_Status response > 599)
          (validationError (path @ ''/status'') ''HTTP status must be between 100 and 599''),
        check (hr_DelayMS response < 0)
          (validationError (path @ ''/delay_ms'') ''delay_ms cannot be negative'')] @
       map (validate_header path) (hr_Headers response) @
       [validateStatePatch (path @ ''/set'') (hr_StatePatch response) True]))"

definition validate_route :: "string \<Rightarrow> string \<times> HTTPResponse list \<Rightarrow> ValidationError option go" where
  "validate_route basePath = (\<lambda>(route, responses).
     let routePath = basePath @ ''/http/'' @ escapeJSONPointer route in
     case first_error
       [validateHTTPRoute routePath route,
        check (responses = [])
          (validationError routePath (''route '' @ quote route @ '' has no responses''))] of
       Some e \<Rightarrow> Ret (Some e)
     | None \<Rightarrow> first_error_go
         (validateResponseOrderHTTP routePath responses #
          map (\<lambda>r. Ret (validate_http_response routePath r)) (enumerate 0 responses)))"

definition validate_redis_response :: "string \<Rightarrow> nat \<times> RedisResponse \<Rightarrow> ValidationError option" where
  "validate_redis_response commandPath = (\<lambda>(index, response).
     let path = commandPath @ ''/'' @ itoa (int index) in first_error
      [validateStateValue (path @ ''/when_status'') ''status'' (rr_WhenStatus response) True,
       validateStateValue (path @ ''/when_health'') ''health'' (rr_WhenHealth response) True,
       check (rr_DelayMS response < 0)
         (validationError (path @ ''/delay_ms'') ''delay_ms cannot be negative''),
       check (rr_Reply response = [] \<and> \<not> rr_Close response)
         (validationError (path @ ''/reply'') ''Redis response requires reply or close=true''),
       (if rr_Reply response = [] then None
        else case validateRESPReply (rr_Reply response) of
               None \<Rightarrow> None
             | Some e \<Rightarrow> Some (validationError (path @ ''/reply'') (''invalid RESP2 reply: '' @ e))),
       validateStatePatch (path @ ''/set'') (rr_StatePatch response) True])"

definition validate_command :: "string \<Rightarrow> string \<times> RedisResponse list \<Rightarrow> ValidationError option go" where
  "validate_command basePath = (\<lambda>(command, responses).
     let commandPath = basePath @ ''/redis/'' @ escapeJSONPointer command in
     case first_error
       [check (command \<noteq> ''*'' \<and> command \<noteq> to_upper command)
          (validationError commandPath ''Redis command keys must be uppercase''),
        check (command \<noteq> ''*'' \<and> \<not> validRedisCommandName command)
          (validationError commandPath (''invalid Redis command name '' @ quote command)),
        check (responses = [])
          (validationError commandPath (''command '' @ quote command @ '' has no responses''))] of
       Some e \<Rightarrow> Ret (Some e)
     | None \<Rightarrow> first_error_go
         (validateResponseOrderRedis commandPath responses #
          map (\<lambda>r. Ret (validate_redis_response commandPath r)) (enumerate 0 responses)))"

definition validate_scenario :: "string \<Rightarrow> string \<Rightarrow> Scenario \<Rightarrow> ValidationError option go" where
  "validate_scenario kind seed scenario =
     (let basePath = ''/seeds/'' @ seed in first_error_go
       ([Ret (check (trim_space (s_Description scenario) = [])
           (validationError (basePath @ ''/description'') ''scenario description is required'')),
         Ret (validateStatePatch (basePath @ ''/initial'') (s_Initial scenario) False),
         Ret (if seed = ''0'' then validateHealthyBaseline (basePath @ ''/initial'') (s_Initial scenario) else None),
         Ret (validate_services kind basePath scenario)] @
        map (\<lambda>t. Ret (validate_transition basePath scenario t)) (enumerate 0 (s_Transitions scenario)) @
        map (validate_route basePath) (s_HTTP scenario) @
        map (validate_command basePath) (s_Redis scenario)))"

section \<open>The cookbook\<close>

text \<open>\<open>validate\<close> returns the error beside the cookbook, whose kind it normalises.\<close>

definition validate :: "Cookbook \<Rightarrow> (ValidationError option \<times> Cookbook) go" where
  "validate c =
     (let kind = to_lower (trim_space (cb_Kind c)) in
      if kind = [] then Ret (Some (validationError ''/kind'' ''kind is required''), c)
      else if kind \<noteq> ''nginx'' \<and> kind \<noteq> ''redis'' then
        Ret (Some (validationError ''/kind'' (''kind must be nginx or redis, got '' @ quote (cb_Kind c))), c)
      else go_bind
        (first_error_go
          ([Ret (validate_defaults kind (cb_Defaults c)),
            Ret (check (cb_ImageNames c = [])
              (validationError ''/image_names'' ''image_names must contain at least one image matcher'')),
            Ret (validate_images 0 [] (cb_ImageNames c)),
            Ret (validate_seed_keys (cb_Seeds c))] @
           map (\<lambda>seed. validate_scenario kind seed (mget_or zeroScenario (cb_Seeds c) seed)) [''0'', ''1'', ''2'']))
        (\<lambda>r. Ret (r, c\<lparr>cb_Kind := kind\<rparr>)))"

section \<open>The set of cookbooks\<close>

text \<open>\<^verbatim>\<open>filepath.Dir\<close> of a path that is clean, as the joined display paths are.\<close>

definition path_dir :: "string \<Rightarrow> string" where
  "path_dir p =
     (case last_index_byte (CHR ''/'') p of
        None \<Rightarrow> ''.'' | Some i \<Rightarrow> if i = 0 then ''/'' else take i p)"

definition commonCookbookRoot :: "(string, string) gomap \<Rightarrow> string" where
  "commonCookbookRoot origins = (case mvals origins of [] \<Rightarrow> [] | origin # _ \<Rightarrow> path_dir origin)"

definition zeroDiagnostic :: DiagnosticError where
  "zeroDiagnostic = \<lparr>de_Code = [], de_File = [], de_JSONPath = [], de_Message = [], de_Hint = [],
     de_Line = 0, de_Column = 0, de_SourceLine = []\<rparr>"

fun set_images ::
  "string \<Rightarrow> string \<Rightarrow> (string, string) gomap \<Rightarrow> string list \<Rightarrow> DiagnosticError + (string, string) gomap" where
  "set_images kind origin images [] = Inr images"
| "set_images kind origin images (img # imgs) =
     (let key = to_lower (trim_space img) in
      if key = [] then set_images kind origin images imgs
      else (case mget images key of
          Some previous \<Rightarrow>
            if previous \<noteq> kind then
              Inl (zeroDiagnostic\<lparr>de_Code := ''CONFIG_AMBIGUOUS_IMAGE'', de_File := origin,
                de_JSONPath := ''/image_names'',
                de_Message := ''image matcher '' @ quote img @ '' is also owned by '' @ previous,
                de_Hint := ''image names must map to only one cookbook''\<rparr>)
            else set_images kind origin (mput images key kind) imgs
        | None \<Rightarrow> set_images kind origin (mput images key kind) imgs))"

fun set_loop ::
  "(string, string) gomap \<Rightarrow> (string, string) gomap \<Rightarrow> (string, string) gomap \<Rightarrow> (string, string) gomap
    \<Rightarrow> (string, Cookbook) gomap \<Rightarrow> DiagnosticError option" where
  "set_loop origins names endpoints images [] = None"
| "set_loop origins names endpoints images ((kind, cb) # rest) =
     (let origin = mget_or [] origins kind;
          d = cb_Defaults cb;
          nameKey = to_lower (d_Name d);
          endpoint = JoinHostPort (d_IPAddress d) (itoa (d_ContainerPort d))
      in case mget names nameKey of
           Some previous \<Rightarrow>
             Some (zeroDiagnostic\<lparr>de_Code := ''CONFIG_DUPLICATE_CONTAINER_NAME'', de_File := origin,
               de_JSONPath := ''/defaults/name'',
               de_Message := ''default container name '' @ quote (d_Name d) @ '' is already used by '' @ previous,
               de_Hint := ''use a unique defaults.name per cookbook''\<rparr>)
         | None \<Rightarrow>
         (case mget endpoints endpoint of
            Some previous \<Rightarrow>
              Some (zeroDiagnostic\<lparr>de_Code := ''CONFIG_DUPLICATE_ENDPOINT'', de_File := origin,
                de_JSONPath := ''/defaults/ip_address'',
                de_Message := ''container endpoint '' @ endpoint @ '' is already used by '' @ previous,
                de_Hint := ''assign a unique loopback IP and port to each cookbook''\<rparr>)
          | None \<Rightarrow>
          (case set_images kind origin images (d_Image d # cb_ImageNames cb) of
             Inl e \<Rightarrow> Some e
           | Inr images' \<Rightarrow>
               set_loop origins (mput names nameKey kind) (mput endpoints endpoint kind) images' rest)))"

definition validateCookbookSet ::
  "(string, Cookbook) gomap \<Rightarrow> (string, string) gomap \<Rightarrow> DiagnosticError option" where
  "validateCookbookSet cookbooks origins = first_error
    (map (\<lambda>required. check (\<not> mmem cookbooks required)
       (zeroDiagnostic\<lparr>de_Code := ''CONFIG_MISSING_COOKBOOK'', de_File := commonCookbookRoot origins,
          de_Message := ''required '' @ required @ '' cookbook is missing'',
          de_Hint := ''add '' @ required @ ''.json or omit --cookbook-dir to use the embedded cookbooks''\<rparr>))
       [''nginx'', ''redis''] @
     map (\<lambda>kind. check (kind \<noteq> ''nginx'' \<and> kind \<noteq> ''redis'')
       (zeroDiagnostic\<lparr>de_Code := ''CONFIG_UNSUPPORTED_COOKBOOK'', de_File := mget_or [] origins kind,
          de_JSONPath := ''/kind'',
          de_Message := ''cookbook kind '' @ quote kind @ '' is not supported by docker-zero 0.3'',
          de_Hint := ''this release supports exactly nginx and redis''\<rparr>)) (mkeys cookbooks) @
     [set_loop origins [] [] [] cookbooks])"

section \<open>What an accepted cookbook has\<close>

lemma response_order_returns: "froms \<noteq> [] \<Longrightarrow> returns (response_order path froms)"
  by (cases froms) (auto simp: response_order_def split: option.splits)

lemma validate_route_returns: "returns (validate_route basePath r)"
  by (cases r) (auto simp: validate_route_def Let_def validateResponseOrderHTTP_def list_all_iff
      intro!: first_error_go_returns response_order_returns split: option.splits)

lemma validate_command_returns: "returns (validate_command basePath r)"
  by (cases r) (auto simp: validate_command_def Let_def validateResponseOrderRedis_def list_all_iff
      intro!: first_error_go_returns response_order_returns split: option.splits)

lemma validate_scenario_returns: "returns (validate_scenario kind seed scenario)"
  unfolding validate_scenario_def Let_def
  by (rule first_error_go_returns) (auto simp: list_all_iff validate_route_returns validate_command_returns)

text \<open>The guard on empty response lists comes before the check that reads the first of them.\<close>

lemma validate_returns: "returns (validate cb)"
proof -
  let ?k = "to_lower (trim_space (cb_Kind cb))"
  have "returns (first_error_go
      ([Ret (validate_defaults ?k (cb_Defaults cb)),
        Ret (check (cb_ImageNames cb = [])
          (validationError ''/image_names'' ''image_names must contain at least one image matcher'')),
        Ret (validate_images 0 [] (cb_ImageNames cb)),
        Ret (validate_seed_keys (cb_Seeds cb))] @
       map (\<lambda>seed. validate_scenario ?k seed (mget_or zeroScenario (cb_Seeds cb) seed)) [''0'', ''1'', ''2'']))"
    by (rule first_error_go_returns) (simp add: validate_scenario_returns)
  then show ?thesis
    unfolding validate_def Let_def by (auto simp: returns_iff simp del: append_Cons append_Nil list.map)
qed

lemma validate_accepts:
  assumes "validate cb = Ret (None, cb')"
  shows "cb' = cb\<lparr>cb_Kind := to_lower (trim_space (cb_Kind cb))\<rparr>"
    and "cb_Kind cb' \<in> {''nginx'', ''redis''}"
    and "validate_defaults (cb_Kind cb') (cb_Defaults cb) = None"
    and "validate_seed_keys (cb_Seeds cb) = None"
    and "seed \<in> {''0'', ''1'', ''2''} \<Longrightarrow>
      validate_scenario (cb_Kind cb') seed (mget_or zeroScenario (cb_Seeds cb) seed) = Ret None"
  using assms by (auto simp: validate_def Let_def split: if_splits)

text \<open>Validation changes nothing but the kind's spelling, so that an accepted cookbook is accepted as it is.\<close>

definition validated :: "Cookbook \<Rightarrow> bool" where
  "validated cb \<longleftrightarrow> (\<exists>cb0. validate cb0 = Ret (None, cb))"

lemma kind_normal: "kind \<in> {''nginx'', ''redis''} \<Longrightarrow> to_lower (trim_space kind) = kind \<and> to_lower kind = kind"
proof -
  have "to_lower (trim_space ''nginx'') = ''nginx''" "to_lower (trim_space ''redis'') = ''redis''"
    "to_lower ''nginx'' = ''nginx''" "to_lower ''redis'' = ''redis''" by code_simp+
  then show "kind \<in> {''nginx'', ''redis''} \<Longrightarrow> to_lower (trim_space kind) = kind \<and> to_lower kind = kind" by auto
qed

lemma validated_iff:
  "validated cb \<longleftrightarrow> cb_Kind cb \<in> {''nginx'', ''redis''} \<and> validate_defaults (cb_Kind cb) (cb_Defaults cb) = None \<and>
     cb_ImageNames cb \<noteq> [] \<and> validate_images 0 [] (cb_ImageNames cb) = None \<and> validate_seed_keys (cb_Seeds cb) = None \<and>
     (\<forall>seed\<in>{''0'', ''1'', ''2''}. validate_scenario (cb_Kind cb) seed (mget_or zeroScenario (cb_Seeds cb) seed) = Ret None)"
    (is "_ \<longleftrightarrow> ?accepted cb")
proof
  assume "validated cb"
  then obtain cb0 where v: "validate cb0 = Ret (None, cb)" by (auto simp: validated_def)
  have cb: "cb = cb0\<lparr>cb_Kind := to_lower (trim_space (cb_Kind cb0))\<rparr>" by (rule validate_accepts(1) [OF v])
  have k: "to_lower (trim_space (cb_Kind cb0)) \<in> {''nginx'', ''redis''}" using validate_accepts(2) [OF v] cb by simp
  then show "?accepted cb"
    using v by (auto simp: validate_def Let_def cb)
next
  assume a: "?accepted cb"
  then have "to_lower (trim_space (cb_Kind cb)) = cb_Kind cb" using kind_normal by blast
  with a have "validate cb = Ret (None, cb)" by (auto simp: validate_def Let_def)
  then show "validated cb" by (auto simp: validated_def)
qed

end
