(* ===== verification/Validated_Runs.thy ===== *)
theory Validated_Runs
  imports Container_Contracts Cookbook_Validate
begin

text \<open>
  Validation and lifecycle together: what \<^const>\<open>validate\<close> accepts can be run. Every patch a container
  of an accepted cookbook ever applies was validated, so no sequence of operations reaches the panic
  in \<^const>\<open>applyPatchLocked\<close>.
\<close>

section \<open>The patches of a scenario\<close>

definition scripted_patches :: "Scenario \<Rightarrow> StatePatch list" where
  "scripted_patches sc =
     map hr_StatePatch (concat (map snd (s_HTTP sc))) @ map rr_StatePatch (concat (map snd (s_Redis sc)))"

text \<open>An operation that patches a container from outside takes the patch of a scripted response.\<close>

fun op_scripted :: "Scenario \<Rightarrow> container_op \<Rightarrow> bool" where
  "op_scripted sc (OpPatch now patch) = (patch \<in> set (scripted_patches sc))"
| "op_scripted sc x = True"

lemma enumerate_mem: "x \<in> set xs \<Longrightarrow> \<exists>i. (i, x) \<in> set (enumerate n xs)"
proof -
  assume "x \<in> set xs"
  then have "x \<in> snd ` set (enumerate n xs)" by (metis list.set_map map_snd_enumerate)
  then show ?thesis by force
qed

lemma validated_route_patches:
  assumes "validate_route basePath (route, rs) = Ret None" and "r \<in> set rs"
  shows "patch_safe (hr_StatePatch r)"
proof -
  obtain i where "(i, r) \<in> set (enumerate 0 rs)" using enumerate_mem [OF assms(2)] by blast
  with assms(1) have "validate_http_response (basePath @ ''/http/'' @ escapeJSONPointer route) (i, r) = None"
    by (auto simp: validate_route_def Let_def split: option.splits)
  then show ?thesis
    by (auto simp: validate_http_response_def Let_def intro: validated_patch_safe)
qed

lemma validated_command_patches:
  assumes "validate_command basePath (command, rs) = Ret None" and "r \<in> set rs"
  shows "patch_safe (rr_StatePatch r)"
proof -
  obtain i where "(i, r) \<in> set (enumerate 0 rs)" using enumerate_mem [OF assms(2)] by blast
  with assms(1) have "validate_redis_response (basePath @ ''/redis/'' @ escapeJSONPointer command) (i, r) = None"
    by (auto simp: validate_command_def Let_def split: option.splits)
  then show ?thesis
    by (auto simp: validate_redis_response_def Let_def intro: validated_patch_safe)
qed

lemma validated_transition_patch: "validate_transition basePath sc (i, t) = None \<Longrightarrow> patch_safe (t_Set t)"
  by (auto simp: validate_transition_def Let_def intro: validated_patch_safe)

lemma validated_scenario:
  assumes "validate_scenario kind seed sc = Ret None"
  shows "scenario_safe sc" and "p \<in> set (scripted_patches sc) \<Longrightarrow> patch_safe p"
proof -
  note v = assms [unfolded validate_scenario_def Let_def first_error_go_None]
  have "patch_safe (t_Set t)" if t: "t \<in> set (s_Transitions sc)" for t
  proof -
    obtain i where "(i, t) \<in> set (enumerate 0 (s_Transitions sc))" using enumerate_mem [OF t] by blast
    with v have "validate_transition (''/seeds/'' @ seed) sc (i, t) = None" by fastforce
    then show ?thesis by (rule validated_transition_patch)
  qed
  moreover have "validateStatePatch (''/seeds/'' @ seed @ ''/initial'') (s_Initial sc) False = None"
    using v by simp
  ultimately show "scenario_safe sc"
    by (auto simp: scenario_safe_def list_all_iff intro: validated_patch_safe)
  assume "p \<in> set (scripted_patches sc)"
  then consider (http) route rs r where "(route, rs) \<in> set (s_HTTP sc)" "r \<in> set rs" "p = hr_StatePatch r"
    | (redis) command rs r where "(command, rs) \<in> set (s_Redis sc)" "r \<in> set rs" "p = rr_StatePatch r"
    by (auto simp: scripted_patches_def)
  then show "patch_safe p"
  proof cases
    case http
    then have "validate_route (''/seeds/'' @ seed) (route, rs) = Ret None" using v by fastforce
    with http show ?thesis by (simp add: validated_route_patches)
  next
    case redis
    then have "validate_command (''/seeds/'' @ seed) (command, rs) = Ret None" using v by fastforce
    with redis show ?thesis by (simp add: validated_command_patches)
  qed
qed

lemma itoa_seed: "seed \<in> {0, 1, 2} \<Longrightarrow> itoa seed \<in> {''0'', ''1'', ''2''}"
proof -
  have "itoa 1 = ''1''" "itoa 2 = ''2''" by code_simp+
  then show "seed \<in> {0, 1, 2} \<Longrightarrow> itoa seed \<in> {''0'', ''1'', ''2''}" by auto
qed

lemma distinct_keys_filter: "distinct (map fst xs) \<Longrightarrow> length (filter (\<lambda>r. fst r = w) xs) \<le> 1"
proof (induction xs)
  case (Cons x xs)
  then have "fst x \<notin> fst ` set xs" by simp
  then have "fst x = w \<Longrightarrow> filter (\<lambda>r. fst r = w) xs = []"
    by (metis (mono_tags, lifting) filter_False imageI)
  with Cons show ?case by auto
qed simp

text \<open>An accepted cookbook, for the witnesses.\<close>

definition ping_scenario :: Scenario where
  "ping_scenario = crash_scenario\<lparr>s_Description := ''demo'',
     s_Redis := [(''PING'', [zeroRedisResponse\<lparr>rr_From := 1, rr_Reply := ''+PONG'' @ crlf,
       rr_StatePatch := zeroPatch\<lparr>p_Health := Some hUnhealthy\<rparr>\<rparr>])]\<rparr>"

definition ping_cookbook :: Cookbook where
  "ping_cookbook = \<lparr>cb_Kind = ''Redis'', cb_ImageNames = [''redis''],
     cb_Defaults = \<lparr>d_Name = ''db'', d_Image = ''redis:7'', d_ServiceType = ''redis'', d_IPAddress = ''127.0.0.1'',
       d_ContainerPort = 6379, d_HostIP = ''127.0.0.1'', d_HostPort = 6379\<rparr>,
     cb_Seeds = [(''0'', ping_scenario), (''1'', ping_scenario), (''2'', ping_scenario)]\<rparr>"

lemma ping_cookbook_accepted:
  "validate ping_cookbook = Ret (None, ping_cookbook\<lparr>cb_Kind := ''redis''\<rparr>)"
  by code_simp

text \<open>The PID and the restart count a patch leaves.\<close>

lemma applyPatchLocked_started:
  assumes "applyPatchLocked now p (c, pid) = Ret (c', pid')"
    and "patched (p_Status p) (c_Status c) = sRunning" and "c_Status c \<noteq> sRunning" and "c_Pid c = 0"
  shows "c_Pid c' = wrap64 (1001 + pid)" and "pid' = pid + 1"
proof -
  from assms(1) obtain c1 where c1: "canonical_flags (patch_fields p c) = Ret c1"
    and c': "c' = patch_health now (h_Status (c_Health c))
           (fst (patch_times now (c_Status c) (patch_notify (c_Running c) (c_Status c) c1) pid))"
    and pid': "pid' = snd (patch_times now (c_Status c) (patch_notify (c_Running c) (c_Status c) c1) pid)"
    by (rule applyPatchLocked_stages)
  have sel: "c_Status c1 = sRunning" "c_Pid c1 = 0"
    using assms(2,4) by (simp_all add: canonical_flags_sel(1) [OF c1])
  then show "c_Pid c' = wrap64 (1001 + pid)" "pid' = pid + 1"
    using assms(3) by (simp_all add: c' pid' patch_times_pid)
qed

lemma one64: "wrap64 1 = 1" and zero64: "wrap64 0 = 0"
  by (simp_all add: wrap64_def)

lemma restarts_stages:
  "c_RestartCount (set_flags r pa re d c) = c_RestartCount c"
  "c_RestartCount (patch_notify r o1 c) = c_RestartCount c"
  "c_RestartCount (patch_health now o1 c) = c_RestartCount c"
  by (simp_all add: set_flags_def patch_notify_def notifyWaitersLocked_def patch_health_def Let_def)

lemma restarts_marks:
  "c_RestartCount (fst (mark_started now o1 s)) = c_RestartCount (fst s)"
  "c_RestartCount (mark_exited now o1 c) = c_RestartCount c"
  "c_RestartCount (mark_restarting now o1 c) = c_RestartCount c"
  "c_RestartCount (mark_created c) = c_RestartCount c"
  by (simp_all add: mark_started_def mark_exited_def mark_restarting_def mark_created_def Let_def case_prod_beta)

lemma restarts_times: "c_RestartCount (fst (patch_times now o1 c pid)) = c_RestartCount c"
  by (simp add: patch_times_def case_prod_beta restarts_marks)

lemma applyPatchLocked_restarts:
  assumes "applyPatchLocked now p (c, pid) = Ret (c', pid')"
  shows "c_RestartCount c' =
    (let n = patched (p_RestartCount p) (c_RestartCount c) in
     if p_RestartCountDelta p \<noteq> 0 then wrap64 (n + p_RestartCountDelta p) else n)"
  using assms
  by (auto elim!: applyPatchLocked_stages dest!: canonical_flags_sel(1)
      simp: restarts_stages restarts_times patch_fields_def Let_def)

section \<open>Properties\<close>

text \<open>
  C7: a container created from an accepted cookbook, with any of its seeds, survives every sequence of
  operations whose patches come from its scripted responses: no operation panics; the flags are those
  of the status; a PID exists exactly while a process does, as long as the 64-bit counter of PIDs has
  not been exhausted, and never without one; every waiter has at most one result; and the health log
  keeps at most five entries.
\<close>

theorem validated_container_runs:
  assumes "validate cb = Ret (None, cb')" and "seed \<in> {0, 1, 2}" and "0 \<le> pid"
    and "list_all (op_scripted (mget_or zeroScenario (cb_Seeds cb') (itoa seed))) ops"
  shows "\<exists>c pid'. run_all exec_op ops (newContainer now cid name img cb' seed, pid) = Ret (c, pid') \<and>
    c_Status c \<in> {sCreated, sRunning, sPaused, sRestarting, sExited, sDead} \<and>
    c_Running c = (c_Status c \<in> {sRunning, sPaused, sRestarting}) \<and>
    c_Paused c = (c_Status c = sPaused) \<and> c_Restarting c = (c_Status c = sRestarting) \<and>
    c_Dead c = (c_Status c = sDead) \<and>
    (c_Pid c \<noteq> 0 \<longrightarrow> c_Status c \<in> {sRunning, sPaused}) \<and>
    (pid' \<le> maxInt64 - 1000 \<longrightarrow> (c_Pid c \<noteq> 0 \<longleftrightarrow> c_Status c \<in> {sRunning, sPaused})) \<and>
    (\<forall>w. length (results_of w c) \<le> 1) \<and> length (h_Log (c_Health c)) \<le> 5"
proof -
  let ?sc = "mget_or zeroScenario (cb_Seeds cb') (itoa seed)"
  have seeds: "cb_Seeds cb' = cb_Seeds cb" using validate_accepts(1) [OF assms(1)] by simp
  have v: "validate_scenario (cb_Kind cb') (itoa seed) ?sc = Ret None"
    using validate_accepts(5) [OF assms(1) itoa_seed [OF assms(2)]] seeds by simp
  have "list_all op_safe ops"
    unfolding list_all_iff
  proof
    fix x assume "x \<in> set ops"
    with assms(4) have "op_scripted ?sc x" by (simp add: list_all_iff)
    then show "op_safe x" using validated_scenario(2) [OF v] by (cases x) auto
  qed
  then obtain s where run: "run_all exec_op ops (newContainer now cid name img cb' seed, pid) = Ret s"
    and inv: "lifecycle_inv s"
    using container.run_returns [OF newContainer_inv [OF validated_scenario(1) [OF v] assms(3)]] by blast
  obtain c pid' where [simp]: "s = (c, pid')" by (cases s)
  have "length (results_of w c) \<le> 1" for w
  proof -
    have "distinct (map fst (c_sent c))" using inv by (simp add: lifecycle_inv_def waiters_ok_def)
    then show ?thesis using distinct_keys_filter [of "c_sent c" w] by (simp add: results_of_def)
  qed
  with run inv show ?thesis
    by (auto simp: lifecycle_inv_def canonical_iff pid_ok_def pids_left_def lifecycle_statuses_def)
qed

theorem validated_container_runs_witness:
  "\<exists>c pid'. run_all exec_op
      [OpStart (UnixNano 1), OpPatch (UnixNano 2) (zeroPatch\<lparr>p_Health := Some hUnhealthy\<rparr>), OpPause,
       OpAdvance (UnixNano 3) ''docker.inspect'', OpKill (UnixNano 4), OpRestart (UnixNano 5)]
      (newContainer (UnixNano 0) ''id'' ''db'' ''redis'' (ping_cookbook\<lparr>cb_Kind := ''redis''\<rparr>) 0, 0) = Ret (c, pid') \<and>
    c_Running c = (c_Status c \<in> {sRunning, sPaused, sRestarting})"
proof -
  have "list_all (op_scripted (mget_or zeroScenario (cb_Seeds (ping_cookbook\<lparr>cb_Kind := ''redis''\<rparr>)) (itoa 0)))
      [OpStart (UnixNano 1), OpPatch (UnixNano 2) (zeroPatch\<lparr>p_Health := Some hUnhealthy\<rparr>), OpPause,
       OpAdvance (UnixNano 3) ''docker.inspect'', OpKill (UnixNano 4), OpRestart (UnixNano 5)]"
    by (simp add: ping_cookbook_def ping_scenario_def scripted_patches_def crash_scenario_def zeroScenario_def
        zeroRedisResponse_def)
  moreover have "(0::int) \<in> {0, 1, 2}" "0 \<le> (0::int)" by simp_all
  ultimately show ?thesis using validated_container_runs [OF ping_cookbook_accepted] by blast
qed

text \<open>
  C38: seed 0 is the healthy baseline. The first start of a container whose initial state passed the
  baseline check, and that check is part of validation, gives a running, healthy container with exit
  code 0. Its PID is 1000 plus the next value of the 64-bit PID counter, both computed with
  wrap-around, so it is above 1000 and unused before until the counter nears its limit. Its restart
  count is the patch's increment, which the check leaves open, and its start count is 1.
\<close>

theorem baseline_first_start:
  assumes "validateHealthyBaseline path (s_Initial (c_Scenario c)) = None"
    and "lifecycle_inv (c, pid)" and "c_Status c = sCreated" and "c_StartCount c = 0"
  shows "\<exists>snaps c'. start now (c, pid) = Ret (snaps, c', pid + 1) \<and> c_Status c' = sRunning \<and>
    h_Status (c_Health c') = hHealthy \<and> c_ExitCode c' = 0 \<and>
    c_Pid c' = wrap64 (1000 + wrap64 (pid + 1)) \<and>
    (pid + 1 \<le> maxInt64 - 1000 \<longrightarrow> c_Pid c' = 1000 + (pid + 1)) \<and> c_StartCount c' = 1 \<and>
    c_RestartCount c' = wrap64 (p_RestartCountDelta (s_Initial (c_Scenario c)))"
proof -
  let ?c = "c\<lparr>c_manuallyStopped := False, c_automaticRestarts := 0\<rparr>" and ?i = "s_Initial (c_Scenario c)"
  have base: "p_Status ?i = Some sRunning" "p_Health ?i = Some hHealthy" "p_ExitCode ?i = Some 0"
    "p_RestartCount ?i = Some 0"
    using assms(1) by (simp_all add: validateHealthyBaseline_def)
  obtain snaps c' pid' where st: "start now (c, pid) = Ret (snaps, c', pid')"
    using start_safe [OF assms(2), of now] by (metis returns_iff prod_cases3)
  then obtain c2 where ap: "applyPatchLocked now (startPatch ?c) (?c, pid) = Ret (c2, pid')"
    and c': "c' = c2\<lparr>c_StartCount := wrap64 (c_StartCount c2 + 1),
      c_Logs := c_Logs c2 @ [start_log (c2\<lparr>c_StartCount := wrap64 (c_StartCount c2 + 1)\<rparr>)]\<rparr>"
    by (rule start_patch)
  have patch: "p_Health (startPatch ?c) = Some hHealthy" "p_ExitCode (startPatch ?c) = Some 0"
    "p_RestartCount (startPatch ?c) = Some 0" "p_RestartCountDelta (startPatch ?c) = p_RestartCountDelta ?i"
    using base assms(4) by (simp_all add: startPatch_def Let_def)
  have pid: "c_Pid c = 0" using assms(2,3) by (simp add: lifecycle_inv_def pid_ok_def)
  note eff = applyPatchLocked_status(1,3,4) [OF ap] applyPatchLocked_started [OF ap]
    applyPatchLocked_restarts [OF ap]
  have "c_Status c2 = sRunning" "h_Status (c_Health c2) = hHealthy" "c_ExitCode c2 = 0"
    "c_Pid c2 = wrap64 (1001 + pid)" "pid' = pid + 1" "c_StartCount c2 = 0" "c_RestartCount c2 = wrap64 (p_RestartCountDelta ?i)"
    using eff base patch pid assms(3,4) applyPatchLocked_frame(5) [OF ap] by (simp_all add: zero64)
  moreover have "0 \<le> pid" using assms(2) by (simp add: lifecycle_inv_def pid_ok_def)
  then have "pid + 1 \<le> maxInt64 - 1000 \<Longrightarrow> wrap64 (1001 + pid) = 1000 + (pid + 1)"
    using fresh_pid [of pid] by (simp add: pids_left_def)
  ultimately show ?thesis using st c' by (simp add: wrap64_next_pid one64)
qed

theorem baseline_first_start_witness:
  "\<exists>snaps c'. start (UnixNano 1) (crash_container ''no'' 0, 0) = Ret (snaps, c', 1) \<and>
    c_Status c' = sRunning \<and> c_Pid c' = 1001 \<and> c_RestartCount c' = 0"
proof -
  have "validateHealthyBaseline [] (s_Initial (c_Scenario (crash_container ''no'' 0))) = None"
    by (simp add: validateHealthyBaseline_def crash_scenario_def zeroScenario_def zeroPatch_def)
  from baseline_first_start [OF this crash_container_inv, of "UnixNano 1"] show ?thesis
    by (auto simp: crash_scenario_def zeroScenario_def zeroPatch_def wrap64_def maxInt64_def)
qed

end
