(* ===== verification/Engine_Invariant.thy ===== *)
theory Engine_Invariant
  imports Engine_Lookup Network_Frame Validated_Runs
begin

text \<open>
  The engine's invariant and the contract of the operations that run through a container's pointer.
  \<open>alive D\<close> is the invariant together with the claim that the containers of \<open>D\<close> are held;
  an operation that keeps it for every \<open>D\<close> never dereferences a dangling pointer.
\<close>

section \<open>Operations of a container\<close>

definition scripted_safe :: "Scenario \<Rightarrow> bool" where
  "scripted_safe sc \<longleftrightarrow> scenario_safe sc \<and> list_all patch_safe (scripted_patches sc)"

text \<open>What no operation of a container changes.\<close>

definition identity :: "Container \<Rightarrow> string \<times> string \<times> string \<times> Scenario \<times> gotime" where
  "identity c = (c_ID c, c_Name c, c_Kind c, c_Scenario c, c_Created c)"

text \<open>
  The contract: an operation that is started in the invariant returns, keeps the invariant and the
  identity, does not mark the container removed, and never takes the PID counter back.
\<close>

locale container_operation =
  fixes op :: "Container \<times> int \<Rightarrow> ('a \<times> Container \<times> int) go"
  assumes runs: "lifecycle_inv (c, pid) \<Longrightarrow>
    \<exists>r c' pid'. op (c, pid) = Ret (r, c', pid') \<and> lifecycle_inv (c', pid') \<and> identity c' = identity c \<and>
      c_removed c' = c_removed c \<and> pid \<le> pid'"

lemma identity_eq:
  "identity c' = identity c \<longleftrightarrow> c_ID c' = c_ID c \<and> c_Name c' = c_Name c \<and> c_Kind c' = c_Kind c \<and>
     c_Scenario c' = c_Scenario c \<and> c_Created c' = c_Created c"
  by (auto simp: identity_def)

lemma applyPatchLocked_pid_mono: "applyPatchLocked now p (c, pid) = Ret (c', pid') \<Longrightarrow> pid \<le> pid'"
  by (elim applyPatchLocked_stages) (auto simp: patch_times_pid split: if_splits)

lemma applyPatchLocked_identity:
  assumes "applyPatchLocked now p (c, pid) = Ret (c', pid')"
  shows "identity c' = identity c" and "c_removed c' = c_removed c"
  using applyPatchLocked_frame [OF assms] applyPatchLocked_status(5) [OF assms] by (simp_all add: identity_eq)

lemmas patch_frame = applyPatchLocked_identity applyPatchLocked_pid_mono

lemma operationI:
  assumes "\<And>c pid. lifecycle_inv (c, pid) \<Longrightarrow> returns (op (c, pid))"
    and "\<And>c pid r c' pid'. lifecycle_inv (c, pid) \<Longrightarrow> op (c, pid) = Ret (r, c', pid') \<Longrightarrow>
      lifecycle_inv (c', pid') \<and> identity c' = identity c \<and> c_removed c' = c_removed c \<and> pid \<le> pid'"
  shows "container_operation op"
proof
  fix c pid
  assume inv: "lifecycle_inv (c, pid)"
  then obtain r c' pid' where "op (c, pid) = Ret (r, c', pid')"
    using assms(1) by (metis returns_iff prod_cases3)
  with assms(2) [OF inv this] show "\<exists>r c' pid'. op (c, pid) = Ret (r, c', pid') \<and> lifecycle_inv (c', pid') \<and>
      identity c' = identity c \<and> c_removed c' = c_removed c \<and> pid \<le> pid'" by blast
qed

text \<open>An operation that only reads or only writes fields outside the invariant.\<close>

lemma plain_operation:
  assumes "\<And>c pid. lifecycle_inv (c, pid) \<Longrightarrow> lifecycle_inv (g c, pid)"
    and "\<And>c. identity (g c) = identity c" and "\<And>c. c_removed (g c) = c_removed c"
  shows "container_operation (\<lambda>(c, pid). Ret (f c, g c, pid))"
  by unfold_locales (simp add: assms)

lemma advance_frame:
  assumes "advance now event (c, pid) = Ret (ea, c', pid')"
  shows "identity c' = identity c \<and> c_removed c' = c_removed c \<and> pid \<le> pid'"
proof -
  have count: "identity (count_event event c) = identity c" "c_removed (count_event event c) = c_removed c"
    by (simp_all add: identity_def count_event_def Let_def)
  from assms obtain r where "advance_loop now event (wrap64 (mget_or 0 (c_Counters c) event + 1)) 0
      (s_Transitions (c_Scenario c)) (count_event event c, pid) = Ret (r, c', pid')"
    by (rule advance_steps)
  from advance_loop_fires [OF this] consider "(c', pid') = (count_event event c, pid)"
    | k where "fire_transition now k (s_Transitions (c_Scenario c) ! k) (count_event event c, pid) = Ret (c', pid')"
    by auto
  then show ?thesis
  proof cases
    case 2
    from this obtain c2 where "applyPatchLocked now (t_Set (s_Transitions (c_Scenario c) ! k))
        (if transitionRestartsStopped (c_Status (count_event event c)) (t_Set (s_Transitions (c_Scenario c) ! k))
         then (count_event event c)\<lparr>c_automaticRestarts := wrap64 (c_automaticRestarts (count_event event c) + 1)\<rparr>
         else count_event event c, pid) = Ret (c2, pid')"
      and c': "c' = (if t_Once (s_Transitions (c_Scenario c) ! k)
        then c2\<lparr>c_AppliedTransitions := mput (c_AppliedTransitions c2) k True\<rparr> else c2)"
      by (rule fire_patch)
    from patch_frame [OF this(1)] count show ?thesis by (simp add: c' identity_def split: if_splits)
  qed (use count in simp)
qed

interpretation starting: container_operation "start now" for now
proof (rule operationI)
  fix c pid r c' pid'
  assume inv: "lifecycle_inv (c, pid)" and st: "start now (c, pid) = Ret (r, c', pid')"
  let ?c = "c\<lparr>c_manuallyStopped := False, c_automaticRestarts := 0\<rparr>"
  from st obtain c2 where "applyPatchLocked now (startPatch ?c) (?c, pid) = Ret (c2, pid')"
    and "c' = c2\<lparr>c_StartCount := wrap64 (c_StartCount c2 + 1),
      c_Logs := c_Logs c2 @ [start_log (c2\<lparr>c_StartCount := wrap64 (c_StartCount c2 + 1)\<rparr>)]\<rparr>"
    by (rule start_patch)
  with patch_frame [OF this(1)] start_inv [OF inv st]
  show "lifecycle_inv (c', pid') \<and> identity c' = identity c \<and> c_removed c' = c_removed c \<and> pid \<le> pid'"
    by (simp add: identity_def)
qed (rule start_safe)

interpretation stopping: container_operation "stop now code" for now code
proof (rule operationI)
  fix c pid r c' pid'
  assume inv: "lifecycle_inv (c, pid)" and st: "stop now code (c, pid) = Ret (r, c', pid')"
  show "lifecycle_inv (c', pid') \<and> identity c' = identity c \<and> c_removed c' = c_removed c \<and> pid \<le> pid'"
    using patch_frame [OF stop_patch(1) [OF st]] stop_inv [OF inv st] by (simp add: identity_def)
qed (rule patch_ops_safe)

interpretation killing: container_operation "kill now" for now
proof (rule operationI)
  fix c pid r c' pid'
  assume inv: "lifecycle_inv (c, pid)" and st: "kill now (c, pid) = Ret (r, c', pid')"
  show "lifecycle_inv (c', pid') \<and> identity c' = identity c \<and> c_removed c' = c_removed c \<and> pid \<le> pid'"
  proof (cases "c_Running c \<and> \<not> c_Dead c \<and> \<not> c_removed c")
    case True
    show ?thesis
      using patch_frame [OF kill_patch(1) [OF st True, THEN conjunct1]] kill_inv [OF inv st]
      by (simp add: identity_def)
  qed (use kill_patch(2) [OF st] inv in simp)
qed (rule patch_ops_safe)

interpretation restarting: container_operation "restart now" for now
proof (rule operationI)
  fix c pid r c' pid'
  assume inv: "lifecycle_inv (c, pid)" and st: "restart now (c, pid) = Ret (r, c', pid')"
  show "lifecycle_inv (c', pid') \<and> identity c' = identity c \<and> c_removed c' = c_removed c \<and> pid \<le> pid'"
    using patch_frame [OF restart_patch [OF st]] restart_inv [OF inv st] by (simp add: identity_def)
qed (rule patch_ops_safe)

interpretation advancing: container_operation "advance now event" for now event
  by (rule operationI) (blast intro: advance_safe advance_inv dest: advance_frame)+

lemma patch_operation: "patch_safe p \<Longrightarrow> container_operation (applyPatch now p)"
proof (rule operationI)
  fix c pid
  assume "patch_safe p" and inv: "lifecycle_inv (c, pid)"
  from applyPatchLocked_safe [OF inv this(1)] show "returns (applyPatch now p (c, pid))"
    by (auto simp: applyPatch_def returns_iff)
  fix r c' pid'
  assume "applyPatch now p (c, pid) = Ret (r, c', pid')"
  then have ap: "applyPatchLocked now p (c, pid) = Ret (c', pid')" by (auto simp: applyPatch_def)
  show "lifecycle_inv (c', pid') \<and> identity c' = identity c \<and> c_removed c' = c_removed c \<and> pid \<le> pid'"
    using patch_frame [OF ap] applyPatchLocked_inv [OF inv \<open>patch_safe p\<close> ap] by simp
qed

text \<open>The operations without a clock.\<close>

interpretation pausing: container_operation "of_pure pause"
  unfolding of_pure_def
  by (rule plain_operation) (simp_all add: pause_inv, simp_all add: pause_def identity_def Let_def)

interpretation unpausing: container_operation "of_pure unpause"
  unfolding of_pure_def
  by (rule plain_operation) (simp_all add: unpause_inv, simp_all add: unpause_def identity_def Let_def)

interpretation subscribing: container_operation "of_pure (subscribeWait condition)" for condition
  unfolding of_pure_def
  by (rule plain_operation) (simp_all add: wait_ops_inv, simp_all add: subscribeWait_def identity_def Let_def)

section \<open>The invariant\<close>

definition container_ok :: "(string, string) gomap \<Rightarrow> int \<Rightarrow> string \<Rightarrow> Container \<Rightarrow> bool" where
  "container_ok names pid cid c \<longleftrightarrow> c_ID c = cid \<and> length cid = 64 \<and> mget names (c_Name c) = Some cid \<and>
     c_Name c \<noteq> [] \<and> validateContainerName (c_Name c) = None \<and> c_Kind c \<in> {''nginx'', ''redis''} \<and>
     lifecycle_inv (c, pid) \<and> \<not> c_removed c \<and> scripted_safe (c_Scenario c)"

definition cookbook_ok :: "Cookbook \<Rightarrow> bool" where
  "cookbook_ok cb \<longleftrightarrow> cb_Kind cb \<in> {''nginx'', ''redis''} \<and> (\<forall>seed sc. mget (cb_Seeds cb) seed = Some sc \<longrightarrow> scripted_safe sc)"

definition engine_inv :: "Engine \<Rightarrow> bool" where
  "engine_inv e \<longleftrightarrow> 0 \<le> e_pid e \<and> wf_map (e_containers e) \<and> wf_map (e_names e) \<and> wf_map (e_volumes e) \<and>
     (\<forall>cid c. mget (e_containers e) cid = Some c \<longrightarrow> container_ok (e_names e) (e_pid e) cid c) \<and>
     (\<forall>name cid. mget (e_names e) name = Some cid \<longrightarrow> (\<exists>c. mget (e_containers e) cid = Some c \<and> c_Name c = name)) \<and>
     networks_ok (e_networks e) \<and> named_ok (e_networks e) \<and>
     (\<forall>key n cid. mget (e_networks e) key = Some n \<and> mmem (n_Containers n) cid \<longrightarrow> mmem (e_containers e) cid) \<and>
     (\<forall>cid. mmem (e_runtimes e) cid \<longrightarrow> mmem (e_containers e) cid) \<and>
     (\<forall>cb \<in> set (mvals (e_cookbooks e)). cookbook_ok cb)"

definition alive :: "string set \<Rightarrow> Engine \<Rightarrow> bool" where
  "alive D e \<longleftrightarrow> engine_inv e \<and> (\<forall>cid\<in>D. mmem (e_containers e) cid)"

lemma aliveD: "alive D e \<Longrightarrow> engine_inv e" "alive D e \<Longrightarrow> cid \<in> D \<Longrightarrow> \<exists>c. mget (e_containers e) cid = Some c"
  by (auto simp: alive_def mmem_def)

lemma alive_insert: "alive (insert cid D) e \<longleftrightarrow> alive D e \<and> mmem (e_containers e) cid"
  by (auto simp: alive_def)

lemma alive_mono: "alive D e \<Longrightarrow> D' \<subseteq> D \<Longrightarrow> alive D' e"
  by (auto simp: alive_def)

lemma engine_invD:
  assumes "engine_inv e"
  shows "0 \<le> e_pid e" "wf_map (e_containers e)" "wf_map (e_names e)" "networks_ok (e_networks e)"
    and "mget (e_containers e) cid = Some c \<Longrightarrow> container_ok (e_names e) (e_pid e) cid c"
    and "mget (e_names e) name = Some cid \<Longrightarrow> \<exists>c. mget (e_containers e) cid = Some c \<and> c_Name c = name"
    and "mget (e_networks e) key = Some n \<Longrightarrow> mmem (n_Containers n) cid \<Longrightarrow> mmem (e_containers e) cid"
    and "mmem (e_runtimes e) cid \<Longrightarrow> mmem (e_containers e) cid"
    and "cb \<in> set (mvals (e_cookbooks e)) \<Longrightarrow> cookbook_ok cb"
    and "named_ok (e_networks e)" and "wf_map (e_volumes e)"
  using assms unfolding engine_inv_def by blast+

lemma container_okD:
  assumes "container_ok names pid cid c"
  shows "c_ID c = cid" "length cid = 64" "mget names (c_Name c) = Some cid" "c_Name c \<noteq> []"
    "validateContainerName (c_Name c) = None" "lifecycle_inv (c, pid)" "\<not> c_removed c"
    "scripted_safe (c_Scenario c)" "c_Kind c \<in> {''nginx'', ''redis''}"
  using assms by (simp_all add: container_ok_def)

text \<open>Fields that the invariant does not read.\<close>

lemma engine_inv_cong:
  assumes "e_containers e' = e_containers e" "e_names e' = e_names e" "e_networks e' = e_networks e"
    "e_volumes e' = e_volumes e" "e_runtimes e' = e_runtimes e" "e_cookbooks e' = e_cookbooks e" "e_pid e' = e_pid e"
  shows "engine_inv e' = engine_inv e"
  using assms by (simp add: engine_inv_def)

lemma alive_cong:
  assumes "e_containers e' = e_containers e" "e_names e' = e_names e" "e_networks e' = e_networks e"
    "e_volumes e' = e_volumes e" "e_runtimes e' = e_runtimes e" "e_cookbooks e' = e_cookbooks e" "e_pid e' = e_pid e"
  shows "alive D e' = alive D e"
  using engine_inv_cong [OF assms] assms(1) by (simp add: alive_def)

section \<open>Operations that keep it\<close>

lemma lifecycle_inv_pid: "lifecycle_inv (c, pid) \<Longrightarrow> pid \<le> pid' \<Longrightarrow> lifecycle_inv (c, pid')"
  by (auto simp: lifecycle_inv_def pid_ok_def dest: pids_left_mono)

lemma engine_inv_container:
  assumes inv: "engine_inv e" and c: "mget (e_containers e) cid = Some c"
    and "lifecycle_inv (c', pid')" and "identity c' = identity c" and "c_removed c' = c_removed c" and "e_pid e \<le> pid'"
  shows "engine_inv ((set_container c' e)\<lparr>e_pid := pid'\<rparr>)"
proof -
  note ok = container_okD [OF engine_invD(5) [OF inv c]]
  have key: "c_ID c' = cid" and name: "c_Name c' = c_Name c" and kind: "c_Kind c' = c_Kind c"
    and sc: "c_Scenario c' = c_Scenario c"
    using assms(4) ok(1) by (simp_all add: identity_eq)
  have "container_ok (e_names e) pid' k d" if "mget (mput (e_containers e) cid c') k = Some d" for k d
  proof (cases "k = cid")
    case True
    with that ok assms(3,5) key name kind sc show ?thesis by (simp add: container_ok_def)
  next
    case False
    with that have "container_ok (e_names e) (e_pid e) k d" using engine_invD(5) [OF inv] by simp
    with assms(6) show ?thesis by (auto simp: container_ok_def intro: lifecycle_inv_pid)
  qed
  moreover have "\<exists>d. mget (mput (e_containers e) cid c') k = Some d \<and> c_Name d = nm"
    if "mget (e_names e) nm = Some k" for nm k
    using engine_invD(6) [OF inv that] c name by auto
  moreover have "mmem (mput (e_containers e) cid c') k = mmem (e_containers e) k" for k
    using c by (auto simp: mmem_def)
  ultimately show ?thesis
    using inv assms(6) unfolding engine_inv_def by (simp add: key)
qed

context container_operation
begin

lemma keeps_do:
  assumes "cid \<in> D"
  shows "keeps (alive D) (container_do cid op) always"
proof (rule keepsI)
  fix e
  assume al: "alive D e"
  from aliveD(2) [OF al assms] obtain c where c: "mget (e_containers e) cid = Some c" ..
  have inv: "engine_inv e" using al by (rule aliveD)
  from runs [OF container_okD(6) [OF engine_invD(5) [OF inv c]]]
  obtain r c' pid' where r: "op (c, e_pid e) = Ret (r, c', pid')" "lifecycle_inv (c', pid')"
    "identity c' = identity c" "c_removed c' = c_removed c" "e_pid e \<le> pid'" by blast
  have "engine_inv ((set_container c' e)\<lparr>e_pid := pid'\<rparr>)"
    using inv c r(2-5) by (rule engine_inv_container)
  moreover have "mmem (e_containers (set_container c' e)) k" if "mmem (e_containers e) k" for k
    using that by (auto simp: mmem_def)
  ultimately have "alive D ((set_container c' e)\<lparr>e_pid := pid'\<rparr>)"
    using al by (simp add: alive_def)
  with c r(1) show "\<exists>x e'. container_do cid op e = Ret (x, e') \<and> alive D e' \<and> True"
    by (simp add: container_do_def)
qed

end

lemma keeps_container_do: "container_operation op \<Longrightarrow> cid \<in> D \<Longrightarrow> keeps (alive D) (container_do cid op) always"
  by (rule container_operation.keeps_do)

lemma alive_unread [simp]:
  "alive D (e\<lparr>e_tick := t\<rparr>) = alive D e"
  "alive D (log_engine now entry e) = alive D e"
  "alive D (e\<lparr>e_counter := n\<rparr>) = alive D e"
  "alive D (e\<lparr>e_runtimeClosing := b\<rparr>) = alive D e"
  by (rule alive_cong; simp)+

lemma keeps_eask [keeps_intros]: "keeps (alive D) (eask f) always"
  by (rule keepsI) (simp add: eask_def)

lemma keeps_enow [keeps_intros]: "keeps (alive D) enow always"
  unfolding enow_def by (rule keeps_eask)

lemma keeps_container_at:
  "(\<And>now. container_operation (op now)) \<Longrightarrow> cid \<in> D \<Longrightarrow> keeps (alive D) (container_at cid op) always"
  unfolding container_at_def by (blast intro: keeps_ebind keeps_enow keeps_container_do)

lemma keeps_container_set:
  assumes "\<And>c pid. lifecycle_inv (c, pid) \<Longrightarrow> lifecycle_inv (g c, pid)"
    and "\<And>c. identity (g c) = identity c" and "\<And>c. c_removed (g c) = c_removed c" and "cid \<in> D"
  shows "keeps (alive D) (container_set cid g) always"
  unfolding container_set_def
  by (rule keeps_container_do [OF plain_operation [OF assms(1-3)] assms(4)])

text \<open>What is read through a pointer is a fact of a container in the invariant.\<close>

lemma keeps_container_get:
  assumes "\<And>c pid names. container_ok names pid cid c \<Longrightarrow> Q (f c)" and "cid \<in> D"
  shows "keeps (alive D) (container_get cid f) Q"
proof (rule keepsI)
  fix e
  assume al: "alive D e"
  from aliveD(2) [OF al assms(2)] obtain c where c: "mget (e_containers e) cid = Some c" ..
  have ok: "container_ok (e_names e) (e_pid e) cid c" using engine_invD(5) [OF aliveD(1) [OF al] c] .
  have "engine_inv ((set_container c e)\<lparr>e_pid := e_pid e\<rparr>)"
    using engine_inv_container [OF aliveD(1) [OF al] c container_okD(6) [OF ok]] by simp
  moreover have "mmem (e_containers (set_container c e)) k" if "mmem (e_containers e) k" for k
    using that by (auto simp: mmem_def)
  ultimately have "alive D ((set_container c e)\<lparr>e_pid := e_pid e\<rparr>)" using al by (simp add: alive_def)
  with c show "\<exists>x e'. container_get cid f e = Ret (x, e') \<and> alive D e' \<and> Q x"
    using assms(1) [OF ok] by (simp add: container_get_def container_do_def)
qed

lemma keeps_get [keeps_intros]: "cid \<in> D \<Longrightarrow> keeps (alive D) (container_get cid f) always"
  by (rule keeps_container_get) simp_all

lemma keeps_elog [keeps_intros]: "keeps (alive D) (elog entry) always"
  unfolding elog_def
  by (intro keeps_ebind [OF keeps_enow] keeps_emodify) simp

lemma keeps_elog_container [keeps_intros]: "cid \<in> D \<Longrightarrow> keeps (alive D) (elog_container cid f) always"
  unfolding elog_container_def by (intro keeps_ebind [OF keeps_get] keeps_elog)

lemma keeps_logContainerEvent [keeps_intros]:
  "cid \<in> D \<Longrightarrow> keeps (alive D) (logContainerEvent cid event adv request response) always"
  unfolding logContainerEvent_def by (rule keeps_elog_container)

lemma keeps_ops [keeps_intros]:
  assumes "cid \<in> D"
  shows "keeps (alive D) (container_at cid start) always"
    and "keeps (alive D) (container_at cid (\<lambda>now. stop now code)) always"
    and "keeps (alive D) (container_at cid kill) always"
    and "keeps (alive D) (container_at cid restart) always"
    and "keeps (alive D) (container_at cid (\<lambda>now. advance now event)) always"
    and "keeps (alive D) (container_do cid (of_pure pause)) always"
    and "keeps (alive D) (container_do cid (of_pure unpause)) always"
    and "keeps (alive D) (container_do cid (of_pure (subscribeWait condition))) always"
    and "patch_safe p \<Longrightarrow> keeps (alive D) (container_at cid (\<lambda>now. applyPatch now p)) always"
  using assms
  by (blast intro: keeps_container_at keeps_container_do starting.container_operation_axioms
      stopping.container_operation_axioms killing.container_operation_axioms restarting.container_operation_axioms
      advancing.container_operation_axioms pausing.container_operation_axioms unpausing.container_operation_axioms
      subscribing.container_operation_axioms patch_operation)+

lemma unchanged_writes:
  "identity (appendLog line c) = identity c" "c_removed (appendLog line c) = c_removed c"
  "identity (cancelWait w c) = identity c" "c_removed (cancelWait w c) = c_removed c"
  "identity (setPortBindings bindings c) = identity c" "c_removed (setPortBindings bindings c) = c_removed c"
  "identity (updateAssignedPort key index port c) = identity c"
  "c_removed (updateAssignedPort key index port c) = c_removed c"
  "identity (resetEphemeralAssignedPorts c) = identity c"
  "c_removed (resetEphemeralAssignedPorts c) = c_removed c"
  by (simp_all add: identity_def appendLog_def cancelWait_def setPortBindings_def updateAssignedPort_def
      resetEphemeralAssignedPorts_def Let_def)

lemma keeps_writes [keeps_intros]:
  assumes "cid \<in> D"
  shows "keeps (alive D) (container_set cid (appendLog line)) always"
    and "keeps (alive D) (container_set cid (cancelWait w)) always"
    and "keeps (alive D) (container_set cid (setPortBindings bindings)) always"
    and "keeps (alive D) (container_set cid (updateAssignedPort key index port)) always"
    and "keeps (alive D) (container_set cid resetEphemeralAssignedPorts) always"
  by (rule keeps_container_set; (rule assms unchanged_writes | erule plain_ops_inv wait_ops_inv))+

lemma keeps_if [keeps_intros]:
  "(b \<Longrightarrow> keeps P m Q) \<Longrightarrow> (\<not> b \<Longrightarrow> keeps P k Q) \<Longrightarrow> keeps P (if b then m else k) Q"
  by simp

lemma keeps_case [keeps_intros]:
  "(x = None \<Longrightarrow> keeps P m Q) \<Longrightarrow> (\<And>y. x = Some y \<Longrightarrow> keeps P (f y) Q) \<Longrightarrow> keeps P (case x of None \<Rightarrow> m | Some y \<Rightarrow> f y) Q"
  "(\<And>y. z = Inl y \<Longrightarrow> keeps P (g y) Q) \<Longrightarrow> (\<And>y. z = Inr y \<Longrightarrow> keeps P (h y) Q) \<Longrightarrow> keeps P (case z of Inl y \<Rightarrow> g y | Inr y \<Rightarrow> h y) Q"
  "(\<And>a b. p = (a, b) \<Longrightarrow> keeps P (k a b) Q) \<Longrightarrow> keeps P (case p of (a, b) \<Rightarrow> k a b) Q"
  "(xs = [] \<Longrightarrow> keeps P m Q) \<Longrightarrow> (\<And>y ys. xs = y # ys \<Longrightarrow> keeps P (l y ys) Q) \<Longrightarrow> keeps P (case xs of [] \<Rightarrow> m | y # ys \<Rightarrow> l y ys) Q"
  by (auto split: option.splits sum.splits prod.splits list.splits)

text \<open>The steps of a sequence whose results carry no fact.\<close>

lemma keeps_seq [keeps_intros]:
  "keeps P m always \<Longrightarrow> keeps P k Q \<Longrightarrow> keeps P (ethen m k) Q"
  "Q x \<Longrightarrow> keeps P (ereturn x) Q"
  by (simp_all add: keeps_ethen keeps_ereturn)

lemma keeps_step: "keeps P m always \<Longrightarrow> (\<And>x. keeps P (f x) Q) \<Longrightarrow> keeps P (ebind m f) Q"
  by (rule keeps_ebind)

end
