(* ===== verification/Redis_Protocol.thy ===== *)
theory Redis_Protocol
  imports Container_State
begin

text \<open>
  The RESP2 side of the Redis service (\<^verbatim>\<open>service_redis.go\<close>): reading commands, writing replies and the
  built-in command handler. A connection's unread input is a string; what a handler writes is
  returned. \<open>resp\<close> is a reference for the wire format: the code prints replies piecewise, the
  theorems say which value each one encodes.
\<close>

section \<open>The wire format\<close>

datatype resp = RSimple string | RError string | RInt int | RBulk "string option" | RArray "resp list"

fun encode_resp :: "resp \<Rightarrow> string" where
  "encode_resp (RSimple s) = ''+'' @ s @ crlf"
| "encode_resp (RError s) = ''-'' @ s @ crlf"
| "encode_resp (RInt n) = '':'' @ itoa n @ crlf"
| "encode_resp (RBulk None) = ''$-1'' @ crlf"
| "encode_resp (RBulk (Some s)) = ''$'' @ itoa (int (length s)) @ crlf @ s @ crlf"
| "encode_resp (RArray rs) = ''*'' @ itoa (int (length rs)) @ crlf @ concat (map encode_resp rs)"

text \<open>Lines have no line feed and no NUL, numbers and sizes are in range.\<close>

fun wf_resp :: "nat \<Rightarrow> resp \<Rightarrow> bool" where
  "wf_resp d (RSimple s) = (LF \<notin> set s \<and> NUL \<notin> set s)"
| "wf_resp d (RError s) = (LF \<notin> set s \<and> NUL \<notin> set s)"
| "wf_resp d (RInt n) = (minInt64 \<le> n \<and> n \<le> maxInt64)"
| "wf_resp d (RBulk None) = True"
| "wf_resp d (RBulk (Some s)) = (int (length s) \<le> max_bulk)"
| "wf_resp 0 (RArray rs) = (rs = [])"
| "wf_resp (Suc d) (RArray rs) = (length rs \<le> 1024 \<and> list_all (wf_resp d) rs)"

section \<open>Reading commands\<close>

text \<open>The errors of the reader by their texts; \<^verbatim>\<open>io.ReadFull\<close> tells an empty read from a short one.\<close>

fun read_args :: "nat \<Rightarrow> string list \<Rightarrow> string \<Rightarrow> (string + string list) \<times> string" where
  "read_args 0 result s = (Inr result, s)"
| "read_args (Suc n) result s =
     (case s of
        [] \<Rightarrow> (Inl ''EOF'', [])
      | p # s1 \<Rightarrow>
          if p \<noteq> CHR ''$'' then (Inl ''expected bulk string'', s1)
          else (case read_until LF s1 of
              None \<Rightarrow> (Inl ''EOF'', [])
            | Some (lengthLine, s2) \<Rightarrow>
                let (len, ok) = atoi (trim_space lengthLine) in
                if \<not> ok \<or> len < 0 \<or> len > max_bulk then (Inl ''invalid bulk string length'', s2)
                else if length s2 < nat len + 2 then
                  (Inl (if s2 = [] then ''EOF'' else ''unexpected EOF''), [])
                else if s2 ! nat len \<noteq> CR \<or> s2 ! (nat len + 1) \<noteq> LF
                  then (Inl ''invalid bulk string terminator'', drop (nat len + 2) s2)
                else read_args n (result @ [take (nat len) s2]) (drop (nat len + 2) s2)))"

text \<open>A byte that is converted to a string becomes the UTF-8 encoding of its code point.\<close>

definition byte_string :: "char \<Rightarrow> string" where
  "byte_string c = (if byte c < (128::nat) then [c]
     else [char_of (192 + byte c div (64::nat)), char_of (128 + byte c mod (64::nat))])"

definition readRESPCommand :: "string \<Rightarrow> (string + string list) \<times> string" where
  "readRESPCommand s =
     (case s of
        [] \<Rightarrow> (Inl ''EOF'', [])
      | c # s1 \<Rightarrow>
          (case read_until LF s1 of
             None \<Rightarrow> (Inl ''EOF'', [])
           | Some (line, s2) \<Rightarrow>
               if c \<noteq> CHR ''*'' then (Inr (str_fields (trim_space (byte_string c @ line))), s2)
               else
                 let (count, ok) = atoi (trim_space line) in
                 if \<not> ok \<or> count < 0 \<or> count > 1024 then (Inl ''invalid RESP array length'', s2)
                 else read_args (nat count) [] s2))"

definition writeRESPBulk :: "string \<Rightarrow> string" where
  "writeRESPBulk value = ''$'' @ itoa (int (length value)) @ crlf @ value @ crlf"

definition sanitizeRedisError :: "string \<Rightarrow> string" where
  "sanitizeRedisError value =
     map (\<lambda>c. if c = LF then CHR '' '' else c) (map (\<lambda>c. if c = CR then CHR '' '' else c) value)"

section \<open>Built-in commands\<close>

fun del_keys :: "string list \<Rightarrow> (string, string) gomap \<Rightarrow> int \<times> (string, string) gomap" where
  "del_keys [] kv = (0, kv)"
| "del_keys (k # ks) kv =
     (if mmem kv k then let (n, kv') = del_keys ks (mdel kv k) in (n + 1, kv') else del_keys ks kv)"

definition exists_keys :: "string list \<Rightarrow> (string, string) gomap \<Rightarrow> int" where
  "exists_keys ks kv = int (length (filter (mmem kv) ks))"

definition incr_key :: "string \<Rightarrow> (string, string) gomap \<Rightarrow> int" where
  "incr_key k kv = wrap64 (fst (atoi (mget_or [] kv k)) + 1)"

definition wrong_arity :: "string \<Rightarrow> string" where
  "wrong_arity cmd = ''-ERR wrong number of arguments for '' @ [CHR 0x27] @ cmd @ [CHR 0x27] @ '' command'' @ crlf"

definition info_body :: "Container \<Rightarrow> string" where
  "info_body c = ''# Server'' @ crlf @ ''redis_version:7.4.0-docker-zero'' @ crlf @ ''process_id:1'' @ crlf @
     ''# Replication'' @ crlf @ ''role:master'' @ crlf @ ''# DockerZero'' @ crlf @
     ''seed:'' @ itoa (c_Seed c) @ crlf @ ''health:'' @ h_Status (c_Health c) @ crlf"

text \<open>The result is whether to quit, the bytes written and the container.\<close>

definition handleBuiltInRedis :: "Container \<Rightarrow> string list \<Rightarrow> (bool \<times> string \<times> Container) go" where
  "handleBuiltInRedis c command =
     (case command of
        [] \<Rightarrow> Panic ''index out of range [0] with length 0''
      | cmd # args \<Rightarrow>
          let name = to_upper cmd;
              reply = (\<lambda>out. Ret (False, out, c));
              ok = ''+OK'' @ crlf
          in if name = ''PING'' then
               reply (case args of a # _ \<Rightarrow> writeRESPBulk a | [] \<Rightarrow> ''+PONG'' @ crlf)
             else if name = ''ECHO'' then
               reply (case args of [a] \<Rightarrow> writeRESPBulk a | _ \<Rightarrow> wrong_arity ''echo'')
             else if name = ''SET'' then
               (case args of
                  k # v # _ \<Rightarrow> Ret (False, ok, c\<lparr>c_KV := mput (c_KV c) k v\<rparr>)
                | _ \<Rightarrow> reply (wrong_arity ''set''))
             else if name = ''GET'' then
               reply (case args of
                  [k] \<Rightarrow> (case mget (c_KV c) k of None \<Rightarrow> ''$-1'' @ crlf | Some v \<Rightarrow> writeRESPBulk v)
                | _ \<Rightarrow> wrong_arity ''get'')
             else if name = ''DEL'' then
               (let (n, kv) = del_keys args (c_KV c) in Ret (False, '':'' @ itoa n @ crlf, c\<lparr>c_KV := kv\<rparr>))
             else if name = ''EXISTS'' then
               reply ('':'' @ itoa (exists_keys args (c_KV c)) @ crlf)
             else if name = ''INCR'' then
               (case args of
                  [k] \<Rightarrow>
                    let value = incr_key k (c_KV c)
                    in Ret (False, '':'' @ itoa value @ crlf, c\<lparr>c_KV := mput (c_KV c) k (itoa value)\<rparr>)
                | _ \<Rightarrow> reply (wrong_arity ''incr''))
             else if name = ''INFO'' then reply (writeRESPBulk (info_body c))
             else if name = ''AUTH'' \<or> name = ''SELECT'' \<or> name = ''READONLY'' \<or> name = ''READWRITE'' then reply ok
             else if name = ''CLIENT'' then
               reply (case args of a # _ \<Rightarrow> if equal_fold a ''GETNAME'' then ''$-1'' @ crlf else ok | [] \<Rightarrow> ok)
             else if name = ''CONFIG'' then reply (''*0'' @ crlf)
             else if name = ''COMMAND'' then reply (''*0'' @ crlf)
             else if name = ''QUIT'' then Ret (True, ok, c)
             else reply (''-ERR unknown command '' @ [CHR 0x27] @ to_lower name @ [CHR 0x27] @ crlf))"

section \<open>Frames\<close>

lemma read_until_append: "d \<notin> set s \<Longrightarrow> read_until d (s @ d # rest) = Some (s @ [d], rest)"
  by (induction s) auto

lemma read_line_crlf: "LF \<notin> set s \<Longrightarrow> read_until LF (s @ crlf @ rest) = Some (s @ crlf, rest)"
  using read_until_append [of LF "s @ [CR]" rest] by (simp add: crlf_def)

lemma readRESPLine_crlf: "LF \<notin> set s \<Longrightarrow> readRESPLine (s @ crlf @ rest) = Inr (s, rest)"
  by (simp add: readRESPLine_def read_line_crlf) (simp add: crlf_def nth_append)

lemma itoa_no_LF: "LF \<notin> set (itoa n)"
  by (rule itoa_no_sep) (simp_all add: is_digit_def)

lemma readRESPLine_itoa: "readRESPLine (itoa n @ crlf @ rest) = Inr (itoa n, rest)"
  by (simp add: readRESPLine_crlf itoa_no_LF)

lemma max_bulk_range: "n \<le> max_bulk \<Longrightarrow> n \<le> maxInt64"
  by (simp add: max_bulk_def maxInt64_def)

lemma parse_line_frame:
  assumes "depth \<le> 64" and "LF \<notin> set s" and "NUL \<notin> set s" and "c \<in> {CHR ''+'', CHR ''-''}"
  shows "parseRESPFrame depth (c # s @ crlf @ rest) = Inr rest"
  using assms readRESPLine_crlf [OF assms(2), of rest] by (auto simp: parseRESPFrame.simps)

lemma parse_int_frame:
  assumes "depth \<le> 64" and "minInt64 \<le> n" and "n \<le> maxInt64"
  shows "parseRESPFrame depth (CHR '':'' # itoa n @ crlf @ rest) = Inr rest"
  using assms readRESPLine_itoa [of n rest] by (simp add: parseRESPFrame.simps atoi_itoa)

lemma parse_bulk_frame:
  assumes "depth \<le> 64" and "int (length s) \<le> max_bulk"
  shows "parseRESPFrame depth (CHR ''$'' # itoa (int (length s)) @ crlf @ s @ crlf @ rest) = Inr rest"
proof -
  have "atoi (itoa (int (length s))) = (int (length s), True)"
    using max_bulk_range [OF assms(2)] by (intro atoi_itoa) (simp_all add: minInt64_def)
  then show ?thesis
    using assms readRESPLine_itoa [of "int (length s)" "s @ crlf @ rest"]
    by (simp add: parseRESPFrame.simps) (simp add: crlf_def nth_append)
qed

lemma parse_null_frame:
  assumes "depth \<le> 64"
  shows "parseRESPFrame depth (''$-1'' @ crlf @ rest) = Inr rest"
proof -
  have "readRESPLine (''-1'' @ crlf @ rest) = Inr (''-1'', rest)" by (rule readRESPLine_crlf) simp
  moreover have "atoi ''-1'' = (-1, True)" by code_simp
  ultimately show ?thesis using assms by (simp add: parseRESPFrame.simps max_bulk_def)
qed

lemma parse_array_frame:
  assumes "depth \<le> 64" and "length rs \<le> 1024"
    and "\<And>r rest. r \<in> set rs \<Longrightarrow> parseRESPFrame (Suc depth) (encode_resp r @ rest) = Inr rest"
  shows "parseRESPFrame depth (encode_resp (RArray rs) @ rest) = Inr rest"
proof -
  have items: "parse_items (Suc depth) (length rs) i (concat (map encode_resp rs) @ rest) = Inr rest" for i
    using assms(3) by (induction rs arbitrary: i) auto
  have "atoi (itoa (int (length rs))) = (int (length rs), True)"
    using assms(2) by (intro atoi_itoa) (simp_all add: minInt64_def maxInt64_def)
  with items show ?thesis
    using assms(1,2) readRESPLine_itoa [of "int (length rs)" "concat (map encode_resp rs) @ rest"]
    by (simp add: frame_array)
qed

lemma parse_encoded:
  "wf_resp d r \<Longrightarrow> depth + d \<le> 64 \<Longrightarrow> parseRESPFrame depth (encode_resp r @ rest) = Inr rest"
proof (induction r arbitrary: d depth rest)
  case (RArray rs)
  show ?case
  proof (cases d)
    case 0
    with RArray.prems show ?thesis by (intro parse_array_frame) auto
  next
    case (Suc d')
    with RArray.prems have "depth \<le> 64" "length rs \<le> 1024" "list_all (wf_resp d') rs" by simp_all
    moreover have "Suc depth + d' \<le> 64" using RArray.prems Suc by simp
    ultimately show ?thesis
      using RArray.IH by (intro parse_array_frame) (auto simp: list_all_iff)
  qed
next
  case (RBulk b)
  then show ?case
    using parse_null_frame [of depth rest] parse_bulk_frame [of depth _ rest] by (cases b) auto
qed (simp_all add: parse_line_frame parse_int_frame)

lemma encode_nonempty: "encode_resp r \<noteq> []"
  by (cases r rule: encode_resp.cases) auto

lemma validate_frames:
  "list_all (wf_resp 64) rs \<Longrightarrow> n > 0 \<or> rs \<noteq> [] \<Longrightarrow> validateRESPReply_loop n (concat (map encode_resp rs)) = None"
proof (induction rs arbitrary: n)
  case (Cons r rs)
  then have "parseRESPFrame 0 (encode_resp r @ concat (map encode_resp rs)) = Inr (concat (map encode_resp rs))"
    by (intro parse_encoded [where d = 64]) simp_all
  with Cons encode_nonempty [of r] show ?case by (subst validateRESPReply_loop.simps) simp
qed (simp add: validateRESPReply_loop.simps)

section \<open>Commands\<close>

text \<open>A command as a client sends it: an array of bulk strings.\<close>

definition encode_command :: "string list \<Rightarrow> string" where
  "encode_command command = ''*'' @ itoa (int (length command)) @ crlf @ concat (map writeRESPBulk command)"

definition valid_command :: "string list \<Rightarrow> bool" where
  "valid_command command \<longleftrightarrow> length command \<le> 1024 \<and> list_all (\<lambda>s. int (length s) \<le> max_bulk) command"

lemma trim_itoa_line: "trim_space (itoa n @ crlf) = itoa n"
proof -
  have ns: "\<not> is_space c" if "c \<in> set (itoa n)" for c
    using itoa_no_space that by (auto simp: list_all_iff)
  obtain c cs where ic: "itoa n = c # cs" by (cases "itoa n") auto
  have "dropWhile is_space (itoa n @ crlf) = itoa n @ crlf" using ns ic by simp
  moreover have "dropWhile is_space (rev (itoa n @ crlf)) = dropWhile is_space (rev (itoa n))"
    by (simp add: crlf_def is_space_def)
  moreover have "dropWhile is_space (rev (itoa n)) = rev (itoa n)"
    using ns by (intro dropWhile_id) (metis hd_in_set itoa_nonempty rev_is_Nil_conv set_rev)
  ultimately show ?thesis by (simp add: trim_space_def)
qed

lemma read_args_encoded:
  "list_all (\<lambda>s. int (length s) \<le> max_bulk) command \<Longrightarrow>
   read_args (length command) result (concat (map writeRESPBulk command) @ rest) = (Inr (result @ command), rest)"
proof (induction command arbitrary: result)
  case (Cons s command)
  let ?tail = "concat (map writeRESPBulk command) @ rest"
  have "read_until LF (itoa (int (length s)) @ crlf @ s @ crlf @ ?tail) =
      Some (itoa (int (length s)) @ crlf, s @ crlf @ ?tail)"
    by (rule read_line_crlf) (rule itoa_no_LF)
  moreover have "atoi (itoa (int (length s))) = (int (length s), True)"
    using Cons.prems max_bulk_range [of "int (length s)"] by (intro atoi_itoa) (simp_all add: minInt64_def)
  moreover have "(s @ crlf @ ?tail) ! length s = CR" "(s @ crlf @ ?tail) ! Suc (length s) = LF"
    by (simp_all add: crlf_def nth_append)
  moreover have "drop (length s + 2) (s @ crlf @ ?tail) = ?tail" by (simp add: crlf_def)
  ultimately have "read_args (Suc (length command)) result (writeRESPBulk s @ ?tail) =
      read_args (length command) (result @ [s]) ?tail"
    using Cons.prems by (simp add: writeRESPBulk_def trim_itoa_line) (simp add: crlf_def)
  with Cons show ?case by simp
qed simp

lemma readRESPCommand_encoded:
  assumes "valid_command command"
  shows "readRESPCommand (encode_command command @ rest) = (Inr command, rest)"
proof -
  let ?body = "concat (map writeRESPBulk command) @ rest"
  have "read_until LF (itoa (int (length command)) @ crlf @ ?body) = Some (itoa (int (length command)) @ crlf, ?body)"
    by (rule read_line_crlf) (rule itoa_no_LF)
  moreover have "atoi (itoa (int (length command))) = (int (length command), True)"
    using assms by (intro atoi_itoa) (simp_all add: minInt64_def maxInt64_def valid_command_def)
  ultimately show ?thesis
    using assms read_args_encoded [of command "[]" rest]
    by (simp add: readRESPCommand_def encode_command_def trim_itoa_line valid_command_def)
qed

interpretation commands: framed_codec encode_command readRESPCommand valid_command
  by unfold_locales (rule readRESPCommand_encoded)

section \<open>The key-value store, abstractly\<close>

text \<open>
  The store as a partial function. \<open>kv_spec\<close> gives the reply and the new store of the five
  commands that read or write keys.
\<close>

definition arity_error :: "string \<Rightarrow> resp" where
  "arity_error cmd = RError (''ERR wrong number of arguments for '' @ [CHR 0x27] @ cmd @ [CHR 0x27] @ '' command'')"

definition kv_commands :: "string list" where
  "kv_commands = [''SET'', ''GET'', ''DEL'', ''EXISTS'', ''INCR'']"

definition kv_spec :: "string \<Rightarrow> string list \<Rightarrow> (string \<rightharpoonup> string) \<Rightarrow> resp \<times> (string \<rightharpoonup> string)" where
  "kv_spec name args m =
     (if name = ''SET'' then
        (case args of k # v # _ \<Rightarrow> (RSimple ''OK'', m(k \<mapsto> v)) | _ \<Rightarrow> (arity_error ''set'', m))
      else if name = ''GET'' then
        (case args of [k] \<Rightarrow> (RBulk (m k), m) | _ \<Rightarrow> (arity_error ''get'', m))
      else if name = ''DEL'' then (RInt (int (card (set args \<inter> dom m))), m |` (- set args))
      else if name = ''EXISTS'' then (RInt (int (length (filter (\<lambda>k. k \<in> dom m) args))), m)
      else
        (case args of
           [k] \<Rightarrow>
             let old = (case m k of None \<Rightarrow> 0 | Some v \<Rightarrow> fst (atoi v)); new = wrap64 (old + 1)
             in (RInt new, m(k \<mapsto> itoa new))
         | _ \<Rightarrow> (arity_error ''incr'', m)))"

lemma dom_mget: "dom (mget kv) = {k. mmem kv k}"
  by (auto simp: mmem_def)

lemma del_keys_spec:
  "del_keys ks kv = (n, kv') \<Longrightarrow>
   n = int (card (set ks \<inter> dom (mget kv))) \<and> mget kv' = mget kv |` (- set ks)"
proof (induction ks arbitrary: kv n kv')
  case (Cons k ks)
  show ?case
  proof (cases "mmem kv k")
    case True
    then obtain j where j: "del_keys ks (mdel kv k) = (j, kv')" "n = j + 1"
      using Cons.prems by (auto split: prod.splits)
    have d: "mget (mdel kv k) = (mget kv) (k := None)" by auto
    have "set (k # ks) \<inter> dom (mget kv) = insert k (set ks \<inter> dom (mget (mdel kv k)))"
      using True by (auto simp: mmem_def d)
    moreover have "k \<notin> set ks \<inter> dom (mget (mdel kv k))" by (simp add: d)
    ultimately have "card (set (k # ks) \<inter> dom (mget kv)) = Suc (card (set ks \<inter> dom (mget (mdel kv k))))" by simp
    with Cons.IH [OF j(1)] j(2) have "n = int (card (set (k # ks) \<inter> dom (mget kv)))" by linarith
    moreover have "mget kv' = mget kv |` (- set (k # ks))"
      using Cons.IH [OF j(1)] by (auto simp: d restrict_map_def fun_eq_iff)
    ultimately show ?thesis by blast
  next
    case False
    then have "set (k # ks) \<inter> dom (mget kv) = set ks \<inter> dom (mget kv)" by (auto simp: mmem_def)
    with Cons.IH [of kv n kv'] Cons.prems False show ?thesis
      by (auto simp: mmem_def restrict_map_def fun_eq_iff)
  qed
qed (simp add: restrict_map_def)

lemma wrong_arity_encodes: "wrong_arity cmd = encode_resp (arity_error cmd)"
  by (simp add: wrong_arity_def arity_error_def)

lemma writeRESPBulk_encodes: "writeRESPBulk v = encode_resp (RBulk (Some v))"
  by (simp add: writeRESPBulk_def)

lemma atoi_empty: "fst (atoi []) = 0"
  by code_simp

lemma incr_key_spec: "incr_key k kv = wrap64 ((case mget kv k of None \<Rightarrow> 0 | Some v \<Rightarrow> fst (atoi v)) + 1)"
  by (simp add: incr_key_def mget_or_def atoi_empty split: option.splits)

lemma kv_same: "c\<lparr>c_KV := c_KV c\<rparr> = c"
  by (cases c) simp

lemma mget_mput_upd: "mget (mput m k v) = (mget m)(k \<mapsto> v)"
  by (simp add: fun_eq_iff)

text \<open>The handler on the five commands, one at a time.\<close>

lemma builtin_SET: "to_upper cmd = ''SET'' \<Longrightarrow> handleBuiltInRedis c (cmd # args) =
   (case args of k # v # _ \<Rightarrow> Ret (False, ''+OK'' @ crlf, c\<lparr>c_KV := mput (c_KV c) k v\<rparr>)
    | _ \<Rightarrow> Ret (False, wrong_arity ''set'', c))"
  by (simp add: handleBuiltInRedis_def Let_def split: list.split)

lemma builtin_GET: "to_upper cmd = ''GET'' \<Longrightarrow> handleBuiltInRedis c (cmd # args) =
   Ret (False, case args of [k] \<Rightarrow> encode_resp (RBulk (mget (c_KV c) k)) | _ \<Rightarrow> wrong_arity ''get'', c)"
  by (simp add: handleBuiltInRedis_def Let_def writeRESPBulk_def split: list.split option.split)

lemma builtin_DEL: "to_upper cmd = ''DEL'' \<Longrightarrow> handleBuiltInRedis c (cmd # args) =
   Ret (False, encode_resp (RInt (fst (del_keys args (c_KV c)))), c\<lparr>c_KV := snd (del_keys args (c_KV c))\<rparr>)"
  by (simp add: handleBuiltInRedis_def Let_def case_prod_beta)

lemma builtin_EXISTS: "to_upper cmd = ''EXISTS'' \<Longrightarrow> handleBuiltInRedis c (cmd # args) =
   Ret (False, encode_resp (RInt (exists_keys args (c_KV c))), c)"
  by (simp add: handleBuiltInRedis_def Let_def)

lemma builtin_INCR: "to_upper cmd = ''INCR'' \<Longrightarrow> handleBuiltInRedis c (cmd # args) =
   (case args of [k] \<Rightarrow> Ret (False, encode_resp (RInt (incr_key k (c_KV c))),
        c\<lparr>c_KV := mput (c_KV c) k (itoa (incr_key k (c_KV c)))\<rparr>)
    | _ \<Rightarrow> Ret (False, wrong_arity ''incr'', c))"
  by (simp add: handleBuiltInRedis_def Let_def split: list.split)

definition kv_step_ok :: "Container \<Rightarrow> (bool \<times> string \<times> Container) go \<Rightarrow> resp \<times> (string \<rightharpoonup> string) \<Rightarrow> bool" where
  "kv_step_ok c res = (\<lambda>(r, m). \<exists>kv. res = Ret (False, encode_resp r, c\<lparr>c_KV := kv\<rparr>) \<and> mget kv = m)"

lemma kv_step_same: "kv_step_ok c (Ret (False, encode_resp r, c)) (r, mget (c_KV c))"
  unfolding kv_step_ok_def prod.case by (rule exI [of _ "c_KV c"]) (simp add: kv_same)

lemma kv_step_new: "mget kv = m \<Longrightarrow> kv_step_ok c (Ret (False, encode_resp r, c\<lparr>c_KV := kv\<rparr>)) (r, m)"
  by (auto simp: kv_step_ok_def)

lemma kv_refines:
  assumes "to_upper cmd \<in> set kv_commands"
  shows "kv_step_ok c (handleBuiltInRedis c (cmd # args)) (kv_spec (to_upper cmd) args (mget (c_KV c)))"
proof -
  have ok: "''+OK'' @ crlf = encode_resp (RSimple ''OK'')" by simp
  from assms consider "to_upper cmd = ''SET''" | "to_upper cmd = ''GET''" | "to_upper cmd = ''DEL''"
    | "to_upper cmd = ''EXISTS''" | "to_upper cmd = ''INCR''" by (auto simp: kv_commands_def)
  then show ?thesis
  proof cases
    case 1
    show ?thesis
      unfolding builtin_SET [OF 1] 1 ok wrong_arity_encodes
      by (auto simp: kv_spec_def kv_step_same mget_mput_upd simp del: encode_resp.simps
          intro!: kv_step_new split: list.split)
  next
    case 2
    show ?thesis
      unfolding builtin_GET [OF 2] 2 wrong_arity_encodes
      by (auto simp: kv_spec_def kv_step_same simp del: encode_resp.simps split: list.split)
  next
    case 3
    show ?thesis
      unfolding builtin_DEL [OF 3] 3
      using del_keys_spec [of args "c_KV c" "fst (del_keys args (c_KV c))" "snd (del_keys args (c_KV c))"]
      by (auto simp: kv_spec_def simp del: encode_resp.simps intro!: kv_step_new)
  next
    case 4
    have "exists_keys args (c_KV c) = int (length (filter (\<lambda>k. k \<in> dom (mget (c_KV c))) args))"
      by (simp add: exists_keys_def dom_mget)
    then show ?thesis
      unfolding builtin_EXISTS [OF 4] 4
      by (simp add: kv_spec_def kv_step_same del: encode_resp.simps)
  next
    case 5
    show ?thesis
      unfolding builtin_INCR [OF 5] 5 wrong_arity_encodes incr_key_spec
      by (auto simp: kv_spec_def kv_step_same Let_def mget_mput_upd simp del: encode_resp.simps
          intro!: kv_step_new split: list.split)
  qed
qed

section \<open>Built-in replies are frames\<close>

definition is_frame :: "string \<Rightarrow> bool" where
  "is_frame out \<longleftrightarrow> (\<exists>r. out = encode_resp r \<and> wf_resp 64 r)"

lemma is_frameI: "out = encode_resp r \<Longrightarrow> wf_resp 64 r \<Longrightarrow> is_frame out"
  by (auto simp: is_frame_def)

lemma itoa_0_1: "itoa 0 = ''0''"
  by code_simp

lemma frame_ok: "is_frame (''+OK'' @ crlf)"
  by (rule is_frameI [of _ "RSimple ''OK''"]) simp_all

lemma frame_pong: "is_frame (''+PONG'' @ crlf)"
  by (rule is_frameI [of _ "RSimple ''PONG''"]) simp_all

lemma frame_null: "is_frame (''$-1'' @ crlf)"
  by (rule is_frameI [of _ "RBulk None"]) simp_all

lemma frame_empty: "is_frame (''*0'' @ crlf)"
  by (rule is_frameI [of _ "RArray []"]) (simp_all add: itoa_0_1 eval_nat_numeral)

lemma frame_bulk: "int (length s) \<le> max_bulk \<Longrightarrow> is_frame (writeRESPBulk s)"
  by (rule is_frameI [of _ "RBulk (Some s)"]) (simp_all add: writeRESPBulk_def)

lemma frame_int: "minInt64 \<le> n \<Longrightarrow> n \<le> maxInt64 \<Longrightarrow> is_frame ('':'' @ itoa n @ crlf)"
  by (rule is_frameI [of _ "RInt n"]) simp_all

lemma frame_arity: "LF \<notin> set cmd \<Longrightarrow> NUL \<notin> set cmd \<Longrightarrow> is_frame (wrong_arity cmd)"
  by (rule is_frameI [of _ "arity_error cmd"]) (auto simp: wrong_arity_encodes arity_error_def)

lemma case_maps_keep_LF:
  assumes "LF \<notin> set s" "NUL \<notin> set s"
  shows "LF \<notin> set (to_lower (to_upper s))" "NUL \<notin> set (to_lower (to_upper s))"
proof -
  have b: "byte LF = (10::nat)" "byte NUL = (0::nat)" by simp_all
  have low: "byte (lower_char c) = (if is_upper c then byte c + 32 else byte c :: nat)" for c
    by (auto simp: lower_char_def is_upper_def byte_char_of)
  have up: "byte (upper_char c) = (if is_lower c then byte c - 32 else byte c :: nat)" for c
    by (auto simp: upper_char_def is_lower_def byte_char_of)
  have "byte (lower_char (upper_char c)) \<noteq> (10::nat)" if "c \<noteq> LF" for c
    using that b(1) of_char_eq_iff [where 'a = nat, of c LF] by (auto simp: low up is_upper_def is_lower_def)
  moreover have "byte (lower_char (upper_char c)) \<noteq> (0::nat)" if "c \<noteq> NUL" for c
    using that b(2) of_char_eq_iff [where 'a = nat, of c NUL] by (auto simp: low up is_upper_def is_lower_def)
  ultimately have "lower_char (upper_char c) \<noteq> LF" "lower_char (upper_char c) \<noteq> NUL" if "c \<in> set s" for c
    using that assms b by metis+
  then show "LF \<notin> set (to_lower (to_upper s))" "NUL \<notin> set (to_lower (to_upper s))"
    by (fastforce simp: to_lower_def to_upper_def)+
qed

lemma frame_unknown:
  assumes "LF \<notin> set cmd" "NUL \<notin> set cmd"
  shows "is_frame (''-ERR unknown command '' @ [CHR 0x27] @ to_lower (to_upper cmd) @ [CHR 0x27] @ crlf)"
  using case_maps_keep_LF [OF assms]
  by (intro is_frameI [of _ "RError (''ERR unknown command '' @ [CHR 0x27] @ to_lower (to_upper cmd) @ [CHR 0x27])"]) auto

lemma frame_count: "0 \<le> n \<Longrightarrow> n \<le> 1024 \<Longrightarrow> is_frame ('':'' @ itoa n @ crlf)"
  by (rule frame_int) (simp_all add: minInt64_def maxInt64_def)

lemma del_keys_count: "0 \<le> fst (del_keys ks kv) \<and> fst (del_keys ks kv) \<le> int (length ks)"
proof (induction ks arbitrary: kv)
  case (Cons k ks)
  show ?case
    using Cons [of kv] Cons [of "mdel kv k"] by (simp add: case_prod_beta Let_def)
qed simp

section \<open>Properties\<close>



text \<open>
  C29: the reply validator accepts every non-empty sequence of well-formed RESP2 values, nested up to
  its limit of 64 levels.
\<close>

theorem encoded_replies_accepted:
  assumes "list_all (wf_resp 64) rs" and "rs \<noteq> []"
  shows "validateRESPReply (concat (map encode_resp rs)) = None"
  using assms validate_frames [of rs 0] by (simp add: validateRESPReply_def)

theorem encoded_replies_accepted_witness:
  "validateRESPReply (concat (map encode_resp [RArray [RInt 7, RBulk None, RArray []], RSimple ''OK''])) = None"
  by (rule encoded_replies_accepted) (simp_all add: minInt64_def maxInt64_def eval_nat_numeral)

text \<open>
  C16: on \<^verbatim>\<open>SET\<close>, \<^verbatim>\<open>GET\<close>, \<^verbatim>\<open>DEL\<close>, \<^verbatim>\<open>EXISTS\<close> and \<^verbatim>\<open>INCR\<close> the built-in handler implements the abstract
  key-value store: it writes the encoding of the specified reply, the new store is the specified one,
  and nothing else of the container changes.
\<close>

theorem builtin_redis_refines_store:
  assumes "to_upper cmd \<in> set kv_commands"
    and "kv_spec (to_upper cmd) args (mget (c_KV c)) = (r, m)"
  shows "\<exists>kv. handleBuiltInRedis c (cmd # args) = Ret (False, encode_resp r, c\<lparr>c_KV := kv\<rparr>) \<and> mget kv = m"
  using kv_refines [OF assms(1), of c args] assms(2) by (simp add: kv_step_ok_def)

theorem builtin_redis_refines_store_witness:
  "\<exists>kv. handleBuiltInRedis
      ((newContainer (UnixNano 0) ''id'' ''db'' ''redis'' \<lparr>cb_Kind = ''redis'', cb_ImageNames = [],
        cb_Defaults = zeroDefaults, cb_Seeds = []\<rparr> 0)\<lparr>c_KV := [(''a'', ''1'')]\<rparr>) [''del'', ''a'', ''a'', ''b''] =
    Ret (False, '':1'' @ crlf,
      (newContainer (UnixNano 0) ''id'' ''db'' ''redis'' \<lparr>cb_Kind = ''redis'', cb_ImageNames = [],
        cb_Defaults = zeroDefaults, cb_Seeds = []\<rparr> 0)\<lparr>c_KV := kv\<rparr>) \<and> mget kv = Map.empty"
proof -
  let ?c = "(newContainer (UnixNano 0) ''id'' ''db'' ''redis'' \<lparr>cb_Kind = ''redis'', cb_ImageNames = [],
        cb_Defaults = zeroDefaults, cb_Seeds = []\<rparr> 0)\<lparr>c_KV := [(''a'', ''1'')]\<rparr>"
  have up: "to_upper ''del'' = ''DEL''" and one: "itoa 1 = ''1''" by code_simp+
  have "set [''a'', ''a'', ''b''] \<inter> dom (mget (c_KV ?c)) = {''a''}" by auto
  then have "kv_spec (to_upper ''del'') [''a'', ''a'', ''b''] (mget (c_KV ?c)) = (RInt 1, Map.empty)"
    by (simp add: kv_spec_def up restrict_map_def fun_eq_iff)
  moreover have "to_upper ''del'' \<in> set kv_commands" by (simp add: up kv_commands_def)
  ultimately show ?thesis
    using builtin_redis_refines_store [of "''del''" "[''a'', ''a'', ''b'']" ?c "RInt 1" Map.empty] by (simp add: one)
qed

text \<open>
  C30: whatever the built-in handler writes is exactly one well-formed RESP2 value, so that replies
  stay in step with commands, provided the command name has no line feed and no NUL. Without that
  proviso the statement is false: the name of an unknown command is echoed as it is.
\<close>

theorem builtin_reply_is_one_frame:
  assumes "handleBuiltInRedis c (cmd # args) = Ret (quit, out, c')" and "valid_command (cmd # args)"
    and "LF \<notin> set cmd" and "NUL \<notin> set cmd"
    and "\<forall>k v. mget (c_KV c) k = Some v \<longrightarrow> int (length v) \<le> max_bulk"
    and "int (length (info_body c)) \<le> max_bulk"
  shows "\<exists>r. out = encode_resp r \<and> wf_resp 64 r"
proof -
  have arg: "a \<in> set args \<Longrightarrow> int (length a) \<le> max_bulk" for a
    using assms(2) by (auto simp: valid_command_def list_all_iff)
  have len: "int (length args) \<le> 1024" using assms(2) by (simp add: valid_command_def)
  have "is_frame ('':'' @ itoa (fst (del_keys args (c_KV c))) @ crlf)"
    using del_keys_count [of args "c_KV c"] len by (intro frame_count) linarith+
  moreover have "exists_keys args (c_KV c) \<le> int (length args)" by (simp add: exists_keys_def)
  then have "is_frame ('':'' @ itoa (exists_keys args (c_KV c)) @ crlf)"
    using len by (intro frame_count) (linarith | simp add: exists_keys_def)+
  moreover have "is_frame ('':'' @ itoa (incr_key k (c_KV c)) @ crlf)" for k
    using wrap64_range by (intro frame_int) (auto simp: incr_key_def)
  moreover have "is_frame (wrong_arity ''echo'')" "is_frame (wrong_arity ''set'')" "is_frame (wrong_arity ''get'')"
    "is_frame (wrong_arity ''incr'')" by (rule frame_arity; simp)+
  ultimately have "is_frame out"
    using assms(1,5,6) arg frame_unknown [OF assms(3,4)] frame_ok frame_pong frame_null frame_empty frame_bulk
    unfolding handleBuiltInRedis_def Let_def list.case
    by (auto simp: case_prod_beta simp del: append.simps split: if_splits list.splits option.splits)
  then show ?thesis by (simp add: is_frame_def)
qed

theorem builtin_reply_is_one_frame_witness:
  "\<exists>quit out c' r. handleBuiltInRedis (newContainer (UnixNano 0) ''id'' ''db'' ''redis''
      \<lparr>cb_Kind = ''redis'', cb_ImageNames = [], cb_Defaults = zeroDefaults, cb_Seeds = []\<rparr> 0) [''flushall''] =
        Ret (quit, out, c') \<and> out = encode_resp r \<and> wf_resp 64 r"
proof -
  let ?c = "newContainer (UnixNano 0) ''id'' ''db'' ''redis''
      \<lparr>cb_Kind = ''redis'', cb_ImageNames = [], cb_Defaults = zeroDefaults, cb_Seeds = []\<rparr> 0"
  have up: "to_upper ''flushall'' = ''FLUSHALL''" and z: "itoa 0 = ''0''" by code_simp+
  have h: "\<exists>out. handleBuiltInRedis ?c [''flushall''] = Ret (False, out, ?c)"
    by (simp add: handleBuiltInRedis_def up)
  then obtain out where out: "handleBuiltInRedis ?c [''flushall''] = Ret (False, out, ?c)" by blast
  have "\<exists>r. out = encode_resp r \<and> wf_resp 64 r"
    by (rule builtin_reply_is_one_frame [OF out])
       (simp_all add: valid_command_def max_bulk_def newContainer_def info_body_def crlf_def z)
  with out show ?thesis by blast
qed

text \<open>
  A command name with a line break makes one command answer with two RESP2 values: the client takes
  the second for the reply to its next command.
\<close>

lemma unknown_command_splits_reply:
  "\<exists>out. handleBuiltInRedis c [''x'' @ crlf @ ''+ok''] = Ret (False, out, c) \<and>
     out = encode_resp (RError (''ERR unknown command '' @ [CHR 0x27] @ ''x'')) @
       encode_resp (RSimple (''ok'' @ [CHR 0x27])) \<and>
     valid_command [''x'' @ crlf @ ''+ok'']"
proof -
  have "to_upper (''x'' @ crlf @ ''+ok'') = ''X'' @ crlf @ ''+OK''"
    "to_lower (''X'' @ crlf @ ''+OK'') = ''x'' @ crlf @ ''+ok''" by code_simp+
  then show ?thesis
    by (simp add: handleBuiltInRedis_def valid_command_def max_bulk_def) (simp add: crlf_def)
qed

end
