(* ===== verification/Redis_Replication.thy ===== *)
theory Redis_Replication
  imports Engine_Lookup Engine_Network Redis_Protocol
begin

text \<open>
  Replication between Redis containers (\<^verbatim>\<open>redis_replication.go\<close>): a replica names its master by a host
  and a port, the link is made by looking the host up, and a master passes every mutation on to the
  replicas that are linked to it.
\<close>

section \<open>Roles\<close>

definition isRedisWriteCommand :: "string \<Rightarrow> bool" where
  "isRedisWriteCommand name \<longleftrightarrow> to_upper name = ''SET'' \<or> to_upper name = ''DEL'' \<or> to_upper name = ''INCR''"

definition containerRedisRole :: "Container \<Rightarrow> string" where
  "containerRedisRole c = (if r_Role (c_Redis c) = [] then ''master'' else r_Role (c_Redis c))"

definition master_state :: RedisReplicationState where
  "master_state = \<lparr>r_Role = ''master'', r_MasterHost = [], r_MasterPort = 0, r_MasterID = [],
     r_MasterLinkStatus = ''up''\<rparr>"

definition setRedisMaster :: "string \<Rightarrow> unit em" where
  "setRedisMaster cid = container_set cid (\<lambda>c. c\<lparr>c_Redis := master_state\<rparr>)"

text \<open>The first option \<^verbatim>\<open>--replicaof\<close> or \<^verbatim>\<open>--slaveof\<close> of the command line with a usable port.\<close>

fun replica_target :: "string list \<Rightarrow> (string \<times> int) option" where
  "replica_target (t # host # portText # rest) =
     (let (port, ok) = atoi portText in
      if (equal_fold t ''--replicaof'' \<or> equal_fold t ''--slaveof'') \<and> ok \<and> port > 0 \<and> port \<le> 65535
      then Some (host, port) else replica_target (host # portText # rest))"
| "replica_target tokens = None"

definition redisReplicaTargetFromCommand :: "string list \<Rightarrow> (string \<times> int) option" where
  "redisReplicaTargetFromCommand command = replica_target (concat (map str_fields command))"

definition netParseIPText :: "string \<Rightarrow> string" where
  "netParseIPText host0 =
     (let host = trim_space host0; parts = split_on (CHR ''.'') host in
      if length parts = 4 \<and> list_all (\<lambda>p. snd (atoi p)) parts then host else [])"

section \<open>The link of a replica\<close>

definition configured_replica :: "Container \<Rightarrow> Container" where
  "configured_replica c =
     (case redisReplicaTargetFromCommand (c_Command c) of
        None \<Rightarrow> c
      | Some (host, port) \<Rightarrow>
          c\<lparr>c_Redis := (c_Redis c)\<lparr>r_Role := ''slave'', r_MasterHost := host, r_MasterPort := port,
            r_MasterLinkStatus := (if r_MasterLinkStatus (c_Redis c) = [] then ''down''
              else r_MasterLinkStatus (c_Redis c))\<rparr>\<rparr>)"

definition link_down :: "Container \<Rightarrow> Container" where
  "link_down c = c\<lparr>c_Redis := (c_Redis c)\<lparr>r_MasterID := [], r_MasterLinkStatus := ''down''\<rparr>\<rparr>"

definition link_up :: "string \<Rightarrow> (string, string) gomap \<Rightarrow> Container \<Rightarrow> Container" where
  "link_up master kv c =
     c\<lparr>c_Redis := (c_Redis c)\<lparr>r_MasterID := master, r_MasterLinkStatus := ''up''\<rparr>, c_KV := kv\<rparr>"

text \<open>By an address any container is taken; by a name only another Redis container.\<close>

definition dns_master :: "string \<Rightarrow> DNSResult \<Rightarrow> Engine \<Rightarrow> Container option" where
  "dns_master cid result e =
     (case findContainer (dr_Container result) e of
        Inl err \<Rightarrow> None
      | Inr mid \<Rightarrow>
          (case mget (e_containers e) mid of
             None \<Rightarrow> None
           | Some m \<Rightarrow> if c_Kind m = ''redis'' \<and> c_ID m \<noteq> cid then Some m else None))"

definition find_master :: "string \<Rightarrow> string \<Rightarrow> Engine \<Rightarrow> Container option" where
  "find_master cid host e =
     (let ip = netParseIPText host in
      if ip \<noteq> [] then findContainerByEndpointIP ip e
      else case filter (\<lambda>m. m \<noteq> None) (map (\<lambda>r. dns_master cid r e) (resolveDNS (Some cid) host e)) of
             m # _ \<Rightarrow> m | [] \<Rightarrow> None)"

definition refreshRedisReplication :: "string \<Rightarrow> unit em" where
  "refreshRedisReplication cid =
     ebind (container_get cid c_Kind) (\<lambda>kind.
     if kind \<noteq> ''redis'' then ereturn ()
     else
       ethen (container_set cid configured_replica)
       (ebind (container_get cid c_Redis) (\<lambda>r.
        if r_Role r \<noteq> ''slave'' \<or> r_MasterHost r = [] \<or> r_MasterPort r = 0 then ereturn ()
        else
          ebind (eread (find_master cid (r_MasterHost r))) (\<lambda>found.
          case found of
            None \<Rightarrow> container_set cid link_down
          | Some m \<Rightarrow>
              if \<not> isRunning m then container_set cid link_down
              else
                ethen (container_set cid (link_up (c_ID m) (c_KV m)))
                (elog_container cid (\<lambda>entry. entry\<lparr>le_Channel := ''service.redis.replication'', le_Event := ''link.up'',
                   le_Request := JObject [(''master_host'', JString (r_MasterHost r)), (''master_port'', JInt (r_MasterPort r))],
                   le_Response := JObject [(''master'', JString (c_Name m))]\<rparr>))))))"

definition setRedisReplica :: "string \<Rightarrow> string \<Rightarrow> int \<Rightarrow> unit em" where
  "setRedisReplica cid host port =
     ethen (container_set cid (\<lambda>c. c\<lparr>c_Redis := (c_Redis c)\<lparr>r_Role := ''slave'', r_MasterHost := host,
              r_MasterPort := port, r_MasterID := [], r_MasterLinkStatus := ''down''\<rparr>\<rparr>))
           (refreshRedisReplication cid)"

section \<open>The links to a master\<close>

definition other_redis :: "string \<Rightarrow> Engine \<Rightarrow> string list" where
  "other_redis cid e = map c_ID (filter (\<lambda>c. c_Kind c = ''redis'' \<and> c_ID c \<noteq> cid) (mvals (e_containers e)))"

definition refreshRedisDependents :: "string \<Rightarrow> unit em" where
  "refreshRedisDependents cid =
     ebind (container_get cid c_Kind) (\<lambda>kind.
     if kind \<noteq> ''redis'' then ereturn ()
     else ebind (eread (other_redis cid)) (eforeach refreshRedisReplication))"

definition master_down :: "string \<Rightarrow> Container \<Rightarrow> Container" where
  "master_down cid c = (if r_MasterID (c_Redis c) = cid
     then c\<lparr>c_Redis := (c_Redis c)\<lparr>r_MasterLinkStatus := ''down''\<rparr>\<rparr> else c)"

definition markRedisMasterDown :: "string \<Rightarrow> unit em" where
  "markRedisMasterDown cid =
     ebind (container_get cid c_Kind) (\<lambda>kind.
     if kind \<noteq> ''redis'' then ereturn ()
     else ebind (eread (other_redis cid)) (eforeach (\<lambda>k. container_set k (master_down cid))))"

definition linked_to :: "string \<Rightarrow> Container \<Rightarrow> bool" where
  "linked_to cid c \<longleftrightarrow> r_Role (c_Redis c) = ''slave'' \<and> r_MasterID (c_Redis c) = cid \<and>
     r_MasterLinkStatus (c_Redis c) = ''up''"

definition redis_replicas :: "string \<Rightarrow> Engine \<Rightarrow> string list" where
  "redis_replicas cid e = map c_ID (filter (\<lambda>c. c_Kind c = ''redis'' \<and> c_ID c \<noteq> cid \<and> linked_to cid c \<and> isRunning c)
     (mvals (e_containers e)))"

text \<open>A command of fewer words than it needs does nothing; names are compared in upper case.\<close>

definition applyRedisMutation :: "string list \<Rightarrow> Container \<Rightarrow> Container" where
  "applyRedisMutation command c =
     (case command of
        [] \<Rightarrow> c
      | cmd # args \<Rightarrow>
          if to_upper cmd = ''SET'' then
            (case args of k # v # _ \<Rightarrow> c\<lparr>c_KV := mput (c_KV c) k v\<rparr> | _ \<Rightarrow> c)
          else if to_upper cmd = ''DEL'' then c\<lparr>c_KV := foldl mdel (c_KV c) args\<rparr>
          else if to_upper cmd = ''INCR'' then
            (case args of [k] \<Rightarrow> c\<lparr>c_KV := mput (c_KV c) k (itoa (incr_key k (c_KV c)))\<rparr> | _ \<Rightarrow> c)
          else c)"

definition replicateRedisMutation :: "string \<Rightarrow> string list \<Rightarrow> unit em" where
  "replicateRedisMutation cid command =
     ebind (container_get cid (\<lambda>c. (c_Kind c, containerRedisRole c, c_Name c))) (\<lambda>(kind, role, name).
     if kind \<noteq> ''redis'' \<or> role \<noteq> ''master'' then ereturn ()
     else ebind (eread (redis_replicas cid)) (eforeach (\<lambda>k.
       ethen (container_set k (applyRedisMutation command))
         (elog_container k (\<lambda>entry. entry\<lparr>le_Channel := ''service.redis.replication'', le_Event := ''apply'',
            le_Request := jstrings command, le_Response := JObject [(''master'', JString name)]\<rparr>)))))"

definition redisInfo :: "string \<Rightarrow> string em" where
  "redisInfo cid =
     ebind (container_get cid (\<lambda>c. (c_Redis c, c_Seed c, h_Status (c_Health c)))) (\<lambda>(r, seed, health).
     let head = ''# Server'' @ crlf @ ''redis_version:7.4.0-docker-zero'' @ crlf @ ''process_id:1'' @ crlf @
           ''# Replication'' @ crlf;
         tail = ''# DockerZero'' @ crlf @ ''seed:'' @ itoa seed @ crlf @ ''health:'' @ health @ crlf
     in if r_Role r = ''slave'' then
          ereturn (head @ ''role:slave'' @ crlf @ ''master_host:'' @ r_MasterHost r @ crlf @
            ''master_port:'' @ itoa (r_MasterPort r) @ crlf @
            ''master_link_status:'' @ r_MasterLinkStatus r @ crlf @ tail)
        else
          ebind (eread (\<lambda>e. length (filter (\<lambda>c. c_Kind c = ''redis'' \<and> c_ID c \<noteq> cid \<and> linked_to cid c)
              (mvals (e_containers e))))) (\<lambda>connected.
          ereturn (head @ ''role:master'' @ crlf @ ''connected_slaves:'' @ itoa (int connected) @ crlf @ tail)))"

section \<open>The built-in commands of a container\<close>

definition role_reply :: "RedisReplicationState \<Rightarrow> string" where
  "role_reply r =
     (if r_Role r = ''slave'' then
        let state = (if r_MasterLinkStatus r \<noteq> ''up'' then ''connect'' else ''connected'') in
        ''*5'' @ crlf @ ''$5'' @ crlf @ ''slave'' @ crlf @
        ''$'' @ itoa (int (length (r_MasterHost r))) @ crlf @ r_MasterHost r @ crlf @
        '':'' @ itoa (r_MasterPort r) @ crlf @
        ''$'' @ itoa (int (length state)) @ crlf @ state @ crlf @ '':0'' @ crlf
      else ''*3'' @ crlf @ ''$6'' @ crlf @ ''master'' @ crlf @ '':0'' @ crlf @ ''*0'' @ crlf)"

definition write_kv :: "string \<Rightarrow> (string, string) gomap \<Rightarrow> unit em" where
  "write_kv cid kv = container_set cid (\<lambda>c. c\<lparr>c_KV := kv\<rparr>)"

definition handle_write :: "string \<Rightarrow> string \<Rightarrow> string list \<Rightarrow> string list \<Rightarrow> string em" where
  "handle_write cid name args command =
     ebind (container_get cid c_KV) (\<lambda>kv.
     if name = ''SET'' then
       (case args of
          k # v # _ \<Rightarrow>
            ethen (write_kv cid (mput kv k v))
            (ethen (replicateRedisMutation cid command) (ereturn (''+OK'' @ crlf)))
        | _ \<Rightarrow> ereturn (wrong_arity ''set''))
     else if name = ''DEL'' then
       (let (n, kv') = del_keys args kv in
        ethen (write_kv cid kv')
        (ethen (replicateRedisMutation cid command) (ereturn ('':'' @ itoa n @ crlf))))
     else
       (case args of
          [k] \<Rightarrow>
            let value = incr_key k kv in
            ethen (write_kv cid (mput kv k (itoa value)))
            (ethen (replicateRedisMutation cid [''SET'', k, itoa value]) (ereturn ('':'' @ itoa value @ crlf)))
        | _ \<Rightarrow> ereturn (wrong_arity ''incr'')))"

definition handle_replicaof :: "string \<Rightarrow> string list \<Rightarrow> string em" where
  "handle_replicaof cid args =
     (case args of
        [host, portText] \<Rightarrow>
          if equal_fold host ''NO'' \<and> equal_fold portText ''ONE'' then
            ethen (setRedisMaster cid) (ereturn (''+OK'' @ crlf))
          else
            let (port, ok) = atoi portText in
            if \<not> ok \<or> port < 1 \<or> port > 65535 then ereturn (''-ERR Invalid master port'' @ crlf)
            else ethen (setRedisReplica cid host port) (ereturn (''+OK'' @ crlf))
      | _ \<Rightarrow> ereturn (wrong_arity ''replicaof''))"

text \<open>The result is whether to quit, and the bytes written.\<close>

definition handleBuiltInRedisForEngine :: "string \<Rightarrow> string list \<Rightarrow> (bool \<times> string) em" where
  "handleBuiltInRedisForEngine cid command =
     (case command of
        [] \<Rightarrow> (\<lambda>e. Panic ''index out of range [0] with length 0'')
      | cmd # args \<Rightarrow>
          let name = to_upper cmd;
              reply = (\<lambda>out. ereturn (False, out));
              ok = ''+OK'' @ crlf
          in ebind (container_get cid (\<lambda>c. (containerRedisRole c, c_KV c, c_Redis c))) (\<lambda>(role, kv, r).
             if isRedisWriteCommand name \<and> role = ''slave'' then
               reply (''-READONLY You can'' @ [CHR 0x27] @ ''t write against a read only replica.'' @ crlf)
             else if name = ''PING'' then
               reply (case args of a # _ \<Rightarrow> writeRESPBulk a | [] \<Rightarrow> ''+PONG'' @ crlf)
             else if name = ''ECHO'' then
               reply (case args of [a] \<Rightarrow> writeRESPBulk a | _ \<Rightarrow> wrong_arity ''echo'')
             else if name = ''GET'' then
               reply (case args of
                  [k] \<Rightarrow> (case mget kv k of None \<Rightarrow> ''$-1'' @ crlf | Some v \<Rightarrow> writeRESPBulk v)
                | _ \<Rightarrow> wrong_arity ''get'')
             else if name = ''EXISTS'' then
               reply ('':'' @ itoa (exists_keys args kv) @ crlf)
             else if name = ''SET'' \<or> name = ''DEL'' \<or> name = ''INCR'' then
               ebind (handle_write cid name args command) reply
             else if name = ''INFO'' then ebind (redisInfo cid) (\<lambda>body. reply (writeRESPBulk body))
             else if name = ''ROLE'' then reply (role_reply r)
             else if name = ''REPLICAOF'' \<or> name = ''SLAVEOF'' then ebind (handle_replicaof cid args) reply
             else if name = ''AUTH'' \<or> name = ''SELECT'' \<or> name = ''READONLY'' \<or> name = ''READWRITE'' then reply ok
             else if name = ''CLIENT'' then
               reply (case args of a # _ \<Rightarrow> if equal_fold a ''GETNAME'' then ''$-1'' @ crlf else ok | [] \<Rightarrow> ok)
             else if name = ''CONFIG'' \<or> name = ''COMMAND'' then reply (''*0'' @ crlf)
             else if name = ''QUIT'' then ereturn (True, ok)
             else reply (''-ERR unknown command '' @ [CHR 0x27] @ to_lower name @ [CHR 0x27] @ crlf)))"

end
