(* ===== verification/Service_Runtime.thy ===== *)
theory Service_Runtime
  imports Redis_Replication
begin

text \<open>
  The listeners of a container (\<^verbatim>\<open>service_runtime.go\<close>): which addresses a runtime opens, how it is started
  and stopped with the container, and what one HTTP request or Redis command does. A goroutine that a
  handler starts to bring the runtime in line with the container runs when the handler ends.
\<close>

section \<open>Addresses\<close>

record runtimeListenSpec =
  ls_address :: string
  ls_portKey :: string
  ls_bindingIndex :: int
  ls_direct :: bool

definition normalizePublishedListenIP :: "string \<Rightarrow> string" where
  "normalizePublishedListenIP host0 =
     (let host = trim_space host0 in
      if host = [] \<or> host = ''0.0.0.0'' \<or> host = ''::'' \<or> host = ''[::]'' then ''127.0.0.1'' else host)"

definition published_spec :: "string \<Rightarrow> nat \<times> PortBinding \<Rightarrow> runtimeListenSpec" where
  "published_spec key = (\<lambda>(index, b).
     let port = (if pb_HostPort b = 0 then pb_RequestedHostPort b else pb_HostPort b) in
     \<lparr>ls_address = JoinHostPort (normalizePublishedListenIP (pb_HostIP b)) (itoa port), ls_portKey = key,
      ls_bindingIndex = int index, ls_direct = False\<rparr>)"

definition published_specs :: "(string, PortBinding list) gomap \<Rightarrow> string \<Rightarrow> runtimeListenSpec list" where
  "published_specs bindings key =
     map (published_spec key)
       (filter (\<lambda>(index, b). \<not> (pb_Protocol b \<noteq> [] \<and> pb_Protocol b \<noteq> ''tcp''))
         (enumerate 0 (mget_or [] bindings key)))"

definition runtimeListenSpecs :: "Container \<Rightarrow> Engine \<Rightarrow> runtimeListenSpec list" where
  "runtimeListenSpecs c e =
     (if e_endpointMode e \<noteq> ''off'' then
        map (\<lambda>item. \<lparr>ls_address = item, ls_portKey = [], ls_bindingIndex = -1, ls_direct = True\<rparr>)
          (containerEndpointAddresses c e)
      else []) @
     concat (map (published_specs (clonePortBindings c)) (sort (mkeys (clonePortBindings c))))"

section \<open>Starting and stopping\<close>

definition zeroRuntime :: ContainerRuntime where
  "zeroRuntime = \<lparr>rt_active = False, rt_listeners = [], rt_connections = []\<rparr>"

definition runtime_of :: "string \<Rightarrow> Engine \<Rightarrow> ContainerRuntime" where
  "runtime_of cid e = mget_or zeroRuntime (e_runtimes e) cid"

definition set_runtime :: "string \<Rightarrow> ContainerRuntime \<Rightarrow> unit em" where
  "set_runtime cid rt = emodify (\<lambda>e. e\<lparr>e_runtimes := mput (e_runtimes e) cid rt\<rparr>)"

definition port_allocated :: "string \<Rightarrow> string \<Rightarrow> string" where
  "port_allocated name address = ''driver failed programming external connectivity on endpoint '' @ name @
     '': Bind for '' @ address @ '' failed: port is already allocated''"

text \<open>A failure closes what was opened and forgets the ports that were assigned.\<close>

definition give_up :: "string \<Rightarrow> string \<Rightarrow> (string + string list) em" where
  "give_up cid err = ethen (container_set cid resetEphemeralAssignedPorts) (ereturn (Inl err))"

definition bound_port :: "string \<Rightarrow> runtimeListenSpec \<Rightarrow> int \<Rightarrow> unit em" where
  "bound_port cid spec port =
     (if ls_bindingIndex spec \<ge> 0
      then container_set cid (updateAssignedPort (ls_portKey spec) (ls_bindingIndex spec) port)
      else ereturn ())"

fun open_listeners ::
  "string \<Rightarrow> (string, runtimeListenSpec) gomap \<Rightarrow> string list \<Rightarrow> runtimeListenSpec list
    \<Rightarrow> (string + string list) em" where
  "open_listeners cid seen opened [] = ereturn (Inr opened)"
| "open_listeners cid seen opened (spec # specs) =
     (let address = ls_address spec in
      case (if has_suffix address '':0'' then None else mget seen address) of
        Some previous \<Rightarrow>
          if ls_direct previous = ls_direct spec \<and> ls_portKey previous = ls_portKey spec
          then open_listeners cid seen opened specs
          else ebind (container_get cid c_Name) (\<lambda>name. give_up cid (port_allocated name address))
      | None \<Rightarrow>
          ebind (eask (\<lambda>env n. env_listen env n address)) (\<lambda>outcome.
          case outcome of
            Inl err \<Rightarrow>
              ebind (eread e_endpointMode) (\<lambda>endpointMode.
              if ls_direct spec \<and> endpointMode = ''auto'' then
                ethen (elog_container cid (\<lambda>entry. entry\<lparr>le_Channel := ''docker-zero.network'',
                    le_Event := ''direct_endpoint.skipped'', le_Request := JObject [(''address'', JString address)],
                    le_Response := JObject [(''error'', JString err)]\<rparr>))
                  (open_listeners cid (mput seen address spec) opened specs)
              else if ls_direct spec then
                give_up cid (''cannot bind virtual container endpoint '' @ address @ '': '' @ err)
              else ebind (container_get cid c_Name) (\<lambda>name.
                give_up cid (port_allocated name address @ '': '' @ err)))
          | Inr port \<Rightarrow>
              ethen (bound_port cid spec port)
                (open_listeners cid (mput seen address spec) (opened @ [address]) specs)))"

definition runtime_Start :: "string \<Rightarrow> string option em" where
  "runtime_Start cid =
     ebind (eread (runtime_of cid)) (\<lambda>rt.
     if rt_active rt then ereturn None
     else
       ebind (container_get cid (\<lambda>c. c)) (\<lambda>c.
       ebind (eread (runtimeListenSpecs c)) (\<lambda>specs.
       ebind (open_listeners cid [] [] specs) (\<lambda>result.
       case result of
         Inl err \<Rightarrow> ereturn (Some err)
       | Inr opened \<Rightarrow>
           if c_Kind c \<noteq> ''nginx'' \<and> c_Kind c \<noteq> ''redis'' then
             ethen (container_set cid resetEphemeralAssignedPorts)
               (ereturn (Some (''unsupported service runtime kind '' @ quote (c_Kind c))))
           else
             ethen (set_runtime cid (rt\<lparr>rt_active := True, rt_listeners := opened\<rparr>))
               (ereturn None)))))"

text \<open>The connections leave the runtime when their handlers finish, which the wait is for.\<close>

definition runtime_Stop :: "string \<Rightarrow> string option em" where
  "runtime_Stop cid =
     ebind (eread (runtime_of cid)) (\<lambda>rt.
     if \<not> rt_active rt \<and> rt_listeners rt = [] \<and> rt_connections rt = [] then ereturn None
     else
       ebind (eask env_timeout) (\<lambda>timeout.
       if timeout then
         ethen (set_runtime cid (rt\<lparr>rt_active := False, rt_listeners := []\<rparr>))
           (ereturn (Some ''context deadline exceeded''))
       else
         ethen (set_runtime cid (rt\<lparr>rt_active := False, rt_listeners := [], rt_connections := []\<rparr>))
           (ereturn None)))"

definition registerRedisConnection :: "string \<Rightarrow> nat \<Rightarrow> bool em" where
  "registerRedisConnection cid connection =
     ebind (eread (runtime_of cid)) (\<lambda>rt.
     if \<not> rt_active rt then ereturn False
     else ethen (set_runtime cid (rt\<lparr>rt_connections := rt_connections rt @ [connection]\<rparr>)) (ereturn True))"

definition finishRedisConnection :: "string \<Rightarrow> nat \<Rightarrow> unit em" where
  "finishRedisConnection cid connection =
     ebind (eread (runtime_of cid)) (\<lambda>rt.
       set_runtime cid (rt\<lparr>rt_connections := filter (\<lambda>k. k \<noteq> connection) (rt_connections rt)\<rparr>))"

definition errEngineRuntimeClosing :: string where
  "errEngineRuntimeClosing = ''docker-zero engine runtime is shutting down''"

definition startContainerRuntime :: "string \<Rightarrow> string option em" where
  "startContainerRuntime cid =
     ebind (eread e_runtimeClosing) (\<lambda>closing.
     if closing then ereturn (Some errEngineRuntimeClosing)
     else
       ebind (eread (\<lambda>e. mget (e_runtimes e) cid)) (\<lambda>existing.
       ethen (case existing of None \<Rightarrow> set_runtime cid zeroRuntime | Some rt \<Rightarrow> ereturn ())
       (ebind (runtime_Start cid) (\<lambda>result.
        case result of
          Some err \<Rightarrow> ereturn (Some err)
        | None \<Rightarrow>
            ebind (container_get cid c_Kind) (\<lambda>kind.
            if kind = ''redis'' then
              ethen (refreshRedisReplication cid) (ethen (refreshRedisDependents cid) (ereturn None))
            else ereturn None)))))"

definition stopContainerRuntime :: "string \<Rightarrow> string option em" where
  "stopContainerRuntime cid =
     ebind (eread (\<lambda>e. mget (e_runtimes e) cid)) (\<lambda>existing.
     case existing of
       None \<Rightarrow> ereturn None
     | Some rt \<Rightarrow>
         ebind (runtime_Stop cid) (\<lambda>err.
         ebind (container_get cid c_Kind) (\<lambda>kind.
         if kind = ''redis'' then ethen (markRedisMasterDown cid) (ereturn err) else ereturn err)))"

text \<open>The patch of a container whose ports cannot be bound.\<close>

definition bind_failed_patch :: "string \<Rightarrow> StatePatch" where
  "bind_failed_patch err = zeroPatch\<lparr>p_Status := Some sExited, p_Running := Some False,
     p_Restarting := Some False, p_Health := Some hUnhealthy, p_ExitCode := Some 128, p_Error := Some err\<rparr>"

definition syncRuntimeForState :: "string \<Rightarrow> unit em" where
  "syncRuntimeForState cid =
     ebind (container_get cid stateSnapshot) (\<lambda>state.
     if ss_Running state \<and> \<not> ss_Restarting state \<and> \<not> ss_Dead state \<and>
        (ss_Status state = sRunning \<or> ss_Status state = sPaused) then
       ebind (startContainerRuntime cid) (\<lambda>result.
       case result of
         None \<Rightarrow> ereturn ()
       | Some err \<Rightarrow>
           if err = errEngineRuntimeClosing then ereturn ()
           else
             ebind (container_at cid (\<lambda>now. applyPatch now (bind_failed_patch err))) (\<lambda>(before, after).
             elog_container cid (\<lambda>entry. entry\<lparr>le_Channel := ''docker-zero.runtime'', le_Event := ''bind.failed'',
               le_Response := JObject [(''error'', JString err)], le_Before := Some before, le_After := Some after\<rparr>)))
     else ethen (stopContainerRuntime cid) (ereturn ()))"

text \<open>The runtimes are stopped in the order of the map; the first error is the result.\<close>

fun stop_runtimes :: "string option \<Rightarrow> string list \<Rightarrow> string option em" where
  "stop_runtimes first [] = ereturn first"
| "stop_runtimes first (cid # cids) =
     ebind (runtime_Stop cid) (\<lambda>err. stop_runtimes (case first of None \<Rightarrow> err | Some _ \<Rightarrow> first) cids)"

definition closeRuntimes :: "string option em" where
  "closeRuntimes =
     ethen (emodify (\<lambda>e. e\<lparr>e_runtimeClosing := True\<rparr>))
       (ebind (eread (\<lambda>e. mkeys (e_runtimes e))) (stop_runtimes None))"

end
