(* ===== verification/Service_Requests.thy ===== *)
theory Service_Requests
  imports Service_Runtime Cookbook_State_Validation
begin

text \<open>
  What a container's service does with one HTTP request or one Redis command (\<^verbatim>\<open>service_runtime.go\<close>,
  \<^verbatim>\<open>service_redis.go\<close>): the event is counted and may fire a transition, the scripted response is chosen for
  the state that results, its patch is applied, and the connection is closed when the script says so or
  the container is then not serving.
\<close>

section \<open>Both services\<close>

definition not_serving :: "ContainerStateSnapshot \<Rightarrow> bool" where
  "not_serving state \<longleftrightarrow> \<not> ss_Running state \<or> ss_Paused state \<or> ss_Restarting state \<or> ss_Dead state"

definition apply_scripted :: "string \<Rightarrow> StatePatch \<Rightarrow> unit em" where
  "apply_scripted cid patch =
     (if patch \<noteq> zeroPatch then ethen (container_at cid (\<lambda>now. applyPatch now patch)) (ereturn ()) else ereturn ())"

definition log_service ::
  "string \<Rightarrow> string \<Rightarrow> string \<Rightarrow> eventAdvance \<Rightarrow> json \<Rightarrow> json \<Rightarrow> ContainerStateSnapshot \<Rightarrow> unit em" where
  "log_service cid channel event adv request response after =
     elog_container cid (\<lambda>entry. entry\<lparr>le_Channel := channel, le_Event := event, le_Count := ea_Count adv,
       le_Request := request, le_Response := response, le_Transition := ea_Transition adv,
       le_Before := Some (ea_Before adv), le_After := Some after\<rparr>)"

section \<open>HTTP\<close>

record http_request =
  rq_Method :: string
  rq_Path :: string
  rq_RequestURI :: string
  rq_RemoteAddr :: string

datatype http_result =
    ConnectionClosed
  | HTTPReply int "(string, string) gomap" string

text \<open>\<^verbatim>\<open>Header.Set\<close> writes the canonical form of the key.\<close>

fun canonical_case :: "bool \<Rightarrow> string \<Rightarrow> string" where
  "canonical_case up [] = []"
| "canonical_case up (c # cs) = (if up then upper_char c else lower_char c) # canonical_case (c = CHR ''-'') cs"

definition canonicalHeaderKey :: "string \<Rightarrow> string" where
  "canonicalHeaderKey key = (if validHTTPHeaderName key then canonical_case True key else key)"

definition header_set :: "(string, string) gomap \<Rightarrow> string \<times> string \<Rightarrow> (string, string) gomap" where
  "header_set h = (\<lambda>(key, value). mput h (canonicalHeaderKey key) value)"

definition notFoundResponse :: HTTPResponse where
  "notFoundResponse = zeroHTTPResponse\<lparr>hr_From := 1, hr_Status := 404,
     hr_Headers := [(''Content-Type'', ''text/plain'')], hr_Body := ''404 Not Found'' @ [LF]\<rparr>"

definition chosen_response :: "HTTPResponse \<times> bool \<Rightarrow> HTTPResponse" where
  "chosen_response = (\<lambda>(response, ok).
     let response = (if ok then response else notFoundResponse)
     in if hr_Status response = 0 then response\<lparr>hr_Status := 200\<rparr> else response)"

definition http_event :: "http_request \<Rightarrow> string" where
  "http_event req =
     ''http.'' @ (if rq_Method req = ''HEAD'' then ''GET'' else rq_Method req) @ '' '' @ rq_Path req"

definition http_reply :: "Container \<Rightarrow> http_request \<Rightarrow> int \<Rightarrow> HTTPResponse \<Rightarrow> http_result" where
  "http_reply c req count response =
     HTTPReply (hr_Status response)
       (foldl header_set []
          ([(''Server'', ''nginx/1.27.5 (docker-zero)'')] @ hr_Headers response @
           [(''X-Docker-Zero-Container'', c_Name c), (''X-Docker-Zero-Seed'', itoa (c_Seed c)),
            (''X-Docker-Zero-Request'', itoa count)]))
       (if rq_Method req \<noteq> ''HEAD'' then hr_Body response else [])"

definition ServeHTTP_container :: "string \<Rightarrow> http_request \<Rightarrow> http_result em" where
  "ServeHTTP_container cid req =
     (let event = http_event req in
      ebind (container_at cid (\<lambda>now. advance now event)) (\<lambda>adv.
      let count = ea_Count adv in
      ebind (container_get cid (routeResponse (trim_prefix event ''http.'') count)) (\<lambda>routed.
      let response = chosen_response routed in
      ethen (apply_scripted cid (hr_StatePatch response))
      (ebind (container_get cid (\<lambda>c. c)) (\<lambda>c.
       let state = stateSnapshot c in
       ethen (log_service cid ''service.http'' event adv
          (JObject [(''method'', JString (rq_Method req)), (''path'', JString (rq_RequestURI req)), (''remote'', JString (rq_RemoteAddr req))])
          (JObject [(''status'', JInt (hr_Status response)), (''close'', JBool (hr_Close response)), (''bytes'', JInt (int (length (hr_Body response))))])
          state)
       (ethen (container_set cid (appendLog (''nginx-zero['' @ c_Name c @ '']: '' @ rq_Method req @ '' '' @ rq_Path req @
          '' -> '' @ itoa (hr_Status response) @ '' (request #'' @ itoa count @ '')'' @ [LF])))
       (if hr_Close response \<or> not_serving state then
          ethen (syncRuntimeForState cid) (ereturn ConnectionClosed)
        else ereturn (http_reply c req count response))))))))"

section \<open>Redis\<close>

definition response_description :: "RedisResponse \<times> bool \<Rightarrow> string" where
  "response_description = (\<lambda>(response, hasOverride).
     if hasOverride then take 100 (trim_space (rr_Reply response)) else ''built-in'')"

text \<open>
  The part of a command before the reply, common to the two servers: the chosen response and the state
  after it. They differ in the prefix of the log line.
\<close>

definition redis_event :: "string \<Rightarrow> (Container \<Rightarrow> string) \<Rightarrow> string list \<Rightarrow> ((RedisResponse \<times> bool) \<times> ContainerStateSnapshot) em" where
  "redis_event cid logPrefix command =
     (let name = to_upper (hd command); event = ''redis.'' @ name in
      ebind (container_at cid (\<lambda>now. advance now event)) (\<lambda>adv.
      let count = ea_Count adv in
      ebind (container_get cid (redisResponse name count)) (\<lambda>chosen.
      ethen (apply_scripted cid (rr_StatePatch (fst chosen)))
      (ebind (container_get cid (\<lambda>c. c)) (\<lambda>c.
       let state = stateSnapshot c; description = response_description chosen in
       ethen (log_service cid ''service.redis'' event adv (jstrings command)
          (JObject [(''reply'', JString description), (''close'', JBool (rr_Close (fst chosen)))]) state)
       (ethen (container_set cid (appendLog (logPrefix c @ join '' '' command @ '' -> '' @ description @
          '' (request #'' @ itoa count @ '')'' @ [LF])))
       (ereturn (chosen, state))))))))"

definition container_prefix :: "Container \<Rightarrow> string" where
  "container_prefix c = ''redis-zero['' @ c_Name c @ '']: ''"

text \<open>One command on a container's own listener: the bytes written and whether the connection ends.\<close>

definition redis_command :: "string \<Rightarrow> string list \<Rightarrow> (string \<times> bool) em" where
  "redis_command cid command =
     ebind (redis_event cid container_prefix command) (\<lambda>((response, hasOverride), state).
     if rr_Close response \<or> not_serving state then
       ethen (syncRuntimeForState cid) (ereturn ([], True))
     else if hasOverride \<and> rr_Reply response \<noteq> [] then ereturn (rr_Reply response, False)
     else ebind (handleBuiltInRedisForEngine cid command) (\<lambda>(quit, out). ereturn (out, quit)))"

text \<open>One command on the shared listener, which serves the first running Redis container.\<close>

definition mock_command :: "string list \<Rightarrow> (string \<times> bool) em" where
  "mock_command command =
     ebind (eread (findContainerByKind ''redis'')) (\<lambda>found.
     case found of
       Inl err \<Rightarrow> ereturn (''-LOADING docker-zero redis container does not exist'' @ crlf, False)
     | Inr cid \<Rightarrow>
         ebind (redis_event cid (\<lambda>c. ''redis-zero: '') command) (\<lambda>((response, hasOverride), state).
         if rr_Close response \<or> \<not> ss_Running state \<or> ss_Restarting state \<or> ss_Dead state then ereturn ([], True)
         else if hasOverride \<and> rr_Reply response \<noteq> [] then ereturn (rr_Reply response, False)
         else
           container_do cid (\<lambda>(c, pid). go_bind (handleBuiltInRedis c command)
             (\<lambda>(quit, out, c'). Ret ((out, quit), c', pid)))))"

text \<open>
  The loop over a connection, given all the bytes the client sends before it closes its side. Every
  turn but the last reads a command, which is at least one byte, so the length of the input is fuel
  enough.
\<close>

fun serve_commands :: "(string list \<Rightarrow> (string \<times> bool) em) \<Rightarrow> nat \<Rightarrow> string \<Rightarrow> string \<Rightarrow> string option em" where
  "serve_commands serve 0 out input = ereturn None"
| "serve_commands serve (Suc fuel) out input =
     (case readRESPCommand input of
        (Inl err, rest) \<Rightarrow>
          ereturn (Some (if err \<noteq> ''EOF'' then out @ ''-ERR '' @ sanitizeRedisError err @ crlf else out))
      | (Inr [], rest) \<Rightarrow> serve_commands serve fuel out rest
      | (Inr command, rest) \<Rightarrow>
          ebind (serve command) (\<lambda>(reply, quit).
          if quit then ereturn (Some (out @ reply)) else serve_commands serve fuel (out @ reply) rest))"

definition handleRedisContainerConnection :: "string \<Rightarrow> string \<Rightarrow> string option em" where
  "handleRedisContainerConnection cid input = serve_commands (redis_command cid) (Suc (length input)) [] input"

definition handleConnection :: "string \<Rightarrow> string option em" where
  "handleConnection input = serve_commands mock_command (Suc (length input)) [] input"

end
