(* ===== verification/Service_Invariant.thy ===== *)
theory Service_Invariant
  imports Engine_Invariant Service_Requests
begin

text \<open>
  Replication, runtimes and requests keep the engine's invariant and never follow a dangling pointer.
\<close>

section \<open>Pointers read from the engine\<close>

lemma keeps_case_apply [keeps_intros]:
  "(\<And>a b. p = (a, b) \<Longrightarrow> keeps P (k a b z) Q) \<Longrightarrow> keeps P ((case p of (a, b) \<Rightarrow> k a b) z) Q"
  by (auto split: prod.splits)

lemma keeps_read [keeps_intros]: "keeps P (eread f) always"
  by (rule keeps_eread) simp

text \<open>
  A list of containers that was read from the engine stays valid while its elements are operated on.
\<close>

lemma keeps_live_ids:
  assumes live: "\<And>e. engine_inv e \<Longrightarrow> \<forall>k\<in>set (f e). mmem (e_containers e) k"
    and body: "\<And>ks D'. D \<subseteq> D' \<Longrightarrow> set ks \<subseteq> D' \<Longrightarrow> keeps (alive D') (g ks) Q"
  shows "keeps (alive D) (ebind (eread f) g) Q"
proof (rule keepsI)
  fix e
  assume al: "alive D e"
  let ?D = "D \<union> set (f e)"
  have "alive ?D e" using al live [OF aliveD(1) [OF al]] by (auto simp: alive_def)
  moreover have "keeps (alive ?D) (g (f e)) Q" by (rule body) auto
  ultimately obtain x e' where "g (f e) e = Ret (x, e')" "alive ?D e'" "Q x"
    by (auto dest: keepsD)
  then show "\<exists>x e'. ebind (eread f) g e = Ret (x, e') \<and> alive D e' \<and> Q x"
    by (auto simp: ebind_def eread_def intro: alive_mono)
qed

lemma container_values:
  assumes "engine_inv e" and "c \<in> set (mvals (e_containers e))"
  shows "mget (e_containers e) (c_ID c) = Some c"
proof -
  obtain k where "(k, c) \<in> set (e_containers e)" using assms(2) by (auto simp: mvals_def)
  then have k: "mget (e_containers e) k = Some c" using in_mget [OF engine_invD(2) [OF assms(1)]] by blast
  with container_okD(1) [OF engine_invD(5) [OF assms(1) k]] show ?thesis by simp
qed

lemma live_values: "engine_inv e \<Longrightarrow> \<forall>k\<in>set (map c_ID (filter P (mvals (e_containers e)))). mmem (e_containers e) k"
  using container_values by (auto simp: mmem_def)

section \<open>Replication\<close>

lemma keeps_redis_writes [keeps_intros]:
  assumes "cid \<in> D"
  shows "keeps (alive D) (container_set cid (\<lambda>c. c\<lparr>c_Redis := r c\<rparr>)) always"
    and "keeps (alive D) (container_set cid (\<lambda>c. c\<lparr>c_KV := kv\<rparr>)) always"
    and "keeps (alive D) (container_set cid configured_replica) always"
    and "keeps (alive D) (container_set cid link_down) always"
    and "keeps (alive D) (container_set cid (link_up m kv)) always"
    and "keeps (alive D) (container_set cid (master_down m)) always"
    and "keeps (alive D) (container_set cid (applyRedisMutation command)) always"
  by (rule keeps_container_set [OF _ _ _ assms];
      (subst lifecycle_inv_cong)?; simp add: identity_def configured_replica_def link_down_def link_up_def
        master_down_def applyRedisMutation_def split: option.splits prod.splits list.splits)+

lemma keeps_setRedisMaster [keeps_intros]: "cid \<in> D \<Longrightarrow> keeps (alive D) (setRedisMaster cid) always"
  unfolding setRedisMaster_def by (rule keeps_redis_writes)

lemma keeps_refreshRedisReplication [keeps_intros]:
  "cid \<in> D \<Longrightarrow> keeps (alive D) (refreshRedisReplication cid) always"
  unfolding refreshRedisReplication_def by (intro keeps_intros keeps_step) simp_all

lemma keeps_setRedisReplica [keeps_intros]: "cid \<in> D \<Longrightarrow> keeps (alive D) (setRedisReplica cid host port) always"
  unfolding setRedisReplica_def by (intro keeps_intros keeps_step) simp_all

lemma keeps_refreshRedisDependents [keeps_intros]:
  "cid \<in> D \<Longrightarrow> keeps (alive D) (refreshRedisDependents cid) always"
  unfolding refreshRedisDependents_def other_redis_def
  by (intro keeps_step [OF keeps_get] keeps_if keeps_live_ids live_values keeps_eforeach keeps_seq
      keeps_refreshRedisReplication) auto

lemma keeps_markRedisMasterDown [keeps_intros]:
  "cid \<in> D \<Longrightarrow> keeps (alive D) (markRedisMasterDown cid) always"
  unfolding markRedisMasterDown_def other_redis_def
  by (intro keeps_step [OF keeps_get] keeps_if keeps_live_ids live_values keeps_eforeach keeps_seq
      keeps_redis_writes) auto

lemma keeps_replicate [keeps_intros]:
  "cid \<in> D \<Longrightarrow> keeps (alive D) (replicateRedisMutation cid command) always"
  unfolding replicateRedisMutation_def redis_replicas_def
  by (intro keeps_step [OF keeps_get] keeps_case(3) keeps_if keeps_live_ids live_values keeps_eforeach keeps_seq
      keeps_redis_writes keeps_elog_container) auto

lemma keeps_redisInfo [keeps_intros]: "cid \<in> D \<Longrightarrow> keeps (alive D) (redisInfo cid) always"
  unfolding redisInfo_def Let_def by (intro keeps_intros keeps_step) simp_all

lemma keeps_handle_write [keeps_intros]: "cid \<in> D \<Longrightarrow> keeps (alive D) (handle_write cid name args command) always"
  unfolding handle_write_def write_kv_def Let_def by (intro keeps_intros keeps_step) simp_all

lemma keeps_handle_replicaof [keeps_intros]: "cid \<in> D \<Longrightarrow> keeps (alive D) (handle_replicaof cid args) always"
  unfolding handle_replicaof_def Let_def by (intro keeps_intros keeps_step) simp_all

lemma keeps_builtin [keeps_intros]:
  "cid \<in> D \<Longrightarrow> keeps (alive D) (handleBuiltInRedisForEngine cid (cmd # args)) always"
  unfolding handleBuiltInRedisForEngine_def Let_def list.case by (intro keeps_intros keeps_step) simp_all

section \<open>Runtimes\<close>

lemma alive_runtime: "cid \<in> D \<Longrightarrow> alive D e \<Longrightarrow> alive D (e\<lparr>e_runtimes := mput (e_runtimes e) cid rt\<rparr>)"
  unfolding alive_def engine_inv_def mmem_def by auto

lemma keeps_set_runtime [keeps_intros]: "cid \<in> D \<Longrightarrow> keeps (alive D) (set_runtime cid rt) always"
  unfolding set_runtime_def by (intro keeps_emodify alive_runtime)

lemma keeps_give_up [keeps_intros]: "cid \<in> D \<Longrightarrow> keeps (alive D) (give_up cid err) always"
  unfolding give_up_def by (intro keeps_intros) simp_all

lemma keeps_bound_port [keeps_intros]: "cid \<in> D \<Longrightarrow> keeps (alive D) (bound_port cid spec port) always"
  unfolding bound_port_def by (intro keeps_intros) simp_all

lemma keeps_open_listeners [keeps_intros]:
  "cid \<in> D \<Longrightarrow> keeps (alive D) (open_listeners cid seen opened specs) always"
proof (induction specs arbitrary: seen opened)
  case (Cons spec specs)
  note IH = Cons.IH [OF Cons.prems]
  show ?case
    unfolding open_listeners.simps Let_def
    by (intro keeps_intros keeps_step IH) (use Cons.prems in simp_all)
qed (simp add: keeps_seq)

lemma keeps_runtime [keeps_intros]:
  assumes "cid \<in> D"
  shows "keeps (alive D) (runtime_Start cid) always"
    and "keeps (alive D) (runtime_Stop cid) always"
    and "keeps (alive D) (registerRedisConnection cid k) always"
    and "keeps (alive D) (finishRedisConnection cid k) always"
  unfolding runtime_Start_def runtime_Stop_def registerRedisConnection_def finishRedisConnection_def
  using assms by (intro keeps_intros keeps_step; simp)+

lemma keeps_container_runtime [keeps_intros]:
  assumes "cid \<in> D"
  shows "keeps (alive D) (startContainerRuntime cid) always"
    and "keeps (alive D) (stopContainerRuntime cid) always"
  unfolding startContainerRuntime_def stopContainerRuntime_def
  using assms by (intro keeps_intros keeps_step; simp)+

lemma bind_failed_safe [simp]: "patch_safe (bind_failed_patch err)"
  by (simp add: bind_failed_patch_def patch_safe_def status_values_def)

lemma keeps_syncRuntimeForState [keeps_intros]: "cid \<in> D \<Longrightarrow> keeps (alive D) (syncRuntimeForState cid) always"
  unfolding syncRuntimeForState_def by (intro keeps_intros keeps_step) simp_all

lemma keeps_stop_runtimes: "set cids \<subseteq> D \<Longrightarrow> keeps (alive D) (stop_runtimes first cids) always"
  by (induction cids arbitrary: first) (auto intro!: keeps_intros keeps_step)

lemma keeps_closeRuntimes [keeps_intros]: "keeps (alive D) closeRuntimes always"
  unfolding closeRuntimes_def
proof (intro keeps_seq(1) keeps_emodify keeps_live_ids keeps_stop_runtimes)
  fix e
  assume "engine_inv e"
  from engine_invD(8) [OF this] show "\<forall>k\<in>set (mkeys (e_runtimes e)). mmem (e_containers e) k"
    by (simp add: set_mkeys mmem_def)
qed simp_all

section \<open>Requests\<close>

lemma selectHTTPResponse_mem:
  "fst (selectHTTPResponse_loop items count status health acc) \<in> insert (fst acc) (set items)"
proof (induction items arbitrary: acc)
  case (Cons item items)
  from Cons [of "(item, True)"] Cons [of acc] show ?case by auto
qed simp

lemma selectRedisResponse_mem:
  "fst (selectRedisResponse_loop items count status health acc) \<in> insert (fst acc) (set items)"
proof (induction items arbitrary: acc)
  case (Cons item items)
  from Cons [of "(item, True)"] Cons [of acc] show ?case by auto
qed simp

lemma zero_response_patches [simp]:
  "hr_StatePatch zeroHTTPResponse = zeroPatch" "rr_StatePatch zeroRedisResponse = zeroPatch"
  by (simp_all add: zeroHTTPResponse_def zeroRedisResponse_def)

lemma patch_safe_zeroPatch [simp]: "patch_safe zeroPatch"
  by (simp add: patch_safe_def zeroPatch_def)

lemma routed_items:
  assumes "(case mget m route of Some its \<Rightarrow> Some its | None \<Rightarrow> mget m other) = Some items"
  shows "set items \<subseteq> set (concat (map snd m))"
proof -
  from assms obtain k where "(k, items) \<in> set m" by (auto split: option.splits dest: mget_Some_in)
  then show ?thesis by force
qed

text \<open>The patch of a response is scripted or empty, so it is one that validation admits.\<close>

lemma routeResponse_safe:
  assumes "scripted_safe (c_Scenario c)"
  shows "patch_safe (hr_StatePatch (fst (routeResponse route count c)))"
proof -
  let ?m = "s_HTTP (c_Scenario c)"
  have "fst (routeResponse route count c) = zeroHTTPResponse \<or>
      fst (routeResponse route count c) \<in> set (concat (map snd ?m))"
  proof (cases "case mget ?m route of Some its \<Rightarrow> Some its | None \<Rightarrow> mget ?m ''*''")
    case (Some items)
    then have "set items \<subseteq> set (concat (map snd ?m))" by (rule routed_items)
    with selectHTTPResponse_mem [of items count "c_Status c" "h_Status (c_Health c)" "(zeroHTTPResponse, False)"] Some
    show ?thesis by (auto simp: routeResponse_def selectHTTPResponse_def Let_def split: list.splits)
  qed (simp add: routeResponse_def Let_def)
  moreover have "patch_safe (hr_StatePatch r)" if "r \<in> set (concat (map snd ?m))" for r
    using assms that by (simp add: scripted_safe_def scripted_patches_def list_all_iff)
  ultimately show ?thesis by auto
qed

lemma redisResponse_safe:
  assumes "scripted_safe (c_Scenario c)"
  shows "patch_safe (rr_StatePatch (fst (redisResponse name count c)))"
proof -
  let ?m = "s_Redis (c_Scenario c)" and ?n = "to_upper name"
  have "fst (redisResponse name count c) = zeroRedisResponse \<or>
      fst (redisResponse name count c) \<in> set (concat (map snd ?m))"
  proof (cases "case mget ?m ?n of Some its \<Rightarrow> Some its | None \<Rightarrow> mget ?m ''*''")
    case (Some items)
    then have "set items \<subseteq> set (concat (map snd ?m))" by (rule routed_items)
    with selectRedisResponse_mem [of items count "c_Status c" "h_Status (c_Health c)" "(zeroRedisResponse, False)"] Some
    show ?thesis by (auto simp: redisResponse_def selectRedisResponse_def Let_def split: list.splits)
  qed (simp add: redisResponse_def Let_def)
  moreover have "patch_safe (rr_StatePatch r)" if "r \<in> set (concat (map snd ?m))" for r
    using assms that by (simp add: scripted_safe_def scripted_patches_def list_all_iff)
  ultimately show ?thesis by auto
qed

lemma chosen_response_safe:
  "patch_safe (hr_StatePatch (fst routed)) \<Longrightarrow> patch_safe (hr_StatePatch (chosen_response routed))"
  by (cases routed) (simp add: chosen_response_def notFoundResponse_def zeroPatch_def patch_safe_def Let_def)

lemma keeps_apply_scripted: "cid \<in> D \<Longrightarrow> patch_safe p \<Longrightarrow> keeps (alive D) (apply_scripted cid p) always"
  unfolding apply_scripted_def by (intro keeps_intros) simp_all

lemma keeps_log_service [keeps_intros]:
  "cid \<in> D \<Longrightarrow> keeps (alive D) (log_service cid channel event adv request response after) always"
  unfolding log_service_def by (rule keeps_elog_container)

lemma keeps_ServeHTTP [keeps_intros]: "cid \<in> D \<Longrightarrow> keeps (alive D) (ServeHTTP_container cid req) always"
proof -
  assume D: "cid \<in> D"
  have r: "keeps (alive D) (container_get cid (routeResponse route n)) (\<lambda>x. patch_safe (hr_StatePatch (fst x)))" for route n
    by (rule keeps_container_get [OF _ D]) (intro routeResponse_safe container_okD)
  show ?thesis
    unfolding ServeHTTP_container_def Let_def
    by (intro keeps_step [OF keeps_ops(5)] keeps_ebind [OF r] keeps_seq(1) keeps_apply_scripted chosen_response_safe
        keeps_step [OF keeps_get] keeps_intros D) simp_all
qed

lemma keeps_redis_event: "cid \<in> D \<Longrightarrow> keeps (alive D) (redis_event cid logPrefix command) always"
proof -
  assume D: "cid \<in> D"
  have r: "keeps (alive D) (container_get cid (redisResponse name n)) (\<lambda>x. patch_safe (rr_StatePatch (fst x)))" for name n
    by (rule keeps_container_get [OF _ D]) (intro redisResponse_safe container_okD)
  show ?thesis
    unfolding redis_event_def Let_def
    by (intro keeps_step [OF keeps_ops(5)] keeps_ebind [OF r] keeps_seq(1) keeps_apply_scripted
        keeps_step [OF keeps_get] keeps_intros D) simp_all
qed

lemma keeps_redis_command [keeps_intros]: "cid \<in> D \<Longrightarrow> keeps (alive D) (redis_command cid (cmd # args)) always"
  unfolding redis_command_def by (intro keeps_step [OF keeps_redis_event] keeps_intros keeps_step) simp_all

lemma findContainerByKind_live:
  assumes "engine_inv e" and "findContainerByKind kind e = Inr cid"
  shows "mmem (e_containers e) cid"
proof -
  let ?cs = "sort_key c_Created (filter (\<lambda>c. c_Kind c = kind) (mvals (e_containers e)))"
  have "\<exists>c\<in>set ?cs. cid = c_ID c"
  proof (cases ?cs)
    case (Cons c cs)
    show ?thesis
    proof (cases "find isRunning (c # cs)")
      case None
      with assms(2) Cons have "cid = c_ID c" by (simp add: findContainerByKind_def)
      then show ?thesis by (simp add: Cons del: set_sort)
    next
      case (Some r)
      with assms(2) Cons have "cid = c_ID r" by (simp add: findContainerByKind_def)
      with find_in [OF Some] show ?thesis unfolding Cons by blast
    qed
  qed (use assms(2) in \<open>simp add: findContainerByKind_def\<close>)
  then have "\<exists>c\<in>set (mvals (e_containers e)). cid = c_ID c" by auto
  with container_values [OF assms(1)] show ?thesis by (auto simp: mmem_def)
qed

text \<open>A pointer that a lookup returned stays valid for the rest of the operation.\<close>

lemma keeps_lookup:
  assumes live: "\<And>e cid. engine_inv e \<Longrightarrow> f e = Inr cid \<Longrightarrow> mmem (e_containers e) cid"
    and none: "\<And>err. keeps (alive D) (g (Inl err)) Q"
    and some: "\<And>cid. keeps (alive (insert cid D)) (g (Inr cid)) Q"
  shows "keeps (alive D) (ebind (eread f) g) Q"
proof (rule keepsI)
  fix e
  assume al: "alive D e"
  show "\<exists>x e'. ebind (eread f) g e = Ret (x, e') \<and> alive D e' \<and> Q x"
  proof (cases "f e")
    case (Inl err)
    with keepsD [OF none al, of err] show ?thesis by (simp add: ebind_def eread_def)
  next
    case (Inr cid)
    with al live [OF aliveD(1) [OF al] Inr] have "alive (insert cid D) e" by (simp add: alive_insert)
    from keepsD [OF some this] show ?thesis
      by (auto simp: Inr ebind_def eread_def alive_insert)
  qed
qed

definition writes_kv :: "Container \<Rightarrow> (bool \<times> string \<times> Container) go \<Rightarrow> bool" where
  "writes_kv c r \<longleftrightarrow> (\<exists>quit out kv. r = Ret (quit, out, c\<lparr>c_KV := kv\<rparr>))"

lemma writes_kv_intros:
  "writes_kv c (Ret (quit, out, c))"
  "writes_kv c (Ret (quit, out, c\<lparr>c_KV := kv\<rparr>))"
  "writes_kv c r \<Longrightarrow> writes_kv c r' \<Longrightarrow> writes_kv c (if b then r else r')"
  "writes_kv c r \<Longrightarrow> (\<And>y ys. writes_kv c (f y ys)) \<Longrightarrow> writes_kv c (case xs of [] \<Rightarrow> r | y # ys \<Rightarrow> f y ys)"
  "(\<And>a b. writes_kv c (g a b)) \<Longrightarrow> writes_kv c (case p of (a, b) \<Rightarrow> g a b)"
proof -
  have "c = c\<lparr>c_KV := c_KV c\<rparr>" by simp
  then show "writes_kv c (Ret (quit, out, c))" unfolding writes_kv_def by metis
qed (auto simp: writes_kv_def split: list.splits prod.splits)

lemma builtin_returns: "writes_kv c (handleBuiltInRedis c (cmd # args))"
  unfolding handleBuiltInRedis_def Let_def list.case by (intro writes_kv_intros)

interpretation builtin: container_operation
  "\<lambda>(c, pid). go_bind (handleBuiltInRedis c (cmd # args)) (\<lambda>(quit, out, c'). Ret ((out, quit), c', pid))" for cmd args
proof
  fix c pid
  assume inv: "lifecycle_inv (c, pid)"
  obtain quit out kv where "handleBuiltInRedis c (cmd # args) = Ret (quit, out, c\<lparr>c_KV := kv\<rparr>)"
    using builtin_returns [of c cmd args] unfolding writes_kv_def by blast
  moreover have "lifecycle_inv (c\<lparr>c_KV := kv\<rparr>, pid)" using inv by (subst lifecycle_inv_cong) simp_all
  ultimately show "\<exists>r c' pid'. (case (c, pid) of (c, pid) \<Rightarrow> go_bind (handleBuiltInRedis c (cmd # args))
      (\<lambda>(quit, out, c'). Ret ((out, quit), c', pid))) = Ret (r, c', pid') \<and>
      lifecycle_inv (c', pid') \<and> identity c' = identity c \<and> c_removed c' = c_removed c \<and> pid \<le> pid'"
    by (simp add: identity_def)
qed

lemma keeps_mock_command [keeps_intros]: "keeps (alive D) (mock_command (cmd # args)) always"
proof -
  have b: "keeps (alive (insert cid D)) (container_do cid (\<lambda>(c, pid). go_bind (handleBuiltInRedis c (cmd # args))
      (\<lambda>(quit, out, c'). Ret ((out, quit), c', pid)))) always" for cid
    by (rule builtin.keeps_do) simp
  show ?thesis
    unfolding mock_command_def
    by (rule keeps_lookup [OF findContainerByKind_live])
       (simp_all, (intro keeps_step [OF keeps_redis_event] keeps_intros b | simp)+)
qed

section \<open>Connections\<close>

lemma read_until_shrinks: "read_until d s = Some (line, rest) \<Longrightarrow> length rest < length s"
  by (induction s arbitrary: line rest) (auto split: if_splits option.splits)

lemma read_args_length: "read_args n result s = (r, rest) \<Longrightarrow> length rest \<le> length s"
proof (induction n arbitrary: result s)
  case (Suc n)
  show ?case
  proof (cases s)
    case (Cons p s1)
    show ?thesis
    proof (cases "p = CHR ''$'' \<and> read_until LF s1 \<noteq> None")
      case True
      then obtain line s2 where l: "read_until LF s1 = Some (line, s2)" by auto
      note len = read_until_shrinks [OF l]
      with Suc.prems True Cons l Suc.IH show ?thesis
        by (fastforce simp: Let_def split: if_splits prod.splits)
    qed (use Suc.prems Cons in \<open>auto split: option.splits if_splits\<close>)
  qed (use Suc.prems in simp)
qed simp

lemma readRESPCommand_length: "readRESPCommand s = (Inr command, rest) \<Longrightarrow> length rest < length s"
  by (cases s) (auto simp: readRESPCommand_def Let_def split: option.splits if_splits prod.splits
      dest!: read_until_shrinks read_args_length)

lemma serve_commands_total:
  assumes serve: "\<And>cmd args. keeps P (serve (cmd # args)) always"
  shows "length input < fuel \<Longrightarrow> keeps P (serve_commands serve fuel out input) (\<lambda>r. r \<noteq> None)"
proof (induction fuel arbitrary: out input)
  case (Suc fuel)
  obtain r rest where r: "readRESPCommand input = (r, rest)" by (cases "readRESPCommand input")
  have shorter: "length rest < fuel" if "r = Inr command" for command
    using readRESPCommand_length r that Suc.prems by fastforce
  show ?case
  proof (cases r)
    case (Inl err)
    with r show ?thesis by (simp add: keeps_ereturn)
  next
    case (Inr command)
    note IH = Suc.IH [OF shorter [OF Inr]]
    show ?thesis
    proof (cases command)
      case Nil
      with r Inr IH show ?thesis by simp
    next
      case (Cons cmd args)
      have "keeps P (ebind (serve (cmd # args)) (\<lambda>(reply, quit).
          if quit then ereturn (Some (out @ reply)) else serve_commands serve fuel (out @ reply) rest)) (\<lambda>r. r \<noteq> None)"
        by (intro keeps_step [OF serve] keeps_case(3) keeps_if keeps_ereturn IH) simp
      with r Inr Cons show ?thesis by simp
    qed
  qed
qed simp

end
