(* ===== verification/Engine_Resources.thy ===== *)
theory Engine_Resources
  imports Engine_Lookup Engine_Network
begin

text \<open>
  Networks and volumes of the engine (\<^verbatim>\<open>engine_resources.go\<close>). The source hands out copies of maps;
  in the model every value is one.
\<close>

section \<open>Networks\<close>

definition candidateIndexes :: "int list" where
  "candidateIndexes = [1..220]"

definition next_counter :: "int em" where
  "next_counter = (\<lambda>e. let n = wrap64 (e_counter e + 1) in Ret (n, e\<lparr>e_counter := n\<rparr>))"

definition free_index :: "Engine \<Rightarrow> int option" where
  "free_index e = find (\<lambda>candidate. candidate \<notin> set (map (n_Index \<circ> snd) (e_networks e))) candidateIndexes"

definition new_network :: "string \<Rightarrow> string \<Rightarrow> string \<Rightarrow> (string, string) gomap \<Rightarrow> int \<Rightarrow> gotime \<Rightarrow> Network" where
  "new_network nid name driver labels index now =
     \<lparr>n_Name = name, n_ID = nid, n_Created = formatDockerTime now, n_Scope = ''local'', n_Driver = driver,
      n_EnableIPv6 = False, n_Internal = False, n_Attachable = False, n_Ingress = False,
      n_IPAM = ipam (''127.20.'' @ itoa index @ ''.0/24'') (''127.20.'' @ itoa index @ ''.1''),
      n_Containers = [], n_Options = [], n_Labels = labels, n_Index = index, n_NextHost = 2\<rparr>"

definition createNetwork ::
  "string \<Rightarrow> string \<Rightarrow> (string, string) gomap \<Rightarrow> (string + Network) em" where
  "createNetwork name driver0 labels =
     (if name = [] then ereturn (Inl ''network name is required'')
      else
        let driver = (if driver0 = [] then ''bridge'' else driver0) in
        ebind (eread (\<lambda>e. (list_ex (\<lambda>(key, n). n_Name n = name) (e_networks e), free_index e))) (\<lambda>(exists, free).
          if exists then ereturn (Inl (''network with name '' @ name @ '' already exists''))
          else case free of
            None \<Rightarrow> ereturn (Inl ''docker-zero exhausted virtual network address space'')
          | Some index \<Rightarrow>
              ebind next_counter (\<lambda>count.
              ebind enow (\<lambda>now.
                let n = new_network (hashID (''network:'' @ name @ '':'' @ itoa count)) name driver labels index now in
                ethen (emodify (\<lambda>e. e\<lparr>e_networks := mput (e_networks e) (n_ID n) n\<rparr>))
                (ethen (elog (zeroEntry\<lparr>le_Channel := ''docker'', le_Event := ''network.create'',
                     le_Request := JObject [(''name'', JString name), (''driver'', JString driver)],
                     le_Response := JObject [(''id'', JString (n_ID n))]\<rparr>))
                (ereturn (Inr n)))))))"

definition findNetwork :: "string \<Rightarrow> Engine \<Rightarrow> string + Network" where
  "findNetwork ref e =
     (case find_network_key ref e of
        Some (key, n) \<Rightarrow> Inr n
      | None \<Rightarrow> Inl (''network '' @ ref @ '' not found''))"

text \<open>
  \<open>PredefinedNetwork\<close> and \<open>NetworkHasEndpoints\<close> are the two kinds a
  \<^verbatim>\<open>networkOperationError\<close> wraps; any other error is plain text.
\<close>

datatype networkOperationError =
  PlainError string | PredefinedNetwork string | NetworkHasEndpoints string

fun error_message :: "networkOperationError \<Rightarrow> string" where
  "error_message (PlainError m) = m"
| "error_message (PredefinedNetwork m) = m"
| "error_message (NetworkHasEndpoints m) = m"

definition attached_names :: "Network \<Rightarrow> Engine \<Rightarrow> string list" where
  "attached_names n e = sort (map (\<lambda>cid. case mget (e_containers e) cid of
     Some c \<Rightarrow> c_Name c | None \<Rightarrow> take (min 12 (length cid)) cid) (mkeys (n_Containers n)))"

definition removeNetwork :: "string \<Rightarrow> networkOperationError option em" where
  "removeNetwork ref =
     ebind (eread (findNetwork ref)) (\<lambda>found.
       case found of
         Inl err \<Rightarrow> ereturn (Some (PlainError err))
       | Inr n \<Rightarrow>
           if n_Name n = ''bridge'' then
             ereturn (Some (PredefinedNetwork ''bridge is a pre-defined network and cannot be removed''))
           else if n_Containers n \<noteq> [] then
             ebind (eread (attached_names n)) (\<lambda>attached.
               ereturn (Some (NetworkHasEndpoints (''error while removing network: network '' @ n_Name n @ '' id '' @
                 n_ID n @ '' has active endpoints ('' @ join '', '' attached @ '')''))))
           else
             ethen (emodify (\<lambda>e. e\<lparr>e_networks := mdel (e_networks e) (n_ID n)\<rparr>))
             (ethen (elog (zeroEntry\<lparr>le_Channel := ''docker'', le_Event := ''network.remove'',
                  le_Request := JObject [(''id'', JString (n_ID n)), (''name'', JString (n_Name n))]\<rparr>))
             (ereturn None)))"

section \<open>Volumes\<close>

definition volume_json :: "Volume \<Rightarrow> json" where
  "volume_json v = JObject [(''CreatedAt'', JString (v_CreatedAt v)), (''Driver'', JString (v_Driver v)),
     (''Labels'', jmap (v_Labels v)), (''Mountpoint'', JString (v_Mountpoint v)), (''Name'', JString (v_Name v)),
     (''Options'', jmap (v_Options v)), (''Scope'', JString (v_Scope v))]"

definition createVolume ::
  "string \<Rightarrow> string \<Rightarrow> (string, string) gomap \<Rightarrow> (string, string) gomap \<Rightarrow> Volume em" where
  "createVolume name0 driver0 labels options =
     ebind (if name0 = [] then ebind next_counter (\<lambda>count.
              ereturn (''docker-zero-'' @ take 12 (hashID (''volume:'' @ itoa count))))
            else ereturn name0) (\<lambda>name.
     let driver = (if driver0 = [] then ''local'' else driver0) in
     ebind (eread (\<lambda>e. mget (e_volumes e) name)) (\<lambda>existing.
       case existing of
         Some volume \<Rightarrow> ereturn volume
       | None \<Rightarrow>
           ebind enow (\<lambda>now.
             let v = \<lparr>v_CreatedAt = formatDockerTime now, v_Driver = driver, v_Labels = labels,
                   v_Mountpoint = ''/var/lib/docker-zero/volumes/'' @ name @ ''/_data'', v_Name = name,
                   v_Options = options, v_Scope = ''local''\<rparr> in
             ethen (emodify (\<lambda>e. e\<lparr>e_volumes := mput (e_volumes e) name v\<rparr>))
             (ethen (elog (zeroEntry\<lparr>le_Channel := ''docker'', le_Event := ''volume.create'',
                  le_Request := JObject [(''name'', JString name)], le_Response := volume_json v\<rparr>))
             (ereturn v)))))"

end
