(* ===== verification/Engine_Core.thy ===== *)
theory Engine_Core
  imports Service_Runtime Engine_Resources
begin

text \<open>
  Creating and removing containers, and the engine's own state document (\<^verbatim>\<open>engine_core.go\<close>,
  \<^verbatim>\<open>engine_resources.go\<close>).
\<close>

definition add_container :: "Container \<Rightarrow> Engine \<Rightarrow> Engine" where
  "add_container c e = e\<lparr>e_containers := mput (e_containers e) (c_ID c) c,
     e_names := mput (e_names e) (c_Name c) (c_ID c)\<rparr>"

definition choose_name :: "string \<Rightarrow> string em" where
  "choose_name name0 =
     (if container_ref name0 = [] then ebind next_counter (\<lambda>n. ereturn (''docker-zero-'' @ itoa n))
      else ereturn (container_ref name0))"

definition create_named ::
  "string \<Rightarrow> string \<Rightarrow> (string, string) gomap \<Rightarrow> string list \<Rightarrow> string list \<Rightarrow> (string + string) em" where
  "create_named name img labels env command =
     (case validateContainerName name of
        Some err \<Rightarrow> ereturn (Inl err)
      | None \<Rightarrow>
          if img = [] then ereturn (Inl ''image is required'')
          else
            ebind (eread (\<lambda>e. cookbookFor (e_cookbooks e) name img)) (\<lambda>found.
            case found of
              Inl err \<Rightarrow> ereturn (Inl err)
            | Inr cb \<Rightarrow>
                ebind (eread (seedFor (cb_Kind cb) name)) (\<lambda>seed.
                if \<not> mmem (cb_Seeds cb) (itoa seed) then
                  ereturn (Inl (''cookbook '' @ cb_Kind cb @ '' has no seed '' @ itoa seed))
                else
                  ebind (eread (\<lambda>e. mmem (e_names e) name)) (\<lambda>exists.
                  if exists then
                    ereturn (Inl (''conflict: the container name '' @ quote name @ '' is already in use''))
                  else
                    ebind next_counter (\<lambda>n.
                    ebind enow (\<lambda>now.
                    let cid = containerID name n;
                        c = (newContainer now cid name img cb seed)\<lparr>c_Labels := labels, c_Env := env, c_Command := command\<rparr>
                    in ethen (emodify (add_container c))
                       (ethen (elog ((container_entry c)\<lparr>le_Channel := ''docker'', le_Event := ''container.create'',
                           le_Request := JObject [(''image'', JString img), (''name'', JString name)],
                           le_Response := JObject [(''id'', JString cid)], le_After := Some (stateSnapshot c)\<rparr>))
                       (ereturn (Inr cid)))))))))"

definition createContainer ::
  "string \<Rightarrow> string \<Rightarrow> (string, string) gomap \<Rightarrow> string list \<Rightarrow> string list \<Rightarrow> (string + string) em" where
  "createContainer name0 img labels env command =
     ebind (choose_name name0) (\<lambda>name. create_named name img labels env command)"

definition drop_container :: "Container \<Rightarrow> Engine \<Rightarrow> Engine" where
  "drop_container c e = e\<lparr>e_containers := mdel (e_containers e) (c_ID c), e_runtimes := mdel (e_runtimes e) (c_ID c),
     e_names := mdel (e_names e) (c_Name c), e_networks := detach_all (c_ID c) (e_networks e)\<rparr>"

text \<open>The object that the engine no longer holds is stopped and its waiters are told.\<close>

definition finish_removed :: "Container \<Rightarrow> unit em" where
  "finish_removed c =
     ebind (if ss_Running (stateSnapshot c)
            then ebind enow (\<lambda>now e. go_bind (stop now 137 (c, e_pid e)) (\<lambda>(snaps, c', pid'). Ret (c', e\<lparr>e_pid := pid'\<rparr>)))
            else ereturn c) (\<lambda>stopped.
       emodify (\<lambda>e. e\<lparr>e_detached := e_detached e @ [markRemoved stopped]\<rparr>))"

definition removeContainer :: "string \<Rightarrow> bool \<Rightarrow> string option em" where
  "removeContainer ref force =
     ebind (eread (findContainer ref)) (\<lambda>found.
     case found of
       Inl err \<Rightarrow> ereturn (Some err)
     | Inr cid \<Rightarrow>
         ebind (container_get cid (\<lambda>c. c)) (\<lambda>c0.
         if isRunning c0 \<and> \<not> force then
           ereturn (Some (''cannot remove running container '' @ cid @ '': stop it first or force remove''))
         else
           ethen (stopContainerRuntime cid)
           (ebind (container_get cid (\<lambda>c. c)) (\<lambda>c.
            ethen (emodify (drop_container c))
            (ethen (finish_removed c)
            (ethen (elog ((container_entry c)\<lparr>le_Channel := ''docker'', le_Event := ''container.remove'',
                le_Before := Some (stateSnapshot c)\<rparr>))
            (ereturn None)))))))"

section \<open>The state document\<close>

record stateDoc =
  sd_name :: string
  sd_seed :: int
  sd_overrides :: "(string, int) gomap"
  sd_started_at :: string
  sd_run_dir :: string
  sd_containers :: "ContainerSnapshot list"
  sd_networks :: nat
  sd_volumes :: nat

definition stateDocument :: "Engine \<Rightarrow> stateDoc" where
  "stateDocument e =
     \<lparr>sd_name = ''docker-zero'', sd_seed = e_seed e, sd_overrides = e_overrides e,
      sd_started_at = formatDockerTime (e_startedAt e), sd_run_dir = l_runDir (e_ledger e),
      sd_containers = snapshots e, sd_networks = length (e_networks e), sd_volumes = length (e_volumes e)\<rparr>"

end
