(* ===== verification/Core_Invariant.thy ===== *)
theory Core_Invariant
  imports Service_Invariant Engine_Core
begin

text \<open>
  The engine's own operations keep its invariant. A container's ID is a SHA-256 digest of its name and
  a counter; that a creation does not hit the ID of a container the engine holds is a hypothesis, stated
  for the one ID that is taken.
\<close>

section \<open>Lookups\<close>

lemma findContainer_live:
  assumes "engine_inv e" and "findContainer ref e = Inr cid"
  shows "mmem (e_containers e) cid"
proof (cases "mget (e_names e) (container_ref ref)")
  case (Some k)
  with assms(2) have "k = cid" by (simp add: findContainer_def Let_def)
  with engine_invD(6) [OF assms(1) Some] show ?thesis by (auto simp: mmem_def)
next
  case None
  have "filter P xs = [y] \<Longrightarrow> y \<in> set xs" for P and xs :: "string list" and y
    by (metis filter_is_subset list.set_intros(1) subsetD)
  then have "filter (\<lambda>k. has_prefix k r) (mkeys (e_containers e)) = [y] \<Longrightarrow> mmem (e_containers e) y" for r y
    by (metis mem_Collect_eq mmem_def set_mkeys)
  with assms(2) None show ?thesis
    by (auto simp: findContainer_def Let_def split: if_splits list.splits)
qed

lemma findContainer_name:
  assumes "engine_inv e" and "mget (e_containers e) cid = Some c"
  shows "findContainer (c_Name c) e = Inr cid"
proof -
  note ok = container_okD [OF engine_invD(5) [OF assms]]
  from ok(3) show ?thesis by (simp add: findContainer_def container_ref_name [OF ok(5)] Let_def)
qed

section \<open>Networks\<close>

lemma alive_networks:
  assumes "alive D e" and "networks_ok ns" and "named_ok ns"
    and "\<And>key n k. mget ns key = Some n \<Longrightarrow> mmem (n_Containers n) k \<Longrightarrow> mmem (e_containers e) k"
  shows "alive D (e\<lparr>e_networks := ns\<rparr>)"
  using assms unfolding alive_def engine_inv_def by (auto simp: mmem_def)

lemma alive_framed:
  assumes "alive D e" and "networks_ok ns" and "net_frame cid (e_networks e) ns" and "mmem (e_containers e) cid"
  shows "alive D (e\<lparr>e_networks := ns\<rparr>)"
proof (rule alive_networks [OF assms(1,2)])
  show "named_ok ns" using net_frame_named [OF assms(3)] engine_invD(10) [OF aliveD(1) [OF assms(1)]] .
  show "mmem (e_containers e) k" if k: "mget ns key = Some n" "mmem (n_Containers n) k" for key n k
  proof (cases "k = cid")
    case False
    with net_frame_endpoints [OF assms(3) k] engine_invD(7) [OF aliveD(1) [OF assms(1)]] show ?thesis by blast
  qed (use assms(4) in simp)
qed

text \<open>A change of a container outside the invariant, together with a change of its endpoints.\<close>

lemma alive_set_container:
  assumes "alive D e" and "mget (e_containers e) cid = Some c"
    and "lifecycle_inv (c', e_pid e)" and "identity c' = identity c" and "c_removed c' = c_removed c"
  shows "alive D (set_container c' e)"
proof -
  have "engine_inv ((set_container c' e)\<lparr>e_pid := e_pid e\<rparr>)"
    by (rule engine_inv_container [OF aliveD(1) [OF assms(1)] assms(2-5)]) simp
  moreover have "(set_container c' e)\<lparr>e_pid := e_pid e\<rparr> = set_container c' e"
    by (simp add: set_container_def)
  moreover have "mmem (e_containers (set_container c' e)) k" if "mmem (e_containers e) k" for k
    using that by (auto simp: mmem_def)
  ultimately show ?thesis using assms(1) by (simp add: alive_def)
qed

lemma lifecycle_inv_net:
  "lifecycle_inv (c\<lparr>c_NetworkMode := m, c_PrimaryIP := ip\<rparr>, pid) = lifecycle_inv (c, pid)"
  "lifecycle_inv (setPrimaryIP ip c, pid) = lifecycle_inv (c, pid)"
  by (rule lifecycle_inv_cong; simp add: setPrimaryIP_def)+

lemma alive_net_change:
  assumes al: "alive D e" and c: "mget (e_containers e) cid = Some c" and "networks_ok ns"
    and "net_frame cid (e_networks e) ns"
  shows "alive D (set_container (c\<lparr>c_NetworkMode := m, c_PrimaryIP := ip\<rparr>) (e\<lparr>e_networks := ns\<rparr>))"
    and "alive D (set_container (setPrimaryIP ip c) (e\<lparr>e_networks := ns\<rparr>))"
proof -
  have ns: "alive D (e\<lparr>e_networks := ns\<rparr>)"
    using al assms(3,4) c by (intro alive_framed) (auto simp: mmem_def)
  note inv = container_okD(6) [OF engine_invD(5) [OF aliveD(1) [OF al] c]]
  show "alive D (set_container (c\<lparr>c_NetworkMode := m, c_PrimaryIP := ip\<rparr>) (e\<lparr>e_networks := ns\<rparr>))"
    by (rule alive_set_container [OF ns, where cid = cid and c = c]) (simp_all add: c inv lifecycle_inv_net identity_def)
  show "alive D (set_container (setPrimaryIP ip c) (e\<lparr>e_networks := ns\<rparr>))"
    by (rule alive_set_container [OF ns, where cid = cid and c = c]) (simp_all add: c inv lifecycle_inv_net, simp_all add: identity_def setPrimaryIP_def)
qed

lemma configure_form:
  assumes "mget (e_containers e) cid = Some c"
  shows "snd (configureContainerNetworks cid networkMode aliases e) = e \<or>
    (\<exists>m ip ns. snd (configureContainerNetworks cid networkMode aliases e) =
       set_container (c\<lparr>c_NetworkMode := m, c_PrimaryIP := ip\<rparr>) (e\<lparr>e_networks := ns\<rparr>))"
  using assms by (auto simp: configureContainerNetworks_def Let_def split: option.splits sum.splits)

lemma connect_form:
  assumes "mget (e_containers e) cid = Some c"
  shows "snd (connectContainerNetwork cid ref aliases e) = e \<or>
    (\<exists>ip ns. snd (connectContainerNetwork cid ref aliases e) = set_container (setPrimaryIP ip c) (e\<lparr>e_networks := ns\<rparr>))"
  using assms by (auto simp: connectContainerNetwork_def Let_def split: option.splits sum.splits prod.splits)

lemma disconnect_form:
  assumes "mget (e_containers e) cid = Some c"
  shows "snd (disconnectContainerNetwork cid ref e) = e \<or>
    (\<exists>ip ns. snd (disconnectContainerNetwork cid ref e) = set_container (setPrimaryIP ip c) (e\<lparr>e_networks := ns\<rparr>))"
  using assms by (auto simp: disconnectContainerNetwork_def Let_def split: option.splits prod.splits)

lemma keeps_network_ops [keeps_intros]:
  assumes "cid \<in> D"
  shows "keeps (alive D) (elift (configureContainerNetworks cid networkMode aliases)) always"
    and "keeps (alive D) (elift (connectContainerNetwork cid ref als)) always"
    and "keeps (alive D) (elift (disconnectContainerNetwork cid ref)) always"
proof -
  have *: "alive D (snd (configureContainerNetworks cid networkMode aliases e)) \<and>
    alive D (snd (connectContainerNetwork cid ref als e)) \<and> alive D (snd (disconnectContainerNetwork cid ref e))"
    if al: "alive D e" for e
  proof -
    obtain c where c: "mget (e_containers e) cid = Some c" using aliveD(2) [OF al assms] ..
    note inv = aliveD(1) [OF al]
    have ids: "mget (e_containers e) cid = Some d \<Longrightarrow> c_ID d = cid \<and> cid \<noteq> []" for d
      using container_okD(1,2) [OF engine_invD(5) [OF inv, of cid d]] by auto
    have wf: "wf_map (e_networks e)" using engine_invD(4) [OF inv] by (rule networks_okD)
    note change = alive_net_change [OF al c]
    note frames = configure_frame [of e cid] connect_frame [OF wf, of cid] disconnect_frame [OF wf, of cid]
    note oks = configure_networks_ok [OF engine_invD(4) [OF inv] ids] connect_networks_ok [OF engine_invD(4) [OF inv]]
      disconnect_networks_ok [OF engine_invD(4) [OF inv]]
    have "alive D (snd (configureContainerNetworks cid networkMode aliases e))"
      using configure_form [OF c, of networkMode aliases] oks(1) [of networkMode aliases]
        frames(1) [of networkMode aliases] ids al change(1) by auto
    moreover have "alive D (snd (connectContainerNetwork cid ref als e))"
      using connect_form [OF c, of ref als] oks(2) [of cid ref als] frames(2) [of ref als] ids al change(2) by auto
    moreover have "alive D (snd (disconnectContainerNetwork cid ref e))"
      using disconnect_form [OF c, of ref] oks(3) [of cid ref] frames(3) [of ref] al change(2) by auto
    ultimately show ?thesis by blast
  qed
  show "keeps (alive D) (elift (configureContainerNetworks cid networkMode aliases)) always"
    "keeps (alive D) (elift (connectContainerNetwork cid ref als)) always"
    "keeps (alive D) (elift (disconnectContainerNetwork cid ref)) always"
    by (rule keeps_elift; use * in simp)+
qed

lemma keeps_next_counter [keeps_intros]: "keeps (alive D) next_counter always"
  by (rule keepsI) (simp add: next_counter_def Let_def)

lemma candidateIndexes_iff: "i \<in> set candidateIndexes \<longleftrightarrow> 1 \<le> i \<and> i \<le> 220"
  unfolding candidateIndexes_def set_upto atLeastAtMost_iff ..

lemma free_index_Some:
  assumes "wf_map (e_networks e)" and "free_index e = Some i"
  shows "1 \<le> i \<and> i \<le> 220" and "mget (e_networks e) key = Some n \<Longrightarrow> n_Index n \<noteq> i"
proof -
  note f = find_in [OF assms(2) [unfolded free_index_def]]
  from f show "1 \<le> i \<and> i \<le> 220" by (simp add: candidateIndexes_iff)
  show "n_Index n \<noteq> i" if "mget (e_networks e) key = Some n"
    using f mget_Some_in [OF that] by force
qed

lemma new_network_ok:
  assumes ok: "networks_ok ns" and "1 \<le> i \<and> i \<le> 220" and "\<And>key n. mget ns key = Some n \<Longrightarrow> n_Index n \<noteq> i"
  shows "networks_ok (mput ns k (new_network nid name driver labels i now))"
proof -
  let ?n = "new_network nid name driver labels i now"
  have "network_ok ?n"
    using assms(2) by (simp add: network_ok_def new_network_def index_ok_def)
  moreover have "n_Index ?n = i" by (simp add: new_network_def)
  ultimately show ?thesis
    using ok assms(3) unfolding networks_ok_def by (simp add: wf_map_mput) metis
qed

lemma new_network_ID [simp]: "n_ID (new_network nid name driver labels i now) = nid"
  by (simp add: new_network_def)

lemma new_network_named:
  assumes ok: "named_ok ns" and "\<And>key n. mget ns key = Some n \<Longrightarrow> n_Name n \<noteq> name" and "length nid = 64"
  shows "named_ok (mput ns nid (new_network nid name driver labels i now))"
proof -
  let ?n = "new_network nid name driver labels i now"
  have n: "n_Name ?n = name" "n_ID ?n = nid" by (simp_all add: new_network_def)
  obtain b where b: "mget ns ''bridge'' = Some b" "n_Name b = ''bridge''" using named_okD(1) [OF ok] by blast
  have "name \<noteq> ''bridge''" using assms(2) [OF b(1)] b(2) by simp
  moreover have "nid \<noteq> ''bridge''" using assms(3) by auto
  ultimately show ?thesis
    unfolding named_ok_def
  proof (intro conjI allI impI, goal_cases)
    case 1
    with b show ?case by simp
  next
    case (2 key m)
    show ?case
    proof (cases "key = nid")
      case True
      with 2 have "m = ?n" by simp
      with True n 2 show ?thesis by simp
    qed (use 2 named_okD(2) [OF ok, of key m] in simp)
  next
    case (3 k1 k2 n1 n2)
    with n assms(2) [of k1 n1] assms(2) [of k2 n2] named_okD(3) [OF ok, of k1 n1 k2 n2] show ?case
      by (auto split: if_splits)
  qed
qed

lemma hashID_length [simp]: "length (hashID v) = 64" "length (containerID name n) = 64"
  by (simp_all add: hashID_def containerID_def)

lemmas run_defs = ebind_def ethen_def em_defs enow_def elog_def next_counter_def Let_def

lemma keeps_createNetwork [keeps_intros]: "keeps (alive D) (createNetwork name driver labels) always"
proof (rule keepsI)
  fix e
  assume al: "alive D e"
  note inv = aliveD(1) [OF al]
  note nets = engine_invD(4,10) [OF inv]
  have wf: "wf_map (e_networks e)" using nets(1) by (rule networks_okD)
  show "\<exists>x e'. createNetwork name driver labels e = Ret (x, e') \<and> alive D e' \<and> True"
  proof (cases "name = [] \<or> list_ex (\<lambda>(key, n). n_Name n = name) (e_networks e) \<or> free_index e = None")
    case True
    with al show ?thesis by (auto simp: createNetwork_def run_defs)
  next
    case False
    then obtain i where i: "free_index e = Some i" by auto
    have new: "n_Name n \<noteq> name" if "mget (e_networks e) key = Some n" for key n
      using False mget_Some_in [OF that] by (auto simp: list_ex_iff)
    let ?nid = "hashID (''network:'' @ name @ '':'' @ itoa (wrap64 (e_counter e + 1)))"
    let ?d = "if driver = [] then ''bridge'' else driver"
    let ?n = "new_network ?nid name ?d labels i (env_now (e_env e) (e_tick e))"
    have "alive D (e\<lparr>e_networks := mput (e_networks e) ?nid ?n\<rparr>)"
    proof (rule alive_networks [OF al])
      show "networks_ok (mput (e_networks e) ?nid ?n)"
        by (rule new_network_ok [OF nets(1) free_index_Some [OF wf i]])
      show "named_ok (mput (e_networks e) ?nid ?n)"
        by (rule new_network_named [OF nets(2) new]) simp_all
      show "mmem (e_containers e) k" if "mget (mput (e_networks e) ?nid ?n) key = Some m" "mmem (n_Containers m) k" for key m k
        using that engine_invD(7) [OF inv, of key m k] by (auto simp: new_network_def mmem_def split: if_splits)
    qed
    then have "alive D (e\<lparr>e_counter := a, e_networks := mput (e_networks e) ?nid ?n\<rparr>)" for a
      by (rule alive_cong [THEN iffD2, rotated -1]) simp_all
    with False i show ?thesis by (simp add: createNetwork_def run_defs)
  qed
qed

lemma named_ok_mdel:
  assumes ok: "named_ok ns" and k: "k \<noteq> ''bridge''"
  shows "named_ok (mdel ns k)"
  unfolding named_ok_def
proof (intro conjI allI impI, goal_cases)
  case 1
  with named_okD(1) [OF ok] k show ?case by simp
next
  case (2 key n)
  then have "mget ns key = Some n" by (simp split: if_splits)
  then show ?case by (rule named_okD(2) [OF ok])
next
  case (3 k1 k2 n1 n2)
  then have "mget ns k1 = Some n1" "mget ns k2 = Some n2" by (simp_all split: if_splits)
  with 3 show ?case using named_okD(3) [OF ok] by blast
qed

lemma keeps_removeNetwork [keeps_intros]: "keeps (alive D) (removeNetwork ref) always"
proof (rule keepsI)
  fix e
  assume al: "alive D e"
  note inv = aliveD(1) [OF al]
  note nets = engine_invD(4,10) [OF inv]
  have wf: "wf_map (e_networks e)" using nets(1) by (rule networks_okD)
  show "\<exists>x e'. removeNetwork ref e = Ret (x, e') \<and> alive D e' \<and> True"
  proof (cases "findNetwork ref e")
    case (Inl err)
    with al show ?thesis by (simp add: removeNetwork_def run_defs)
  next
    case (Inr n)
    show ?thesis
    proof (cases "n_Name n = ''bridge'' \<or> n_Containers n \<noteq> []")
      case True
      with Inr al show ?thesis by (auto simp: removeNetwork_def run_defs)
    next
      case False
      let ?ns = "mdel (e_networks e) (n_ID n)"
      have "networks_ok ?ns" using nets(1) unfolding networks_ok_def by (auto split: if_splits)
      moreover have "named_ok ?ns"
      proof -
        obtain key where "find_network_key ref e = Some (key, n)"
          using Inr by (auto simp: findNetwork_def split: option.splits)
        from find_network_key_Some [OF wf this] have key: "mget (e_networks e) key = Some n" .
        from named_okD(2) [OF nets(2) key] False have id: "key = n_ID n" by simp
        obtain b where b: "mget (e_networks e) ''bridge'' = Some b" "n_Name b = ''bridge''"
          using named_okD(1) [OF nets(2)] by blast
        have "n_ID n \<noteq> ''bridge''" using id key b False by auto
        with nets(2) show ?thesis by (rule named_ok_mdel)
      qed
      ultimately have "alive D (e\<lparr>e_networks := ?ns\<rparr>)"
        using engine_invD(7) [OF inv] by (intro alive_networks [OF al]) (auto split: if_splits)
      with Inr False show ?thesis by (simp add: removeNetwork_def run_defs)
    qed
  qed
qed

lemma keeps_createVolume [keeps_intros]: "keeps (alive D) (createVolume name driver labels options) always"
proof -
  have "alive D (e\<lparr>e_volumes := mput (e_volumes e) k v\<rparr>)" if "alive D e" for e k v
    using that unfolding alive_def engine_inv_def by simp
  then show ?thesis
    unfolding createVolume_def Let_def by (intro keeps_intros keeps_step keeps_emodify) simp_all
qed

end
