(* ===== verification/Core_Runs.thy ===== *)
theory Core_Runs
  imports Core_Invariant
begin

text \<open>Creating and removing containers keeps the engine's invariant.\<close>

section \<open>Creation\<close>

lemma selected_cookbook:
  "(\<forall>cb. fst st = Some cb \<longrightarrow> cb \<in> set (mvals cookbooks)) \<Longrightarrow>
     fst (foldl (select_step img cookbooks) st kinds) = Some cb \<Longrightarrow> cb \<in> set (mvals cookbooks)"
proof (induction kinds arbitrary: st)
  case (Cons k kinds)
  have "fst (select_step img cookbooks st k) = Some d \<Longrightarrow> d \<in> set (mvals cookbooks)" for d
    using Cons.prems(1) mget_Some_in [of cookbooks k d]
    by (cases st) (auto simp: select_step_def mvals_def Let_def image_iff split: option.splits if_splits
        dest!: mget_Some_in intro: bexI [of _ "(k, d)"])
  then show ?case using Cons.IH [of "select_step img cookbooks st k"] Cons.prems(2) by simp
qed simp

lemma cookbookFor_mem: "cookbookFor cookbooks name img = Inr cb \<Longrightarrow> cb \<in> set (mvals cookbooks)"
  using selected_cookbook [of "(None, 0, False)" cookbooks img "sortedCookbookKinds cookbooks" cb]
  by (auto simp: cookbookFor_def Let_def split: prod.splits if_splits option.splits)

text \<open>The container a creation makes, and the ID it takes.\<close>

definition created :: "gotime \<Rightarrow> string \<Rightarrow> string \<Rightarrow> string \<Rightarrow> Cookbook \<Rightarrow> int \<Rightarrow> (string, string) gomap \<Rightarrow> string list
    \<Rightarrow> string list \<Rightarrow> Container" where
  "created now cid name img cb seed labels env command =
     (newContainer now cid name img cb seed)\<lparr>c_Labels := labels, c_Env := env, c_Command := command\<rparr>"

definition next_container_id :: "string \<Rightarrow> Engine \<Rightarrow> string" where
  "next_container_id name0 e =
     (let n = wrap64 (e_counter e + 1) in
      if container_ref name0 = [] then containerID (''docker-zero-'' @ itoa n) (wrap64 (n + 1))
      else containerID (container_ref name0) n)"

definition fresh_create :: "string \<Rightarrow> Engine \<Rightarrow> bool" where
  "fresh_create name0 e \<longleftrightarrow> \<not> mmem (e_containers e) (next_container_id name0 e)"

lemma created_sel [simp]:
  "c_ID (created now cid name img cb seed labels env command) = cid"
  "c_Name (created now cid name img cb seed labels env command) = name"
  "c_Kind (created now cid name img cb seed labels env command) = cb_Kind cb"
  "c_removed (created now cid name img cb seed labels env command) = False"
  "c_Scenario (created now cid name img cb seed labels env command) = mget_or zeroScenario (cb_Seeds cb) (itoa seed)"
  "c_Seed (created now cid name img cb seed labels env command) = seed"
  "c_KV (created now cid name img cb seed labels env command) = []"
  "c_Status (created now cid name img cb seed labels env command) = sCreated"
  by (simp_all add: created_def newContainer_def)

lemma created_ok:
  assumes "cookbook_ok cb" and "mmem (cb_Seeds cb) (itoa seed)" and "0 \<le> pid"
    and "validateContainerName name = None" and "name \<noteq> []" and "length cid = 64" and "mget names name = Some cid"
  shows "container_ok names pid cid (created now cid name img cb seed labels env command)"
proof -
  obtain sc where sc: "mget (cb_Seeds cb) (itoa seed) = Some sc" using assms(2) by (auto simp: mmem_def)
  then have "scripted_safe sc" and k: "cb_Kind cb \<in> {''nginx'', ''redis''}"
    using assms(1) by (auto simp: cookbook_ok_def)
  moreover have "mget_or zeroScenario (cb_Seeds cb) (itoa seed) = sc" by (simp add: mget_or_def sc)
  moreover have "lifecycle_inv (newContainer now cid name img cb seed, pid)"
    using calculation assms(3) by (intro newContainer_inv) (simp_all add: scripted_safe_def)
  then have "lifecycle_inv (created now cid name img cb seed labels env command, pid)"
    unfolding created_def by (subst lifecycle_inv_cong) simp_all
  ultimately show ?thesis using assms(4-7) by (simp add: container_ok_def)
qed

lemma add_container_alive:
  assumes al: "alive D e" and new: "\<not> mmem (e_containers e) (c_ID c)" "\<not> mmem (e_names e) (c_Name c)"
    and ok: "container_ok (mput (e_names e) (c_Name c) (c_ID c)) (e_pid e) (c_ID c) c"
  shows "alive (insert (c_ID c) D) (add_container c e)"
proof -
  note inv = aliveD(1) [OF al]
  let ?names = "mput (e_names e) (c_Name c) (c_ID c)" and ?cs = "mput (e_containers e) (c_ID c) c"
  have "container_ok ?names (e_pid e) k d" if "mget ?cs k = Some d" for k d
  proof (cases "k = c_ID c")
    case False
    with that have "container_ok (e_names e) (e_pid e) k d" using engine_invD(5) [OF inv] by simp
    with new(2) show ?thesis by (auto simp: container_ok_def mmem_def)
  qed (use that ok in simp)
  moreover have "\<exists>d. mget ?cs k = Some d \<and> c_Name d = nm" if "mget ?names nm = Some k" for nm k
    using that engine_invD(6) [OF inv, of nm k] new(1) by (auto simp: mmem_def split: if_splits)
  ultimately have "engine_inv (add_container c e)"
    using inv unfolding engine_inv_def by (simp add: add_container_def mmem_def)
  with al show ?thesis by (auto simp: alive_def add_container_def mmem_def)
qed

text \<open>What a creation does, error by error.\<close>

definition creation_error :: "string \<Rightarrow> string \<Rightarrow> Engine \<Rightarrow> string option" where
  "creation_error name img e =
     (case validateContainerName name of
        Some err \<Rightarrow> Some err
      | None \<Rightarrow>
          if img = [] then Some ''image is required''
          else case cookbookFor (e_cookbooks e) name img of
                 Inl err \<Rightarrow> Some err
               | Inr cb \<Rightarrow>
                   if \<not> mmem (cb_Seeds cb) (itoa (seedFor (cb_Kind cb) name e))
                   then Some (''cookbook '' @ cb_Kind cb @ '' has no seed '' @ itoa (seedFor (cb_Kind cb) name e))
                   else check (mmem (e_names e) name)
                     (''conflict: the container name '' @ quote name @ '' is already in use''))"

lemma create_named_error: "creation_error name img e = Some err \<Longrightarrow> create_named name img labels env command e = Ret (Inl err, e)"
  by (auto simp: creation_error_def create_named_def run_defs check_def split: option.splits sum.splits if_splits)

lemma creation_error_None:
  "creation_error name img e = None \<longleftrightarrow> validateContainerName name = None \<and> img \<noteq> [] \<and>
     (\<exists>cb. cookbookFor (e_cookbooks e) name img = Inr cb \<and>
        mmem (cb_Seeds cb) (itoa (seedFor (cb_Kind cb) name e))) \<and> \<not> mmem (e_names e) name"
  by (auto simp: creation_error_def split: option.splits sum.splits if_splits)

lemma create_named_ok:
  assumes "creation_error name img e = None"
  obtains cb now e' where "cookbookFor (e_cookbooks e) name img = Inr cb"
    and "create_named name img labels env command e = Ret (Inr (containerID name (wrap64 (e_counter e + 1))), e')"
    and "\<And>D. alive D e' = alive D (add_container (created now (containerID name (wrap64 (e_counter e + 1))) name img cb
           (seedFor (cb_Kind cb) name e) labels env command) e)"
    and "e_containers e' = mput (e_containers e) (containerID name (wrap64 (e_counter e + 1)))
           (created now (containerID name (wrap64 (e_counter e + 1))) name img cb (seedFor (cb_Kind cb) name e) labels env command)"
    and "e_names e' = mput (e_names e) name (containerID name (wrap64 (e_counter e + 1)))"
proof -
  let ?cid = "containerID name (wrap64 (e_counter e + 1))" and ?now = "env_now (e_env e) (e_tick e)"
  obtain cb where cb: "cookbookFor (e_cookbooks e) name img = Inr cb" "mmem (cb_Seeds cb) (itoa (seedFor (cb_Kind cb) name e))"
    using assms by (auto simp: creation_error_None)
  let ?c = "created ?now ?cid name img cb (seedFor (cb_Kind cb) name e) labels env command"
  let ?e1 = "add_container ?c (e\<lparr>e_counter := wrap64 (e_counter e + 1), e_tick := Suc (e_tick e)\<rparr>)"
  define e' where "e' = log_engine (env_now (e_env e) (Suc (e_tick e)))
    ((container_entry ?c)\<lparr>le_Channel := ''docker'', le_Event := ''container.create'',
       le_Request := JObject [(''image'', JString img), (''name'', JString name)],
       le_Response := JObject [(''id'', JString ?cid)], le_After := Some (stateSnapshot ?c)\<rparr>)
    (?e1\<lparr>e_tick := Suc (Suc (e_tick e))\<rparr>)"
  have run: "create_named name img labels env command e = Ret (Inr ?cid, e')"
    using assms cb unfolding e'_def
    by (simp add: creation_error_None create_named_def run_defs created_def add_container_def)
  have "alive D e' = alive D (add_container ?c e)" for D
    by (rule alive_cong) (simp_all add: e'_def add_container_def)
  moreover have "e_containers e' = mput (e_containers e) ?cid ?c" "e_names e' = mput (e_names e) name ?cid"
    by (simp_all add: e'_def add_container_def)
  ultimately show thesis using that [OF cb(1) run] by blast
qed

lemma create_named_keeps:
  assumes al: "alive D e" and "name \<noteq> []" and fresh: "\<not> mmem (e_containers e) (containerID name (wrap64 (e_counter e + 1)))"
  shows "\<exists>r e'. create_named name img labels env command e = Ret (r, e') \<and> alive (D \<union> {cid. r = Inr cid}) e'"
proof (cases "creation_error name img e")
  case (Some err)
  from create_named_error [OF this] al show ?thesis by simp
next
  case None
  from None have ok: "validateContainerName name = None" "\<not> mmem (e_names e) name"
    by (simp_all add: creation_error_None)
  let ?cid = "containerID name (wrap64 (e_counter e + 1))"
  from None obtain cb now e' where cb: "cookbookFor (e_cookbooks e) name img = Inr cb"
    and run: "create_named name img labels env command e = Ret (Inr ?cid, e')"
    and e': "\<And>D. alive D e' = alive D (add_container (created now ?cid name img cb (seedFor (cb_Kind cb) name e) labels env command) e)"
    by (rule create_named_ok) blast
  let ?c = "created now ?cid name img cb (seedFor (cb_Kind cb) name e) labels env command"
  have "cookbook_ok cb" using cookbookFor_mem [OF cb] engine_invD(9) [OF aliveD(1) [OF al]] by blast
  moreover have "mmem (cb_Seeds cb) (itoa (seedFor (cb_Kind cb) name e))" using None cb by (simp add: creation_error_None)
  moreover have "length ?cid = 64" by simp
  ultimately have "container_ok (mput (e_names e) name ?cid) (e_pid e) ?cid ?c"
    using ok(1) assms(2) engine_invD(1) [OF aliveD(1) [OF al]] by (intro created_ok) simp_all
  then have "alive (insert ?cid D) (add_container ?c e)"
    using add_container_alive [OF al, of ?c] fresh ok(2) by simp
  with run e' show ?thesis by auto
qed

lemma createContainer_keeps:
  assumes "alive D e" and "fresh_create name0 e"
  shows "\<exists>r e'. createContainer name0 img labels env command e = Ret (r, e') \<and> alive (D \<union> {cid. r = Inr cid}) e'"
proof (cases "container_ref name0 = []")
  case True
  let ?n = "wrap64 (e_counter e + 1)"
  have "createContainer name0 img labels env command e =
      create_named (''docker-zero-'' @ itoa ?n) img labels env command (e\<lparr>e_counter := ?n\<rparr>)"
    using True by (simp add: createContainer_def choose_name_def ebind_def ereturn_def next_counter_def Let_def)
  moreover have "\<exists>r e'. create_named (''docker-zero-'' @ itoa ?n) img labels env command (e\<lparr>e_counter := ?n\<rparr>) = Ret (r, e') \<and>
      alive (D \<union> {cid. r = Inr cid}) e'"
    using assms True by (intro create_named_keeps) (simp_all add: fresh_create_def next_container_id_def Let_def)
  ultimately show ?thesis by simp
next
  case False
  then have "createContainer name0 img labels env command e = create_named (container_ref name0) img labels env command e"
    by (simp add: createContainer_def choose_name_def)
  moreover have "\<exists>r e'. create_named (container_ref name0) img labels env command e = Ret (r, e') \<and>
      alive (D \<union> {cid. r = Inr cid}) e'"
    using assms False by (intro create_named_keeps) (simp_all add: fresh_create_def next_container_id_def Let_def)
  ultimately show ?thesis by simp
qed

section \<open>Removal\<close>

lemma mput_same: "mget m k = Some v \<Longrightarrow> mput m k v = m"
  unfolding mget_def mput_def by (induction m) auto

lemma container_get_run:
  assumes "engine_inv e" and "mget (e_containers e) cid = Some c"
  shows "container_get cid f e = Ret (f c, e)"
proof -
  have "c_ID c = cid" using container_okD(1) [OF engine_invD(5) [OF assms]] .
  with assms(2) show ?thesis
    by (simp add: container_get_def container_do_def set_container_def mput_same)
qed

lemma drop_container_alive:
  assumes al: "alive D e" and c: "mget (e_containers e) cid = Some c"
  shows "alive (D - {cid}) (drop_container c e)"
proof -
  note inv = aliveD(1) [OF al]
  note ok = container_okD [OF engine_invD(5) [OF inv c]]
  let ?cs = "mdel (e_containers e) cid" and ?names = "mdel (e_names e) (c_Name c)" and ?ns = "detach_all cid (e_networks e)"
  have "container_ok ?names (e_pid e) k d" if k: "mget ?cs k = Some d" for k d
  proof -
    from k have "k \<noteq> cid" and d: "mget (e_containers e) k = Some d" by (auto split: if_splits)
    moreover from container_okD(3) [OF engine_invD(5) [OF inv d]] ok(3) have "c_Name d \<noteq> c_Name c"
      using calculation(1) by auto
    ultimately show ?thesis using engine_invD(5) [OF inv d] by (simp add: container_ok_def)
  qed
  moreover have "\<exists>d. mget ?cs k = Some d \<and> c_Name d = nm" if nm: "mget ?names nm = Some k" for nm k
  proof -
    from nm have "nm \<noteq> c_Name c" and "mget (e_names e) nm = Some k" by (auto split: if_splits)
    with engine_invD(6) [OF inv this(2)] c show ?thesis by auto
  qed
  moreover have "mmem ?cs k" if k: "mget ?ns key = Some n" "mmem (n_Containers n) k" for key n k
  proof -
    from k obtain n0 where n0: "mget (e_networks e) key = Some n0" "n_Containers n = mdel (n_Containers n0) cid"
      by (auto simp: detach_all_def)
    with k(2) have "k \<noteq> cid" "mmem (n_Containers n0) k" by (auto simp: mmem_def split: if_splits)
    with engine_invD(7) [OF inv n0(1)] show ?thesis by (simp add: mmem_def)
  qed
  moreover have "mmem ?cs k" if k: "mmem (mdel (e_runtimes e) cid) k" for k
    using engine_invD(8) [OF inv, of k] k by (auto simp: mmem_def split: if_splits)
  moreover have "networks_ok ?ns" using engine_invD(4) [OF inv] by (rule detach_all_ok)
  moreover have "named_ok ?ns" using net_frame_named [OF net_frame_detach engine_invD(10) [OF inv]] .
  ultimately have "engine_inv (drop_container c e)"
    using inv unfolding engine_inv_def by (simp add: drop_container_def ok(1)) blast
  with al show ?thesis by (auto simp: alive_def drop_container_def ok(1) mmem_def)
qed

lemma finish_removed_keeps:
  assumes "alive D e" and "lifecycle_inv (c, e_pid e)"
  shows "\<exists>e'. finish_removed c e = Ret ((), e') \<and> alive D e'"
proof (cases "c_Running c")
  case True
  let ?now = "env_now (e_env e) (e_tick e)"
  from stopping.runs [OF assms(2), of ?now 137] obtain r c' pid' where
    st: "stop ?now 137 (c, e_pid e) = Ret (r, c', pid')" "e_pid e \<le> pid'" by blast
  have "engine_inv (e\<lparr>e_tick := t, e_pid := pid', e_detached := ds\<rparr>)" for t ds
    using aliveD(1) [OF assms(1)] st(2) unfolding engine_inv_def
    by (auto simp: container_ok_def intro: lifecycle_inv_pid)
  then have "alive D (e\<lparr>e_tick := t, e_pid := pid', e_detached := ds\<rparr>)" for t ds
    using assms(1) by (simp add: alive_def)
  with True st(1) show ?thesis
    by (simp add: finish_removed_def run_defs stateSnapshot_def)
next
  case False
  have "alive D (e\<lparr>e_detached := ds\<rparr>)" for ds
    using assms(1) by (subst alive_cong) simp_all
  with False show ?thesis by (simp add: finish_removed_def run_defs stateSnapshot_def)
qed

lemma removeContainer_keeps:
  assumes al: "alive D e"
  shows "\<exists>r e'. removeContainer ref force e = Ret (r, e') \<and> alive (D - {cid. findContainer ref e = Inr cid}) e'"
proof (cases "findContainer ref e")
  case (Inl err)
  with al show ?thesis by (simp add: removeContainer_def run_defs)
next
  case (Inr cid)
  have live: "alive (insert cid D) e"
    using al findContainer_live [OF aliveD(1) [OF al] Inr] by (simp add: alive_insert)
  then obtain c0 where c0: "mget (e_containers e) cid = Some c0" using aliveD(2) by blast
  note get0 = container_get_run [OF aliveD(1) [OF al] c0]
  show ?thesis
  proof (cases "isRunning c0 \<and> \<not> force")
    case True
    have "alive (D - {cid}) e" using al by (rule alive_mono) blast
    with True Inr show ?thesis by (simp add: removeContainer_def ebind_def em_defs get0)
  next
    case False
    obtain x e1 where e1: "stopContainerRuntime cid e = Ret (x, e1)" "alive (insert cid D) e1"
      using keeps_container_runtime(2) [of cid "insert cid D"] live by (auto elim: keepsE)
    obtain c where c: "mget (e_containers e1) cid = Some c" using aliveD(2) [OF e1(2)] by blast
    note get1 = container_get_run [OF aliveD(1) [OF e1(2)] c]
    have dropped: "alive (D - {cid}) (drop_container c e1)"
      using drop_container_alive [OF e1(2) c] by (rule alive_mono) blast
    have "lifecycle_inv (c, e_pid (drop_container c e1))"
      using container_okD(6) [OF engine_invD(5) [OF aliveD(1) [OF e1(2)] c]] by (simp add: drop_container_def)
    from finish_removed_keeps [OF dropped this] obtain e2 where
      e2: "finish_removed c (drop_container c e1) = Ret ((), e2)" "alive (D - {cid}) e2" by blast
    from False Inr e1(1) e2 show ?thesis
      by (auto simp: removeContainer_def ebind_def ethen_def em_defs elog_def enow_def get0 get1)
  qed
qed

end
