(* ===== verification/Docker_Util.thy ===== *)
theory Docker_Util
  imports Go_Json "HOL-Library.Char_ord"
begin

text \<open>
  Helpers of the API (\<^verbatim>\<open>docker_api_util.go\<close>): versions, query values and the frames of a log stream, and
  the response a handler writes. A handler's response is its status, whether it is marked as
  unsupported, and its body.
\<close>

section \<open>Versions\<close>

definition engineVersion :: string where "engineVersion = ''26.1.5-docker-zero''"
definition apiVersion :: string where "apiVersion = ''1.43''"
definition minAPIVersion :: string where "minAPIVersion = ''1.24''"

definition parseAPIVersion :: "string \<Rightarrow> string + int \<times> int" where
  "parseAPIVersion value =
     (case split_on (CHR ''.'') value of
        [a, b] \<Rightarrow>
          if a = [] \<or> \<not> list_all is_digit a \<or> b = [] \<or> \<not> list_all is_digit b \<or> \<not> snd (atoi a) \<or> \<not> snd (atoi b)
          then Inl (''invalid API version '' @ quote value)
          else Inr (fst (atoi a), fst (atoi b))
      | _ \<Rightarrow> Inl (''invalid API version '' @ quote value))"

text \<open>\<^verbatim>\<open>strings.SplitN(path, "/", 3)\<close>.\<close>

definition split3_on :: "char \<Rightarrow> string \<Rightarrow> string list" where
  "split3_on d s =
     (case split2_on d s of
        [a, rest] \<Rightarrow> a # split2_on d rest
      | parts \<Rightarrow> parts)"

definition stripAPIVersion :: "string \<Rightarrow> string" where
  "stripAPIVersion path =
     (case split3_on (CHR ''/'') path of
        [a, v, rest] \<Rightarrow>
          if has_prefix v ''v'' then
            (case parseAPIVersion (trim_prefix v ''v'') of Inr _ \<Rightarrow> ''/'' @ rest | Inl _ \<Rightarrow> path)
          else path
      | _ \<Rightarrow> path)"

definition version_less :: "int \<times> int \<Rightarrow> int \<times> int \<Rightarrow> bool" where
  "version_less = (\<lambda>(a, b) (c, d). a < c \<or> a = c \<and> b < d)"

definition version_bound :: "string \<Rightarrow> int \<times> int" where
  "version_bound v = (case parseAPIVersion v of Inr p \<Rightarrow> p | Inl _ \<Rightarrow> (0, 0))"

definition validateAPIVersionPath :: "string \<Rightarrow> string option" where
  "validateAPIVersionPath path =
     (let parts = split3_on (CHR ''/'') path in
      if length parts < 3 \<or> length (parts ! 1) < 2 \<or> (parts ! 1) ! 0 \<noteq> CHR ''v'' \<or> \<not> is_digit ((parts ! 1) ! 1) then None
      else
        let value = tl (parts ! 1) in
        (case parseAPIVersion value of
           Inl err \<Rightarrow> Some err
         | Inr v \<Rightarrow>
             if version_less v (version_bound minAPIVersion) then
               Some (''client version '' @ value @ '' is too old. Minimum supported API version is '' @ minAPIVersion)
             else if version_less (version_bound apiVersion) v then
               Some (''client version '' @ value @ '' is too new. Maximum supported API version is '' @ apiVersion)
             else None))"

section \<open>Values\<close>

definition parseBoolQuery :: "string \<Rightarrow> bool" where
  "parseBoolQuery v = (let value = to_lower (trim_space v) in value = ''1'' \<or> value = ''true'' \<or> value = ''yes'')"

definition firstOrEmpty :: "string list \<Rightarrow> string" where
  "firstOrEmpty items = (case items of [] \<Rightarrow> [] | x # _ \<Rightarrow> x)"

definition restOrEmpty :: "string list \<Rightarrow> string list" where
  "restOrEmpty items = (if length items \<le> 1 then [] else tl items)"

text \<open>\<^verbatim>\<open>binary.BigEndian.PutUint32\<close> of the length, which the conversion reduces to 32 bits.\<close>

definition be32 :: "nat \<Rightarrow> string" where
  "be32 n = map (\<lambda>k. char_of (n div 256 ^ k mod 256)) [3, 2, 1, 0]"

definition writeDockerStreamFrame :: "char \<Rightarrow> string \<Rightarrow> string" where
  "writeDockerStreamFrame stream payload =
     (if payload = [] then []
      else [stream, NUL, NUL, NUL] @ be32 (length payload mod 2 ^ 32) @ payload)"

text \<open>\<^verbatim>\<open>url.PathUnescape\<close>; the callers ignore its error, which comes with an empty result.\<close>

definition hex_digit_value :: "char \<Rightarrow> nat option" where
  "hex_digit_value c =
     (if is_digit c then Some (byte c - 48)
      else if 97 \<le> byte c \<and> byte c \<le> (102::nat) then Some (byte c - 87)
      else if 65 \<le> byte c \<and> byte c \<le> (70::nat) then Some (byte c - 55) else None)"

fun path_unescape :: "string \<Rightarrow> string option" where
  "path_unescape [] = Some []"
| "path_unescape (c # s) =
     (if c \<noteq> CHR ''%'' then map_option ((#) c) (path_unescape s)
      else case s of
             a # b # rest \<Rightarrow>
               (case (hex_digit_value a, hex_digit_value b) of
                  (Some x, Some y) \<Rightarrow> map_option ((#) (char_of (16 * x + y))) (path_unescape rest)
                | _ \<Rightarrow> None)
           | _ \<Rightarrow> None)"

definition PathUnescape :: "string \<Rightarrow> string" where
  "PathUnescape s = (case path_unescape s of Some t \<Rightarrow> t | None \<Rightarrow> [])"

section \<open>Responses\<close>

datatype api_body = EmptyBody | JsonBody json | TextBody string

record api_response =
  ar_Status :: int
  ar_Unsupported :: bool
  ar_Body :: api_body

definition writeHeader :: "int \<Rightarrow> api_response" where
  "writeHeader status = \<lparr>ar_Status = status, ar_Unsupported = False, ar_Body = EmptyBody\<rparr>"

definition writeJSON :: "int \<Rightarrow> json \<Rightarrow> api_response" where
  "writeJSON status value = \<lparr>ar_Status = status, ar_Unsupported = False, ar_Body = JsonBody value\<rparr>"

definition writeDockerError :: "int \<Rightarrow> string \<Rightarrow> api_response" where
  "writeDockerError status message = writeJSON status (JObject [(''message'', JString message)])"

definition writeUnsupportedDockerError :: "int \<Rightarrow> string \<Rightarrow> api_response" where
  "writeUnsupportedDockerError status message = (writeDockerError status message)\<lparr>ar_Unsupported := True\<rparr>"

end
