(* ===== verification/Docker_Filters.thy ===== *)
theory Docker_Filters
  imports Engine_State Docker_Util
begin

text \<open>
  Filters of the list endpoints (\<^verbatim>\<open>docker_filters.go\<close>). The query parameter is taken as the value that
  \<^verbatim>\<open>json.Unmarshal\<close> gives, an object whose members are decoded once more: as an object of flags, as a
  list of strings, or as one string. In a list a null is the empty string, in an object it is false.
\<close>

type_synonym dockerFilters = "(string, string list) gomap"

definition decode_flags :: "json \<Rightarrow> (string, bool) gomap option" where
  "decode_flags v =
     (case v of
        JObject m \<Rightarrow>
          if list_all (\<lambda>(k, x). case x of JBool _ \<Rightarrow> True | JNull \<Rightarrow> True | _ \<Rightarrow> False) m
          then Some (mmap (\<lambda>x. x = JBool True) m) else None
      | _ \<Rightarrow> None)"

definition decode_strings :: "json \<Rightarrow> string list option" where
  "decode_strings v =
     (case v of
        JNull \<Rightarrow> Some []
      | JArray xs \<Rightarrow>
          if list_all (\<lambda>x. case x of JString _ \<Rightarrow> True | JNull \<Rightarrow> True | _ \<Rightarrow> False) xs
          then Some (map (\<lambda>x. case x of JString s \<Rightarrow> s | _ \<Rightarrow> []) xs) else None
      | _ \<Rightarrow> None)"

definition filter_values :: "json \<Rightarrow> string list option" where
  "filter_values payload =
     (case decode_flags payload of
        Some object \<Rightarrow> Some (map fst (filter snd object))
      | None \<Rightarrow>
          (case decode_strings payload of
             Some values \<Rightarrow> Some values
           | None \<Rightarrow> (case payload of JString one \<Rightarrow> Some [one] | _ \<Rightarrow> None)))"

definition add_filter :: "string + dockerFilters \<Rightarrow> string \<times> json \<Rightarrow> string + dockerFilters" where
  "add_filter acc = (\<lambda>(key0, payload).
     case acc of
       Inl err \<Rightarrow> Inl err
     | Inr out \<Rightarrow>
         let key = to_lower (trim_space key0) in
         if key = [] then Inl ''empty filter name''
         else case filter_values payload of
                None \<Rightarrow> Inl (''unsupported value for filter '' @ quote key)
              | Some values \<Rightarrow>
                  Inr (if values = [] \<and> decode_flags payload \<noteq> None then out
                       else mput out key (mget_or [] out key @ values)))"

text \<open>\<open>Inl\<close> is the error of the outer decoding, \<open>Inr []\<close> an empty parameter.\<close>

definition parseDockerFilters :: "string + (string, json) gomap \<Rightarrow> string + dockerFilters" where
  "parseDockerFilters raw = (case raw of Inl err \<Rightarrow> Inl err | Inr generic \<Rightarrow> foldl add_filter (Inr []) generic)"

section \<open>Matching\<close>

fun cut_on :: "string \<Rightarrow> string \<Rightarrow> (string \<times> string) option" where
  "cut_on sep s =
     (if has_prefix s sep then Some ([], drop (length sep) s)
      else case s of [] \<Rightarrow> None | c # cs \<Rightarrow> map_option (\<lambda>(a, b). (c # a, b)) (cut_on sep cs))"

definition label_matches :: "(string, string) gomap \<Rightarrow> string \<Rightarrow> bool" where
  "label_matches labels expr =
     (case cut_on ''!='' expr of
        Some (key, value) \<Rightarrow> mget labels key \<noteq> Some value
      | None \<Rightarrow>
          (case cut_on ''='' expr of
             Some (key, value) \<Rightarrow> mget labels key = Some value
           | None \<Rightarrow> mmem labels expr))"

definition matchLabels :: "(string, string) gomap \<Rightarrow> string list \<Rightarrow> bool" where
  "matchLabels labels expressions = list_all (label_matches labels) expressions"

definition matchesAnySubstring :: "string \<Rightarrow> string list \<Rightarrow> bool" where
  "matchesAnySubstring value patterns \<longleftrightarrow> patterns = [] \<or> list_ex (contains value) patterns"

definition matchesAnyExact :: "string \<Rightarrow> string list \<Rightarrow> bool" where
  "matchesAnyExact value patterns \<longleftrightarrow> patterns = [] \<or> list_ex (\<lambda>p. value = p) patterns"

definition values_of :: "dockerFilters \<Rightarrow> string \<Rightarrow> string list" where
  "values_of f key = mget_or [] f key"

definition containerMatchesFilters :: "Container \<Rightarrow> dockerFilters \<Rightarrow> bool" where
  "containerMatchesFilters c f \<longleftrightarrow>
     matchLabels (c_Labels c) (values_of f ''label'') \<and>
     (values_of f ''name'' = [] \<or> matchesAnySubstring (c_Name c) (values_of f ''name'')) \<and>
     (values_of f ''id'' = [] \<or> list_ex (has_prefix (c_ID c)) (values_of f ''id'')) \<and>
     (values_of f ''status'' = [] \<or> matchesAnyExact (ss_Status (stateSnapshot c)) (values_of f ''status'')) \<and>
     (values_of f ''ancestor'' = [] \<or>
      list_ex (\<lambda>v. c_Image c = v \<or> c_ImageID c = v \<or> has_prefix (c_ImageID c) v) (values_of f ''ancestor''))"

definition networkMatchesFilters :: "Network \<Rightarrow> dockerFilters \<Rightarrow> bool" where
  "networkMatchesFilters n f \<longleftrightarrow>
     matchLabels (n_Labels n) (values_of f ''label'') \<and>
     (values_of f ''name'' = [] \<or> matchesAnySubstring (n_Name n) (values_of f ''name'')) \<and>
     (values_of f ''id'' = [] \<or> list_ex (has_prefix (n_ID n)) (values_of f ''id'')) \<and>
     (values_of f ''driver'' = [] \<or> matchesAnyExact (n_Driver n) (values_of f ''driver'')) \<and>
     (values_of f ''scope'' = [] \<or> matchesAnyExact (n_Scope n) (values_of f ''scope'')) \<and>
     (values_of f ''type'' = [] \<or>
      matchesAnyExact (if n_Name n = ''bridge'' then ''builtin'' else ''custom'') (values_of f ''type''))"

definition volumeMatchesFilters :: "Volume \<Rightarrow> dockerFilters \<Rightarrow> bool" where
  "volumeMatchesFilters v f \<longleftrightarrow>
     matchLabels (v_Labels v) (values_of f ''label'') \<and>
     (values_of f ''name'' = [] \<or> matchesAnySubstring (v_Name v) (values_of f ''name'')) \<and>
     (values_of f ''driver'' = [] \<or> matchesAnyExact (v_Driver v) (values_of f ''driver''))"

end
