(* ===== verification/Docker_Documents.thy ===== *)
theory Docker_Documents
  imports Engine_Network Docker_Filters
begin

text \<open>
  The JSON documents about containers (\<^verbatim>\<open>docker_api_documents.go\<close>). Objects that the source builds as Go
  maps are association lists; \<open>mput\<close> is assignment to a key.
\<close>

section \<open>Ports\<close>

definition dockerReportedHostIP :: "string \<Rightarrow> string" where
  "dockerReportedHostIP host = (if trim_space host = [] then ''0.0.0.0'' else trim_space host)"

definition port_summary_item :: "string \<Rightarrow> PortBinding \<Rightarrow> json" where
  "port_summary_item key binding =
     (let parts = split2_on (CHR ''/'') key;
          protocol = (if length parts = 2 then parts ! 1 else ''tcp'')
      in JObject ([(''PrivatePort'', JInt (fst (atoi (parts ! 0)))), (''Type'', JString protocol)] @
           (if pb_HostPort binding > 0
            then [(''IP'', JString (dockerReportedHostIP (pb_HostIP binding))), (''PublicPort'', JInt (pb_HostPort binding))]
            else [])))"

definition dockerPortSummary :: "Container \<Rightarrow> json" where
  "dockerPortSummary c =
     (let bindings = clonePortBindings c in
      JArray (concat (map (\<lambda>key. map (port_summary_item key) (mget_or [] bindings key)) (sort (mkeys bindings)))))"

definition host_port_json :: "PortBinding \<Rightarrow> json" where
  "host_port_json binding =
     JObject [(''HostIp'', JString (dockerReportedHostIP (pb_HostIP binding))),
       (''HostPort'', JString (if pb_HostPort binding > 0 then itoa (pb_HostPort binding) else []))]"

text \<open>The bindings of the host configuration, the ports of the network settings, the exposed ports.\<close>

definition dockerPortBindingDocuments ::
  "Container \<Rightarrow> (string, json) gomap \<times> (string, json) gomap \<times> (string, json) gomap" where
  "dockerPortBindingDocuments c =
     (let bindings = clonePortBindings c;
          hostConfig = mmap (\<lambda>items. JArray (map host_port_json items)) bindings;
          networkPorts = mmap (\<lambda>items. let open_items = filter (\<lambda>b. pb_HostPort b > 0) items in
            if open_items = [] then JNull else JArray (map host_port_json open_items)) bindings;
          exposed = foldl (\<lambda>m key. mput m key (JObject []))
            [(itoa (d_ContainerPort (c_Spec c)) @ ''/tcp'', JObject [])] (mkeys bindings);
          networkPorts = foldl (\<lambda>m key. if mmem m key then m else mput m key JNull) networkPorts (mkeys exposed)
      in (hostConfig, networkPorts, exposed))"

section \<open>Networks of a container\<close>

definition networkGateway :: "Network \<Rightarrow> string" where
  "networkGateway n =
     (let fallback = (if n_Index n = 0 then ''127.19.0.1'' else ''127.20.'' @ itoa (n_Index n) @ ''.1'') in
      case jget (n_IPAM n) ''Config'' of
        JArray (item # _) \<Rightarrow> (case jget item ''Gateway'' of JString gateway \<Rightarrow> gateway | _ \<Rightarrow> fallback)
      | _ \<Rightarrow> fallback)"

definition networkEndpointFor :: "Container \<Rightarrow> Network \<Rightarrow> Endpoint \<Rightarrow> json" where
  "networkEndpointFor c n endpoint =
     (let aliases = uniqueStrings (ep_Aliases endpoint);
          dnsNames = uniqueStrings (aliases @ [c_Name c, take (min 12 (length (c_ID c))) (c_ID c)])
      in JObject [(''IPAMConfig'', JNull), (''Links'', JNull), (''Aliases'', jstrings aliases),
           (''MacAddress'', JString (macForContainer (c_ID c))), (''DriverOpts'', JNull), (''GwPriority'', JInt 0),
           (''NetworkID'', JString (n_ID n)), (''EndpointID'', JString (hashID (''endpoint:'' @ n_ID n @ c_ID c))),
           (''Gateway'', JString (networkGateway n)), (''IPAddress'', JString (endpointIPv4 endpoint)),
           (''IPPrefixLen'', JInt 24), (''IPv6Gateway'', JString []), (''GlobalIPv6Address'', JString []),
           (''GlobalIPv6PrefixLen'', JInt 0), (''DNSNames'', jstrings dnsNames)])"

definition containerNetworkEndpoints :: "Container \<Rightarrow> Engine \<Rightarrow> (string, json) gomap" where
  "containerNetworkEndpoints c e =
     foldl (\<lambda>out (key, n). case mget (n_Containers n) (c_ID c) of
        Some endpoint \<Rightarrow> mput out (n_Name n) (networkEndpointFor c n endpoint)
      | None \<Rightarrow> out) [] (e_networks e)"

section \<open>Status\<close>

text \<open>A duration that was rounded to seconds, half a second away from zero.\<close>

definition seconds_string :: "nat \<Rightarrow> string" where
  "seconds_string s =
     (if s < 60 then nat_digits s @ ''s''
      else if s < 3600 then nat_digits (s div 60) @ ''m'' @ nat_digits (s mod 60) @ ''s''
      else nat_digits (s div 3600) @ ''h'' @ nat_digits (s div 60 mod 60) @ ''m'' @ nat_digits (s mod 60) @ ''s'')"

definition round_seconds :: "nat \<Rightarrow> nat" where
  "round_seconds ns = (ns + 500000000) div 1000000000"

definition age_string :: "gotime \<Rightarrow> gotime \<Rightarrow> string" where
  "age_string now started =
     (case (now, started) of
        (UnixNano n, UnixNano s) \<Rightarrow>
          if s \<le> n then seconds_string (round_seconds (n - s))
          else (if round_seconds (s - n) = 0 then [] else ''-'') @ seconds_string (round_seconds (s - n))
      | _ \<Rightarrow> ''0s'')"

definition humanContainerStatus :: "gotime \<Rightarrow> Container \<Rightarrow> string" where
  "humanContainerStatus now c =
     (if c_Status c = sRunning then
        ''Up '' @ age_string now (c_Started c) @
        (if h_Status (c_Health c) \<noteq> [] \<and> \<not> c_healthDisabled c then '' ('' @ h_Status (c_Health c) @ '')'' else [])
      else if c_Status c = sRestarting then ''Restarting ('' @ itoa (c_ExitCode c) @ '') 1 second ago''
      else if c_Status c = sExited then ''Exited ('' @ itoa (c_ExitCode c) @ '') 1 second ago''
      else case c_Status c of
             [] \<Rightarrow> ''Unknown''
           | ch # rest \<Rightarrow> upper_char ch # rest)"

definition unix_seconds :: "gotime \<Rightarrow> int" where
  "unix_seconds t = (case t of ZeroTime \<Rightarrow> -62135596800 | UnixNano n \<Rightarrow> int (n div 1000000000))"

section \<open>Documents\<close>

definition containerListDocument :: "gotime \<Rightarrow> Container \<Rightarrow> (string, json) gomap \<Rightarrow> json" where
  "containerListDocument now c networks =
     JObject [(''Id'', JString (c_ID c)), (''Names'', jstrings [''/'' @ c_Name c]), (''Image'', JString (c_Image c)),
       (''ImageID'', JString (c_ImageID c)), (''Command'', JString (join '' '' (c_Command c))),
       (''Created'', JInt (unix_seconds (c_Created c))), (''Ports'', dockerPortSummary c), (''Labels'', jmap (c_Labels c)),
       (''State'', JString (c_Status c)), (''Status'', JString (humanContainerStatus now c)),
       (''HostConfig'', JObject [(''NetworkMode'', JString (c_NetworkMode c)), (''Annotations'', JNull)]),
       (''NetworkSettings'', JObject [(''Networks'', JObject networks)]), (''Mounts'', JArray [])]"

definition health_json :: "HealthState \<Rightarrow> json" where
  "health_json h = JObject [(''Status'', JString (h_Status h)), (''FailingStreak'', JInt (h_FailingStreak h)),
     (''Log'', JArray (map (\<lambda>l. JObject [(''Start'', JString (hl_Start l)), (''End'', JString (hl_End l)),
        (''ExitCode'', JInt (hl_ExitCode l)), (''Output'', JString (hl_Output l))]) (h_Log h)))]"

definition inspect_state :: "Container \<Rightarrow> json" where
  "inspect_state c =
     JObject ([(''Status'', JString (c_Status c)), (''Running'', JBool (c_Running c)), (''Paused'', JBool (c_Paused c)),
        (''Restarting'', JBool (c_Restarting c)), (''OOMKilled'', JBool (c_OOMKilled c)), (''Dead'', JBool (c_Dead c)),
        (''Pid'', JInt (c_Pid c)), (''ExitCode'', JInt (c_ExitCode c)), (''Error'', JString (c_Error c)),
        (''StartedAt'', JString (formatDockerTime (c_Started c))),
        (''FinishedAt'', JString (formatDockerTime (c_Finished c)))] @
       (if h_Status (c_Health c) \<noteq> [] \<and> \<not> c_healthDisabled c then [(''Health'', health_json (c_Health c))] else []))"

text \<open>What the request asked for replaces the default of the same field, with the stated exceptions.\<close>

definition override_fields :: "string list \<Rightarrow> (string, json) gomap \<Rightarrow> (string, json) gomap \<Rightarrow> (string, json) gomap" where
  "override_fields except requested defaults =
     foldl (\<lambda>m (field, value). if field \<in> set except then m else mput m field value) defaults requested"

definition requested_ports :: "Container \<Rightarrow> string list" where
  "requested_ports c = (case mget (c_requestedConfig c) ''ExposedPorts'' of Some (JObject m) \<Rightarrow> mkeys m | _ \<Rightarrow> [])"

definition merged_ports ::
  "Container \<Rightarrow> (string, json) gomap \<Rightarrow> (string, json) gomap \<Rightarrow> (string, json) gomap \<times> (string, json) gomap" where
  "merged_ports c networkPorts exposed =
     (foldl (\<lambda>m port. if mmem m port then m else mput m port JNull) networkPorts (requested_ports c),
      foldl (\<lambda>m port. mput m port (JObject [])) exposed (requested_ports c))"

definition default_config :: "Container \<Rightarrow> (string, json) gomap \<Rightarrow> (string, json) gomap" where
  "default_config c exposed =
     [(''Hostname'', JString (take 12 (c_ID c))), (''Domainname'', JString []), (''User'', JString []),
      (''AttachStdin'', JBool False), (''AttachStdout'', JBool True), (''AttachStderr'', JBool True),
      (''ExposedPorts'', JObject exposed), (''Tty'', JBool False), (''OpenStdin'', JBool False), (''StdinOnce'', JBool False),
      (''Env'', jstrings (c_Env c)), (''Cmd'', jstrings (c_Command c)),
      (''Healthcheck'', JObject [(''Test'', jstrings [''CMD-SHELL'', ''docker-zero-health'']),
         (''Interval'', JInt 5000000000), (''Timeout'', JInt 2000000000), (''Retries'', JInt 3)]),
      (''Image'', JString (c_Image c)), (''Volumes'', JNull), (''WorkingDir'', JString []), (''Entrypoint'', JNull),
      (''OnBuild'', JNull), (''Labels'', jmap (c_Labels c))]"

definition default_host_config :: "Container \<Rightarrow> (string, json) gomap \<Rightarrow> (string, json) gomap" where
  "default_host_config c hostPortBindings =
     [(''Binds'', JNull), (''ContainerIDFile'', JString []),
      (''LogConfig'', JObject [(''Type'', JString ''json-file''), (''Config'', JObject [])]),
      (''NetworkMode'', JString (c_NetworkMode c)), (''PortBindings'', JObject hostPortBindings),
      (''RestartPolicy'', JObject [(''Name'', JString (rp_Name (c_RestartPolicy c))),
         (''MaximumRetryCount'', JInt (rp_MaximumRetryCount (c_RestartPolicy c)))]),
      (''AutoRemove'', JBool False), (''VolumeDriver'', JString []), (''VolumesFrom'', JNull),
      (''ConsoleSize'', JArray [JInt 0, JInt 0]), (''CapAdd'', JNull), (''CapDrop'', JNull),
      (''CgroupnsMode'', JString ''private''), (''Dns'', jstrings [''127.0.0.11'']), (''DnsOptions'', JNull),
      (''DnsSearch'', JNull), (''ExtraHosts'', JNull), (''GroupAdd'', JNull), (''IpcMode'', JString ''private''),
      (''Cgroup'', JString []), (''Links'', JNull), (''OomScoreAdj'', JInt 0), (''PidMode'', JString []),
      (''Privileged'', JBool False), (''PublishAllPorts'', JBool False), (''ReadonlyRootfs'', JBool False),
      (''SecurityOpt'', JNull), (''UTSMode'', JString []), (''UsernsMode'', JString []), (''ShmSize'', JInt 67108864),
      (''Runtime'', JString ''runc''), (''Isolation'', JString []), (''CpuShares'', JInt 0), (''Memory'', JInt 0),
      (''NanoCpus'', JInt 0)]"

definition network_settings :: "Container \<Rightarrow> (string, json) gomap \<Rightarrow> (string, json) gomap \<Rightarrow> json" where
  "network_settings c networkPorts networks =
     JObject [(''Bridge'', JString []), (''SandboxID'', JString (hashID (''sandbox:'' @ c_ID c))),
       (''SandboxKey'', JString (''/var/run/docker/netns/'' @ take 12 (c_ID c))), (''Ports'', JObject networkPorts),
       (''HairpinMode'', JBool False), (''LinkLocalIPv6Address'', JString []), (''LinkLocalIPv6PrefixLen'', JInt 0),
       (''SecondaryIPAddresses'', JNull), (''SecondaryIPv6Addresses'', JNull),
       (''EndpointID'', JString (hashID (''endpoint:'' @ c_ID c))), (''Gateway'', JString ''127.0.0.1''),
       (''GlobalIPv6Address'', JString []), (''GlobalIPv6PrefixLen'', JInt 0), (''IPAddress'', JString (c_PrimaryIP c)),
       (''IPPrefixLen'', JInt 24), (''IPv6Gateway'', JString []), (''MacAddress'', JString (macForContainer (c_ID c))),
       (''Networks'', JObject networks)]"

definition process_command :: "Container \<Rightarrow> string list" where
  "process_command c =
     (case mget (c_requestedConfig c) ''Entrypoint'' of
        Some raw \<Rightarrow> (case decode_strings raw of Some entrypoint \<Rightarrow> entrypoint | None \<Rightarrow> [])
      | None \<Rightarrow> []) @ c_Command c"

text \<open>The slice \<^verbatim>\<open>id[:12]\<close> panics on an ID of fewer than 12 bytes.\<close>

definition containerInspectDocument :: "Container \<Rightarrow> (string, json) gomap \<Rightarrow> json go" where
  "containerInspectDocument c networks =
     (if length (c_ID c) < 12 then Panic ''slice bounds out of range''
      else
        let cid = c_ID c; dir = ''/var/lib/docker-zero/containers/'' @ cid;
            (hostPortBindings, networkPorts0, exposed0) = dockerPortBindingDocuments c;
            (networkPorts, exposed) = merged_ports c networkPorts0 exposed0
        in Ret (JObject [(''Id'', JString cid), (''Created'', JString (formatDockerTime (c_Created c))),
             (''Path'', JString (firstOrEmpty (process_command c))), (''Args'', jstrings (restOrEmpty (process_command c))),
             (''State'', inspect_state c), (''Image'', JString (c_ImageID c)),
             (''ResolvConfPath'', JString (dir @ ''/resolv.conf'')), (''HostnamePath'', JString (dir @ ''/hostname'')),
             (''HostsPath'', JString (dir @ ''/hosts'')), (''LogPath'', JString (dir @ ''/'' @ cid @ ''-json.log'')),
             (''Name'', JString (''/'' @ c_Name c)), (''RestartCount'', JInt (c_RestartCount c)),
             (''Driver'', JString ''docker-zero''), (''Platform'', JString ''linux''), (''MountLabel'', JString []),
             (''ProcessLabel'', JString []), (''AppArmorProfile'', JString []), (''ExecIDs'', JNull),
             (''HostConfig'', JObject (override_fields [''NetworkMode'', ''PortBindings'', ''RestartPolicy'']
                (c_requestedHostConfig c) (default_host_config c hostPortBindings))),
             (''GraphDriver'', JObject [(''Data'', JObject []), (''Name'', JString ''docker-zero'')]), (''Mounts'', JArray []),
             (''Config'', JObject (override_fields [''ExposedPorts''] (c_requestedConfig c) (default_config c exposed))),
             (''NetworkSettings'', network_settings c networkPorts networks),
             (''DockerZero'', JObject [(''ContainerPort'', JInt (d_ContainerPort (c_Spec c))),
                (''MetadataOnlyFields'', jstrings (c_metadataOnlyFields c)),
                (''HealthSource'', JString (if c_healthDisabled c then ''disabled''
                   else ''cookbook (healthcheck commands are not executed)''))])]))"

end
