(* ===== verification/Container_Config.thy ===== *)
theory Container_Config
  imports Container_State
begin

text \<open>
  The request for a new container (\<^verbatim>\<open>docker_api_container_create.go\<close>, \<^verbatim>\<open>container_config.go\<close>): what is
  checked, what is stored and which port bindings it gives. The request is a decoded value; raw JSON
  members are kept as JSON values.
\<close>

record HealthcheckConfig =
  hc_Test :: "string list"
  hc_Interval :: int
  hc_Timeout :: int
  hc_Retries :: int
  hc_StartPeriod :: int

record HostBinding =
  hb_HostIP :: string
  hb_HostPort :: string

record createContainerRequest =
  cr_rawConfig :: "(string, json) gomap"
  cr_rawHostConfig :: "(string, json) gomap"
  cr_User :: string
  cr_WorkingDir :: string
  cr_Entrypoint :: "string list"
  cr_Healthcheck :: "HealthcheckConfig option"
  cr_Tty :: bool
  cr_Hostname :: string
  cr_Image :: string
  cr_Cmd :: "string list"
  cr_Env :: "string list"
  cr_Labels :: "(string, string) gomap"
  cr_ExposedPorts :: "(string, json) gomap"
  cr_RestartPolicy :: RestartPolicy
  cr_NetworkMode :: string
  cr_PortBindings :: "(string, HostBinding list) gomap"
  cr_EndpointsConfig :: "(string, string list) gomap"

text \<open>An empty policy name is replaced in the request itself.\<close>

definition normalizedPolicy :: "RestartPolicy \<Rightarrow> RestartPolicy" where
  "normalizedPolicy policy = (if rp_Name policy = [] then policy\<lparr>rp_Name := ''no''\<rparr> else policy)"

definition healthcheck_error :: "HealthcheckConfig \<Rightarrow> string option" where
  "healthcheck_error health =
     (case hc_Test health of
        [] \<Rightarrow> None
      | t # args \<Rightarrow>
          if t = ''NONE'' then check (args \<noteq> []) ''NONE healthcheck must not contain a command''
          else if t = ''CMD'' \<or> t = ''CMD-SHELL'' then check (args = []) ''healthcheck command is required''
          else Some (''invalid healthcheck test type '' @ quote t))"

definition validateMetadata :: "createContainerRequest \<Rightarrow> string option \<times> createContainerRequest" where
  "validateMetadata r =
     (let policy = normalizedPolicy (cr_RestartPolicy r); r' = r\<lparr>cr_RestartPolicy := policy\<rparr> in
      if rp_Name policy \<notin> set [''no'', ''always'', ''unless-stopped'', ''on-failure''] then
        (Some (''invalid restart policy '' @ quote (rp_Name policy)), r')
      else if rp_MaximumRetryCount policy < 0 \<or>
              rp_Name policy \<noteq> ''on-failure'' \<and> rp_MaximumRetryCount policy \<noteq> 0 then
        (Some ''MaximumRetryCount must be nonnegative and is only valid with on-failure'', r')
      else
        ((case cr_Healthcheck r of None \<Rightarrow> None | Some health \<Rightarrow> healthcheck_error health), r'))"

definition metadata_fields :: "createContainerRequest \<Rightarrow> string list" where
  "metadata_fields r =
     map (\<lambda>field. ''Config.'' @ field)
       (filter (\<lambda>field. field \<notin> set [''Image'', ''Labels'', ''ExposedPorts'']) (mkeys (cr_rawConfig r))) @
     map (\<lambda>field. ''HostConfig.'' @ field)
       (filter (\<lambda>field. field \<notin> set [''NetworkMode'', ''PortBindings'', ''RestartPolicy'']) (mkeys (cr_rawHostConfig r)))"

definition storeRequestedConfig :: "createContainerRequest \<Rightarrow> Container \<Rightarrow> string list \<times> Container" where
  "storeRequestedConfig r c =
     (let stored = sort (c_metadataOnlyFields c @ metadata_fields r);
          c' = c\<lparr>c_requestedConfig := cr_rawConfig r, c_requestedHostConfig := cr_rawHostConfig r,
                 c_RestartPolicy := cr_RestartPolicy r,
                 c_healthDisabled := (case cr_Healthcheck r of
                    Some health \<Rightarrow> (case hc_Test health of t # _ \<Rightarrow> t = ''NONE'' | [] \<Rightarrow> False) | None \<Rightarrow> False),
                 c_metadataOnlyFields := stored\<rparr>
      in (map (\<lambda>field. ''docker-zero: '' @ field @ '' is stored as metadata; it is not executed or enforced'') stored, c'))"

section \<open>Port bindings\<close>

definition host_binding :: "string \<Rightarrow> int \<Rightarrow> string \<Rightarrow> HostBinding \<Rightarrow> string + PortBinding" where
  "host_binding key port protocol item =
     (let hostIP = (if trim_space (hb_HostIP item) = [] then ''0.0.0.0'' else trim_space (hb_HostIP item));
          binding = (\<lambda>requested. \<lparr>pb_HostIP = hostIP, pb_RequestedHostPort = requested, pb_HostPort = requested,
             pb_Protocol = protocol, pb_ContainerPort = port\<rparr>)
      in if trim_space (hb_HostPort item) = [] then Inr (binding 0)
         else let (value, ok) = atoi (hb_HostPort item) in
           if \<not> ok \<or> value < 0 \<or> value > 65535
           then Inl (''invalid host port '' @ quote (hb_HostPort item) @ '' for '' @ key)
           else Inr (binding value))"

fun host_bindings :: "string \<Rightarrow> int \<Rightarrow> string \<Rightarrow> HostBinding list \<Rightarrow> string + PortBinding list" where
  "host_bindings key port protocol [] = Inr []"
| "host_bindings key port protocol (item # items) =
     (case host_binding key port protocol item of
        Inl err \<Rightarrow> Inl err
      | Inr b \<Rightarrow> (case host_bindings key port protocol items of Inl err \<Rightarrow> Inl err | Inr bs \<Rightarrow> Inr (b # bs)))"

text \<open>A key without items leaves no entry: entries are made by appending.\<close>

fun port_bindings :: "(string, HostBinding list) gomap \<Rightarrow> string + (string, PortBinding list) gomap" where
  "port_bindings [] = Inr []"
| "port_bindings ((key, items) # rest) =
     (let parts = split2_on (CHR ''/'') key; (port, ok) = atoi (parts ! 0) in
      if \<not> ok \<or> port < 1 \<or> port > 65535 then Inl (''invalid container port binding '' @ quote key)
      else
        let protocol = (if length parts = 2 \<and> parts ! 1 \<noteq> [] then to_lower (parts ! 1) else ''tcp'') in
        case host_bindings key port protocol items of
          Inl err \<Rightarrow> Inl err
        | Inr bs \<Rightarrow>
            (case port_bindings rest of
               Inl err \<Rightarrow> Inl err
             | Inr m \<Rightarrow> Inr (if bs = [] then m else (key, bs) # m)))"

definition configureContainerPortBindings ::
  "(string, HostBinding list) gomap \<Rightarrow> Container \<Rightarrow> string option \<times> Container" where
  "configureContainerPortBindings input c =
     (case port_bindings input of
        Inl err \<Rightarrow> (Some err, c)
      | Inr bindings \<Rightarrow> (None, setPortBindings bindings c))"

end
