(* ===== verification/Docker_Api.thy ===== *)
theory Docker_Api
  imports Engine_Core Docker_Documents Container_Config
begin

text \<open>
  The handlers for containers (\<^verbatim>\<open>docker_api_container_create.go\<close>, \<^verbatim>\<open>docker_api_container_action.go\<close>,
  \<^verbatim>\<open>container_wait.go\<close>). A request has its query values and, for each type a handler decodes the body
  into, what \<^verbatim>\<open>decodeJSON\<close> gives. A handler answers, except that a wait answers later.
\<close>

record network_request =
  nr_Name :: string
  nr_Driver :: string
  nr_Labels :: "(string, string) gomap"

record connect_request =
  co_Container :: string
  co_Aliases :: "string list"

record volume_request =
  vr_Name :: string
  vr_Driver :: string
  vr_DriverOpts :: "(string, string) gomap"
  vr_Labels :: "(string, string) gomap"

record api_request =
  q_Method :: string
  q_Path :: string
  q_RawQuery :: string
  q_RemoteAddr :: string
  q_Query :: "(string, string) gomap"
  q_Filters :: "string + (string, json) gomap"
  q_Create :: "string + createContainerRequest"
  q_Network :: "string + network_request"
  q_Connect :: "string + connect_request"
  q_Volume :: "string + volume_request"
  q_Exec :: "string + string list"

record pending_wait =
  pw_Container :: string
  pw_Waiter :: nat
  pw_Condition :: string
  pw_Before :: ContainerStateSnapshot

datatype api_result = Answer api_response | Waiting pending_wait

definition query :: "api_request \<Rightarrow> string \<Rightarrow> string" where
  "query rq key = mget_or [] (q_Query rq) key"

definition answer :: "api_response \<Rightarrow> api_result em" where
  "answer response = ereturn (Answer response)"

section \<open>Creating and listing\<close>

definition create_status :: "string \<Rightarrow> int" where
  "create_status err = (if contains (to_lower err) ''conflict'' then 409 else 400)"

text \<open>What follows the creation: the request is stored, ports and networks are set up or all is undone.\<close>

definition configure_created :: "createContainerRequest \<Rightarrow> string \<Rightarrow> (string + string list) em" where
  "configure_created request cid =
     ebind (container_do cid (of_pure (storeRequestedConfig request))) (\<lambda>warnings.
     ebind (container_do cid (of_pure (configureContainerPortBindings (cr_PortBindings request)))) (\<lambda>bindingErr.
     case bindingErr of
       Some err \<Rightarrow> ethen (removeContainer cid True) (ereturn (Inl err))
     | None \<Rightarrow>
         ebind (elift (configureContainerNetworks cid (cr_NetworkMode request) (cr_EndpointsConfig request))) (\<lambda>networkErr.
         case networkErr of
           Some err \<Rightarrow> ethen (removeContainer cid True) (ereturn (Inl err))
         | None \<Rightarrow> ereturn (Inr warnings))))"

definition create_failed :: "string \<Rightarrow> api_result em" where
  "create_failed err = answer (writeDockerError (create_status err) err)"

definition handleContainerCreate :: "api_request \<Rightarrow> api_result em" where
  "handleContainerCreate rq =
     (case q_Create rq of
        Inl err \<Rightarrow> answer (writeDockerError 400 (''invalid container config: '' @ err))
      | Inr request0 \<Rightarrow>
          (case validateMetadata request0 of
             (Some err, request) \<Rightarrow> answer (writeDockerError 400 err)
           | (None, request) \<Rightarrow>
               ebind (createContainer (query rq ''name'') (cr_Image request) (cr_Labels request) (cr_Env request) (cr_Cmd request)) (\<lambda>created.
               case created of
                 Inl err \<Rightarrow> create_failed err
               | Inr cid \<Rightarrow>
                   ebind (configure_created request cid) (\<lambda>result.
                   case result of
                     Inl err \<Rightarrow> create_failed err
                   | Inr warnings \<Rightarrow>
                       answer (writeJSON 201 (JObject [(''Id'', JString cid), (''Warnings'', jstrings warnings)]))))))"

definition list_one :: "bool \<Rightarrow> dockerFilters \<Rightarrow> string \<Rightarrow> json option em" where
  "list_one all filters cid =
     ebind (container_at cid (\<lambda>now. advance now ''docker.list'')) (\<lambda>adv.
     ethen (syncRuntimeForState cid)
     (ethen (logContainerEvent cid ''container.list'' adv JNull JNull)
     (ebind (container_get cid (\<lambda>c. c)) (\<lambda>c.
      if \<not> all \<and> \<not> isDockerPSVisible c then ereturn None
      else if \<not> containerMatchesFilters c filters then ereturn None
      else
        ebind (eread (containerNetworkEndpoints c)) (\<lambda>networks.
        ebind enow (\<lambda>now. ereturn (Some (containerListDocument now c networks))))))))"

definition somes :: "'a option list \<Rightarrow> 'a list" where
  "somes xs = concat (map (\<lambda>x. case x of None \<Rightarrow> [] | Some y \<Rightarrow> [y]) xs)"

definition handleContainerList :: "api_request \<Rightarrow> api_result em" where
  "handleContainerList rq =
     (case parseDockerFilters (q_Filters rq) of
        Inl err \<Rightarrow> answer (writeDockerError 400 (''invalid filters: '' @ err))
      | Inr filters \<Rightarrow>
          ebind (eread (\<lambda>e. map c_ID (listContainers True e))) (\<lambda>cids.
          ebind (emap (list_one (parseBoolQuery (query rq ''all'')) filters) cids) (\<lambda>docs.
          answer (writeJSON 200 (JArray (somes docs))))))"

section \<open>Waiting\<close>

definition wait_conditions :: "string list" where
  "wait_conditions = [''not-running'', ''next-exit'', ''removed'']"

definition handleContainerWait :: "api_request \<Rightarrow> string \<Rightarrow> api_result em" where
  "handleContainerWait rq cid =
     (let condition = (if query rq ''condition'' = [] then ''not-running'' else query rq ''condition'') in
      if condition \<notin> set wait_conditions then answer (writeDockerError 400 (''invalid wait condition: '' @ condition))
      else
        ebind (container_get cid stateSnapshot) (\<lambda>before.
        ebind (container_do cid (of_pure (subscribeWait condition))) (\<lambda>w.
        ereturn (Waiting \<lparr>pw_Container = cid, pw_Waiter = w, pw_Condition = condition, pw_Before = before\<rparr>))))"

text \<open>
  The end of a wait. The container is the one the engine holds under the ID or one it has removed. A
  result that was sent is written; without one the client has gone, and nothing is.
\<close>

definition container_object :: "string \<Rightarrow> Engine \<Rightarrow> Container option" where
  "container_object cid e =
     (case mget (e_containers e) cid of Some c \<Rightarrow> Some c | None \<Rightarrow> find (\<lambda>c. c_ID c = cid) (e_detached e))"

definition wait_json :: "containerWaitResult \<Rightarrow> json" where
  "wait_json r = JObject [(''StatusCode'', JInt (w_StatusCode r)),
     (''Error'', case w_Error r of None \<Rightarrow> JNull | Some m \<Rightarrow> JObject [(''Message'', JString m)])]"

definition finishWait :: "pending_wait \<Rightarrow> api_response option em" where
  "finishWait pw =
     ebind (eread (container_object (pw_Container pw))) (\<lambda>object.
     case object of
       None \<Rightarrow> ereturn None
     | Some c \<Rightarrow>
         let log = (\<lambda>event response. elog ((container_entry c)\<lparr>le_Channel := ''docker'', le_Event := event,
               le_Request := JObject [(''condition'', JString (pw_Condition pw))], le_Response := response,
               le_Before := Some (pw_Before pw), le_After := Some (stateSnapshot c)\<rparr>));
             unsubscribe = emodify (\<lambda>e. e\<lparr>e_containers := (case mget (e_containers e) (pw_Container pw) of
               None \<Rightarrow> e_containers e
             | Some c \<Rightarrow> mput (e_containers e) (pw_Container pw) (cancelWait (pw_Waiter pw) c))\<rparr>)
         in case mget (c_sent c) (pw_Waiter pw) of
              Some result \<Rightarrow>
                ethen (log ''container.wait'' (wait_json result))
                  (ethen unsubscribe (ereturn (Some (writeJSON 200 (wait_json result)))))
            | None \<Rightarrow>
                ethen (log ''container.wait.cancelled'' JNull) (ethen unsubscribe (ereturn None)))"

section \<open>Operations on a container\<close>

definition action_inspect :: "string \<Rightarrow> api_result em" where
  "action_inspect cid =
     ebind (container_at cid (\<lambda>now. advance now ''docker.inspect'')) (\<lambda>adv.
     ethen (syncRuntimeForState cid)
     (ebind (container_get cid (\<lambda>c. c)) (\<lambda>c.
      ebind (eread (containerNetworkEndpoints c)) (\<lambda>networks.
      ebind (\<lambda>e. go_bind (containerInspectDocument c networks) (\<lambda>doc. Ret (doc, e))) (\<lambda>doc.
      ethen (logContainerEvent cid ''container.inspect'' adv JNull (JObject [(''status'', JString (c_Status c))]))
        (answer (writeJSON 200 doc)))))))"

text \<open>A start whose runtime cannot be brought up leaves the container exited with code 128.\<close>

definition start_failed :: "string \<Rightarrow> string \<Rightarrow> ContainerStateSnapshot \<Rightarrow> string \<Rightarrow> api_result em" where
  "start_failed cid event before err =
     ebind (container_at cid (\<lambda>now. applyPatch now (bind_failed_patch err))) (\<lambda>(snap, after).
     ethen (elog_container cid (\<lambda>entry. entry\<lparr>le_Channel := ''docker'', le_Event := event,
        le_Response := JObject [(''error'', JString err)], le_Before := Some before, le_After := Some after\<rparr>))
       (answer (writeDockerError 500 err)))"

definition finish_action :: "string \<Rightarrow> string \<Rightarrow> string \<Rightarrow> ContainerStateSnapshot \<Rightarrow> int \<Rightarrow> api_result em" where
  "finish_action cid event logged before statusCode =
     ebind (container_at cid (\<lambda>now. advance now event)) (\<lambda>adv.
     ethen (logContainerEvent cid logged (adv\<lparr>ea_Before := before\<rparr>) JNull (JObject [(''status'', JInt statusCode)]))
       (answer (writeHeader statusCode)))"

definition action_start :: "string \<Rightarrow> api_result em" where
  "action_start cid =
     ebind (container_get cid stateSnapshot) (\<lambda>before.
     if ss_Running before \<and> \<not> ss_Restarting before then
       finish_action cid ''docker.start'' ''container.start'' before 304
     else
       ethen (container_at cid start)
       (ebind (startContainerRuntime cid) (\<lambda>runtimeErr.
        case runtimeErr of
          Some err \<Rightarrow> start_failed cid ''container.start.failed'' before err
        | None \<Rightarrow> finish_action cid ''docker.start'' ''container.start'' before 204)))"

definition action_stop :: "string \<Rightarrow> api_result em" where
  "action_stop cid =
     ebind (container_get cid stateSnapshot) (\<lambda>before.
     if \<not> ss_Running before \<and> \<not> ss_Restarting before then
       finish_action cid ''docker.stop'' ''container.stop'' before 304
     else
       ethen (stopContainerRuntime cid)
       (ethen (container_at cid (\<lambda>now. stop now 0))
        (finish_action cid ''docker.stop'' ''container.stop'' before 204)))"

definition log_change :: "string \<Rightarrow> string \<Rightarrow> snapshots \<Rightarrow> unit em" where
  "log_change cid event snaps = elog_container cid (\<lambda>entry. entry\<lparr>le_Channel := ''docker'', le_Event := event,
     le_Before := Some (fst snaps), le_After := Some (snd snaps)\<rparr>)"

definition action_pause :: "string \<Rightarrow> api_result em" where
  "action_pause cid =
     ebind (container_do cid (of_pure pause)) (\<lambda>(snaps, err).
     case err of
       Some m \<Rightarrow> answer (writeDockerError 500 m)
     | None \<Rightarrow> ethen (log_change cid ''container.pause'' snaps) (answer (writeHeader 204)))"

definition action_unpause :: "string \<Rightarrow> api_result em" where
  "action_unpause cid =
     ebind (container_do cid (of_pure unpause)) (\<lambda>(snaps, err).
     case err of
       Some m \<Rightarrow> answer (writeDockerError 500 m)
     | None \<Rightarrow> ethen (log_change cid ''container.unpause'' snaps) (answer (writeHeader 204)))"

definition action_restart :: "string \<Rightarrow> api_result em" where
  "action_restart cid =
     ebind (container_get cid stateSnapshot) (\<lambda>before.
     ethen (stopContainerRuntime cid)
     (ethen (container_at cid restart)
     (ebind (container_at cid (\<lambda>now. advance now ''docker.restart'')) (\<lambda>adv.
      ebind (container_get cid stateSnapshot) (\<lambda>state.
      ethen (if ss_Restarting state \<or> ss_Status state = sRestarting
             then ethen (container_at cid start) (ereturn ()) else ereturn ())
      (ebind (startContainerRuntime cid) (\<lambda>runtimeErr.
       case runtimeErr of
         Some err \<Rightarrow> start_failed cid ''container.restart.failed'' before err
       | None \<Rightarrow>
           ebind (container_get cid stateSnapshot) (\<lambda>after.
           ethen (logContainerEvent cid ''container.restart'' (adv\<lparr>ea_Before := before, ea_After := after\<rparr>) JNull JNull)
             (answer (writeHeader 204)))))))))) "

definition action_kill :: "api_request \<Rightarrow> string \<Rightarrow> api_result em" where
  "action_kill rq cid =
     (if query rq ''signal'' \<notin> set [[], ''9'', ''KILL'', ''SIGKILL''] then
        answer (writeUnsupportedDockerError 501 ''only SIGKILL (the default kill signal) is simulated'')
      else
        ebind (container_at cid kill) (\<lambda>(snaps, err).
        case err of
          Some m \<Rightarrow> answer (writeDockerError 409 m)
        | None \<Rightarrow>
            ethen (stopContainerRuntime cid)
              (ethen (log_change cid ''container.kill'' snaps) (answer (writeHeader 204)))))"

definition action_logs :: "string \<Rightarrow> api_result em" where
  "action_logs cid =
     ebind (container_at cid (\<lambda>now. advance now ''docker.logs'')) (\<lambda>adv.
     ebind (container_get cid allLogs) (\<lambda>logs.
     ethen (logContainerEvent cid ''container.logs'' adv JNull (JObject [(''bytes'', JInt (int (length logs)))]))
       (answer \<lparr>ar_Status = 200, ar_Unsupported = False, ar_Body = TextBody (writeDockerStreamFrame (CHR 0x01) logs)\<rparr>)))"

definition action_top :: "string \<Rightarrow> api_result em" where
  "action_top cid =
     ebind (container_at cid (\<lambda>now. advance now ''docker.top'')) (\<lambda>adv.
     ethen (logContainerEvent cid ''container.top'' adv JNull JNull)
       (answer (writeJSON 200 (JObject [(''Titles'', jstrings [''UID'', ''PID'', ''PPID'', ''C'', ''STIME'', ''TTY'', ''TIME'', ''CMD'']),
          (''Processes'', JArray [])]))))"

definition action_exec :: "api_request \<Rightarrow> string \<Rightarrow> api_result em" where
  "action_exec rq cid =
     ebind (container_get cid stateSnapshot) (\<lambda>state.
     answer
       (if ss_Paused state then writeDockerError 409 ''container is paused, unpause the container before exec''
        else if \<not> ss_Running state \<or> ss_Restarting state \<or> ss_Dead state then writeDockerError 409 ''container is not running''
        else case q_Exec rq of
               Inl err \<Rightarrow> writeDockerError 400 err
             | Inr cmd \<Rightarrow>
                 if firstOrEmpty cmd = [] then writeDockerError 400 ''no command specified''
                 else writeUnsupportedDockerError 501 ''exec is not simulated: no container processes are executed''))"

definition action_remove :: "api_request \<Rightarrow> string \<Rightarrow> api_result em" where
  "action_remove rq ref =
     ebind (removeContainer ref (parseBoolQuery (query rq ''force''))) (\<lambda>err.
     case err of
       Some m \<Rightarrow> answer (writeDockerError 409 m)
     | None \<Rightarrow> answer (writeHeader 204))"

definition handleContainerAction :: "api_request \<Rightarrow> string \<Rightarrow> api_result em" where
  "handleContainerAction rq rest =
     (let parts = split_on (CHR ''/'') rest; m = q_Method rq in
      if hd parts = [] then answer (writeDockerError 404 ''container reference is required'')
      else
        let ref = PathUnescape (hd parts); action = (if length parts > 1 then parts ! 1 else ''json'') in
        ebind (eread (findContainer ref)) (\<lambda>found.
        case found of
          Inl err \<Rightarrow> answer (writeDockerError 404 err)
        | Inr cid \<Rightarrow>
            if action = ''json'' \<and> m = ''GET'' then action_inspect cid
            else if action = ''start'' \<and> m = ''POST'' then action_start cid
            else if action = ''stop'' \<and> m = ''POST'' then action_stop cid
            else if action = ''pause'' \<and> m = ''POST'' then action_pause cid
            else if action = ''unpause'' \<and> m = ''POST'' then action_unpause cid
            else if action = ''restart'' \<and> m = ''POST'' then action_restart cid
            else if action = ''kill'' \<and> m = ''POST'' then action_kill rq cid
            else if action = ''wait'' \<and> m = ''POST'' then handleContainerWait rq cid
            else if action = ''logs'' \<and> m = ''GET'' then action_logs cid
            else if action = ''top'' \<and> m = ''GET'' then action_top cid
            else if action = ''exec'' \<and> m = ''POST'' then action_exec rq cid
            else if action = ''archive'' \<and> (m = ''PUT'' \<or> m = ''HEAD'' \<or> m = ''GET'') then
              answer (writeUnsupportedDockerError 501 ''archive operations are not simulated: no container filesystem exists'')
            else if action = ''json'' \<and> m = ''DELETE'' \<or> length parts = 1 \<and> m = ''DELETE'' then action_remove rq ref
            else answer (writeUnsupportedDockerError 404 (''unsupported container operation: '' @ m @ '' '' @ action))))"

end
