(* ===== verification/Cookbook_Json.thy ===== *)
theory Cookbook_Json
  imports Cookbook_Types Go_Json
begin

text \<open>
  A cookbook as JSON, after the tags of its types (\<^verbatim>\<open>cookbook_types.go\<close>): a member marked
  \<^verbatim>\<open>omitempty\<close> is left out when it is the zero value, but a struct is never empty.
\<close>

definition omit_int :: "string \<Rightarrow> int \<Rightarrow> (string \<times> json) list" where
  "omit_int key n = (if n = 0 then [] else [(key, JInt n)])"

definition omit_string :: "string \<Rightarrow> string \<Rightarrow> (string \<times> json) list" where
  "omit_string key s = (if s = [] then [] else [(key, JString s)])"

definition omit_bool :: "string \<Rightarrow> bool \<Rightarrow> (string \<times> json) list" where
  "omit_bool key b = (if b then [(key, JBool b)] else [])"

definition omit_nil :: "string \<Rightarrow> ('a \<Rightarrow> json) \<Rightarrow> 'a option \<Rightarrow> (string \<times> json) list" where
  "omit_nil key f x = (case x of None \<Rightarrow> [] | Some v \<Rightarrow> [(key, f v)])"

definition omit_empty :: "string \<Rightarrow> bool \<Rightarrow> json \<Rightarrow> (string \<times> json) list" where
  "omit_empty key isEmpty v = (if isEmpty then [] else [(key, v)])"

definition patch_json :: "StatePatch \<Rightarrow> json" where
  "patch_json p = JObject (omit_nil ''status'' JString (p_Status p) @ omit_nil ''running'' JBool (p_Running p) @
     omit_nil ''restarting'' JBool (p_Restarting p) @ omit_nil ''dead'' JBool (p_Dead p) @
     omit_nil ''health'' JString (p_Health p) @ omit_nil ''exit_code'' JInt (p_ExitCode p) @
     omit_nil ''error'' JString (p_Error p) @ omit_nil ''restart_count'' JInt (p_RestartCount p) @
     omit_int ''restart_count_delta'' (p_RestartCountDelta p))"

definition transition_json :: "Transition \<Rightarrow> json" where
  "transition_json t = JObject ([(''event'', JString (t_Event t))] @ omit_int ''count'' (t_Count t) @
     omit_string ''when_status'' (t_WhenStatus t) @ omit_string ''when_health'' (t_WhenHealth t) @
     omit_bool ''once'' (t_Once t) @ [(''set'', patch_json (t_Set t))])"

definition http_response_json :: "HTTPResponse \<Rightarrow> json" where
  "http_response_json r = JObject ([(''from'', JInt (hr_From r))] @ omit_string ''when_status'' (hr_WhenStatus r) @
     omit_string ''when_health'' (hr_WhenHealth r) @ [(''status'', JInt (hr_Status r))] @
     omit_empty ''headers'' (hr_Headers r = []) (jmap (hr_Headers r)) @ omit_string ''body'' (hr_Body r) @
     omit_int ''delay_ms'' (hr_DelayMS r) @ omit_bool ''close'' (hr_Close r) @ [(''set'', patch_json (hr_StatePatch r))])"

definition redis_response_json :: "RedisResponse \<Rightarrow> json" where
  "redis_response_json r = JObject ([(''from'', JInt (rr_From r))] @ omit_string ''when_status'' (rr_WhenStatus r) @
     omit_string ''when_health'' (rr_WhenHealth r) @ omit_string ''reply'' (rr_Reply r) @
     omit_int ''delay_ms'' (rr_DelayMS r) @ omit_bool ''close'' (rr_Close r) @ [(''set'', patch_json (rr_StatePatch r))])"

definition scenario_json :: "Scenario \<Rightarrow> json" where
  "scenario_json s = JObject ([(''description'', JString (s_Description s)), (''initial'', patch_json (s_Initial s))] @
     omit_empty ''transitions'' (s_Transitions s = []) (JArray (map transition_json (s_Transitions s))) @
     omit_empty ''http'' (s_HTTP s = []) (JObject (mmap (\<lambda>rs. JArray (map http_response_json rs)) (s_HTTP s))) @
     omit_empty ''redis'' (s_Redis s = []) (JObject (mmap (\<lambda>rs. JArray (map redis_response_json rs)) (s_Redis s))))"

definition defaults_json :: "ServiceDefaults \<Rightarrow> json" where
  "defaults_json d = JObject [(''name'', JString (d_Name d)), (''image'', JString (d_Image d)),
     (''service_type'', JString (d_ServiceType d)), (''ip_address'', JString (d_IPAddress d)),
     (''container_port'', JInt (d_ContainerPort d)), (''host_ip'', JString (d_HostIP d)), (''host_port'', JInt (d_HostPort d))]"

definition cookbook_json :: "Cookbook \<Rightarrow> json" where
  "cookbook_json cb = JObject [(''kind'', JString (cb_Kind cb)), (''image_names'', jstrings (cb_ImageNames cb)),
     (''defaults'', defaults_json (cb_Defaults cb)), (''seeds'', JObject (mmap scenario_json (cb_Seeds cb)))]"

end
