(* ===== verification/Docker_Server.thy ===== *)
theory Docker_Server
  imports Docker_Api Cookbook_Json
begin

text \<open>
  The handlers for images, networks and volumes, and the routing of a request
  (\<^verbatim>\<open>docker_api_images_networks.go\<close>, \<^verbatim>\<open>docker_api_volumes_exec.go\<close>, \<^verbatim>\<open>docker_api_server.go\<close>).
\<close>

section \<open>Images\<close>

definition image_json :: "gotime \<Rightarrow> Cookbook \<Rightarrow> json" where
  "image_json startedAt cb =
     JObject [(''Containers'', JInt (-1)), (''Created'', JInt (unix_seconds startedAt)),
       (''Id'', JString (imageID (d_Image (cb_Defaults cb)))), (''Labels'', jmap [(''docker-zero.kind'', cb_Kind cb)]),
       (''ParentId'', JString []), (''RepoDigests'', JArray []), (''RepoTags'', jstrings [d_Image (cb_Defaults cb)]),
       (''SharedSize'', JInt (-1)), (''Size'', JInt 0), (''VirtualSize'', JInt 0)]"

definition handleImageList :: "api_result em" where
  "handleImageList =
     ebind (eread (\<lambda>e. map (image_json (e_startedAt e))
        (somes (map (mget (e_cookbooks e)) (sortedCookbookKinds (e_cookbooks e)))))) (\<lambda>images.
     answer (writeJSON 200 (JArray images)))"

text \<open>The three documents of a pull are one array here; the source writes them one after the other.\<close>

definition handleImageCreate :: "api_request \<Rightarrow> api_result em" where
  "handleImageCreate rq =
     (let fromImage = query rq ''fromImage''; tag = query rq ''tag'';
          img = (if tag \<noteq> [] \<and> \<not> contains fromImage '':'' then fromImage @ '':'' @ tag else fromImage)
      in ethen (elog (zeroEntry\<lparr>le_Channel := ''docker'', le_Event := ''image.pull'',
             le_Request := JObject [(''image'', JString img)]\<rparr>))
           (answer (writeJSON 200 (JArray
              [JObject [(''status'', JString ''Pulling from docker-zero''), (''id'', JString img)],
               JObject [(''status'', JString (''Digest: '' @ imageID img))],
               JObject [(''status'', JString ''Status: Image is simulated''), (''id'', JString img)]]))))"

definition image_config :: "Cookbook \<Rightarrow> json" where
  "image_config cb =
     JObject [(''Hostname'', JString []), (''Domainname'', JString []), (''User'', JString []), (''AttachStdin'', JBool False),
       (''AttachStdout'', JBool False), (''AttachStderr'', JBool False), (''Tty'', JBool False), (''OpenStdin'', JBool False),
       (''StdinOnce'', JBool False), (''Env'', JArray []), (''Cmd'', JArray []), (''Image'', JString []), (''Volumes'', JNull),
       (''WorkingDir'', JString []), (''Entrypoint'', JNull), (''OnBuild'', JNull),
       (''Labels'', jmap [(''docker-zero.kind'', cb_Kind cb)])]"

definition image_document :: "string \<Rightarrow> gotime \<Rightarrow> Cookbook \<Rightarrow> json" where
  "image_document arch startedAt cb =
     JObject [(''Id'', JString (imageID (d_Image (cb_Defaults cb)))), (''RepoTags'', jstrings [d_Image (cb_Defaults cb)]),
       (''RepoDigests'', JArray []), (''Parent'', JString []), (''Comment'', JString ''docker-zero simulated image''),
       (''Created'', JString (formatDockerTime startedAt)), (''ContainerConfig'', JObject []),
       (''DockerVersion'', JString engineVersion), (''Author'', JString ''docker-zero''), (''Config'', image_config cb),
       (''Architecture'', JString arch), (''Os'', JString ''linux''), (''Size'', JInt 0), (''VirtualSize'', JInt 0),
       (''GraphDriver'', JObject [(''Data'', JObject []), (''Name'', JString ''docker-zero'')]),
       (''RootFS'', JObject [(''Type'', JString ''layers''), (''Layers'', JArray [])]),
       (''Metadata'', JObject [(''LastTagTime'', JString (formatDockerTime startedAt))])]"

definition handleImageInspect :: "string \<Rightarrow> api_result em" where
  "handleImageInspect name =
     ebind (eread (\<lambda>e. case cookbookFor (e_cookbooks e) [] name of
        Inl err \<Rightarrow> writeDockerError 404 (''No such simulated image: '' @ name)
      | Inr cb \<Rightarrow> writeJSON 200 (image_document (env_GOARCH (e_env e)) (e_startedAt e) cb))) answer"

section \<open>Networks\<close>

definition endpoint_json :: "Endpoint \<Rightarrow> json" where
  "endpoint_json ep = JObject [(''Name'', JString (ep_Name ep)), (''EndpointID'', JString (ep_EndpointID ep)),
     (''MacAddress'', JString (ep_MacAddress ep)), (''IPv4Address'', JString (ep_IPv4Address ep)),
     (''IPv6Address'', JString (ep_IPv6Address ep)), (''Aliases'', jstrings (ep_Aliases ep))]"

definition network_json :: "Network \<Rightarrow> json" where
  "network_json n =
     JObject [(''Name'', JString (n_Name n)), (''Id'', JString (n_ID n)), (''Created'', JString (n_Created n)),
       (''Scope'', JString (n_Scope n)), (''Driver'', JString (n_Driver n)), (''EnableIPv6'', JBool (n_EnableIPv6 n)),
       (''Internal'', JBool (n_Internal n)), (''Attachable'', JBool (n_Attachable n)), (''Ingress'', JBool (n_Ingress n)),
       (''IPAM'', n_IPAM n), (''Containers'', JObject (mmap endpoint_json (n_Containers n))),
       (''Options'', jmap (n_Options n)), (''Labels'', jmap (n_Labels n))]"

definition handleNetworkList :: "api_request \<Rightarrow> api_result em" where
  "handleNetworkList rq =
     (case parseDockerFilters (q_Filters rq) of
        Inl err \<Rightarrow> answer (writeDockerError 400 (''invalid filters: '' @ err))
      | Inr filters \<Rightarrow>
          ebind (eread (\<lambda>e. map network_json (filter (\<lambda>n. networkMatchesFilters n filters) (mvals (e_networks e))))) (\<lambda>items.
          answer (writeJSON 200 (JArray items))))"

definition handleNetworkCreate :: "api_request \<Rightarrow> api_result em" where
  "handleNetworkCreate rq =
     (case q_Network rq of
        Inl err \<Rightarrow> answer (writeDockerError 400 err)
      | Inr request \<Rightarrow>
          ebind (createNetwork (nr_Name request) (nr_Driver request) (nr_Labels request)) (\<lambda>result.
          case result of
            Inl err \<Rightarrow> answer (writeDockerError 409 err)
          | Inr n \<Rightarrow> answer (writeJSON 201 (JObject [(''Id'', JString (n_ID n)), (''Warning'', JString [])]))))"

definition remove_network_action :: "string \<Rightarrow> api_result em" where
  "remove_network_action ref =
     ebind (removeNetwork ref) (\<lambda>result.
     case result of
       None \<Rightarrow> answer (writeHeader 204)
     | Some err \<Rightarrow>
         answer (writeDockerError (case err of PredefinedNetwork _ \<Rightarrow> 403 | _ \<Rightarrow> 500) (error_message err)))"

text \<open>A running container is taken off its listeners while its endpoints change.\<close>

definition change_endpoint :: "bool \<Rightarrow> string \<Rightarrow> string \<Rightarrow> connect_request \<Rightarrow> string option em" where
  "change_endpoint connect cid nid request =
     (if connect then elift (connectContainerNetwork cid nid (co_Aliases request))
      else elift (disconnectContainerNetwork cid nid))"

definition connect_action :: "bool \<Rightarrow> Network \<Rightarrow> connect_request \<Rightarrow> string \<Rightarrow> api_result em" where
  "connect_action connect n request cid =
     ebind (eread (containerConnectedToNetwork cid (n_ID n))) (\<lambda>(connected, connectedNetwork).
     ebind (container_get cid (\<lambda>c. (c_Name c, isRunning c))) (\<lambda>(name, wasRunning).
     if connect \<and> connected then
       answer (writeDockerError 400 (''endpoint with name '' @ name @ '' already exists in network '' @
         (case connectedNetwork of Some m \<Rightarrow> n_Name m | None \<Rightarrow> [])))
     else
       ethen (if wasRunning then ethen (stopContainerRuntime cid) (ereturn ()) else ereturn ())
       (ebind (change_endpoint connect cid (n_ID n) request) (\<lambda>err.
        case err of
          Some m \<Rightarrow>
            ethen (if wasRunning then ethen (startContainerRuntime cid) (ereturn ()) else ereturn ())
              (answer (writeDockerError 400 m))
        | None \<Rightarrow>
            ebind (if wasRunning then startContainerRuntime cid else ereturn None) (\<lambda>runtimeErr.
            case runtimeErr of
              Some m \<Rightarrow> answer (writeDockerError 500 m)
            | None \<Rightarrow>
                ethen (elog_container cid (\<lambda>entry. entry\<lparr>le_Channel := ''docker'',
                   le_Event := ''network.'' @ (if connect then ''connect'' else ''disconnect''),
                   le_Request := JObject [(''network'', JString (n_Name n)), (''aliases'', jstrings (co_Aliases request))]\<rparr>))
                  (answer (writeHeader 200)))))))"

definition handleNetworkAction :: "api_request \<Rightarrow> string \<Rightarrow> api_result em" where
  "handleNetworkAction rq rest =
     (let parts = split_on (CHR ''/'') rest; ref = PathUnescape (hd parts); m = q_Method rq;
          action = (if length parts > 1 then parts ! 1 else [])
      in ebind (eread (findNetwork ref)) (\<lambda>found.
         case found of
           Inl err \<Rightarrow> answer (writeDockerError 404 err)
         | Inr n \<Rightarrow>
             if action = [] \<and> m = ''GET'' then answer (writeJSON 200 (network_json n))
             else if action = [] \<and> m = ''DELETE'' then remove_network_action ref
             else if (action = ''connect'' \<or> action = ''disconnect'') \<and> m = ''POST'' then
               (case q_Connect rq of
                  Inl err \<Rightarrow> answer (writeDockerError 400 err)
                | Inr request \<Rightarrow>
                    ebind (eread (findContainer (co_Container request))) (\<lambda>container.
                    case container of
                      Inl err \<Rightarrow> answer (writeDockerError 404 err)
                    | Inr cid \<Rightarrow> connect_action (action = ''connect'') n request cid))
             else answer (writeUnsupportedDockerError 404 (''unsupported network operation: '' @ m))))"

section \<open>Volumes\<close>

definition handleVolumeList :: "api_request \<Rightarrow> api_result em" where
  "handleVolumeList rq =
     (case parseDockerFilters (q_Filters rq) of
        Inl err \<Rightarrow> answer (writeDockerError 400 (''invalid filters: '' @ err))
      | Inr filters \<Rightarrow>
          ebind (eread (\<lambda>e. map volume_json (filter (\<lambda>v. volumeMatchesFilters v filters) (mvals (e_volumes e))))) (\<lambda>items.
          answer (writeJSON 200 (JObject [(''Volumes'', JArray items), (''Warnings'', JArray [])]))))"

definition handleVolumeCreate :: "api_request \<Rightarrow> api_result em" where
  "handleVolumeCreate rq =
     (case q_Volume rq of
        Inl err \<Rightarrow> answer (writeDockerError 400 err)
      | Inr request \<Rightarrow>
          ebind (createVolume (vr_Name request) (vr_Driver request) (vr_Labels request) (vr_DriverOpts request)) (\<lambda>v.
          answer (writeJSON 201 (volume_json v))))"

definition handleVolumeAction :: "api_request \<Rightarrow> string \<Rightarrow> api_result em" where
  "handleVolumeAction rq rest =
     (let ref = PathUnescape rest in
      ebind (eread (\<lambda>e. mget (e_volumes e) ref)) (\<lambda>volume.
      case volume of
        None \<Rightarrow> answer (writeDockerError 404 (''No such volume: '' @ ref))
      | Some v \<Rightarrow>
          if q_Method rq = ''GET'' then answer (writeJSON 200 (volume_json v))
          else if q_Method rq = ''DELETE'' then
            ethen (emodify (\<lambda>e. e\<lparr>e_volumes := mdel (e_volumes e) ref\<rparr>))
            (ethen (elog (zeroEntry\<lparr>le_Channel := ''docker'', le_Event := ''volume.remove'',
                le_Request := JObject [(''name'', JString ref)]\<rparr>))
            (answer (writeHeader 204)))
          else answer (writeUnsupportedDockerError 404 (''unsupported volume operation: '' @ q_Method rq))))"

definition handleExecAction :: "api_result em" where
  "handleExecAction = answer (writeUnsupportedDockerError 501 ''exec is not simulated: no container processes are executed'')"

section \<open>Routing\<close>

definition handlePing :: "api_request \<Rightarrow> api_result em" where
  "handlePing rq = answer \<lparr>ar_Status = 200, ar_Unsupported = False,
     ar_Body = (if q_Method rq \<noteq> ''HEAD'' then TextBody ''OK'' else EmptyBody)\<rparr>"

definition dockerMachineArchitecture :: "string \<Rightarrow> string" where
  "dockerMachineArchitecture arch =
     (if arch = ''amd64'' then ''x86_64'' else if arch = ''arm64'' then ''aarch64'' else arch)"

definition version_document :: "Engine \<Rightarrow> json" where
  "version_document e =
     (let arch = JString (env_GOARCH (e_env e)) in
      JObject [(''Platform'', jmap [(''Name'', ''Docker Zero'')]),
        (''Components'', JArray [JObject [(''Name'', JString ''Engine''), (''Version'', JString engineVersion),
           (''Details'', JObject [(''ApiVersion'', JString apiVersion), (''MinAPIVersion'', JString minAPIVersion),
              (''Os'', JString ''linux''), (''Arch'', arch), (''KernelVersion'', JString ''mock'')])]]),
        (''Version'', JString engineVersion), (''ApiVersion'', JString apiVersion), (''MinAPIVersion'', JString minAPIVersion),
        (''GitCommit'', JString ''docker-zero''), (''GoVersion'', JString (env_GoVersion (e_env e))), (''Os'', JString ''linux''),
        (''Arch'', arch), (''KernelVersion'', JString ''mock''), (''BuildTime'', JString (formatDockerTime (e_startedAt e)))])"

definition handleInfo :: "Engine \<Rightarrow> json" where
  "handleInfo e =
     (let containers = listContainers True e; count = (\<lambda>p. JInt (int (length (filter p containers)))) in
      JObject [(''ID'', JString (''DOCKERZERO'' @ replicate 51 (CHR ''0''))), (''Containers'', JInt (int (length containers))),
        (''ContainersRunning'', count isRunning), (''ContainersPaused'', count c_Paused),
        (''ContainersStopped'', count (\<lambda>c. \<not> isRunning c)), (''Images'', JInt (int (length (e_cookbooks e)))),
        (''Driver'', JString ''docker-zero''), (''MemoryLimit'', JBool False), (''SwapLimit'', JBool False),
        (''CpuCfsPeriod'', JBool False), (''CpuCfsQuota'', JBool False), (''CPUShares'', JBool False), (''CPUSet'', JBool False),
        (''PidsLimit'', JBool False), (''IPv4Forwarding'', JBool False), (''BridgeNfIptables'', JBool False),
        (''BridgeNfIP6tables'', JBool False), (''Debug'', JBool False), (''NFd'', JInt 0), (''NGoroutines'', JInt 1),
        (''LoggingDriver'', JString ''json-file''), (''CgroupDriver'', JString ''none''), (''NEventsListener'', JInt 0),
        (''KernelVersion'', JString ''mock''), (''OperatingSystem'', JString ''Docker Zero''), (''OSType'', JString ''linux''),
        (''Architecture'', JString (dockerMachineArchitecture (env_GOARCH (e_env e)))), (''NCPU'', JInt 1),
        (''MemTotal'', JInt (1024 * 1024 * 1024)), (''DockerRootDir'', JString ''/var/lib/docker-zero''),
        (''Name'', JString ''docker-zero''), (''ServerVersion'', JString engineVersion), (''ClusterStore'', JString []),
        (''ClusterAdvertise'', JString []), (''DefaultRuntime'', JString ''runc''), (''LiveRestoreEnabled'', JBool False),
        (''InitBinary'', JString ''docker-init''), (''SecurityOptions'', JArray []),
        (''Warnings'', jstrings [''docker-zero is a simulator; no containers are executed''])])"

definition state_snapshot_json :: "ContainerStateSnapshot \<Rightarrow> json" where
  "state_snapshot_json s = JObject ([(''status'', JString (ss_Status s)), (''running'', JBool (ss_Running s)),
     (''restarting'', JBool (ss_Restarting s)), (''paused'', JBool (ss_Paused s)), (''dead'', JBool (ss_Dead s)),
     (''health'', JString (ss_Health s)), (''exit_code'', JInt (ss_ExitCode s)),
     (''restart_count'', JInt (ss_RestartCount s))] @ omit_string ''error'' (ss_Error s))"

definition snapshot_json :: "ContainerSnapshot \<Rightarrow> json" where
  "snapshot_json s = JObject ([(''id'', JString (cs_ID s)), (''name'', JString (cs_Name s)), (''image'', JString (cs_Image s)),
     (''kind'', JString (cs_Kind s)), (''seed'', JInt (cs_Seed s)), (''created'', JString (cs_Created s))] @
     omit_string ''started'' (cs_Started s) @ omit_string ''finished'' (cs_Finished s) @
     [(''state'', state_snapshot_json (cs_State s)), (''counters'', JObject (mmap JInt (cs_Counters s))),
      (''ip_address'', JString (cs_IPAddress s)), (''container_port'', JInt (cs_ContainerPort s)),
      (''host_port'', JInt (cs_HostPort s)), (''network_mode'', JString (cs_NetworkMode s))])"

definition state_document_json :: "stateDoc \<Rightarrow> json" where
  "state_document_json d = JObject [(''name'', JString (sd_name d)), (''seed'', JInt (sd_seed d)),
     (''overrides'', JObject (mmap JInt (sd_overrides d))), (''started_at'', JString (sd_started_at d)),
     (''run_dir'', JString (sd_run_dir d)), (''containers'', JArray (map snapshot_json (sd_containers d))),
     (''networks'', JInt (int (sd_networks d))), (''volumes'', JInt (int (sd_volumes d)))]"

definition dns_json :: "DNSResult \<Rightarrow> json" where
  "dns_json r = JObject [(''name'', JString (dr_Name r)), (''network'', JString (dr_Network r)),
     (''container'', JString (dr_Container r)), (''ip'', JString (dr_IP r))]"

text \<open>For an empty name the resolver returns a nil slice, which is encoded as null.\<close>

definition dns_answers :: "string \<Rightarrow> DNSResult list \<Rightarrow> json" where
  "dns_answers name answers =
     (if to_lower (trim_space (trim_suffix name ''.'')) = [] then JNull else JArray (map dns_json answers))"

definition handleAdmin :: "api_request \<Rightarrow> string \<Rightarrow> api_result em" where
  "handleAdmin rq path =
     (if (path = ''/__docker_zero'' \<or> path = ''/__docker_zero/state'') \<and> q_Method rq = ''GET'' then
        ebind (eread (\<lambda>e. state_document_json (stateDocument e))) (\<lambda>doc. answer (writeJSON 200 doc))
      else if path = ''/__docker_zero/cookbooks'' \<and> q_Method rq = ''GET'' then
        ebind (eread (\<lambda>e. JObject (mmap cookbook_json (e_cookbooks e)))) (\<lambda>doc. answer (writeJSON 200 doc))
      else if path = ''/__docker_zero/dns'' \<and> q_Method rq = ''GET'' then
        ebind (eread (findContainer (query rq ''from''))) (\<lambda>found.
        case found of
          Inl err \<Rightarrow> answer (writeDockerError 404 err)
        | Inr cid \<Rightarrow>
            ebind (container_get cid c_Name) (\<lambda>name.
            ebind (eread (resolveDNS (Some cid) (query rq ''name''))) (\<lambda>answers.
            answer (writeJSON 200 (JObject [(''from'', JString name), (''name'', JString (query rq ''name'')),
              (''answers'', dns_answers (query rq ''name'') answers)])))))
      else answer (writeDockerError 404 ''unknown docker-zero admin endpoint''))"

definition route :: "api_request \<Rightarrow> string \<Rightarrow> api_result em" where
  "route rq path =
     (let m = q_Method rq in
      if path = ''/_ping'' then handlePing rq
      else if path = ''/version'' \<and> m = ''GET'' then ebind (eread version_document) (\<lambda>doc. answer (writeJSON 200 doc))
      else if path = ''/info'' \<and> m = ''GET'' then ebind (eread handleInfo) (\<lambda>doc. answer (writeJSON 200 doc))
      else if has_prefix path ''/__docker_zero/'' \<or> path = ''/__docker_zero'' then handleAdmin rq path
      else if path = ''/containers/json'' \<and> m = ''GET'' then handleContainerList rq
      else if path = ''/containers/create'' \<and> m = ''POST'' then handleContainerCreate rq
      else if has_prefix path ''/containers/'' then handleContainerAction rq (trim_prefix path ''/containers/'')
      else if path = ''/images/json'' \<and> m = ''GET'' then handleImageList
      else if path = ''/images/create'' \<and> m = ''POST'' then handleImageCreate rq
      else if has_prefix path ''/images/'' \<and> has_suffix path ''/json'' \<and> m = ''GET'' then
        handleImageInspect (PathUnescape (trim_suffix (trim_prefix path ''/images/'') ''/json''))
      else if path = ''/networks'' \<and> m = ''GET'' then handleNetworkList rq
      else if path = ''/networks/create'' \<and> m = ''POST'' then handleNetworkCreate rq
      else if has_prefix path ''/networks/'' then handleNetworkAction rq (trim_prefix path ''/networks/'')
      else if path = ''/volumes'' \<and> m = ''GET'' then handleVolumeList rq
      else if path = ''/volumes/create'' \<and> m = ''POST'' then handleVolumeCreate rq
      else if has_prefix path ''/volumes/'' then handleVolumeAction rq (trim_prefix path ''/volumes/'')
      else if has_prefix path ''/exec/'' then handleExecAction
      else if (path = ''/events'' \<or> path = ''/system/df'') \<and> m = ''GET'' then
        answer (writeUnsupportedDockerError 501 (''unsupported Docker API request: '' @ m @ '' '' @ path))
      else answer (writeUnsupportedDockerError 404 (''unsupported Docker API request: '' @ m @ '' '' @ path)))"

text \<open>
  Every request ends with an entry of its own; that of a wait is written when the wait ends, with the
  status that its headers had.
\<close>

definition microseconds_between :: "gotime \<Rightarrow> gotime \<Rightarrow> int" where
  "microseconds_between a b =
     (case (a, b) of
        (UnixNano s, UnixNano n) \<Rightarrow> if s \<le> n then int ((n - s) div 1000) else - int ((s - n) div 1000)
      | _ \<Rightarrow> 0)"

definition log_request :: "api_request \<Rightarrow> string \<Rightarrow> gotime \<Rightarrow> api_response \<Rightarrow> unit em" where
  "log_request rq path started response =
     ebind (eask env_written) (\<lambda>bytes.
     ebind enow (\<lambda>now.
     elog (zeroEntry\<lparr>le_Channel := ''docker.http'', le_Event := q_Method rq @ '' '' @ path,
       le_Request := JObject [(''method'', JString (q_Method rq)), (''path'', JString (q_Path rq)),
          (''normalized_path'', JString path), (''query'', JString (q_RawQuery rq)), (''remote'', JString (q_RemoteAddr rq))],
       le_Response := JObject [(''status'', JInt (ar_Status response)), (''bytes'', JInt bytes),
          (''duration_us'', JInt (microseconds_between started now)), (''unsupported'', JBool (ar_Unsupported response))]\<rparr>)))"

definition ServeHTTP :: "api_request \<Rightarrow> api_result em" where
  "ServeHTTP rq =
     ebind enow (\<lambda>started.
     let path = stripAPIVersion (q_Path rq) in
     ebind (case validateAPIVersionPath (q_Path rq) of
              Some err \<Rightarrow> answer (writeDockerError 400 err)
            | None \<Rightarrow> route rq path) (\<lambda>result.
     case result of
       Answer response \<Rightarrow> ethen (log_request rq path started response) (ereturn result)
     | Waiting pw \<Rightarrow> ereturn result))"

end
