(* ===== verification/Api_Invariant.thy ===== *)
theory Api_Invariant
  imports Core_Runs Docker_Server
begin

text \<open>
  No API handler panics and each keeps the engine's invariant. A handler that works on one container
  runs under the assumption that the container is alive; one that may remove it ends in the invariant
  alone.
\<close>

section \<open>Handlers that end in another assertion\<close>

definition ends :: "(Engine \<Rightarrow> bool) \<Rightarrow> 'a em \<Rightarrow> (Engine \<Rightarrow> bool) \<Rightarrow> bool" where
  "ends P m R \<longleftrightarrow> (\<forall>e. P e \<longrightarrow> (\<exists>x e'. m e = Ret (x, e') \<and> R e'))"

named_theorems ends_intros \<open>operations that return and end in the invariant\<close>

lemma endsI: "(\<And>e. P e \<Longrightarrow> \<exists>x e'. m e = Ret (x, e') \<and> R e') \<Longrightarrow> ends P m R"
  by (simp add: ends_def)

lemma endsE:
  assumes "ends P m R" and "P e"
  obtains x e' where "m e = Ret (x, e')" and "R e'"
  using assms by (auto simp: ends_def)

lemma ends_keeps: "keeps P m always \<Longrightarrow> (\<And>e. P e \<Longrightarrow> R e) \<Longrightarrow> ends P m R"
  by (fastforce simp: ends_def keeps_def)

lemma ends_alive: "keeps (alive D) m always \<Longrightarrow> ends (alive D) m engine_inv"
  by (rule ends_keeps) (simp_all add: aliveD(1))

lemma ends_bind: "keeps P m Q \<Longrightarrow> (\<And>x. Q x \<Longrightarrow> ends P (f x) R) \<Longrightarrow> ends P (ebind m f) R"
  by (fastforce simp: ends_def keeps_def ebind_def)

lemma ends_step: "keeps P m always \<Longrightarrow> (\<And>x. ends P (f x) R) \<Longrightarrow> ends P (ebind m f) R"
  by (rule ends_bind)

lemma ends_then: "ends P m R \<Longrightarrow> (\<And>x. ends R (f x) S) \<Longrightarrow> ends P (ebind m f) S"
  by (fastforce simp: ends_def ebind_def)

lemma ends_seq: "ends P m R \<Longrightarrow> ends R k S \<Longrightarrow> ends P (ethen m k) S"
  unfolding ethen_def by (rule ends_then)

lemma ends_return: "(\<And>e. P e \<Longrightarrow> R e) \<Longrightarrow> ends P (ereturn x) R"
  by (simp add: ends_def ereturn_def)

lemma ends_if [ends_intros]:
  "(b \<Longrightarrow> ends P m R) \<Longrightarrow> (\<not> b \<Longrightarrow> ends P k R) \<Longrightarrow> ends P (if b then m else k) R"
  by simp

lemma ends_case [ends_intros]:
  "(x = None \<Longrightarrow> ends P m R) \<Longrightarrow> (\<And>y. x = Some y \<Longrightarrow> ends P (f y) R) \<Longrightarrow> ends P (case x of None \<Rightarrow> m | Some y \<Rightarrow> f y) R"
  "(\<And>y. z = Inl y \<Longrightarrow> ends P (g y) R) \<Longrightarrow> (\<And>y. z = Inr y \<Longrightarrow> ends P (h y) R) \<Longrightarrow> ends P (case z of Inl y \<Rightarrow> g y | Inr y \<Rightarrow> h y) R"
  "(\<And>a b. p = (a, b) \<Longrightarrow> ends P (k a b) R) \<Longrightarrow> ends P (case p of (a, b) \<Rightarrow> k a b) R"
  by (auto split: option.splits sum.splits prod.splits)

lemma ends_lookup:
  assumes live: "\<And>e cid. engine_inv e \<Longrightarrow> f e = Inr cid \<Longrightarrow> mmem (e_containers e) cid"
    and none: "\<And>err. ends engine_inv (g (Inl err)) engine_inv"
    and some: "\<And>cid. ends (alive {cid}) (g (Inr cid)) engine_inv"
  shows "ends engine_inv (ebind (eread f) g) engine_inv"
proof (rule endsI)
  fix e
  assume inv: "engine_inv e"
  show "\<exists>x e'. ebind (eread f) g e = Ret (x, e') \<and> engine_inv e'"
  proof (cases "f e")
    case (Inl err)
    with none [of err] inv show ?thesis by (auto simp: ebind_def eread_def ends_def)
  next
    case (Inr cid)
    with live [OF inv] have "alive {cid} e" using inv by (simp add: alive_def)
    with some [of cid] Inr show ?thesis by (auto simp: ebind_def eread_def ends_def)
  qed
qed

lemma keeps_result: "keeps P m Q \<Longrightarrow> P e \<Longrightarrow> m e = Ret (x, e') \<Longrightarrow> P e' \<and> Q x"
  by (erule (1) keepsE) simp

lemma keeps_engine: "keeps (alive D) m Q \<Longrightarrow> alive D e \<Longrightarrow> m e = Ret (x, e') \<Longrightarrow> engine_inv e'"
  by (drule (2) keeps_result) (auto dest: aliveD(1))

lemma alive_empty: "alive {} = engine_inv"
  by (simp add: alive_def fun_eq_iff)

lemma ends_engine: "keeps (alive {}) m always \<Longrightarrow> ends engine_inv m engine_inv"
  using ends_alive [of "{}" m] by (simp add: alive_empty)

lemma keeps_answer [keeps_intros]: "keeps P (answer r) always"
  unfolding answer_def by (rule keeps_ereturn) simp

lemma ends_answer [ends_intros]: "ends (alive D) (answer r) engine_inv" "ends engine_inv (answer r) engine_inv"
  by (auto intro: ends_alive ends_engine keeps_answer)

section \<open>Operations on a container\<close>

interpretation storing: container_operation "of_pure (storeRequestedConfig request)" for request
  unfolding of_pure_def
  by (rule plain_operation; (subst lifecycle_inv_cong)?) (simp_all add: storeRequestedConfig_def identity_def Let_def)

interpretation binding_ports: container_operation "of_pure (configureContainerPortBindings input)" for input
  unfolding of_pure_def
  by (rule plain_operation; (subst lifecycle_inv_cong)?)
     (simp_all add: configureContainerPortBindings_def setPortBindings_def identity_def split: sum.splits)

lemma inspect_returns: "length (c_ID c) = 64 \<Longrightarrow> \<exists>doc. containerInspectDocument c networks = Ret doc"
  by (auto simp: containerInspectDocument_def Let_def split: prod.splits)

lemma keeps_inspect_document:
  assumes "length (c_ID c) = 64"
  shows "keeps P (\<lambda>e. go_bind (containerInspectDocument c networks) (\<lambda>doc. Ret (doc, e))) always"
proof -
  obtain doc where "containerInspectDocument c networks = Ret doc" using inspect_returns [OF assms] by blast
  then show ?thesis by (simp add: keeps_def)
qed

lemma keeps_action_inspect: "cid \<in> D \<Longrightarrow> keeps (alive D) (action_inspect cid) always"
  unfolding action_inspect_def
  by (intro keeps_step keeps_intros
        keeps_ebind [OF keeps_container_get [where Q = "\<lambda>c. length (c_ID c) = 64"]] keeps_inspect_document)
     (auto dest: container_okD(1,2))

lemma keeps_actions:
  assumes "cid \<in> D"
  shows "keeps (alive D) (start_failed cid event before err) always"
    and "keeps (alive D) (finish_action cid event logged before code) always"
    and "keeps (alive D) (log_change cid event snaps) always"
  unfolding start_failed_def finish_action_def log_change_def
  by (intro keeps_step keeps_intros; simp add: assms)+

lemma keeps_container_actions:
  assumes "cid \<in> D"
  shows "keeps (alive D) (action_start cid) always" "keeps (alive D) (action_stop cid) always"
    "keeps (alive D) (action_pause cid) always" "keeps (alive D) (action_unpause cid) always"
    "keeps (alive D) (action_restart cid) always" "keeps (alive D) (action_kill rq cid) always"
    "keeps (alive D) (handleContainerWait rq cid) always" "keeps (alive D) (action_logs cid) always"
    "keeps (alive D) (action_top cid) always" "keeps (alive D) (action_exec rq cid) always"
  unfolding action_start_def action_stop_def action_pause_def action_unpause_def action_restart_def action_kill_def
    handleContainerWait_def action_logs_def action_top_def action_exec_def Let_def
  by (intro keeps_step keeps_intros keeps_actions; simp add: assms)+

section \<open>Removal and creation\<close>

lemma ends_removeContainer: "ends (alive D) (removeContainer ref force) engine_inv"
proof (rule endsI)
  fix e
  assume "alive D e"
  from removeContainer_keeps [OF this, of ref force] aliveD(1)
  show "\<exists>x e'. removeContainer ref force e = Ret (x, e') \<and> engine_inv e'" by blast
qed

lemma ends_action_remove: "ends (alive D) (action_remove rq ref) engine_inv"
  unfolding action_remove_def by (intro ends_then [OF ends_removeContainer] ends_intros)

lemma ends_configure_created:
  assumes "cid \<in> D"
  shows "ends (alive D) (configure_created request cid) engine_inv"
  unfolding configure_created_def
  by (intro ends_step storing.keeps_do binding_ports.keeps_do keeps_network_ops ends_intros
        ends_seq [OF ends_removeContainer] ends_return; simp add: assms aliveD(1))

definition created_answer :: "createContainerRequest \<Rightarrow> string + string \<Rightarrow> api_result em" where
  "created_answer request r =
     (case r of
        Inl err \<Rightarrow> create_failed err
      | Inr cid \<Rightarrow> ebind (configure_created request cid) (\<lambda>result. case result of
          Inl err \<Rightarrow> create_failed err
        | Inr warnings \<Rightarrow> answer (writeJSON 201 (JObject [(''Id'', JString cid), (''Warnings'', jstrings warnings)]))))"

lemma ends_created_answer: "ends (alive {cid. r = Inr cid}) (created_answer request r) engine_inv"
  unfolding created_answer_def create_failed_def
  by (cases r) (auto intro!: ends_then [OF ends_configure_created] ends_intros)

lemma handleContainerCreate_returns:
  assumes inv: "engine_inv e" and fresh: "fresh_create (query rq ''name'') e"
  shows "\<exists>r e'. handleContainerCreate rq e = Ret (r, e') \<and> engine_inv e'"
proof (cases "q_Create rq")
  case (Inl err)
  with inv show ?thesis by (simp add: handleContainerCreate_def answer_def ereturn_def)
next
  case (Inr request0)
  obtain v request where v: "validateMetadata request0 = (v, request)" by fastforce
  show ?thesis
  proof (cases v)
    case (Some err)
    with Inr v inv show ?thesis by (simp add: handleContainerCreate_def answer_def ereturn_def)
  next
    case None
    have "alive {} e" using inv by (simp add: alive_empty)
    from createContainer_keeps [OF this fresh] obtain r e1 where
      run: "createContainer (query rq ''name'') (cr_Image request) (cr_Labels request) (cr_Env request) (cr_Cmd request) e = Ret (r, e1)"
      and al: "alive {cid. r = Inr cid} e1"
      by (metis Un_empty_left)
    obtain x e2 where "created_answer request r e1 = Ret (x, e2)" "engine_inv e2"
      by (rule endsE [OF ends_created_answer al])
    moreover have "handleContainerCreate rq e = created_answer request r e1"
      using Inr v None by (cases r) (simp_all add: handleContainerCreate_def created_answer_def ebind_def run)
    ultimately show ?thesis by simp
  qed
qed

section \<open>Lists\<close>

lemma keeps_list_one: "cid \<in> D \<Longrightarrow> keeps (alive D) (list_one all filters cid) always"
  unfolding list_one_def by (intro keeps_step keeps_intros; simp)

lemma keeps_handleContainerList: "keeps (alive D) (handleContainerList rq) always"
proof -
  have "keeps (alive D') (emap (list_one all filters) ks) always" if "set ks \<subseteq> D'" for D' ks all filters
    using that by (intro keeps_emap keeps_list_one) blast
  then show ?thesis
    unfolding handleContainerList_def
    by (intro keeps_intros keeps_live_ids keeps_step)
       (auto simp: listContainers_def mmem_def dest: container_values)
qed

section \<open>Images, networks and volumes\<close>

lemma keeps_connect_action: "cid \<in> D \<Longrightarrow> keeps (alive D) (connect_action connect n request cid) always"
  unfolding connect_action_def change_endpoint_def by (intro keeps_step keeps_intros; simp)

lemma keeps_volume_removal: "keeps (alive D) (emodify (\<lambda>e. e\<lparr>e_volumes := mdel (e_volumes e) ref\<rparr>)) always"
  by (intro keeps_emodify) (simp add: alive_def engine_inv_def)

lemma keeps_resource_handlers [keeps_intros]:
  "keeps (alive D) handleImageList always" "keeps (alive D) (handleImageCreate rq) always"
  "keeps (alive D) (handleImageInspect name) always" "keeps (alive D) (handleNetworkList rq) always"
  "keeps (alive D) (handleNetworkCreate rq) always" "keeps (alive D) (remove_network_action ref) always"
  "keeps (alive D) (handleVolumeList rq) always" "keeps (alive D) (handleVolumeCreate rq) always"
  "keeps (alive D) (handleVolumeAction rq rest) always" "keeps (alive D) handleExecAction always"
  "keeps (alive D) (handlePing rq) always"
  unfolding handleImageList_def handleImageCreate_def handleImageInspect_def handleNetworkList_def handleNetworkCreate_def
    remove_network_action_def handleVolumeList_def handleVolumeCreate_def handleVolumeAction_def handleExecAction_def
    handlePing_def Let_def
  by (intro keeps_step keeps_intros keeps_volume_removal; simp)+

lemma keeps_handleNetworkAction [keeps_intros]: "keeps (alive D) (handleNetworkAction rq rest) always"
  unfolding handleNetworkAction_def Let_def
  by (intro keeps_step keeps_intros keeps_lookup [OF findContainer_live] keeps_connect_action; simp)

lemma keeps_handleAdmin [keeps_intros]: "keeps (alive D) (handleAdmin rq path) always"
  unfolding handleAdmin_def
  by (intro keeps_intros keeps_lookup [OF findContainer_live] keeps_step; simp)

section \<open>Routing\<close>

lemma ends_handleContainerAction: "ends engine_inv (handleContainerAction rq rest) engine_inv"
  unfolding handleContainerAction_def Let_def
  by (intro ends_intros ends_lookup [OF findContainer_live]; simp?;
      intro ends_intros ends_action_remove ends_alive keeps_action_inspect keeps_container_actions; simp)

lemma ends_read_answer: "ends engine_inv (ebind (eread f) (\<lambda>doc. answer (g doc))) engine_inv"
  by (intro ends_engine keeps_step keeps_intros)

lemmas route_ends = ends_handleContainerAction ends_answer(2) ends_read_answer
  keeps_handleContainerList [THEN ends_engine] keeps_resource_handlers [THEN ends_engine]
  keeps_handleNetworkAction [THEN ends_engine] keeps_handleAdmin [THEN ends_engine]

lemma ends_route:
  assumes "engine_inv e" and "fresh_create (query rq ''name'') e"
  shows "\<exists>r e'. route rq path e = Ret (r, e') \<and> engine_inv e'"
proof (cases "path = ''/containers/create'' \<and> q_Method rq = ''POST''")
  case True
  then have "route rq path = handleContainerCreate rq"
    by (simp add: route_def has_prefix_iff)
  with handleContainerCreate_returns [OF assms] show ?thesis by simp
next
  case False
  then have "ends engine_inv (route rq path) engine_inv"
    unfolding route_def Let_def
    by (intro ends_if route_ends) (simp only: simp_thms)
  with assms(1) show ?thesis by (auto elim: endsE)
qed

lemma keeps_log_request: "keeps (alive D) (log_request rq path started response) always"
  unfolding log_request_def by (intro keeps_step keeps_intros)

lemma ServeHTTP_returns:
  assumes inv: "engine_inv e" and fresh: "fresh_create (query rq ''name'') e"
  shows "\<exists>r e'. ServeHTTP rq e = Ret (r, e') \<and> engine_inv e'"
proof -
  let ?path = "stripAPIVersion (q_Path rq)" and ?now = "env_now (e_env e) (e_tick e)"
  let ?e1 = "e\<lparr>e_tick := Suc (e_tick e)\<rparr>"
  have now: "enow e = Ret (?now, ?e1)" by (simp add: enow_def eask_def)
  have e1: "engine_inv ?e1" "fresh_create (query rq ''name'') ?e1"
    using inv fresh alive_unread(1) [where D = "{}" and e = e] by (simp_all add: alive_empty fresh_create_def next_container_id_def Let_def)
  let ?m = "case validateAPIVersionPath (q_Path rq) of Some err \<Rightarrow> answer (writeDockerError 400 err) | None \<Rightarrow> route rq ?path"
  obtain r e2 where m: "?m ?e1 = Ret (r, e2)" "engine_inv e2"
    using ends_route [OF e1, of ?path] e1(1) by (cases "validateAPIVersionPath (q_Path rq)") (auto simp: answer_def ereturn_def)
  have "ends engine_inv (case r of Answer response \<Rightarrow> ethen (log_request rq ?path ?now response) (ereturn r)
      | Waiting pw \<Rightarrow> ereturn r) engine_inv"
    by (cases r) (auto intro: ends_engine keeps_seq keeps_log_request)
  then obtain x e3 where fin: "(case r of Answer response \<Rightarrow> ethen (log_request rq ?path ?now response) (ereturn r)
      | Waiting pw \<Rightarrow> ereturn r) e2 = Ret (x, e3)" and inv3: "engine_inv e3"
    using m(2) by (rule endsE)
  have "ServeHTTP rq e = Ret (x, e3)"
    using fin by (simp add: ServeHTTP_def Let_def ebind_def now m(1))
  with inv3 show ?thesis by blast
qed

section \<open>The end of a wait\<close>

lemma keeps_cancel:
  "keeps (alive D) (emodify (\<lambda>e. e\<lparr>e_containers := (case mget (e_containers e) cid of
     None \<Rightarrow> e_containers e | Some c \<Rightarrow> mput (e_containers e) cid (cancelWait w c))\<rparr>)) always"
proof (rule keeps_emodify)
  fix e
  assume al: "alive D e"
  show "alive D (e\<lparr>e_containers := (case mget (e_containers e) cid of
     None \<Rightarrow> e_containers e | Some c \<Rightarrow> mput (e_containers e) cid (cancelWait w c))\<rparr>)"
  proof (cases "mget (e_containers e) cid")
    case None
    with al show ?thesis by simp
  next
    case (Some c)
    note ok = container_okD [OF engine_invD(5) [OF aliveD(1) [OF al] Some]]
    have "alive D (set_container (cancelWait w c) e)"
      by (rule alive_set_container [OF al Some])
         (simp_all add: unchanged_writes wait_ops_inv ok(6))
    with Some ok(1) show ?thesis by (simp add: set_container_def cancelWait_def)
  qed
qed

lemma keeps_finishWait: "keeps (alive D) (finishWait pw) always"
  unfolding finishWait_def Let_def by (intro keeps_step keeps_intros keeps_cancel) simp_all

end
