(* ===== verification/Create_Contract.thy ===== *)
theory Create_Contract
  imports Api_Invariant
begin

text \<open>
  What a create request does: either a container exists under its name and identifier, or the engine
  is as before. A creation that fails late is undone by a removal, which is given the identifier of the
  new container as a reference.
\<close>

section \<open>Identifiers as references\<close>

lemma hex_digit_alnum: "d < 16 \<Longrightarrow> is_alnum (hex_digit d)"
  by (simp add: hex_digit_def is_alnum_def is_lower_def is_upper_def is_digit_def byte_char_of)

lemma fixed_hex_alnum: "list_all is_alnum (fixed_hex n v)"
  by (induction n arbitrary: v) (simp_all add: hex_digit_alnum)

lemma containerID_name: "validateContainerName (containerID name n) = None"
proof -
  have "list_all is_alnum (containerID name n)"
    using fixed_hex_alnum by (auto simp: containerID_def sha256_hex_def list_all_iff)
  moreover have "containerID name n \<noteq> []" using hashID_length(2) [of name n] by fastforce
  ultimately show ?thesis
    by (auto simp: validateContainerName_iff list_all_iff name_char_def)
qed

lemma containerID_ref: "container_ref (containerID name n) = containerID name n"
  by (rule container_ref_name) (rule containerID_name)

lemma next_container_id_ref: "container_ref (next_container_id name0 e) = next_container_id name0 e"
  by (simp add: next_container_id_def Let_def containerID_ref)

text \<open>The index of names is asked first, so an identifier that is also a name finds the container of that name.\<close>

lemma id_reference_finds_namesake:
  assumes "mget (e_names e) (containerID name n) = Some other"
  shows "findContainer (containerID name n) e = Inr other"
  using assms by (simp add: findContainer_def containerID_ref Let_def)

section \<open>Undoing a creation\<close>

definition same_resources :: "Engine \<Rightarrow> Engine \<Rightarrow> bool" where
  "same_resources e e' \<longleftrightarrow> e_containers e' = e_containers e \<and> e_names e' = e_names e \<and> e_networks e' = e_networks e \<and>
     e_volumes e' = e_volumes e \<and> e_runtimes e' = e_runtimes e \<and> e_cookbooks e' = e_cookbooks e"

lemma mdel_absent: "mget m k = None \<Longrightarrow> mdel m k = m"
  by (simp add: mdel_def mget_def map_of_eq_None_iff)

lemma mdel_mput: "mdel (mput m k v) k = mdel m k"
  unfolding mdel_def mput_def by (induction m) auto

lemma mput_mput: "mput (mput m k v) k w = mput m k w"
  by (simp add: mput_def)

lemma detach_all_absent:
  assumes "wf_map ns" and "\<And>key n. mget ns key = Some n \<Longrightarrow> mget (n_Containers n) cid = None"
  shows "detach_all cid ns = ns"
proof -
  have "(\<lambda>(k, n). (k, n\<lparr>n_Containers := mdel (n_Containers n) cid\<rparr>)) x = x" if "x \<in> set ns" for x
  proof (cases x)
    case (Pair k n)
    then have "mget ns k = Some n" using assms(1) that by (simp add: in_mget)
    from mdel_absent [OF assms(2) [OF this]] Pair show ?thesis by simp
  qed
  then show ?thesis unfolding detach_all_def mmap_def by (rule map_idI)
qed

lemma remove_stopped:
  assumes inv: "engine_inv e" and c: "mget (e_containers e) cid = Some c" and "\<not> c_Running c"
    and "mget (e_runtimes e) cid = None" and found: "findContainer ref e = Inr cid"
  shows "\<exists>e'. removeContainer ref True e = Ret (None, e') \<and> e_containers e' = mdel (e_containers e) cid \<and>
    e_names e' = mdel (e_names e) (c_Name c) \<and> e_networks e' = detach_all cid (e_networks e) \<and>
    e_runtimes e' = mdel (e_runtimes e) cid \<and> e_volumes e' = e_volumes e \<and> e_cookbooks e' = e_cookbooks e"
proof -
  note get = container_get_run [OF inv c] and cid = container_okD(1) [OF engine_invD(5) [OF inv c]]
  have "stopContainerRuntime cid e = Ret (None, e)"
    using assms(4) by (simp add: stopContainerRuntime_def ebind_def em_defs)
  then show ?thesis
    using assms(3,5)
    by (simp add: removeContainer_def ebind_def ethen_def em_defs get elog_def enow_def finish_removed_def
        drop_container_def stateSnapshot_def cid)
qed

lemma container_do_run:
  "mget (e_containers e) cid = Some c \<Longrightarrow> op (c, e_pid e) = Ret (r, c', pid') \<Longrightarrow>
     container_do cid op e = Ret (r, (set_container c' e)\<lparr>e_pid := pid'\<rparr>)"
  by (simp add: container_do_def)

lemma configure_failed:
  "fst (configureContainerNetworks cid networkMode aliases e) = Some err \<Longrightarrow>
     snd (configureContainerNetworks cid networkMode aliases e) = e"
  by (erule rev_mp) (simp add: configureContainerNetworks_def Let_def split: option.split sum.split)

definition rewired :: "Container \<Rightarrow> Container \<Rightarrow> bool" where
  "rewired c c' \<longleftrightarrow> c' = c \<or> (\<exists>m ip. c' = c\<lparr>c_NetworkMode := m, c_PrimaryIP := ip\<rparr>)"

lemma configure_container:
  assumes c: "mget (e_containers e) cid = Some c" and cid: "c_ID c = cid"
    and run: "configureContainerNetworks cid networkMode aliases e = (err, e')"
  obtains c' where "mget (e_containers e') cid = Some c'" and "rewired c c'"
    and "\<And>k. k \<noteq> cid \<Longrightarrow> mget (e_containers e') k = mget (e_containers e) k"
proof -
  from configure_form [OF c, of networkMode aliases] show thesis
  proof (elim disjE exE)
    assume "snd (configureContainerNetworks cid networkMode aliases e) = e"
    with that [of c] c run show thesis by (simp add: rewired_def)
  next
    fix m ip ns
    let ?c = "c\<lparr>c_NetworkMode := m, c_PrimaryIP := ip\<rparr>"
    assume "snd (configureContainerNetworks cid networkMode aliases e) = set_container ?c (e\<lparr>e_networks := ns\<rparr>)"
    then have cs: "e_containers e' = mput (e_containers e) cid ?c" using run cid by (simp add: set_container_def)
    show thesis by (rule that [of ?c]) (auto simp: cs rewired_def)
  qed
qed

text \<open>The engine after a creation, seen from before: one new container, bound to no network.\<close>

definition one_more :: "Engine \<Rightarrow> string \<Rightarrow> Container \<Rightarrow> Engine \<Rightarrow> bool" where
  "one_more e cid c e' \<longleftrightarrow> engine_inv e' \<and> mget (e_containers e) cid = None \<and> mget (e_names e) (c_Name c) = None \<and>
     c_ID c = cid \<and> \<not> c_Running c \<and> e_containers e' = mput (e_containers e) cid c \<and>
     e_names e' = mput (e_names e) (c_Name c) cid \<and> e_networks e' = e_networks e \<and> e_volumes e' = e_volumes e \<and>
     e_runtimes e' = e_runtimes e \<and> e_cookbooks e' = e_cookbooks e"

lemma one_more_undone:
  assumes inv: "engine_inv e" and one: "one_more e cid c e1" and ref: "container_ref cid = cid"
    and namesake: "\<not> mmem (e_names e) cid"
  shows "\<exists>e'. removeContainer cid True e1 = Ret (None, e') \<and> same_resources e e'"
proof -
  note o = one [unfolded one_more_def]
  have c: "mget (e_containers e1) cid = Some c" using o by simp
  have rt: "mget (e_runtimes e) cid = None" using engine_invD(8) [OF inv, of cid] o
    by (cases "mget (e_runtimes e) cid") (auto simp: mmem_def)
  have "findContainer cid e1 = Inr cid"
    using o ref namesake by (auto simp: findContainer_def Let_def mmem_def)
  with remove_stopped [of e1 cid c cid] o c rt obtain e' where
    run: "removeContainer cid True e1 = Ret (None, e')" and e': "e_containers e' = mdel (e_containers e1) cid"
      "e_names e' = mdel (e_names e1) (c_Name c)" "e_networks e' = detach_all cid (e_networks e1)"
      "e_runtimes e' = mdel (e_runtimes e1) cid" "e_volumes e' = e_volumes e1" "e_cookbooks e' = e_cookbooks e1"
    by auto
  have "detach_all cid (e_networks e) = e_networks e"
  proof (rule detach_all_absent)
    show "wf_map (e_networks e)" using engine_invD(4) [OF inv] by (rule networks_okD)
    show "mget (n_Containers n) cid = None" if "mget (e_networks e) key = Some n" for key n
      using engine_invD(7) [OF inv that, of cid] o by (cases "mget (n_Containers n) cid") (auto simp: mmem_def)
  qed
  with e' o rt have "same_resources e e'"
    by (simp add: same_resources_def mdel_mput mdel_absent)
  with run show ?thesis by blast
qed

section \<open>The creation\<close>

lemma create_named_frame:
  "create_named name img labels env command e = Ret (r, e') \<Longrightarrow>
     e_networks e' = e_networks e \<and> e_volumes e' = e_volumes e \<and> e_runtimes e' = e_runtimes e \<and> e_cookbooks e' = e_cookbooks e"
  by (auto simp: create_named_def run_defs add_container_def split: option.splits sum.splits if_splits)

text \<open>The name that is given or, when none is, made from the counter, and the engine after that.\<close>

definition chosen_name :: "string \<Rightarrow> Engine \<Rightarrow> string" where
  "chosen_name name0 e =
     (if container_ref name0 = [] then ''docker-zero-'' @ itoa (wrap64 (e_counter e + 1)) else container_ref name0)"

definition after_name :: "string \<Rightarrow> Engine \<Rightarrow> Engine" where
  "after_name name0 e = (if container_ref name0 = [] then e\<lparr>e_counter := wrap64 (e_counter e + 1)\<rparr> else e)"

lemma createContainer_named:
  "createContainer name0 img labels env command e = create_named (chosen_name name0 e) img labels env command (after_name name0 e)"
  "next_container_id name0 e = containerID (chosen_name name0 e) (wrap64 (e_counter (after_name name0 e) + 1))"
  by (simp_all add: createContainer_def choose_name_def chosen_name_def after_name_def next_container_id_def ebind_def
      ereturn_def next_counter_def Let_def)

lemma after_name_sel [simp]:
  "e_containers (after_name name0 e) = e_containers e" "e_names (after_name name0 e) = e_names e"
  "e_networks (after_name name0 e) = e_networks e" "e_volumes (after_name name0 e) = e_volumes e"
  "e_runtimes (after_name name0 e) = e_runtimes e" "e_cookbooks (after_name name0 e) = e_cookbooks e"
  "seedFor kind name (after_name name0 e) = seedFor kind name e"
  by (simp_all add: after_name_def seedFor_def cong: option.case_cong)

lemma createContainer_outcome:
  assumes inv: "engine_inv e" and fresh: "fresh_create name0 e"
  obtains (refused) err e' where "creation_error (chosen_name name0 e) img (after_name name0 e) = Some err"
      and "createContainer name0 img labels env command e = Ret (Inl err, e')" and "same_resources e e'"
  | (created) c e' where "creation_error (chosen_name name0 e) img (after_name name0 e) = None"
      and "createContainer name0 img labels env command e = Ret (Inr (next_container_id name0 e), e')"
      and "one_more e (next_container_id name0 e) c e'" and "c_Name c = chosen_name name0 e" and "c_Status c = sCreated"
      and "c_Image c = img" and "c_Labels c = labels" and "c_Env c = env" and "c_Command c = command"
proof (cases "creation_error (chosen_name name0 e) img (after_name name0 e)")
  case (Some err)
  have "same_resources e (after_name name0 e)" by (simp add: same_resources_def)
  with refused Some create_named_error [OF Some] show thesis by (simp add: createContainer_named(1))
next
  case None
  let ?name = "chosen_name name0 e" and ?cid = "next_container_id name0 e" and ?e0 = "after_name name0 e"
  from None obtain cb now e' where
    run: "create_named ?name img labels env command ?e0 = Ret (Inr ?cid, e')"
    and cs: "e_containers e' = mput (e_containers e) ?cid
           (created now ?cid ?name img cb (seedFor (cb_Kind cb) ?name e) labels env command)"
    and nm: "e_names e' = mput (e_names e) ?name ?cid"
    by (rule create_named_ok [where name = ?name]) (simp add: createContainer_named(2))
  let ?c = "created now ?cid ?name img cb (seedFor (cb_Kind cb) ?name e) labels env command"
  have "createContainer name0 img labels env command e = Ret (Inr ?cid, e')" by (simp add: createContainer_named(1) run)
  moreover have "engine_inv e'"
  proof -
    have "alive {} e" using inv by (simp add: alive_empty)
    from createContainer_keeps [OF this fresh] calculation show ?thesis by (metis Pair_inject aliveD(1) go.inject(1))
  qed
  moreover have "\<not> c_Running ?c" by (simp add: created_def newContainer_def)
  ultimately have "one_more e ?cid ?c e'"
    using cs nm create_named_frame [OF run] fresh None
    by (simp add: one_more_def fresh_create_def creation_error_None mmem_def)
  with created None run show thesis by (simp add: createContainer_named(1)) (simp add: created_def newContainer_def)
qed

section \<open>The configuration\<close>

lemma one_more_set:
  assumes one: "one_more e cid c e1" and op: "container_operation op"
    and run: "op (c, e_pid e1) = Ret (r, c', e_pid e1)" and "\<not> c_Running c'"
  shows "container_do cid op e1 = Ret (r, set_container c' e1)" and "one_more e cid c' (set_container c' e1)"
proof -
  note o = one [unfolded one_more_def]
  have c: "mget (e_containers e1) cid = Some c" and inv: "engine_inv e1" using o by simp_all
  have "lifecycle_inv (c, e_pid e1)" using container_okD(6) [OF engine_invD(5) [OF inv c]] .
  from container_operation.runs [OF op this] run have same: "identity c' = identity c" by auto
  have do: "container_do cid op e1 = Ret (r, (set_container c' e1)\<lparr>e_pid := e_pid e1\<rparr>)"
    using c run by (rule container_do_run)
  have eq: "(set_container c' e1)\<lparr>e_pid := e_pid e1\<rparr> = set_container c' e1"
    by (simp add: set_container_def)
  from do eq show run: "container_do cid op e1 = Ret (r, set_container c' e1)" by simp
  have al: "alive {cid} e1" using inv c by (simp add: alive_def mmem_def)
  have "keeps (alive {cid}) (container_do cid op) always" by (rule keeps_container_do [OF op]) simp
  from keeps_engine [OF this al run] have "engine_inv (set_container c' e1)" .
  with o same assms(4) show "one_more e cid c' (set_container c' e1)"
    by (simp add: one_more_def set_container_def identity_eq mput_mput)
qed

lemma configure_created_outcome:
  assumes inv: "engine_inv e" and one: "one_more e cid c e1" and ref: "container_ref cid = cid"
    and namesake: "\<not> mmem (e_names e) cid"
  obtains (undone) err e2 where "configure_created request cid e1 = Ret (Inl err, e2)" and "same_resources e e2"
  | (configured) w c' e2 where "configure_created request cid e1 = Ret (Inr w, e2)" and "engine_inv e2"
      and "mget (e_containers e2) cid = Some c'" and "\<And>k. k \<noteq> cid \<Longrightarrow> mget (e_containers e2) k = mget (e_containers e) k"
      and "identity c' = identity c" and "c_Status c' = c_Status c" and "c_Image c' = c_Image c" and "c_Labels c' = c_Labels c"
      and "c_Env c' = c_Env c" and "c_Command c' = c_Command c" and "c_RestartPolicy c' = cr_RestartPolicy request"
proof -
  let ?c1 = "snd (storeRequestedConfig request c)" and ?w = "fst (storeRequestedConfig request c)"
  let ?b = "configureContainerPortBindings (cr_PortBindings request) ?c1"
  have "\<not> c_Running c" using one by (simp add: one_more_def)
  then have stopped: "\<not> c_Running ?c1" "\<not> c_Running (snd ?b)"
    by (simp_all add: storeRequestedConfig_def Let_def configureContainerPortBindings_def setPortBindings_def split: sum.splits)
  note one1 = one_more_set [OF one storing.container_operation_axioms [of request], of ?w ?c1]
  have do1: "container_do cid (of_pure (storeRequestedConfig request)) e1 = Ret (?w, set_container ?c1 e1)"
    and o1: "one_more e cid ?c1 (set_container ?c1 e1)"
    using one1 stopped(1) by (simp_all add: of_pure_def)
  note one2 = one_more_set [OF o1 binding_ports.container_operation_axioms [of "cr_PortBindings request"], of "fst ?b" "snd ?b"]
  let ?e2 = "set_container (snd ?b) (set_container ?c1 e1)"
  have do2: "container_do cid (of_pure (configureContainerPortBindings (cr_PortBindings request))) (set_container ?c1 e1) =
      Ret (fst ?b, ?e2)" and o2: "one_more e cid (snd ?b) ?e2"
    using one2 stopped(2) by (simp_all add: of_pure_def)
  obtain e3 where undo: "removeContainer cid True ?e2 = Ret (None, e3)" "same_resources e e3"
    using one_more_undone [OF inv o2 ref namesake] by blast
  let ?n = "configureContainerNetworks cid (cr_NetworkMode request) (cr_EndpointsConfig request) ?e2"
  note run = configure_created_def ebind_def ethen_def em_defs do1 do2
  show thesis
  proof (cases "fst ?b")
    case (Some err)
    then have "configure_created request cid e1 = Ret (Inl err, e3)" by (simp add: run undo(1))
    with undo(2) undone show thesis by blast
  next
    case None
    show thesis
    proof (cases "fst ?n")
      case (Some err)
      then have "?n = (Some err, ?e2)" using configure_failed by (metis prod.collapse)
      with None have "configure_created request cid e1 = Ret (Inl err, e3)" by (simp add: run undo(1))
      with undo(2) undone show thesis by blast
    next
      case net: None
      then obtain e4 where n: "?n = (None, e4)" by (metis prod.collapse)
      have c2: "mget (e_containers ?e2) cid = Some (snd ?b)" using o2 by (simp add: one_more_def)
      have al: "alive {cid} ?e2" using o2 c2 by (simp add: one_more_def alive_def mmem_def)
      have lifted: "elift (configureContainerNetworks cid (cr_NetworkMode request) (cr_EndpointsConfig request)) ?e2 = Ret (None, e4)"
        by (simp only: elift_def n)
      have "engine_inv e4" by (rule keeps_engine [OF keeps_network_ops(1) al lifted]) simp
      have ok: "configure_created request cid e1 = Ret (Inr ?w, e4)" using None n by (simp add: run)
      have id: "c_ID (snd ?b) = cid" using o2 by (simp add: one_more_def)
      have cs: "e_containers ?e2 = mput (e_containers e) cid (snd ?b)" using o2 unfolding one_more_def by blast
      have e2: "mget (e_containers ?e2) k = mget (e_containers e) k" if "k \<noteq> cid" for k
        unfolding cs using that by simp
      obtain c4 where c4: "mget (e_containers e4) cid = Some c4" "rewired (snd ?b) c4"
        "\<And>k. k \<noteq> cid \<Longrightarrow> mget (e_containers e4) k = mget (e_containers ?e2) k"
        using configure_container [OF c2 id n] by blast
      have others: "mget (e_containers e4) k = mget (e_containers e) k" if "k \<noteq> cid" for k
        using c4(3) [OF that] e2 [OF that] by (rule trans)
      show thesis
        by (rule configured [OF ok \<open>engine_inv e4\<close> c4(1) others])
           (use c4(2) in \<open>auto simp: rewired_def identity_eq storeRequestedConfig_def Let_def configureContainerPortBindings_def setPortBindings_def split: sum.splits\<close>)
    qed
  qed
qed

section \<open>The request\<close>

definition id_answer :: "string \<Rightarrow> string list \<Rightarrow> api_response" where
  "id_answer cid warnings = writeJSON 201 (JObject [(''Id'', JString cid), (''Warnings'', jstrings warnings)])"

lemma same_resources_refl: "same_resources e e"
  by (simp add: same_resources_def)

lemma handleContainerCreate_outcome:
  assumes inv: "engine_inv e" and fresh: "fresh_create (query rq ''name'') e"
    and namesake: "\<not> mmem (e_names e) (next_container_id (query rq ''name'') e)"
  obtains (refused) err status e' where "handleContainerCreate rq e = Ret (Answer (writeDockerError status err), e')"
      and "status \<in> {400, 409}" and "same_resources e e'"
  | (created) request w c e' where "handleContainerCreate rq e = Ret (Answer (id_answer (next_container_id (query rq ''name'') e) w), e')"
      and "\<exists>request0. q_Create rq = Inr request0 \<and> validateMetadata request0 = (None, request)" and "engine_inv e'"
      and "mget (e_containers e') (next_container_id (query rq ''name'') e) = Some c"
      and "\<And>k. k \<noteq> next_container_id (query rq ''name'') e \<Longrightarrow> mget (e_containers e') k = mget (e_containers e) k"
      and "c_Name c = chosen_name (query rq ''name'') e" and "c_Status c = sCreated" and "c_Image c = cr_Image request"
      and "c_Labels c = cr_Labels request" and "c_Env c = cr_Env request" and "c_Command c = cr_Cmd request"
      and "c_RestartPolicy c = cr_RestartPolicy request"
proof (cases "q_Create rq")
  case (Inl err)
  show thesis
    by (rule refused [of 400 _ e]) (simp_all add: Inl handleContainerCreate_def answer_def ereturn_def same_resources_refl)
next
  case (Inr request0)
  let ?cid = "next_container_id (query rq ''name'') e"
  obtain v request where v: "validateMetadata request0 = (v, request)" by fastforce
  have status: "create_status err \<in> {400, 409}" for err by (simp add: create_status_def)
  show thesis
  proof (cases v)
    case (Some err)
    show thesis
      by (rule refused [of 400 _ e]) (simp_all add: Inr Some v handleContainerCreate_def answer_def ereturn_def same_resources_refl)
  next
    case None
    have go: "handleContainerCreate rq e = created_answer request r e1"
      if "createContainer (query rq ''name'') (cr_Image request) (cr_Labels request) (cr_Env request) (cr_Cmd request) e = Ret (r, e1)" for r e1
      using Inr v None that by (cases r) (simp_all add: handleContainerCreate_def created_answer_def ebind_def)
    show thesis
    proof (cases rule: createContainer_outcome [OF inv fresh, of "cr_Image request" "cr_Labels request" "cr_Env request" "cr_Cmd request"])
      case (1 err e1)
      then show thesis
        using refused [OF _ status] go [OF 1(2)] by (simp add: created_answer_def create_failed_def answer_def ereturn_def)
    next
      case (2 c e1)
      show thesis
      proof (cases rule: configure_created_outcome [OF inv 2(3) next_container_id_ref namesake, of request])
        case (1 err e2)
        then show thesis
          using refused [OF _ status] go [OF 2(2)]
          by (simp add: created_answer_def create_failed_def answer_def ereturn_def ebind_def)
      next
        case c: (2 w c' e2)
        have "handleContainerCreate rq e = Ret (Answer (id_answer ?cid w), e2)"
          using go [OF 2(2)] c(1) by (simp add: created_answer_def answer_def ereturn_def ebind_def id_answer_def)
        from created [OF this _ c(2-4)] 2(4-) c(5-) Inr v None show thesis by (simp add: identity_eq)
      qed
    qed
  qed
qed

end
