(* ===== verification/Cookbook_Scan.thy ===== *)
theory Cookbook_Scan
  imports Diagnostic Go_Net
begin

text \<open>
  The scan of a cookbook file before it is decoded (\<^verbatim>\<open>scanJSONDocument\<close> and
  \<^verbatim>\<open>jsonDecodeDiagnostic\<close> of \<^verbatim>\<open>diagnostic.go\<close>): it rejects duplicate object keys, which
  \<^verbatim>\<open>encoding/json\<close> accepts, and records where each value stands. The scan reads the file through
  a \<^verbatim>\<open>json.Decoder\<close>; what the decoder answers, call by call, is an input of the model.
\<close>

section \<open>Unquoting\<close>

text \<open>\<^verbatim>\<open>strconv.Unquote\<close> of a text in double quotes, the only form \<^verbatim>\<open>%q\<close> prints.\<close>

definition base_number :: "nat \<Rightarrow> string \<Rightarrow> nat option" where
  "base_number base s =
     foldl (\<lambda>v c. case (v, hex_value c) of
         (Some n, Some d) \<Rightarrow> if d < base then Some (base * n + d) else None
       | _ \<Rightarrow> None) (Some 0) s"

definition utf8_rune :: "nat \<Rightarrow> string option" where
  "utf8_rune r =
     (if r < 0x80 then Some [char_of r]
      else if r < 0x800 then Some [char_of (0xC0 + r div 64), char_of (0x80 + r mod 64)]
      else if 0xD800 \<le> r \<and> r < 0xE000 \<or> 0x10FFFF < r then None
      else if r < 0x10000 then
        Some [char_of (0xE0 + r div 4096), char_of (0x80 + r div 64 mod 64), char_of (0x80 + r mod 64)]
      else Some [char_of (0xF0 + r div 262144), char_of (0x80 + r div 4096 mod 64),
        char_of (0x80 + r div 64 mod 64), char_of (0x80 + r mod 64)])"

text \<open>The escape after a backslash: the bytes it stands for and how many characters it takes.\<close>

definition numeric_escape :: "nat \<Rightarrow> nat \<Rightarrow> (nat \<Rightarrow> string option) \<Rightarrow> nat \<Rightarrow> string \<Rightarrow> (string \<times> nat) option" where
  "numeric_escape base n enc skip s =
     (if length s < n then None
      else case base_number base (take n s) of
        None \<Rightarrow> None
      | Some v \<Rightarrow> map_option (\<lambda>out. (out, skip + n)) (enc v))"

definition byte_escape :: "nat \<Rightarrow> string option" where
  "byte_escape v = (if v < 256 then Some [char_of v] else None)"

definition unquote_escape :: "string \<Rightarrow> (string \<times> nat) option" where
  "unquote_escape s =
     (case s of
        [] \<Rightarrow> None
      | c # r \<Rightarrow>
          if c = CHR ''a'' then Some ([CHR 0x07], 1)
          else if c = CHR ''b'' then Some ([CHR 0x08], 1)
          else if c = CHR ''f'' then Some ([CHR 0x0C], 1)
          else if c = CHR ''n'' then Some ([LF], 1)
          else if c = CHR ''r'' then Some ([CR], 1)
          else if c = CHR ''t'' then Some ([TAB], 1)
          else if c = CHR ''v'' then Some ([CHR 0x0B], 1)
          else if c = CHR ''x'' then numeric_escape 16 2 byte_escape 1 r
          else if c = CHR ''u'' then numeric_escape 16 4 utf8_rune 1 r
          else if c = CHR ''U'' then numeric_escape 16 8 utf8_rune 1 r
          else if c = BACKSLASH \<or> c = DQUOTE then Some ([c], 1)
          else numeric_escape 8 3 byte_escape 0 s)"

function unquote_body :: "string \<Rightarrow> string option" where
  "unquote_body [] = None"
| "unquote_body (c # s) =
     (if c = DQUOTE then (if s = [] then Some [] else None)
      else if c = LF then None
      else if c = BACKSLASH then
        (case unquote_escape s of
           None \<Rightarrow> None
         | Some (out, n) \<Rightarrow> map_option ((@) out) (unquote_body (drop n s)))
      else map_option ((#) c) (unquote_body s))"
  by pat_completeness auto
termination
  by (relation "measure length") auto

definition Unquote :: "string \<Rightarrow> string option" where
  "Unquote s = (case s of [] \<Rightarrow> None | c # r \<Rightarrow> if c = DQUOTE then unquote_body r else None)"

lemma prepend_one: "(@) [c] = (#) c"
  by (simp add: fun_eq_iff)

lemma hex_value_nibble: "d < 16 \<Longrightarrow> hex_value (hex_nibble d) = Some d"
  by (auto simp: hex_value_def hex_nibble_def is_digit_def)

lemma hex_escape:
  assumes "n < 256"
  shows "numeric_escape 16 2 byte_escape 1 (hex_nibble (n div 16) # hex_nibble (n mod 16) # s) = Some ([char_of n], 3)"
proof -
  have b: "n div 16 < 16" "n mod 16 < 16" using assms by simp_all
  have "hex_value (hex_nibble (n div 16)) = Some (n div 16)" "hex_value (hex_nibble (n mod 16)) = Some (n mod 16)"
    using b hex_value_nibble by blast+
  with b assms show ?thesis by (simp add: numeric_escape_def base_number_def byte_escape_def)
qed

lemma unquote_quoted_char:
  "unquote_body (quote_char c @ s) = map_option ((#) c) (unquote_body s)"
proof -
  have two: "unquote_body (BACKSLASH # d # s) = map_option ((#) c) (unquote_body s)"
    if "unquote_escape (d # s) = Some ([c], 1)" for d
    using that by (simp add: prepend_one)
  have hex: "numeric_escape 16 2 byte_escape 1 (hex_nibble (byte c div 16) # hex_nibble (byte c mod 16) # s) = Some ([c], 3)"
    using hex_escape [OF byte_less_256, of c s] by simp
  show ?thesis
  proof (cases "c = DQUOTE \<or> c = BACKSLASH \<or> byte c \<in> {7, 8, 9, 10, 11, 12, 13::nat}")
    case True
    have "byte d = 7 \<longleftrightarrow> d = CHR 0x07" "byte d = 8 \<longleftrightarrow> d = CHR 0x08" "byte d = 9 \<longleftrightarrow> d = TAB" "byte d = 10 \<longleftrightarrow> d = LF"
      "byte d = 11 \<longleftrightarrow> d = CHR 0x0B" "byte d = 12 \<longleftrightarrow> d = CHR 0x0C" "byte d = 13 \<longleftrightarrow> d = CR" for d
      by (simp_all add: flip: of_char_eq_iff [where ?'a = nat])
    with True have "c \<in> {DQUOTE, BACKSLASH, CHR 0x07, CHR 0x08, TAB, LF, CHR 0x0B, CHR 0x0C, CR}" by simp
    then show ?thesis by (elim insertE) (simp_all add: quote_char_def two unquote_escape_def del: unquote_body.simps)
  next
    case False
    then show ?thesis
      using hex by (auto simp: quote_char_def Let_def unquote_escape_def prepend_one)
  qed
qed

lemma unquote_quote: "Unquote (quote s) = Some s"
proof -
  have "unquote_body (concat (map quote_char s) @ [DQUOTE]) = Some s"
    by (induction s) (simp_all add: unquote_quoted_char)
  then show ?thesis by (simp add: Unquote_def quote_def)
qed

section \<open>The decoder\<close>

text \<open>
  A token and an error of \<^verbatim>\<open>encoding/json\<close>: of a syntax or type error the message and the fields the
  diagnostics read; a token that is neither a delimiter nor a string is known by its printed form.
\<close>

datatype json_token = Delim char | StringToken string | OtherToken string

datatype json_error = EOF | SyntaxError string int | UnmarshalTypeError string string int | OtherError string

fun error_text :: "json_error \<Rightarrow> string" where
  "error_text EOF = ''EOF''"
| "error_text (SyntaxError message offset) = message"
| "error_text (UnmarshalTypeError message field offset) = message"
| "error_text (OtherError message) = message"

text \<open>
  One call of \<^verbatim>\<open>Token\<close>: the byte a preceding \<^verbatim>\<open>More\<close> sees, the input offset after \<^verbatim>\<open>More\<close>, the
  offset after the call and what it returns. A decoder is the answers it still has and the error it
  gives from then on.
\<close>

record json_answer =
  a_byte :: "char option"
  a_peek :: int
  a_end :: int
  a_token :: "json_error + json_token"

type_synonym json_decoder = "json_answer list \<times> json_error \<times> int"

fun answer :: "json_decoder \<Rightarrow> json_answer" where
  "answer ([], err, offset) = \<lparr>a_byte = None, a_peek = offset, a_end = offset, a_token = Inl err\<rparr>"
| "answer (a # as, err, offset) = a"

definition advance_decoder :: "json_decoder \<Rightarrow> json_decoder" where
  "advance_decoder d = (tl (fst d), snd d)"

definition More :: "json_decoder \<Rightarrow> bool" where
  "More d = (case a_byte (answer d) of None \<Rightarrow> False | Some c \<Rightarrow> c \<noteq> CHR '']'' \<and> c \<noteq> CHR ''}'')"

section \<open>Diagnostics of decoding errors\<close>

definition trim_quotes :: "string \<Rightarrow> string" where
  "trim_quotes s = rev (dropWhile (\<lambda>c. c = DQUOTE) (rev (dropWhile (\<lambda>c. c = DQUOTE) s)))"

definition decode_hint :: string where
  "decode_hint = ''correct the cookbook and run docker-zero --check --cookbook-dir <directory>''"

definition unknown_field_prefix :: string where
  "unknown_field_prefix = ''json: unknown field ''"

definition jsonDecodeDiagnostic ::
  "string \<Rightarrow> string \<Rightarrow> json_error \<Rightarrow> int \<Rightarrow> (string, int) gomap option \<Rightarrow> DiagnosticError" where
  "jsonDecodeDiagnostic file data err decoderOffset locations =
     (case err of
        SyntaxError message offset \<Rightarrow>
          newSourceDiagnostic ''CONFIG_SYNTAX_ERROR'' file [] message decode_hint data (max 0 (offset - 1))
      | UnmarshalTypeError message field offset \<Rightarrow>
          newSourceDiagnostic ''CONFIG_TYPE_ERROR'' file
            (if field \<noteq> [] \<and> \<not> has_prefix field ''/''
             then ''/'' @ map (\<lambda>c. if c = CHR ''.'' then CHR ''/'' else c) field else field)
            message decode_hint data (max 0 (offset - 1))
      | _ \<Rightarrow>
          if has_prefix (error_text err) unknown_field_prefix then
            let quoted = trim_prefix (error_text err) unknown_field_prefix;
                field = (case Unquote quoted of Some f \<Rightarrow> f | None \<Rightarrow> trim_quotes quoted);
                offset = int (findJSONKeyOffsetBefore data field decoderOffset);
                candidate = (case locations of None \<Rightarrow> [] | Some ls \<Rightarrow> closestJSONPath ls field offset);
                jsonPath = (if candidate \<noteq> [] then candidate else ''/'' @ escapeJSONPointer field)
            in newSourceDiagnostic ''CONFIG_UNKNOWN_FIELD'' file jsonPath
                 (''unknown field '' @ quote field @ ''; this is usually a typo'') decode_hint data offset
          else newSourceDiagnostic ''CONFIG_PARSE_ERROR'' file [] (error_text err) decode_hint data
                 (if decoderOffset > 0 then decoderOffset - 1 else decoderOffset))"

section \<open>The scan\<close>

text \<open>
  \<^verbatim>\<open>scanJSONValue\<close> with its loops over the members of an object and the items of an array, which
  call it for each value. They return the locations and what is left of the decoder. The depth of the
  calls and the turns of a loop are bounded by fuel, \<open>None\<close> when it runs out; \<open>scan_returns\<close> below
  shows what is enough.
\<close>

type_synonym scan_result = "(DiagnosticError + (string, int) gomap \<times> json_decoder) option"

definition member_path :: "string \<Rightarrow> string \<Rightarrow> string" where
  "member_path path key = path @ ''/'' @ escapeJSONPointer key"

definition item_path :: "string \<Rightarrow> nat \<Rightarrow> string" where
  "item_path path index = path @ ''/'' @ itoa (int index)"

definition duplicate_key :: "string \<Rightarrow> string \<Rightarrow> string \<Rightarrow> string \<Rightarrow> int \<Rightarrow> DiagnosticError" where
  "duplicate_key file data path key offset =
     newSourceDiagnostic ''CONFIG_DUPLICATE_KEY'' file (member_path path key)
       (''duplicate JSON key '' @ quote key @ ''; encoding/json would silently keep only the last value'')
       ''remove one of the duplicate keys'' data (int (jsonStringTokenStart data offset))"

definition close_value :: "string \<Rightarrow> string \<Rightarrow> (string, int) gomap \<Rightarrow> json_decoder \<Rightarrow> scan_result" where
  "close_value file data locations d =
     Some (case a_token (answer d) of
        Inl err \<Rightarrow> Inl (jsonDecodeDiagnostic file data err (a_end (answer d)) None)
      | Inr token \<Rightarrow> Inr (locations, advance_decoder d))"

type_synonym value_scan = "string \<Rightarrow> (string, int) gomap \<Rightarrow> json_decoder \<Rightarrow> scan_result"

primrec scan_members ::
  "nat \<Rightarrow> value_scan \<Rightarrow> string \<Rightarrow> string \<Rightarrow> string \<Rightarrow> string list \<Rightarrow> (string, int) gomap \<Rightarrow> json_decoder \<Rightarrow> scan_result" where
  "scan_members 0 scan_value file data path seen locations d = None"
| "scan_members (Suc fuel) scan_value file data path seen locations d =
     (if \<not> More d then close_value file data locations d
      else
        let a = answer d; d' = advance_decoder d in
        case a_token a of
          Inl err \<Rightarrow> Some (Inl (jsonDecodeDiagnostic file data err (a_end a) None))
        | Inr (StringToken key) \<Rightarrow>
            if key \<in> set seen then Some (Inl (duplicate_key file data path key (a_end a)))
            else
              (case scan_value (member_path path key)
                  (mput locations (member_path path key) (int (jsonStringTokenStart data (a_end a)))) d' of
                 Some (Inr (locations', d'')) \<Rightarrow>
                   scan_members fuel scan_value file data path (key # seen) locations' d''
               | failed \<Rightarrow> failed)
        | Inr token \<Rightarrow>
            Some (Inl (newSourceDiagnostic ''CONFIG_SYNTAX_ERROR'' file path ''object key is not a string''
              ''use quoted JSON object keys'' data (a_end a))))"

primrec scan_items ::
  "nat \<Rightarrow> value_scan \<Rightarrow> string \<Rightarrow> string \<Rightarrow> string \<Rightarrow> nat \<Rightarrow> (string, int) gomap \<Rightarrow> json_decoder \<Rightarrow> scan_result" where
  "scan_items 0 scan_value file data path index locations d = None"
| "scan_items (Suc fuel) scan_value file data path index locations d =
     (if \<not> More d then close_value file data locations d
      else
        (case scan_value (item_path path index) (mput locations (item_path path index) (a_peek (answer d))) d of
           Some (Inr (locations', d')) \<Rightarrow> scan_items fuel scan_value file data path (Suc index) locations' d'
         | failed \<Rightarrow> failed))"

primrec scanJSONValue :: "nat \<Rightarrow> string \<Rightarrow> string \<Rightarrow> value_scan" where
  "scanJSONValue 0 file data path locations d = None"
| "scanJSONValue (Suc fuel) file data path locations d =
     (let a = answer d; d' = advance_decoder d in
      case a_token a of
        Inl err \<Rightarrow> Some (Inl (jsonDecodeDiagnostic file data err (a_end a) None))
      | Inr (Delim c) \<Rightarrow>
          if c = CHR ''{'' then scan_members fuel (scanJSONValue fuel file data) file data path [] locations d'
          else if c = CHR ''['' then scan_items fuel (scanJSONValue fuel file data) file data path 0 locations d'
          else Some (Inl (newSourceDiagnostic ''CONFIG_SYNTAX_ERROR'' file path
                 (''unexpected delimiter '' @ quote_rune c) ''correct the JSON structure'' data (a_end a)))
      | Inr token \<Rightarrow> Some (Inr (locations, d')))"

text \<open>The printed form of a token in the message about trailing data, as \<^verbatim>\<open>%v\<close> gives it.\<close>

fun token_text :: "json_token \<Rightarrow> string" where
  "token_text (Delim c) = [c]"
| "token_text (StringToken s) = s"
| "token_text (OtherToken s) = s"

definition scanJSONDocument :: "string \<Rightarrow> string \<Rightarrow> json_decoder \<Rightarrow> DiagnosticError + (string, int) gomap" where
  "scanJSONDocument file data d =
     (case the (scanJSONValue (Suc (length (fst d))) file data [] [] d) of
        Inl e \<Rightarrow> Inl e
      | Inr (locations, d') \<Rightarrow>
          (case a_token (answer d') of
             Inr token \<Rightarrow>
               Inl (newSourceDiagnostic ''CONFIG_TRAILING_DATA'' file []
                 (''unexpected JSON token '' @ token_text token @ '' after the cookbook document'')
                 ''remove the trailing document or data'' data (a_end (answer d')))
           | Inl EOF \<Rightarrow> Inr locations
           | Inl err \<Rightarrow> Inl (jsonDecodeDiagnostic file data err (a_end (answer d')) None)))"

section \<open>The scan returns\<close>

lemma answer_token: "a_token (answer d) = Inr t \<Longrightarrow> fst d \<noteq> []"
  by (cases d rule: answer.cases) auto

lemma advance_decoder_length: "a_token (answer d) = Inr t \<Longrightarrow> length (fst (advance_decoder d)) < length (fst d)"
  using answer_token [of d t] by (simp add: advance_decoder_def)

definition scans :: "nat \<Rightarrow> scan_result \<Rightarrow> bool" where
  "scans n r \<longleftrightarrow> (\<exists>v. r = Some v \<and> (\<forall>locations d. v = Inr (locations, d) \<longrightarrow> length (fst d) < n))"

lemma scans_mono: "scans m r \<Longrightarrow> m \<le> n \<Longrightarrow> scans n r"
  by (fastforce simp: scans_def)

lemma scans_error [simp]: "scans n (Some (Inl e))"
  by (simp add: scans_def)

lemma scans_close: "scans (length (fst d)) (close_value file data locations d)"
  using advance_decoder_length [of d] by (auto simp: scans_def close_value_def split: sum.splits)

text \<open>A loop returns with one turn more than there are answers, when the scan of a value does.\<close>

definition value_returns :: "nat \<Rightarrow> value_scan \<Rightarrow> bool" where
  "value_returns n scan_value \<longleftrightarrow>
     (\<forall>path locations d. length (fst d) < n \<longrightarrow> scans (length (fst d)) (scan_value path locations d))"

lemma value_returnsE:
  assumes "value_returns n scan_value" and "length (fst d) < n"
  obtains v where "scan_value path locations d = Some v"
    "\<And>locations' d'. v = Inr (locations', d') \<Longrightarrow> length (fst d') < length (fst d)"
proof -
  have "scans (length (fst d)) (scan_value path locations d)"
    using assms unfolding value_returns_def by blast
  then show thesis using that unfolding scans_def by blast
qed

lemma scan_members_returns:
  assumes "value_returns n scan_value"
  shows "length (fst d) < fuel \<Longrightarrow> length (fst d) < n \<Longrightarrow>
    scans (length (fst d)) (scan_members fuel scan_value file data path seen locations d)"
proof (induction fuel arbitrary: seen locations d)
  case (Suc fuel)
  show ?case
  proof (cases "\<exists>key. More d \<and> a_token (answer d) = Inr (StringToken key) \<and> key \<notin> set seen")
    case True
    then obtain key where key: "More d" "a_token (answer d) = Inr (StringToken key)" "key \<notin> set seen" by blast
    define ls where "ls = mput locations (member_path path key) (int (jsonStringTokenStart data (a_end (answer d))))"
    have less: "length (fst (advance_decoder d)) < length (fst d)" by (rule advance_decoder_length [OF key(2)])
    obtain v where v: "scan_value (member_path path key) ls (advance_decoder d) = Some v"
      "\<And>ls' d'. v = Inr (ls', d') \<Longrightarrow> length (fst d') < length (fst (advance_decoder d))"
      by (rule value_returnsE [OF assms, of "advance_decoder d" "member_path path key" ls])
         (use less Suc.prems(2) in auto)
    have "scans (length (fst d)) (scan_members fuel scan_value file data path (key # seen) ls' d')"
      if "v = Inr (ls', d')" for ls' d'
      using v(2) [OF that] less Suc.prems by (intro scans_mono [OF Suc.IH]) auto
    then show ?thesis using key v(1) by (simp add: Let_def flip: ls_def split: sum.split)
  qed (use scans_close [of d] in \<open>auto simp: Let_def split: sum.splits json_token.splits\<close>)
qed simp

lemma scan_items_returns:
  assumes "value_returns n scan_value"
  shows "length (fst d) < fuel \<Longrightarrow> length (fst d) < n \<Longrightarrow>
    scans (length (fst d)) (scan_items fuel scan_value file data path index locations d)"
proof (induction fuel arbitrary: index locations d)
  case (Suc fuel)
  define ls where "ls = mput locations (item_path path index) (a_peek (answer d))"
  obtain v where v: "scan_value (item_path path index) ls d = Some v"
    "\<And>ls' d'. v = Inr (ls', d') \<Longrightarrow> length (fst d') < length (fst d)"
    by (rule value_returnsE [OF assms Suc.prems(2), of "item_path path index" ls]) blast
  have "scans (length (fst d)) (scan_items fuel scan_value file data path (Suc index) ls' d')"
    if "v = Inr (ls', d')" for ls' d'
    using v(2) [OF that] Suc.prems by (intro scans_mono [OF Suc.IH]) auto
  then show ?case
    using v(1) scans_close [of d] by (simp add: Let_def flip: ls_def split: sum.split)
qed simp

lemma scan_returns: "value_returns fuel (scanJSONValue fuel file data)"
proof (induction fuel)
  case (Suc fuel)
  show ?case
    unfolding value_returns_def
  proof (intro allI impI)
    fix path locations and d :: json_decoder
    assume d: "length (fst d) < Suc fuel"
    have "scans (length (fst d)) (scan_members fuel (scanJSONValue fuel file data) file data path [] locations (advance_decoder d))"
      "scans (length (fst d)) (scan_items fuel (scanJSONValue fuel file data) file data path 0 locations (advance_decoder d))"
      if "a_token (answer d) = Inr t" for t
      using advance_decoder_length [OF that] d
      by (intro scans_mono [OF scan_members_returns [OF Suc]] scans_mono [OF scan_items_returns [OF Suc]]; simp)+
    with advance_decoder_length [of d] show "scans (length (fst d)) (scanJSONValue (Suc fuel) file data path locations d)"
      by (auto simp: Let_def scans_def split: sum.splits json_token.splits)
  qed
qed (simp add: value_returns_def)

section \<open>Documents\<close>

text \<open>
  What the scan is meant to compute, on the tree of a document. A leaf and each delimiter and key is
  the decoder's answer for it; \<open>flatten\<close> gives the answers back in their order.
\<close>

datatype json_doc =
    Leaf json_answer
  | Object json_answer "(json_answer \<times> json_doc) list" json_answer
  | Array json_answer "json_doc list" json_answer

fun flatten :: "json_doc \<Rightarrow> json_answer list"
and flatten_members :: "(json_answer \<times> json_doc) list \<Rightarrow> json_answer list"
and flatten_items :: "json_doc list \<Rightarrow> json_answer list" where
  "flatten (Leaf a) = [a]"
| "flatten (Object a members c) = a # flatten_members members @ [c]"
| "flatten (Array a items c) = a # flatten_items items @ [c]"
| "flatten_members [] = []"
| "flatten_members ((k, v) # members) = k # flatten v @ flatten_members members"
| "flatten_items [] = []"
| "flatten_items (v # items) = flatten v @ flatten_items items"

definition more_byte :: "json_answer \<Rightarrow> bool" where
  "more_byte a = (case a_byte a of None \<Rightarrow> False | Some c \<Rightarrow> c \<noteq> CHR '']'' \<and> c \<noteq> CHR ''}'')"

definition closes :: "json_answer \<Rightarrow> bool" where
  "closes a = (\<not> more_byte a \<and> (case a_token a of Inl _ \<Rightarrow> False | Inr _ \<Rightarrow> True))"

definition key_of :: "json_answer \<Rightarrow> string" where
  "key_of a = (case a_token a of Inr (StringToken key) \<Rightarrow> key | _ \<Rightarrow> [])"

fun wf_doc :: "json_doc \<Rightarrow> bool"
and wf_members :: "(json_answer \<times> json_doc) list \<Rightarrow> bool"
and wf_items :: "json_doc list \<Rightarrow> bool" where
  "wf_doc (Leaf a) = (case a_token a of Inl _ \<Rightarrow> False | Inr (Delim _) \<Rightarrow> False | Inr _ \<Rightarrow> True)"
| "wf_doc (Object a members c) = (a_token a = Inr (Delim (CHR ''{'')) \<and> wf_members members \<and> closes c)"
| "wf_doc (Array a items c) = (a_token a = Inr (Delim (CHR ''['')) \<and> wf_items items \<and> closes c)"
| "wf_members [] = True"
| "wf_members ((k, v) # members) =
     (more_byte k \<and> a_token k = Inr (StringToken (key_of k)) \<and> wf_doc v \<and> wf_members members)"
| "wf_items [] = True"
| "wf_items (v # items) = (more_byte (hd (flatten v)) \<and> wf_doc v \<and> wf_items items)"

fun unique_keys :: "json_doc \<Rightarrow> bool" where
  "unique_keys (Leaf a) = True"
| "unique_keys (Object a members c) =
     (distinct (map (\<lambda>m. key_of (fst m)) members) \<and> list_all (\<lambda>m. unique_keys (snd m)) members)"
| "unique_keys (Array a items c) = list_all unique_keys items"

text \<open>The first key, in the order of the text, that its object already has: its object's path, the key and its end.\<close>

fun find_dup :: "string \<Rightarrow> json_doc \<Rightarrow> (string \<times> string \<times> int) option"
and dup_members :: "string \<Rightarrow> string list \<Rightarrow> (json_answer \<times> json_doc) list \<Rightarrow> (string \<times> string \<times> int) option"
and dup_items :: "string \<Rightarrow> nat \<Rightarrow> json_doc list \<Rightarrow> (string \<times> string \<times> int) option" where
  "find_dup path (Leaf a) = None"
| "find_dup path (Object a members c) = dup_members path [] members"
| "find_dup path (Array a items c) = dup_items path 0 items"
| "dup_members path seen [] = None"
| "dup_members path seen ((k, v) # members) =
     (if key_of k \<in> set seen then Some (path, key_of k, a_end k)
      else case find_dup (member_path path (key_of k)) v of
        Some x \<Rightarrow> Some x
      | None \<Rightarrow> dup_members path (key_of k # seen) members)"
| "dup_items path index [] = None"
| "dup_items path index (v # items) =
     (case find_dup (item_path path index) v of Some x \<Rightarrow> Some x | None \<Rightarrow> dup_items path (Suc index) items)"

text \<open>The position of every member's key and of every item, under its pointer.\<close>

fun locate :: "string \<Rightarrow> string \<Rightarrow> json_doc \<Rightarrow> (string, int) gomap \<Rightarrow> (string, int) gomap"
and locate_members ::
  "string \<Rightarrow> string \<Rightarrow> (json_answer \<times> json_doc) list \<Rightarrow> (string, int) gomap \<Rightarrow> (string, int) gomap"
and locate_items :: "string \<Rightarrow> string \<Rightarrow> nat \<Rightarrow> json_doc list \<Rightarrow> (string, int) gomap \<Rightarrow> (string, int) gomap" where
  "locate data path (Leaf a) ls = ls"
| "locate data path (Object a members c) ls = locate_members data path members ls"
| "locate data path (Array a items c) ls = locate_items data path 0 items ls"
| "locate_members data path [] ls = ls"
| "locate_members data path ((k, v) # members) ls =
     (let at = member_path path (key_of k) in
      locate_members data path members (locate data at v (mput ls at (int (jsonStringTokenStart data (a_end k))))))"
| "locate_items data path index [] ls = ls"
| "locate_items data path index (v # items) ls =
     (let at = item_path path index in
      locate_items data path (Suc index) items (locate data at v (mput ls at (a_peek (hd (flatten v))))))"

lemma unique_keys_iff:
  "find_dup path doc = None \<longleftrightarrow> unique_keys doc"
  "dup_members path seen members = None \<longleftrightarrow> distinct (map (\<lambda>m. key_of (fst m)) members) \<and>
     set (map (\<lambda>m. key_of (fst m)) members) \<inter> set seen = {} \<and> list_all (\<lambda>m. unique_keys (snd m)) members"
  "dup_items path index items = None \<longleftrightarrow> list_all unique_keys items"
  by (induction path doc and path seen members and path index items
      rule: find_dup_dup_members_dup_items.induct)
     (auto split: option.splits)

section \<open>The scan of a document\<close>

lemma answer_Cons [simp]: "answer (a # as, fin) = a" "advance_decoder (a # as, fin) = (as, fin)"
  by (cases fin, simp) (simp add: advance_decoder_def)

lemma More_Cons [simp]: "More (a # as, fin) = more_byte a"
  by (simp add: More_def more_byte_def)

lemma close_value_closes: "closes c \<Longrightarrow> close_value file data ls (c # rest, fin) = Some (Inr (ls, rest, fin))"
  by (auto simp: close_value_def closes_def split: sum.splits)

lemma flatten_nonempty [simp]: "flatten doc \<noteq> []"
  by (cases doc) auto

text \<open>What the scan of a part gives: its first duplicate key, else the locations and the rest.\<close>

definition scan_outcome ::
  "string \<Rightarrow> string \<Rightarrow> (string \<times> string \<times> int) option \<Rightarrow> (string, int) gomap \<Rightarrow> json_decoder \<Rightarrow> scan_result" where
  "scan_outcome file data dup ls d =
     Some (case dup of Some (path, key, offset) \<Rightarrow> Inl (duplicate_key file data path key offset) | None \<Rightarrow> Inr (ls, d))"

lemma scan_outcome_simps [simp]:
  "scan_outcome file data None ls d = Some (Inr (ls, d))"
  "scan_outcome file data (Some (path, key, offset)) ls d = Some (Inl (duplicate_key file data path key offset))"
  by (simp_all add: scan_outcome_def)

lemma scan_flatten:
  "wf_doc doc \<Longrightarrow> length (flatten doc) < fuel \<Longrightarrow>
     scanJSONValue fuel file data path ls (flatten doc @ rest, fin) =
     scan_outcome file data (find_dup path doc) (locate data path doc ls) (rest, fin)"
  "wf_members members \<Longrightarrow> closes c \<Longrightarrow> length (flatten_members members) < fuel \<Longrightarrow> length (flatten_members members) \<le> n \<Longrightarrow>
     scan_members fuel (scanJSONValue n file data) file data path seen ls (flatten_members members @ c # rest, fin) =
     scan_outcome file data (dup_members path seen members) (locate_members data path members ls) (rest, fin)"
  "wf_items items \<Longrightarrow> closes c \<Longrightarrow> length (flatten_items items) < fuel \<Longrightarrow> length (flatten_items items) < n \<Longrightarrow>
     scan_items fuel (scanJSONValue n file data) file data path index ls (flatten_items items @ c # rest, fin) =
     scan_outcome file data (dup_items path index items) (locate_items data path index items ls) (rest, fin)"
proof (induction doc and members and items arbitrary: fuel path ls rest and fuel n path seen ls rest c and fuel n path index ls rest c
    rule: flatten_flatten_members_flatten_items.induct)
  case (1 a)
  then show ?case by (cases fuel) (auto simp: Let_def split: sum.splits json_token.splits)
next
  case (2 a members c)
  then show ?case by (cases fuel) (auto simp: Let_def)
next
  case (3 a items c)
  then show ?case by (cases fuel) (auto simp: Let_def)
next
  case 4
  then show ?case by (cases fuel) (auto simp: closes_def close_value_closes)
next
  case (5 k v members)
  from 5(5) obtain f where fuel: "fuel = Suc f" by (cases fuel) auto
  show ?case
  proof (cases "key_of k \<in> set seen")
    case True
    then show ?thesis using 5(3) by (simp add: fuel Let_def)
  next
    case False
    define at where "at = member_path path (key_of k)"
    define ls' where "ls' = mput ls at (int (jsonStringTokenStart data (a_end k)))"
    have v: "scanJSONValue n file data at ls' (flatten v @ flatten_members members @ c # rest, fin) =
        scan_outcome file data (find_dup at v) (locate data at v ls') (flatten_members members @ c # rest, fin)"
      using 5(3,6) by (intro 5(1)) auto
    have ms: "scan_members f (scanJSONValue n file data) file data path (key_of k # seen) (locate data at v ls')
        (flatten_members members @ c # rest, fin) =
        scan_outcome file data (dup_members path (key_of k # seen) members)
          (locate_members data path members (locate data at v ls')) (rest, fin)"
      using 5(3-6) by (intro 5(2)) (auto simp: fuel)
    show ?thesis
      using False v ms 5(3) by (cases "find_dup at v") (auto simp: fuel Let_def simp flip: at_def ls'_def)
  qed
next
  case 6
  then show ?case by (cases fuel) (auto simp: closes_def close_value_closes)
next
  case (7 v items)
  from 7(5) obtain f where fuel: "fuel = Suc f" by (cases fuel) auto
  obtain a as where hd: "flatten v = a # as" by (cases "flatten v") auto
  define at where "at = item_path path index"
  define ls' where "ls' = mput ls at (a_peek a)"
  have v: "scanJSONValue n file data at ls' (flatten v @ flatten_items items @ c # rest, fin) =
      scan_outcome file data (find_dup at v) (locate data at v ls') (flatten_items items @ c # rest, fin)"
    using 7(3,6) by (intro 7(1)) auto
  have its: "scan_items f (scanJSONValue n file data) file data path (Suc index) (locate data at v ls')
      (flatten_items items @ c # rest, fin) =
      scan_outcome file data (dup_items path (Suc index) items)
        (locate_items data path (Suc index) items (locate data at v ls')) (rest, fin)"
    using 7(3-6) hd by (intro 7(2)) (auto simp: fuel)
  show ?case
    using v its 7(3) by (cases "find_dup at v") (auto simp: fuel Let_def hd simp flip: at_def ls'_def)
qed

text \<open>Conversely, whatever the scan accepts is a document.\<close>

definition parses :: "value_scan \<Rightarrow> bool" where
  "parses scan_value \<longleftrightarrow> (\<forall>path ls as fin ls' d'. scan_value path ls (as, fin) = Some (Inr (ls', d')) \<longrightarrow>
     (\<exists>doc rest. wf_doc doc \<and> as = flatten doc @ rest \<and> d' = (rest, fin)))"

lemma parsesE:
  assumes "parses scan_value" "scan_value path ls (as, fin) = Some (Inr (ls', d'))"
  obtains doc rest where "wf_doc doc" "as = flatten doc @ rest" "d' = (rest, fin)"
  using assms unfolding parses_def by blast

lemma close_value_accepts:
  assumes "close_value file data ls (as, fin) = Some (Inr (ls', d'))" and "\<not> More (as, fin)"
  obtains c rest where "closes c" "as = c # rest" "d' = (rest, fin)"
proof (cases as)
  case Nil
  with assms show thesis by (cases fin) (simp add: close_value_def)
next
  case (Cons c rest)
  with assms obtain t where "a_token c = Inr t" "d' = (rest, fin)"
    by (auto simp: close_value_def split: sum.splits)
  with assms(2) Cons show thesis by (intro that) (auto simp: closes_def)
qed

lemma More_Nil [simp]: "\<not> More ([], fin)"
  by (cases fin) (simp add: More_def)

lemma scan_members_accepts:
  assumes "parses scan_value"
  shows "scan_members fuel scan_value file data path seen ls (as, fin) = Some (Inr (ls', d')) \<Longrightarrow>
    \<exists>members c rest. wf_members members \<and> closes c \<and> as = flatten_members members @ c # rest \<and> d' = (rest, fin)"
proof (induction fuel arbitrary: seen ls as)
  case (Suc fuel)
  show ?case
  proof (cases "More (as, fin)")
    case False
    then obtain c rest where "closes c" "as = c # rest" "d' = (rest, fin)"
      using Suc.prems close_value_accepts [of "file" data ls as fin ls' d'] by auto
    then show ?thesis by (intro exI [of _ "[]"]) auto
  next
    case True
    then obtain k as' where as: "as = k # as'" by (cases as) auto
    from Suc.prems True obtain key where key: "a_token k = Inr (StringToken key)" "key \<notin> set seen"
      by (auto simp: as Let_def split: sum.splits json_token.splits if_splits)
    with Suc.prems True obtain ls1 d1 where v: "scan_value (member_path path key)
          (mput ls (member_path path key) (int (jsonStringTokenStart data (a_end k)))) (as', fin) = Some (Inr (ls1, d1))"
      and m: "scan_members fuel scan_value file data path (key # seen) ls1 d1 = Some (Inr (ls', d'))"
      by (auto simp: as Let_def split: sum.splits option.splits)
    obtain doc rest where doc: "wf_doc doc" "as' = flatten doc @ rest" "d1 = (rest, fin)"
      by (rule parsesE [OF assms v])
    obtain members c rest' where "wf_members members" "closes c" "rest = flatten_members members @ c # rest'" "d' = (rest', fin)"
      using Suc.IH m doc(3) by blast
    with doc key True show ?thesis
      by (intro exI [of _ "(k, doc) # members"] exI [of _ c] exI [of _ rest']) (auto simp: as key_of_def)
  qed
qed simp

lemma scan_items_accepts:
  assumes "parses scan_value"
  shows "scan_items fuel scan_value file data path index ls (as, fin) = Some (Inr (ls', d')) \<Longrightarrow>
    \<exists>items c rest. wf_items items \<and> closes c \<and> as = flatten_items items @ c # rest \<and> d' = (rest, fin)"
proof (induction fuel arbitrary: index ls as)
  case (Suc fuel)
  show ?case
  proof (cases "More (as, fin)")
    case False
    then obtain c rest where "closes c" "as = c # rest" "d' = (rest, fin)"
      using Suc.prems close_value_accepts [of "file" data ls as fin ls' d'] by auto
    then show ?thesis by (intro exI [of _ "[]"]) auto
  next
    case True
    with Suc.prems obtain ls1 d1 where v: "scan_value (item_path path index)
          (mput ls (item_path path index) (a_peek (answer (as, fin)))) (as, fin) = Some (Inr (ls1, d1))"
      and m: "scan_items fuel scan_value file data path (Suc index) ls1 d1 = Some (Inr (ls', d'))"
      by (auto split: sum.splits option.splits)
    obtain doc rest where doc: "wf_doc doc" "as = flatten doc @ rest" "d1 = (rest, fin)"
      by (rule parsesE [OF assms v])
    obtain a as' where hd: "flatten doc = a # as'" by (cases "flatten doc") auto
    obtain items c rest' where "wf_items items" "closes c" "rest = flatten_items items @ c # rest'" "d' = (rest', fin)"
      using Suc.IH m doc(3) by blast
    with doc True hd show ?thesis
      by (intro exI [of _ "doc # items"] exI [of _ c] exI [of _ rest']) auto
  qed
qed simp

lemma scan_accepts: "parses (scanJSONValue fuel file data)"
proof (induction fuel)
  case (Suc fuel)
  show ?case
    unfolding parses_def
  proof (intro allI impI)
    fix path ls as fin ls' d'
    assume r: "scanJSONValue (Suc fuel) file data path ls (as, fin) = Some (Inr (ls', d'))"
    from r obtain a as' t where as: "as = a # as'" "a_token a = Inr t"
      by (cases as; cases fin) (auto simp: Let_def split: sum.splits)
    consider (object) "t = Delim (CHR ''{'')" | (array) "t = Delim (CHR ''['')"
      | (leaf) "d' = (as', fin)" "\<And>c. t \<noteq> Delim c"
      using r as by (cases t) (auto simp: Let_def split: if_splits)
    then show "\<exists>doc rest. wf_doc doc \<and> as = flatten doc @ rest \<and> d' = (rest, fin)"
    proof cases
      case object
      with r as obtain members c rest where "wf_members members" "closes c" "as' = flatten_members members @ c # rest" "d' = (rest, fin)"
        using scan_members_accepts [OF Suc, of fuel "file" data path "[]" ls as' fin ls' d'] by (auto simp: Let_def)
      with object as show ?thesis by (intro exI [of _ "Object a members c"] exI [of _ rest]) simp
    next
      case array
      with r as obtain items c rest where "wf_items items" "closes c" "as' = flatten_items items @ c # rest" "d' = (rest, fin)"
        using scan_items_accepts [OF Suc, of fuel "file" data path 0 ls as' fin ls' d'] by (auto simp: Let_def)
      with array as show ?thesis by (intro exI [of _ "Array a items c"] exI [of _ rest]) simp
    next
      case leaf
      with as show ?thesis by (intro exI [of _ "Leaf a"] exI [of _ as']) (auto split: json_token.split)
    qed
  qed
qed (simp add: parses_def)

lemma scanJSONDocument_flatten:
  assumes "wf_doc doc"
  shows "scanJSONDocument file data (flatten doc @ rest, fin) =
    (case find_dup [] doc of
       Some (path, key, offset) \<Rightarrow> Inl (duplicate_key file data path key offset)
     | None \<Rightarrow>
         (case a_token (answer (rest, fin)) of
            Inr token \<Rightarrow>
              Inl (newSourceDiagnostic ''CONFIG_TRAILING_DATA'' file []
                (''unexpected JSON token '' @ token_text token @ '' after the cookbook document'')
                ''remove the trailing document or data'' data (a_end (answer (rest, fin))))
          | Inl EOF \<Rightarrow> Inr (locate data [] doc [])
          | Inl err \<Rightarrow> Inl (jsonDecodeDiagnostic file data err (a_end (answer (rest, fin))) None)))"
proof -
  have "scanJSONValue (Suc (length (fst (flatten doc @ rest, fin)))) file data [] [] (flatten doc @ rest, fin) =
      scan_outcome file data (find_dup [] doc) (locate data [] doc []) (rest, fin)"
    by (rule scan_flatten(1) [OF assms]) simp
  then show ?thesis
    unfolding scanJSONDocument_def by (cases "find_dup [] doc") auto
qed

section \<open>Properties\<close>

text \<open>
  C14: the scan accepts a file exactly when the decoder reads one JSON document from it, nothing but the
  end follows, and no object of the document has a key twice. The locations it returns are those of
  the document.
\<close>

theorem scan_accepts_unique_documents:
  "scanJSONDocument file data (as, fin) = Inr locations \<longleftrightarrow>
   (\<exists>doc rest. wf_doc doc \<and> unique_keys doc \<and> as = flatten doc @ rest \<and>
     a_token (answer (rest, fin)) = Inl EOF \<and> locations = locate data [] doc [])"
proof
  assume accepted: "scanJSONDocument file data (as, fin) = Inr locations"
  have "scans (length as) (scanJSONValue (Suc (length as)) file data [] [] (as, fin))"
    using scan_returns [of "Suc (length as)" "file" data] unfolding value_returns_def
    by (elim allE [of _ "[]"] allE [of _ "(as, fin)"]) (simp del: scanJSONValue.simps)
  with accepted obtain ls d where "scanJSONValue (Suc (length as)) file data [] [] (as, fin) = Some (Inr (ls, d))"
    by (auto simp: scanJSONDocument_def scans_def simp del: scanJSONValue.simps split: sum.splits)
  then obtain doc rest where doc: "wf_doc doc" "as = flatten doc @ rest"
    by (rule parsesE [OF scan_accepts])
  have "find_dup [] doc = None \<and> a_token (answer (rest, fin)) = Inl EOF \<and> locations = locate data [] doc []"
    using accepted unfolding doc(2) scanJSONDocument_flatten [OF doc(1)]
    by (auto split: option.splits sum.splits json_error.splits)
  with doc show "\<exists>doc rest. wf_doc doc \<and> unique_keys doc \<and> as = flatten doc @ rest \<and>
     a_token (answer (rest, fin)) = Inl EOF \<and> locations = locate data [] doc []"
    by (auto simp: unique_keys_iff)
next
  assume "\<exists>doc rest. wf_doc doc \<and> unique_keys doc \<and> as = flatten doc @ rest \<and>
     a_token (answer (rest, fin)) = Inl EOF \<and> locations = locate data [] doc []"
  then show "scanJSONDocument file data (as, fin) = Inr locations"
    by (auto simp: scanJSONDocument_flatten simp flip: unique_keys_iff(1) [of "[]"])
qed

text \<open>
  C39: the scan ends on every input: with one unit of fuel more than the decoder has answers it returns,
  whatever the answers are, well nested or not.
\<close>

theorem scan_terminates: "\<exists>result. scanJSONValue (Suc (length (fst d))) file data path locations d = Some result"
proof -
  have "scans (length (fst d)) (scanJSONValue (Suc (length (fst d))) file data path locations d)"
    using scan_returns [of "Suc (length (fst d))" "file" data] unfolding value_returns_def
    by (elim allE [of _ path] allE [of _ locations] allE [of _ d]) (simp del: scanJSONValue.simps)
  then show ?thesis by (auto simp: scans_def simp del: scanJSONValue.simps)
qed

end
