(* ===== verification/Cookbook_Load.thy ===== *)
theory Cookbook_Load
  imports Validated_Runs Cookbook_Scan
begin

text \<open>
  Loading the cookbooks (\<^verbatim>\<open>cookbook_load.go\<close>): every \<^verbatim>\<open>.json\<close> file of the directory is scanned,
  decoded and validated, and the set as a whole is checked. The files and what \<^verbatim>\<open>encoding/json\<close>
  reads from a text are inputs.
\<close>

section \<open>One file\<close>

text \<open>
  Of a text: the tokens a scanning decoder answers; the result of decoding it into a cookbook and the
  input offset then; and that of decoding a second value, \<open>None\<close> when there is one.
\<close>

record json_reader =
  jr_tokens :: "string \<Rightarrow> json_decoder"
  jr_decode :: "string \<Rightarrow> (json_error + Cookbook) \<times> int"
  jr_trailing :: "string \<Rightarrow> json_error option \<times> int"

definition utf8_bom :: string where
  "utf8_bom = [CHR 0xEF, CHR 0xBB, CHR 0xBF]"

definition validation_diagnostic ::
  "string \<Rightarrow> string \<Rightarrow> (string, int) gomap \<Rightarrow> ValidationError \<Rightarrow> DiagnosticError" where
  "validation_diagnostic path data locations validation =
     (let offset = (case mget locations (ve_Path validation) of
            Some offset \<Rightarrow> offset
          | None \<Rightarrow> int (findJSONKeyOffset data (lastJSONPointerSegment (ve_Path validation))))
      in newSourceDiagnostic ''CONFIG_VALIDATION_ERROR'' path (ve_Path validation) (ve_Message validation)
           ''correct the value and run docker-zero --check --cookbook-dir <directory>'' data offset)"

definition decodeCookbook :: "json_reader \<Rightarrow> string \<Rightarrow> string \<Rightarrow> (DiagnosticError + Cookbook) go" where
  "decodeCookbook reader path data =
     (if trim_space data = [] then
        Ret (Inl (newSourceDiagnostic ''CONFIG_EMPTY_FILE'' path [] ''cookbook file is empty'' ''restore a valid JSON cookbook'' data 0))
      else if has_prefix data utf8_bom then
        Ret (Inl (newSourceDiagnostic ''CONFIG_UTF8_BOM'' path [] ''UTF-8 BOM is not accepted in JSON cookbooks''
          ''save the file as UTF-8 without BOM'' data 0))
      else case scanJSONDocument path data (jr_tokens reader data) of
        Inl e \<Rightarrow> Ret (Inl e)
      | Inr locations \<Rightarrow>
          (case jr_decode reader data of
             (Inl err, offset) \<Rightarrow> Ret (Inl (jsonDecodeDiagnostic path data err offset (Some locations)))
           | (Inr cb, _) \<Rightarrow>
               (case jr_trailing reader data of
                  (None, offset) \<Rightarrow>
                    Ret (Inl (newSourceDiagnostic ''CONFIG_TRAILING_DATA'' path []
                      ''a second JSON value follows the cookbook document'' ''remove the trailing JSON value'' data offset))
                | (Some EOF, _) \<Rightarrow>
                    go_bind (validate cb) (\<lambda>(err, cb').
                      Ret (case err of None \<Rightarrow> Inr cb' | Some validation \<Rightarrow> Inl (validation_diagnostic path data locations validation)))
                | (Some err, offset) \<Rightarrow> Ret (Inl (jsonDecodeDiagnostic path data err offset (Some locations))))))"

section \<open>The directory\<close>

text \<open>An error of the configuration: a diagnostic with a place in a file, or a message.\<close>

datatype config_error = Diagnostic DiagnosticError | Message string

datatype cookbook_source = Embedded | DirFS string

record cookbook_files =
  f_Abs :: "string \<Rightarrow> string + string"
  f_ReadDir :: "cookbook_source \<Rightarrow> string \<Rightarrow> string + (string \<times> bool) list"
  f_ReadFile :: "cookbook_source \<Rightarrow> string \<Rightarrow> string + string"

text \<open>\<^verbatim>\<open>filepath.Join\<close> of a clean directory and the name of one of its entries.\<close>

definition path_join :: "string \<Rightarrow> string \<Rightarrow> string" where
  "path_join root name =
     (if root = ''.'' then name else if has_suffix root ''/'' then root @ name else root @ ''/'' @ name)"

fun load_entries ::
  "json_reader \<Rightarrow> cookbook_files \<Rightarrow> cookbook_source \<Rightarrow> string \<Rightarrow> string
    \<Rightarrow> (string, Cookbook) gomap \<Rightarrow> (string, string) gomap \<Rightarrow> (string \<times> bool) list
    \<Rightarrow> (config_error + (string, Cookbook) gomap \<times> (string, string) gomap) go" where
  "load_entries reader files source root displayRoot result origins [] = Ret (Inr (result, origins))"
| "load_entries reader files source root displayRoot result origins ((name, isDir) # entries) =
     (if isDir \<or> \<not> has_suffix (to_lower name) ''.json''
      then load_entries reader files source root displayRoot result origins entries
      else
        let path = path_join root name; displayPath = path_join displayRoot name in
        case f_ReadFile files source path of
          Inl err \<Rightarrow> Ret (Inl (Message (''read cookbook '' @ displayPath @ '': '' @ err)))
        | Inr data \<Rightarrow>
            go_bind (decodeCookbook reader displayPath data) (\<lambda>decoded.
              case decoded of
                Inl e \<Rightarrow> Ret (Inl (Diagnostic e))
              | Inr cb \<Rightarrow>
                  let kindKey = to_lower (cb_Kind cb) in
                  case mget origins kindKey of
                    Some previous \<Rightarrow>
                      Ret (Inl (Diagnostic (zeroDiagnostic\<lparr>de_Code := ''CONFIG_DUPLICATE_COOKBOOK'', de_File := displayPath,
                        de_JSONPath := ''/kind'',
                        de_Message := ''cookbook kind '' @ quote (cb_Kind cb) @ '' is already defined by '' @ previous,
                        de_Hint := ''keep exactly one cookbook file for each service kind''\<rparr>)))
                  | None \<Rightarrow>
                      load_entries reader files source root displayRoot (mput result kindKey cb)
                        (mput origins kindKey displayPath) entries))"

definition load_from ::
  "json_reader \<Rightarrow> cookbook_files \<Rightarrow> cookbook_source \<Rightarrow> string \<Rightarrow> string \<Rightarrow> (config_error + (string, Cookbook) gomap) go" where
  "load_from reader files source root displayRoot =
     (case f_ReadDir files source root of
        Inl err \<Rightarrow> Ret (Inl (Message (''read cookbook directory '' @ displayRoot @ '': '' @ err)))
      | Inr entries \<Rightarrow>
          go_bind (load_entries reader files source root displayRoot [] [] entries) (\<lambda>loaded.
            Ret (case loaded of
               Inl e \<Rightarrow> Inl e
             | Inr (result, origins) \<Rightarrow>
                 if result = [] then
                   Inl (Diagnostic (zeroDiagnostic\<lparr>de_Code := ''CONFIG_NO_COOKBOOKS'', de_File := displayRoot,
                     de_Message := ''no .json cookbook files were found'',
                     de_Hint := ''provide nginx.json and redis.json or omit --cookbook-dir to use the embedded cookbooks''\<rparr>))
                 else (case validateCookbookSet result origins of
                    Some e \<Rightarrow> Inl (Diagnostic e)
                  | None \<Rightarrow> Inr result))))"

definition loadCookbooks ::
  "json_reader \<Rightarrow> cookbook_files \<Rightarrow> string \<Rightarrow> (config_error + (string, Cookbook) gomap) go" where
  "loadCookbooks reader files externalDir =
     (if trim_space externalDir \<noteq> [] then
        (case f_Abs files externalDir of
           Inl err \<Rightarrow> Ret (Inl (Message (''resolve cookbook directory '' @ quote externalDir @ '': '' @ err)))
         | Inr absolute \<Rightarrow> load_from reader files (DirFS absolute) ''.'' absolute)
      else load_from reader files Embedded ''cookbooks'' ''<embedded>/cookbooks'')"

section \<open>The set check\<close>

text \<open>
  What the check of the set is meant to find, without the order of the maps: two cookbooks with one name,
  one endpoint or one image matcher.
\<close>

definition default_name :: "Cookbook \<Rightarrow> string" where
  "default_name cb = to_lower (d_Name (cb_Defaults cb))"

definition default_endpoint :: "Cookbook \<Rightarrow> string" where
  "default_endpoint cb = JoinHostPort (d_IPAddress (cb_Defaults cb)) (itoa (d_ContainerPort (cb_Defaults cb)))"

definition image_key :: "string \<Rightarrow> string" where
  "image_key img = to_lower (trim_space img)"

definition matcher_keys :: "string list \<Rightarrow> string set" where
  "matcher_keys imgs = set (map image_key imgs) - {[]}"

definition image_keys :: "Cookbook \<Rightarrow> string set" where
  "image_keys cb = matcher_keys (d_Image (cb_Defaults cb) # cb_ImageNames cb)"

lemma matcher_keys_simps [simp]:
  "matcher_keys [] = {}"
  "matcher_keys (img # imgs) = (if image_key img = [] then matcher_keys imgs else insert (image_key img) (matcher_keys imgs))"
  by (auto simp: matcher_keys_def)

lemma set_images_step:
  "set_images kind origin images (img # imgs) =
     (if image_key img = [] then set_images kind origin images imgs
      else if mget images (image_key img) \<in> {None, Some kind}
        then set_images kind origin (mput images (image_key img) kind) imgs
      else Inl (zeroDiagnostic\<lparr>de_Code := ''CONFIG_AMBIGUOUS_IMAGE'', de_File := origin,
        de_JSONPath := ''/image_names'',
        de_Message := ''image matcher '' @ quote img @ '' is also owned by '' @ the (mget images (image_key img)),
        de_Hint := ''image names must map to only one cookbook''\<rparr>))"
  by (auto simp: image_key_def split: option.splits)

lemma set_images_accepts:
  "(\<exists>images'. set_images kind origin images imgs = Inr images') \<longleftrightarrow>
   (\<forall>key\<in>matcher_keys imgs. mget images key \<in> {None, Some kind})"
proof (induction imgs arbitrary: images)
  case (Cons img imgs)
  consider "image_key img = []" | "image_key img \<noteq> []" "mget images (image_key img) \<notin> {None, Some kind}"
    | "image_key img \<noteq> []" "mget images (image_key img) \<in> {None, Some kind}" by blast
  then show ?case
  proof cases
    case 3
    have "(\<forall>key\<in>matcher_keys imgs. mget (mput images (image_key img) kind) key \<in> {None, Some kind}) \<longleftrightarrow>
        (\<forall>key\<in>matcher_keys imgs. mget images key \<in> {None, Some kind})"
      using 3(2) by (intro ball_cong) auto
    with 3 Cons.IH [of "mput images (image_key img) kind"] show ?thesis by (simp add: set_images_step del: set_images.simps)
  qed (auto simp: Cons.IH set_images_step simp del: set_images.simps)
qed simp

lemma set_images_owned:
  "set_images kind origin images imgs = Inr images' \<Longrightarrow>
   mget images' key = (if key \<in> matcher_keys imgs then Some kind else mget images key)"
proof (induction imgs arbitrary: images)
  case (Cons img imgs)
  then show ?case by (auto simp: set_images_step simp del: set_images.simps split: if_splits)
qed simp

definition pairwise_on :: "('a \<Rightarrow> 'a \<Rightarrow> bool) \<Rightarrow> ('k, 'a) gomap \<Rightarrow> bool" where
  "pairwise_on R m \<longleftrightarrow> (\<forall>k v k' v'. mget m k = Some v \<longrightarrow> mget m k' = Some v' \<longrightarrow> k \<noteq> k' \<longrightarrow> R v v')"

lemma pairwise_on_Cons:
  assumes "wf_map ((k, v) # m)" and sym: "\<And>a b. R a b \<Longrightarrow> R b a"
  shows "pairwise_on R ((k, v) # m) \<longleftrightarrow> pairwise_on R m \<and> (\<forall>k' v'. mget m k' = Some v' \<longrightarrow> R v v')"
proof -
  have k: "mget m k = None" using assms(1) by (simp add: wf_map_Cons)
  show ?thesis
  proof (intro iffI conjI)
    assume all: "pairwise_on R ((k, v) # m)"
    note all = all [unfolded pairwise_on_def, rule_format]
    show "pairwise_on R m"
      unfolding pairwise_on_def
    proof (intro allI impI)
      fix a va b vb
      assume "mget m a = Some va" "mget m b = Some vb" "a \<noteq> b"
      moreover from this k have "k \<noteq> a" "k \<noteq> b" by auto
      ultimately show "R va vb" using all [of a va b vb] by simp
    qed
    show "\<forall>k' v'. mget m k' = Some v' \<longrightarrow> R v v'"
    proof (intro allI impI)
      fix b vb
      assume "mget m b = Some vb"
      moreover from this k have "k \<noteq> b" by auto
      ultimately show "R v vb" using all [of k v b vb] by simp
    qed
  next
    assume rest: "pairwise_on R m \<and> (\<forall>k' v'. mget m k' = Some v' \<longrightarrow> R v v')"
    show "pairwise_on R ((k, v) # m)"
      unfolding pairwise_on_def
    proof (intro allI impI)
      fix a va b vb
      assume "mget ((k, v) # m) a = Some va" "mget ((k, v) # m) b = Some vb" "a \<noteq> b"
      with rest sym show "R va vb" by (auto simp: pairwise_on_def split: if_splits)
    qed
  qed
qed

text \<open>What a cookbook has to do with the maps built so far, and with any other cookbook.\<close>

definition admitted_by ::
  "(string, string) gomap \<Rightarrow> (string, string) gomap \<Rightarrow> (string, string) gomap \<Rightarrow> string \<Rightarrow> Cookbook \<Rightarrow> bool" where
  "admitted_by names endpoints images kind cb \<longleftrightarrow> mget names (default_name cb) = None \<and>
     mget endpoints (default_endpoint cb) = None \<and> (\<forall>key\<in>image_keys cb. mget images key \<in> {None, Some kind})"

definition separate :: "Cookbook \<Rightarrow> Cookbook \<Rightarrow> bool" where
  "separate a b \<longleftrightarrow> default_name a \<noteq> default_name b \<and> default_endpoint a \<noteq> default_endpoint b \<and>
     image_keys a \<inter> image_keys b = {}"

lemma separate_sym: "separate a b \<Longrightarrow> separate b a"
  by (auto simp: separate_def)

lemma admitted_after:
  assumes "set_images kind origin images (d_Image (cb_Defaults cb) # cb_ImageNames cb) = Inr images'" and "kind' \<noteq> kind"
  shows "admitted_by (mput names (default_name cb) kind) (mput endpoints (default_endpoint cb) kind) images' kind' b \<longleftrightarrow>
    admitted_by names endpoints images kind' b \<and> separate cb b"
proof -
  have "mget images' key = (if key \<in> image_keys cb then Some kind else mget images key)" for key
    unfolding image_keys_def by (rule set_images_owned [OF assms(1)])
  then have "(\<forall>key\<in>image_keys b. mget images' key \<in> {None, Some kind'}) \<longleftrightarrow>
      (\<forall>key\<in>image_keys b. mget images key \<in> {None, Some kind'}) \<and> image_keys cb \<inter> image_keys b = {}"
    using assms(2) by auto
  then show ?thesis by (auto simp: admitted_by_def separate_def)
qed

lemma set_loop_step:
  "set_loop origins names endpoints images ((kind, cb) # rest) = None \<longleftrightarrow> admitted_by names endpoints images kind cb \<and>
     (\<exists>images'. set_images kind (mget_or [] origins kind) images (d_Image (cb_Defaults cb) # cb_ImageNames cb) = Inr images' \<and>
        set_loop origins (mput names (default_name cb) kind) (mput endpoints (default_endpoint cb) kind) images' rest = None)"
  using set_images_accepts [of kind "mget_or [] origins kind" images "d_Image (cb_Defaults cb) # cb_ImageNames cb"]
  by (auto simp: Let_def admitted_by_def default_name_def default_endpoint_def image_keys_def
      simp del: set_images.simps matcher_keys_simps split: option.splits sum.splits)

lemma set_loop_accepts:
  "wf_map cookbooks \<Longrightarrow> set_loop origins names endpoints images cookbooks = None \<longleftrightarrow>
     (\<forall>kind cb. mget cookbooks kind = Some cb \<longrightarrow> admitted_by names endpoints images kind cb) \<and> pairwise_on separate cookbooks"
proof (induction cookbooks arbitrary: names endpoints images)
  case Nil
  then show ?case by (simp add: pairwise_on_def)
next
  case (Cons x rest)
  obtain kind cb where x: "x = (kind, cb)" by fastforce
  have wf: "wf_map rest" and new: "mget rest kind = None" using Cons.prems by (simp_all add: x wf_map_Cons)
  let ?imgs = "d_Image (cb_Defaults cb) # cb_ImageNames cb"
  have pair: "pairwise_on separate ((kind, cb) # rest) \<longleftrightarrow> pairwise_on separate rest \<and>
      (\<forall>k' v'. mget rest k' = Some v' \<longrightarrow> separate cb v')"
    using Cons.prems by (intro pairwise_on_Cons) (simp_all add: x separate_sym)
  show ?case
  proof (cases "set_images kind (mget_or [] origins kind) images ?imgs")
    case (Inl e)
    then have "\<not> admitted_by names endpoints images kind cb"
      using set_images_accepts [of kind "mget_or [] origins kind" images ?imgs]
      by (auto simp: admitted_by_def image_keys_def simp del: set_images.simps matcher_keys_simps)
    then show ?thesis unfolding x set_loop_step by auto
  next
    case (Inr images')
    have after: "admitted_by (mput names (default_name cb) kind) (mput endpoints (default_endpoint cb) kind) images' k b \<longleftrightarrow>
        admitted_by names endpoints images k b \<and> separate cb b" if "mget rest k = Some b" for k b
      using that new by (intro admitted_after [OF Inr]) auto
    have "set_loop origins (mput names (default_name cb) kind) (mput endpoints (default_endpoint cb) kind) images' rest = None \<longleftrightarrow>
        (\<forall>k b. mget rest k = Some b \<longrightarrow> admitted_by names endpoints images k b \<and> separate cb b) \<and> pairwise_on separate rest"
      unfolding Cons.IH [OF wf] using after by blast
    then show ?thesis
      unfolding x set_loop_step pair Inr using new by auto
  qed
qed

section \<open>What is loaded\<close>

definition loaded :: "(string, Cookbook) gomap \<Rightarrow> bool" where
  "loaded cookbooks \<longleftrightarrow> (\<forall>cb\<in>set (mvals cookbooks). validated cb)"

lemma loaded_iff: "wf_map cookbooks \<Longrightarrow> loaded cookbooks \<longleftrightarrow> (\<forall>kind cb. mget cookbooks kind = Some cb \<longrightarrow> validated cb)"
  by (fastforce simp: loaded_def mvals_def simp flip: in_mget)

lemma decodeCookbook_returns: "\<exists>r. decodeCookbook reader path data = Ret r \<and> (\<forall>cb. r = Inr cb \<longrightarrow> validated cb)"
proof -
  have "\<exists>r. go_bind (validate cb) (\<lambda>(err, cb').
      Ret (case err of None \<Rightarrow> Inr cb' | Some v \<Rightarrow> Inl (validation_diagnostic path data locations v))) = Ret r \<and>
      (\<forall>cb. r = Inr cb \<longrightarrow> validated cb)" for cb locations
  proof -
    obtain err cb' where "validate cb = Ret (err, cb')" using validate_returns [of cb] by (auto simp: returns_iff)
    then show ?thesis by (cases err) (auto simp: validated_def)
  qed
  then show ?thesis
    unfolding decodeCookbook_def
    by (auto simp del: go_bind_Ret split: sum.split prod.split option.split json_error.split)
qed

definition keyed :: "(string, Cookbook) gomap \<Rightarrow> (string, string) gomap \<Rightarrow> bool" where
  "keyed result origins \<longleftrightarrow> wf_map result \<and>
     (\<forall>kind cb. mget result kind = Some cb \<longrightarrow> validated cb \<and> cb_Kind cb = kind)"

lemma load_entries_returns:
  "keyed result origins \<Longrightarrow> \<exists>r. load_entries reader files source root displayRoot result origins entries = Ret r \<and>
     (\<forall>result' origins'. r = Inr (result', origins') \<longrightarrow> keyed result' origins')"
proof (induction entries arbitrary: result origins)
  case (Cons entry entries)
  obtain name isDir where entry: "entry = (name, isDir)" by fastforce
  show ?case
  proof (cases "isDir \<or> \<not> has_suffix (to_lower name) ''.json''")
    case True
    then show ?thesis using Cons by (simp add: entry)
  next
    case False
    show ?thesis
    proof (cases "f_ReadFile files source (path_join root name)")
      case (Inl err)
      with False show ?thesis by (simp add: entry Let_def)
    next
      case (Inr data)
      obtain r where r: "decodeCookbook reader (path_join displayRoot name) data = Ret r" "\<And>cb. r = Inr cb \<Longrightarrow> validated cb"
        using decodeCookbook_returns by blast
      show ?thesis
      proof (cases r)
        case (Inl e)
        with False Inr r(1) show ?thesis by (simp add: entry Let_def)
      next
        case cb: (Inr cb)
        then have "validated cb" by (rule r(2))
        moreover from this have "to_lower (cb_Kind cb) = cb_Kind cb" using kind_normal by (simp add: validated_iff)
        ultimately have "keyed (mput result (to_lower (cb_Kind cb)) cb) (mput origins (to_lower (cb_Kind cb)) p)" for p
          using Cons.prems by (auto simp: keyed_def)
        from Cons.IH [OF this] show ?thesis
          using False Inr r(1) cb by (auto simp: entry Let_def split: option.split)
      qed
    qed
  qed
qed simp

lemma load_from_returns:
  "\<exists>r. load_from reader files source root displayRoot = Ret r \<and>
     (\<forall>cookbooks. r = Inr cookbooks \<longrightarrow> (\<exists>origins. keyed cookbooks origins \<and> validateCookbookSet cookbooks origins = None))"
proof (cases "f_ReadDir files source root")
  case (Inl err)
  then show ?thesis by (simp add: load_from_def)
next
  case (Inr entries)
  have "keyed [] []" by (simp add: keyed_def)
  from load_entries_returns [OF this, of reader files source root displayRoot entries]
  obtain r where "load_entries reader files source root displayRoot [] [] entries = Ret r"
    "\<And>result' origins'. r = Inr (result', origins') \<Longrightarrow> keyed result' origins'" by blast
  with Inr show ?thesis by (auto simp: load_from_def split: sum.splits option.splits if_splits)
qed

lemma validateCookbookSet_iff:
  assumes "wf_map cookbooks"
  shows "validateCookbookSet cookbooks origins = None \<longleftrightarrow>
    set (mkeys cookbooks) = {''nginx'', ''redis''} \<and> pairwise_on separate cookbooks"
proof -
  have "set_loop origins [] [] [] cookbooks = None \<longleftrightarrow> pairwise_on separate cookbooks"
    using set_loop_accepts [OF assms, of origins "[]" "[]" "[]"] by (simp add: admitted_by_def)
  then show ?thesis
    unfolding validateCookbookSet_def by (auto simp: set_mkeys mmem_def)
qed

definition cookbook_set :: "(string, Cookbook) gomap \<Rightarrow> bool" where
  "cookbook_set cookbooks \<longleftrightarrow> wf_map cookbooks \<and> set (mkeys cookbooks) = {''nginx'', ''redis''} \<and>
     pairwise_on separate cookbooks \<and> (\<forall>kind cb. mget cookbooks kind = Some cb \<longrightarrow> cb_Kind cb = kind \<and> validated cb)"

lemma cookbook_set_loaded: "cookbook_set cookbooks \<Longrightarrow> loaded cookbooks"
  by (simp add: cookbook_set_def loaded_iff)

lemma load_from_set:
  "\<exists>r. load_from reader files source root displayRoot = Ret r \<and> (\<forall>cookbooks. r = Inr cookbooks \<longrightarrow> cookbook_set cookbooks)"
proof -
  obtain r where r: "load_from reader files source root displayRoot = Ret r"
    "\<And>cookbooks. r = Inr cookbooks \<Longrightarrow> \<exists>origins. keyed cookbooks origins \<and> validateCookbookSet cookbooks origins = None"
    using load_from_returns by blast
  have "cookbook_set cookbooks" if res: "r = Inr cookbooks" for cookbooks
  proof -
    obtain origins where o: "keyed cookbooks origins" "validateCookbookSet cookbooks origins = None" using r(2) [OF res] by blast
    then have wf: "wf_map cookbooks" by (simp add: keyed_def)
    show ?thesis unfolding cookbook_set_def using o(1) o(2) [unfolded validateCookbookSet_iff [OF wf]] by (simp add: keyed_def)
  qed
  with r(1) show ?thesis by blast
qed

lemma loadCookbooks_set:
  "\<exists>r. loadCookbooks reader files externalDir = Ret r \<and> (\<forall>cookbooks. r = Inr cookbooks \<longrightarrow> cookbook_set cookbooks)"
proof (cases "trim_space externalDir = []")
  case True
  then show ?thesis by (simp add: loadCookbooks_def load_from_set)
next
  case False
  then show ?thesis by (cases "f_Abs files externalDir") (simp_all add: loadCookbooks_def load_from_set)
qed

section \<open>An example\<close>

text \<open>A directory with two cookbooks; the text of a file is the name of its kind, which the decoder reads.\<close>

definition web_scenario :: Scenario where
  "web_scenario = crash_scenario\<lparr>s_Description := ''demo'',
     s_HTTP := [(''GET /health'', [zeroHTTPResponse\<lparr>hr_From := 1, hr_Status := 200\<rparr>])]\<rparr>"

definition web_cookbook :: Cookbook where
  "web_cookbook = \<lparr>cb_Kind = ''nginx'', cb_ImageNames = [''nginx''],
     cb_Defaults = \<lparr>d_Name = ''web'', d_Image = ''nginx:1'', d_ServiceType = ''http'', d_IPAddress = ''127.0.0.1'',
       d_ContainerPort = 80, d_HostIP = ''127.0.0.1'', d_HostPort = 8080\<rparr>,
     cb_Seeds = [(''0'', web_scenario), (''1'', web_scenario), (''2'', web_scenario)]\<rparr>"

definition demo_reader :: json_reader where
  "demo_reader = \<lparr>jr_tokens = (\<lambda>data. ([\<lparr>a_byte = Some DQUOTE, a_peek = 0, a_end = 7, a_token = Inr (StringToken data)\<rparr>], EOF, 7)),
     jr_decode = (\<lambda>data. (Inr (if data = ''nginx'' then web_cookbook else ping_cookbook), 7)),
     jr_trailing = (\<lambda>data. (Some EOF, 7))\<rparr>"

definition demo_files :: cookbook_files where
  "demo_files = \<lparr>f_Abs = (\<lambda>dir. Inr dir),
     f_ReadDir = (\<lambda>source root. Inr [(''nginx.json'', False), (''old'', True), (''redis.JSON'', False), (''notes.txt'', False)]),
     f_ReadFile = (\<lambda>source path. Inr (take 5 path))\<rparr>"

lemma web_cookbook_accepted: "validate web_cookbook = Ret (None, web_cookbook)"
  by code_simp

lemma demo_kinds: "to_lower ''nginx'' = ''nginx''" "to_lower ''redis'' = ''redis''"
  by code_simp+

lemma demo_kind [simp]: "cb_Kind web_cookbook = ''nginx''"
  by (simp add: web_cookbook_def)

lemma demo_decodes:
  "decodeCookbook demo_reader path ''nginx'' = Ret (Inr web_cookbook)"
  "decodeCookbook demo_reader path ''redis'' = Ret (Inr (ping_cookbook\<lparr>cb_Kind := ''redis''\<rparr>))"
proof -
  have "trim_space ''nginx'' \<noteq> []" "trim_space ''redis'' \<noteq> []" "\<not> has_prefix ''nginx'' utf8_bom" "\<not> has_prefix ''redis'' utf8_bom"
    by code_simp+
  moreover have "scanJSONDocument path data (jr_tokens demo_reader data) = Inr []" for path data
    by (simp add: scanJSONDocument_def demo_reader_def Let_def advance_decoder_def)
  ultimately show "decodeCookbook demo_reader path ''nginx'' = Ret (Inr web_cookbook)"
    "decodeCookbook demo_reader path ''redis'' = Ret (Inr (ping_cookbook\<lparr>cb_Kind := ''redis''\<rparr>))"
    unfolding decodeCookbook_def
    by (auto simp: demo_reader_def web_cookbook_accepted ping_cookbook_accepted split: sum.split)
qed

definition demo_loaded_set :: "(string, Cookbook) gomap" where
  "demo_loaded_set = [(''nginx'', web_cookbook), (''redis'', ping_cookbook\<lparr>cb_Kind := ''redis''\<rparr>)]"

lemma demo_set: "validateCookbookSet demo_loaded_set origins = None"
proof -
  have images: "image_key ''nginx'' = ''nginx''" "image_key ''nginx:1'' = ''nginx:1''"
    "image_key ''redis'' = ''redis''" "image_key ''redis:7'' = ''redis:7''"
    by (simp_all add: image_key_def trim_space_def to_lower_def lower_char_def is_space_def is_upper_def)
  have keys: "image_keys web_cookbook = {''nginx:1'', ''nginx''}"
    "image_keys (ping_cookbook\<lparr>cb_Kind := ''redis''\<rparr>) = {''redis:7'', ''redis''}"
    by (simp_all add: image_keys_def web_cookbook_def ping_cookbook_def images)
  have lower: "to_lower ''web'' = ''web''" "to_lower ''db'' = ''db''" by code_simp+
  have names: "default_name web_cookbook = ''web''" "default_name (ping_cookbook\<lparr>cb_Kind := ''redis''\<rparr>) = ''db''"
    by (simp_all add: default_name_def web_cookbook_def ping_cookbook_def lower)
  have ends: "default_endpoint web_cookbook \<noteq> default_endpoint (ping_cookbook\<lparr>cb_Kind := ''redis''\<rparr>)"
    by (simp add: default_endpoint_def web_cookbook_def ping_cookbook_def JoinHostPort_def itoa_inj)
  have "separate web_cookbook (ping_cookbook\<lparr>cb_Kind := ''redis''\<rparr>)"
    by (simp add: separate_def keys names ends)
  then have "pairwise_on separate demo_loaded_set"
    unfolding demo_loaded_set_def by (simp add: pairwise_on_Cons separate_sym wf_map_Cons, simp add: pairwise_on_def)
  then show ?thesis
    by (subst validateCookbookSet_iff) (simp_all add: demo_loaded_set_def wf_map_def mkeys_def)
qed

lemma demo_loads: "loadCookbooks demo_reader demo_files ''/etc/zero'' = Ret (Inr demo_loaded_set)"
proof -
  have names: "has_suffix (to_lower ''nginx.json'') ''.json''" "has_suffix (to_lower ''redis.JSON'') ''.json''"
    "\<not> has_suffix (to_lower ''notes.txt'') ''.json''" "trim_space ''/etc/zero'' \<noteq> []" by code_simp+
  show ?thesis
    using demo_set [unfolded demo_loaded_set_def]
    by (simp add: loadCookbooks_def load_from_def names demo_files_def Let_def path_join_def demo_decodes demo_kinds demo_loaded_set_def mput_def)
qed

lemma demo_cookbook_set: "cookbook_set demo_loaded_set"
proof -
  have "\<exists>r. load_from demo_reader demo_files (DirFS ''/etc/zero'') ''.'' ''/etc/zero'' = Ret r \<and>
      (\<forall>cookbooks. r = Inr cookbooks \<longrightarrow> cookbook_set cookbooks)" by (rule load_from_set)
  moreover have "trim_space ''/etc/zero'' \<noteq> []" by code_simp
  ultimately show ?thesis using demo_loads by (simp add: loadCookbooks_def demo_files_def)
qed

section \<open>Properties\<close>

text \<open>
  C11: loading never panics, and the cookbooks it returns are exactly one for nginx and one for redis, each
  under its kind, each accepted by validation, and with no name, endpoint or image matcher in common.
\<close>

theorem loading_returns_validated_cookbooks:
  "\<exists>r. loadCookbooks reader files externalDir = Ret r \<and> (\<forall>cookbooks. r = Inr cookbooks \<longrightarrow> cookbook_set cookbooks)"
  by (rule loadCookbooks_set)

theorem loading_returns_validated_cookbooks_witness:
  "loadCookbooks demo_reader demo_files ''/etc/zero'' = Ret (Inr demo_loaded_set) \<and> cookbook_set demo_loaded_set"
  using loading_returns_validated_cookbooks [of demo_reader demo_files "''/etc/zero''"] by (simp add: demo_loads)

text \<open>
  C15: the check of the cookbook set accepts exactly one nginx and one redis cookbook that share no default
  name, no default endpoint and no image matcher. In particular the verdict does not depend on the order
  in which the maps are visited.
\<close>

theorem cookbook_set_accepted_iff:
  assumes "wf_map cookbooks"
  shows "validateCookbookSet cookbooks origins = None \<longleftrightarrow>
    set (mkeys cookbooks) = {''nginx'', ''redis''} \<and>
    (\<forall>k a k' b. mget cookbooks k = Some a \<longrightarrow> mget cookbooks k' = Some b \<longrightarrow> k \<noteq> k' \<longrightarrow>
       default_name a \<noteq> default_name b \<and> default_endpoint a \<noteq> default_endpoint b \<and> image_keys a \<inter> image_keys b = {})"
  unfolding validateCookbookSet_iff [OF assms] pairwise_on_def separate_def ..

theorem cookbook_set_accepted_iff_witness:
  "validateCookbookSet [(''redis'', web_cookbook), (''nginx'', web_cookbook)] [] \<noteq> None"
proof -
  have wf: "wf_map [(''redis'', web_cookbook), (''nginx'', web_cookbook)]" by (simp add: wf_map_def mkeys_def)
  show ?thesis
    unfolding cookbook_set_accepted_iff [OF wf]
    by (intro notI, elim conjE allE [of _ "''redis''"] allE [of _ web_cookbook] allE [of _ "''nginx''"]) simp
qed

end
