(* ===== verification/Bootstrap.thy ===== *)
theory Bootstrap
  imports Create_Contract Cookbook_Load
begin

text \<open>
  The containers the program creates by itself with \<^verbatim>\<open>--bootstrap\<close>, before it serves (\<^verbatim>\<open>serve\<close> of
  \<^verbatim>\<open>main.go\<close>): one for each cookbook, under its default name and published at its default address.
\<close>

definition bootstrap_bindings :: "ServiceDefaults \<Rightarrow> (string, PortBinding list) gomap" where
  "bootstrap_bindings d =
     [(itoa (d_ContainerPort d) @ ''/tcp'',
       [\<lparr>pb_HostIP = d_HostIP d, pb_RequestedHostPort = d_HostPort d, pb_HostPort = d_HostPort d, pb_Protocol = ''tcp'',
         pb_ContainerPort = d_ContainerPort d\<rparr>])]"

definition bootstrap_start :: "string \<Rightarrow> string \<Rightarrow> string option em" where
  "bootstrap_start kind cid =
     ebind (container_at cid start) (\<lambda>(before, after).
     ebind (startContainerRuntime cid) (\<lambda>runtimeErr.
     case runtimeErr of
       Some err \<Rightarrow> ereturn (Some (''bootstrap '' @ kind @ '' runtime: '' @ err))
     | None \<Rightarrow>
         ebind (container_at cid (\<lambda>now. advance now ''docker.start'')) (\<lambda>adv.
         ethen (logContainerEvent cid ''container.start.bootstrap'' (adv\<lparr>ea_Before := before\<rparr>) JNull JNull)
         (ereturn None))))"

definition bootstrap_created :: "string \<Rightarrow> ServiceDefaults \<Rightarrow> string \<Rightarrow> string option em" where
  "bootstrap_created kind d cid =
     ethen (container_set cid (setPortBindings (bootstrap_bindings d)))
     (ebind (elift (configureContainerNetworks cid ''bridge'' [])) (\<lambda>networkErr.
      case networkErr of
        Some err \<Rightarrow> ereturn (Some (''bootstrap '' @ kind @ '' network: '' @ err))
      | None \<Rightarrow> bootstrap_start kind cid))"

definition bootstrap_one :: "string \<Rightarrow> ServiceDefaults \<Rightarrow> string option em" where
  "bootstrap_one kind d =
     ebind (createContainer (d_Name d) (d_Image d) [(''docker-zero.bootstrap'', ''true'')] [] []) (\<lambda>created.
     case created of
       Inl err \<Rightarrow> ereturn (Some (''bootstrap '' @ kind @ '': '' @ err))
     | Inr cid \<Rightarrow> bootstrap_created kind d cid)"

text \<open>The kinds in their order; the first error ends it.\<close>

fun bootstrap :: "(string \<times> ServiceDefaults) list \<Rightarrow> string option em" where
  "bootstrap [] = ereturn None"
| "bootstrap ((kind, d) # rest) =
     ebind (bootstrap_one kind d) (\<lambda>err. case err of Some e \<Rightarrow> ereturn (Some e) | None \<Rightarrow> bootstrap rest)"

section \<open>The invariant\<close>

lemma keeps_bootstrap_start: "cid \<in> D \<Longrightarrow> keeps (alive D) (bootstrap_start kind cid) always"
  unfolding bootstrap_start_def
  by (intro keeps_ebind [where Q = always]) 
     (auto intro!: keeps_intros keeps_ebind [where Q = always] keeps_ethen keeps_ereturn split: option.split prod.split)

lemma keeps_bootstrap_created: "cid \<in> D \<Longrightarrow> keeps (alive D) (bootstrap_created kind d cid) always"
  unfolding bootstrap_created_def
  by (intro keeps_ethen [where Q = always] keeps_ebind [where Q = always] keeps_container_set)
     (auto intro: keeps_bootstrap_start keeps_network_ops keeps_ereturn plain_ops_inv split: option.split, simp_all add: identity_def setPortBindings_def)

lemma bootstrap_one_inv:
  assumes "engine_inv e" and "fresh_create (d_Name d) e"
  shows "\<exists>r e'. bootstrap_one kind d e = Ret (r, e') \<and> engine_inv e'"
proof -
  obtain created e1 where c: "createContainer (d_Name d) (d_Image d) [(''docker-zero.bootstrap'', ''true'')] [] [] e = Ret (created, e1)"
    "alive ({} \<union> {cid. created = Inr cid}) e1"
    using createContainer_keeps [of "{}" e "d_Name d"] assms by (metis alive_empty)
  show ?thesis
  proof (cases created)
    case (Inl err)
    with c show ?thesis by (auto simp: bootstrap_one_def ebind_def ereturn_def dest: aliveD(1))
  next
    case (Inr cid)
    with c(2) have "alive {cid} e1" by simp
    with keepsD [OF keeps_bootstrap_created [of cid "{cid}"]] obtain r e' where
      "bootstrap_created kind d cid e1 = Ret (r, e')" "alive {cid} e'" by blast
    with c(1) Inr show ?thesis by (auto simp: bootstrap_one_def ebind_def dest: aliveD(1))
  qed
qed

end
