(* ===== verification/Engine_Runs.thy ===== *)
theory Engine_Runs
  imports Bootstrap "HOL-Library.Multiset"
begin

text \<open>
  The engine as a machine. It starts from cookbooks that validation accepted; each step is one bootstrapped
  container, one API request, the end of a wait, one HTTP request, Redis command or whole connection of a service, or the shutdown;
  the commands of several connections may interleave. Go visits a map in an arbitrary order: between two steps
  the entries of the engine's maps and the endpoints of a network may be reordered at will. What the theorems
  say of a reachable engine holds after any sequence of these.
\<close>

section \<open>The first state\<close>

lemma validated_seed_keys: "validate_seed_keys seeds = None \<Longrightarrow> mget seeds k = Some sc \<Longrightarrow> k \<in> {''0'', ''1'', ''2''}"
proof -
  assume v: "validate_seed_keys seeds = None" and k: "mget seeds k = Some sc"
  have "k \<in> set (mkeys seeds)" using k by (simp add: set_mkeys)
  with v show ?thesis by (auto simp: validate_seed_keys_def)
qed

lemma validated_cookbook_ok:
  assumes "validated cb"
  shows "cookbook_ok cb"
proof -
  note v = assms [unfolded validated_iff]
  have "scripted_safe sc" if sc: "mget (cb_Seeds cb) k = Some sc" for k sc
  proof -
    have "validate_seed_keys (cb_Seeds cb) = None" using v by blast
    then have "k \<in> {''0'', ''1'', ''2''}" using validated_seed_keys sc by blast
    then have "validate_scenario (cb_Kind cb) k sc = Ret None" using v sc by (auto simp: mget_or_def)
    from validated_scenario [OF this] show ?thesis by (simp add: scripted_safe_def list_all_iff)
  qed
  with v show ?thesis by (simp add: cookbook_ok_def)
qed

lemma bridge_ok: "networks_ok [(''bridge'', bridgeNetwork now)]" "named_ok [(''bridge'', bridgeNetwork now)]"
  by (auto simp: networks_ok_def named_ok_def network_ok_def index_ok_def bridgeNetwork_def wf_map_Cons split: if_splits)

lemma bridge_containers [simp]: "n_Containers (bridgeNetwork now) = []"
  by (simp add: bridgeNetwork_def)

lemma newEngine_inv:
  assumes "loaded cookbooks"
  shows "engine_inv ((newEngine env cookbooks seed overrides ledger)\<lparr>e_endpointMode := mode\<rparr>)"
proof -
  have "\<forall>cb\<in>set (mvals cookbooks). cookbook_ok cb"
    using assms validated_cookbook_ok unfolding loaded_def by blast
  then show ?thesis
    unfolding engine_inv_def newEngine_def by (auto simp: bridge_ok mmem_def split: if_splits)
qed

section \<open>Steps\<close>

text \<open>
  A request that creates a container takes one new identifier, a SHA-256 value. That it is not the
  identifier of a live container is a condition of the step; nothing else is assumed of requests,
  of the times, or of the outcomes of binds and waits.
\<close>

definition reordering :: "Engine \<Rightarrow> Engine \<Rightarrow> bool" where
  "reordering e e' \<longleftrightarrow>
     (\<exists>containers names networks volumes runtimes.
        e' = e\<lparr>e_containers := containers, e_names := names, e_networks := networks, e_volumes := volumes, e_runtimes := runtimes\<rparr> \<and>
        mset containers = mset (e_containers e) \<and> mset names = mset (e_names e) \<and> mset networks = mset (e_networks e) \<and>
        mset volumes = mset (e_volumes e) \<and> mset runtimes = mset (e_runtimes e))"

inductive engine_step :: "Engine \<Rightarrow> Engine \<Rightarrow> bool" where
  bootstrapped: "fresh_create (d_Name d) e \<Longrightarrow> bootstrap_one kind d e = Ret (err, e') \<Longrightarrow> engine_step e e'"
| api: "fresh_create (query rq ''name'') e \<Longrightarrow> ServeHTTP rq e = Ret (r, e') \<Longrightarrow> engine_step e e'"
| wait_ends: "finishWait pw e = Ret (answered, e') \<Longrightarrow> engine_step e e'"
| http: "mmem (e_containers e) cid \<Longrightarrow> ServeHTTP_container cid req e = Ret (reply, e') \<Longrightarrow> engine_step e e'"
| connected: "mmem (e_containers e) cid \<Longrightarrow> registerRedisConnection cid k e = Ret (taken, e') \<Longrightarrow> engine_step e e'"
| connection: "mmem (e_containers e) cid \<Longrightarrow> handleRedisContainerConnection cid input e = Ret (out, e') \<Longrightarrow> engine_step e e'"
| command: "mmem (e_containers e) cid \<Longrightarrow> redis_command cid (cmd # args) e = Ret (reply, e') \<Longrightarrow> engine_step e e'"
| disconnected: "mmem (e_containers e) cid \<Longrightarrow> finishRedisConnection cid k e = Ret (u, e') \<Longrightarrow> engine_step e e'"
| shared: "handleConnection input e = Ret (out, e') \<Longrightarrow> engine_step e e'"
| shared_command: "mock_command (cmd # args) e = Ret (reply, e') \<Longrightarrow> engine_step e e'"
| shutdown: "closeRuntimes e = Ret (err, e') \<Longrightarrow> engine_step e e'"
| reordered: "reordering e e' \<Longrightarrow> engine_step e e'"
| endpoints_reordered: "mget (e_networks e) key = Some n \<Longrightarrow> mset m = mset (n_Containers n) \<Longrightarrow>
    engine_step e (e\<lparr>e_networks := mput (e_networks e) key (n\<lparr>n_Containers := m\<rparr>)\<rparr>)"

inductive reachable :: "(string, Cookbook) gomap \<Rightarrow> Engine \<Rightarrow> bool" for cookbooks where
  start: "loaded cookbooks \<Longrightarrow>
    reachable cookbooks ((newEngine env cookbooks seed overrides ledger)\<lparr>e_endpointMode := mode\<rparr>)"
| step: "reachable cookbooks e \<Longrightarrow> engine_step e e' \<Longrightarrow> reachable cookbooks e'"

lemma keeps_connections:
  "cid \<in> D \<Longrightarrow> keeps (alive D) (handleRedisContainerConnection cid input) (\<lambda>r. r \<noteq> None)"
  "keeps (alive D) (handleConnection input) (\<lambda>r. r \<noteq> None)"
  unfolding handleRedisContainerConnection_def handleConnection_def
  by (rule serve_commands_total, erule keeps_redis_command, simp)
     (rule serve_commands_total, rule keeps_mock_command, simp)

lemma alive_single: "engine_inv e \<Longrightarrow> mmem (e_containers e) cid \<Longrightarrow> alive {cid} e"
  by (simp add: alive_def)

text \<open>A lookup does not see the order of a map.\<close>

lemma reordered_map:
  assumes "mset m' = mset m"
  shows "mmem m' k = mmem m k" and "wf_map m \<Longrightarrow> wf_map m'" and "wf_map m \<Longrightarrow> mget m' k = mget m k"
proof -
  have "set m' = set m" using assms by (rule mset_eq_setD)
  then show "mmem m' k = mmem m k" by (auto simp: mmem_def mget_def map_of_eq_None_iff)
  assume wf: "wf_map m"
  have "mset (mkeys m') = mset (mkeys m)" using assms by (simp add: mkeys_def)
  then show wf': "wf_map m'" using wf unfolding wf_map_def by (metis mset_eq_imp_distinct_iff)
  show "mget m' k = mget m k"
    using \<open>set m' = set m\<close> in_mget [OF wf] in_mget [OF wf'] by (metis not_None_eq)
qed

lemma reordering_inv:
  assumes inv: "engine_inv e" and "reordering e e'"
  shows "engine_inv e'"
proof -
  obtain containers names networks volumes runtimes where
    e': "e' = e\<lparr>e_containers := containers, e_names := names, e_networks := networks, e_volumes := volumes, e_runtimes := runtimes\<rparr>"
    and same: "mset containers = mset (e_containers e)" "mset names = mset (e_names e)" "mset networks = mset (e_networks e)"
      "mset volumes = mset (e_volumes e)" "mset runtimes = mset (e_runtimes e)"
    using assms(2) unfolding reordering_def by blast
  note i = inv [unfolded engine_inv_def]
  have "networks_ok (e_networks e)" using i by blast
  then have wfn: "wf_map (e_networks e)" by (rule networks_okD(1))
  note eqs = reordered_map [OF same(1)] reordered_map [OF same(2)] reordered_map [OF same(3)] reordered_map [OF same(4)]
    reordered_map(1) [OF same(5)]
  have get: "mget containers = mget (e_containers e)" "mget names = mget (e_names e)" "mget networks = mget (e_networks e)"
    using i wfn eqs by (auto simp: fun_eq_iff)
  have "networks_ok networks" "named_ok networks"
    using i wfn eqs(8) unfolding networks_ok_def named_ok_def get by blast+
  moreover have "container_ok names pid cid c = container_ok (e_names e) pid cid c" for pid cid c by (simp add: container_ok_def get)
  ultimately show ?thesis using i eqs unfolding engine_inv_def e' by (simp add: get)
qed

lemma endpoints_reordered_inv:
  assumes inv: "engine_inv e" and n: "mget (e_networks e) key = Some n" and m: "mset m = mset (n_Containers n)"
  shows "engine_inv (e\<lparr>e_networks := mput (e_networks e) key (n\<lparr>n_Containers := m\<rparr>)\<rparr>)"
proof -
  let ?n = "n\<lparr>n_Containers := m\<rparr>"
  note i = inv [unfolded engine_inv_def]
  have ok: "networks_ok (e_networks e)" "named_ok (e_networks e)" using i by blast+
  have nok: "network_ok n" using networks_okD(2) [OF ok(1) n] .
  then have wf: "wf_map (n_Containers n)" by (simp add: network_ok_def)
  note eqs = reordered_map [OF m]
  have at: "endpoint_at ?n h ep = endpoint_at n h ep" "index_ok ?n = index_ok n" for h ep
    by (simp_all add: endpoint_at_def network_prefix_def index_ok_def)
  have "network_ok ?n" using nok eqs(2,3) [OF wf] unfolding network_ok_def at by simp
  with ok(1) n have "networks_ok (mput (e_networks e) key ?n)" by (rule networks_ok_update) simp
  moreover have "net_frame [] (e_networks e) (mput (e_networks e) key ?n)"
    by (rule net_frame_mput [OF n]) (simp_all add: eqs(3) [OF wf])
  then have "named_ok (mput (e_networks e) key ?n)" using ok(2) by (rule net_frame_named)
  ultimately show ?thesis using i n unfolding engine_inv_def by (simp add: eqs(1))
qed

lemma step_inv: "engine_step e e' \<Longrightarrow> engine_inv e \<Longrightarrow> engine_inv e'"
proof (induction rule: engine_step.induct)
  case (bootstrapped d e kind err e')
  then show ?case using bootstrap_one_inv [of e d kind] by auto
next
  case (api rq e r e')
  then show ?case using ServeHTTP_returns [of e rq] by auto
next
  case (wait_ends pw e answered e')
  then show ?case using keeps_engine [OF keeps_finishWait [where D = "{}"]] by (simp add: alive_empty)
next
  case (shared input e out e')
  then show ?case using keeps_engine [OF keeps_connections(2) [where D = "{}"]] by (simp add: alive_empty)
next
  case (shared_command cmd args e reply e')
  then show ?case using keeps_engine [OF keeps_mock_command [where D = "{}"]] by (simp add: alive_empty)
next
  case (shutdown e err e')
  then show ?case using keeps_engine [OF keeps_closeRuntimes [where D = "{}"]] by (simp add: alive_empty)
next
  case (reordered e e')
  then show ?case by (simp add: reordering_inv)
next
  case (endpoints_reordered e key n m)
  then show ?case by (simp add: endpoints_reordered_inv)
qed (auto dest!: alive_single intro: keeps_engine keeps_ServeHTTP keeps_runtime(3,4) keeps_connections(1) keeps_redis_command)

lemma reachable_inv: "reachable cookbooks e \<Longrightarrow> engine_inv e"
  by (induction rule: reachable.induct) (auto intro: newEngine_inv step_inv)

section \<open>An engine for examples\<close>

definition demo_env :: Env where
  "demo_env = \<lparr>env_now = UnixNano, env_listen = (\<lambda>n address. Inr 40000), env_timeout = (\<lambda>n. False),
     env_written = (\<lambda>n. 0), env_GOARCH = ''amd64'', env_GoVersion = ''go1.24''\<rparr>"

definition demo_cookbooks :: "(string, Cookbook) gomap" where
  "demo_cookbooks = [(''redis'', ping_cookbook\<lparr>cb_Kind := ''redis''\<rparr>)]"

definition demo_engine :: Engine where
  "demo_engine = newEngine demo_env demo_cookbooks 0 [] (newLedger 0 ''/runs/1'' ([], []))"

definition demo_request :: "string \<Rightarrow> string \<Rightarrow> api_request" where
  "demo_request m path = \<lparr>q_Method = m, q_Path = path, q_RawQuery = [], q_RemoteAddr = [], q_Query = [(''name'', ''db'')],
     q_Filters = Inr [], q_Create = Inr \<lparr>cr_rawConfig = [], cr_rawHostConfig = [], cr_User = [], cr_WorkingDir = [],
       cr_Entrypoint = [], cr_Healthcheck = None, cr_Tty = False, cr_Hostname = [], cr_Image = ''redis:7'', cr_Cmd = [],
       cr_Env = [], cr_Labels = [(''tier'', ''data'')], cr_ExposedPorts = [],
       cr_RestartPolicy = \<lparr>rp_Name = ''no'', rp_MaximumRetryCount = 0\<rparr>, cr_NetworkMode = ''none'', cr_PortBindings = [],
       cr_EndpointsConfig = []\<rparr>, q_Network = Inl [], q_Connect = Inl [], q_Volume = Inl [], q_Exec = Inl []\<rparr>"

lemma demo_loaded: "loaded demo_cookbooks"
  using ping_cookbook_accepted by (auto simp: loaded_def demo_cookbooks_def mvals_def validated_def)

lemma demo_reachable: "reachable demo_cookbooks demo_engine"
proof -
  have "demo_engine\<lparr>e_endpointMode := ''auto''\<rparr> = demo_engine" by (simp add: demo_engine_def newEngine_def)
  with reachable.start [OF demo_loaded, where env = demo_env and seed = 0 and overrides = "[]" and
      ledger = "newLedger 0 ''/runs/1'' ([], [])" and mode = "''auto''"] show ?thesis
    by (simp add: demo_engine_def)
qed

lemma demo_sel [simp]:
  "e_containers demo_engine = []" "e_names demo_engine = []" "e_cookbooks demo_engine = demo_cookbooks"
  by (simp_all add: demo_engine_def newEngine_def)

lemma demo_fresh [simp]: "fresh_create name demo_engine" "\<not> mmem (e_names demo_engine) name"
  by (simp_all add: fresh_create_def mmem_def)

lemma configure_offline:
  assumes "mget (e_containers e) cid = Some c" and "c_ID c = cid" and "cr_PortBindings request = []"
    and "cr_NetworkMode request = ''none''"
  shows "\<exists>w e'. configure_created request cid e = Ret (Inr w, e')"
proof -
  have none: "trim_space ''none'' = ''none''" by code_simp
  show ?thesis
    using assms
    by (simp add: configure_created_def ebind_def container_do_def of_pure_def storeRequestedConfig_def Let_def
        configureContainerPortBindings_def setPortBindings_def elift_def configureContainerNetworks_def none set_container_def
        ereturn_def)
qed

lemma demo_created:
  obtains e w where "handleContainerCreate (demo_request ''POST'' path) (demo_engine\<lparr>e_tick := t\<rparr>) =
      Ret (Answer (id_answer (next_container_id ''db'' demo_engine) w), e)"
    and "mmem (e_containers e) (next_container_id ''db'' demo_engine)"
proof -
  let ?e = "demo_engine\<lparr>e_tick := t\<rparr>"
  let ?rq = "demo_request ''POST'' path" and ?cid = "next_container_id ''db'' ?e"
  have inv: "engine_inv ?e"
    using reachable_inv [OF demo_reachable] alive_unread(1) [where D = "{}" and e = demo_engine] by (simp add: alive_empty)
  have fresh: "fresh_create n ?e" "\<not> mmem (e_names ?e) n" for n by (simp_all add: fresh_create_def mmem_def)
  have cid: "?cid = next_container_id ''db'' demo_engine" by (simp add: next_container_id_def)
  have name: "query ?rq ''name'' = ''db''" by (simp add: query_def demo_request_def mget_or_def)
  obtain request where request: "q_Create ?rq = Inr request" "validateMetadata request = (None, request)"
    "cr_Image request = ''redis:7''" "cr_PortBindings request = []" "cr_NetworkMode request = ''none''"
    by (simp add: demo_request_def validateMetadata_def normalizedPolicy_def Let_def)
  have ref: "container_ref ''db'' = ''db''" by code_simp
  then have chosen: "chosen_name ''db'' ?e = ''db''" "after_name ''db'' ?e = ?e"
    by (simp_all add: chosen_name_def after_name_def)
  have "validateContainerName ''db'' = None" by code_simp
  moreover have "cookbookFor demo_cookbooks ''db'' ''redis:7'' = Inr (ping_cookbook\<lparr>cb_Kind := ''redis''\<rparr>)" by code_simp
  moreover have "seedFor kind ''db'' ?e = 0" for kind by (simp add: seedFor_def demo_engine_def newEngine_def)
  moreover have "mmem (cb_Seeds ping_cookbook) (itoa 0)" by code_simp
  ultimately have none: "creation_error ''db'' ''redis:7'' ?e = None"
    by (auto simp: creation_error_None mmem_def)
  obtain c e1 where run: "createContainer ''db'' (cr_Image request) (cr_Labels request) (cr_Env request) (cr_Cmd request) ?e =
      Ret (Inr ?cid, e1)" and one: "one_more ?e ?cid c e1"
    by (rule createContainer_outcome [OF inv fresh(1), of "''db''" "cr_Image request"
          "cr_Labels request" "cr_Env request" "cr_Cmd request"]) (simp_all add: chosen none request)
  have "mget (e_containers e1) ?cid = Some c" "c_ID c = ?cid" using one by (simp_all add: one_more_def)
  then obtain w e2 where conf: "configure_created request ?cid e1 = Ret (Inr w, e2)"
    using configure_offline request(4,5) by blast
  have go: "handleContainerCreate ?rq ?e = Ret (Answer (id_answer ?cid w), e2)"
    by (simp add: handleContainerCreate_def request(1,2) name run conf ebind_def answer_def ereturn_def id_answer_def)
  show thesis
  proof (cases rule: handleContainerCreate_outcome [OF inv fresh(1) [of "query ?rq ''name''"] fresh(2)])
    case (1 err status e')
    with go show thesis by (simp add: id_answer_def writeDockerError_def writeJSON_def)
  next
    case (2 request w' c' e')
    with go that show thesis by (simp add: name cid mmem_def)
  qed
qed

lemma ServeHTTP_created:
  assumes "handleContainerCreate rq (e\<lparr>e_tick := Suc (e_tick e)\<rparr>) = Ret (Answer r, e1)"
    and "q_Path rq = ''/containers/create''" and "q_Method rq = ''POST''"
  shows "\<exists>e'. ServeHTTP rq e = Ret (Answer r, e') \<and> e_containers e' = e_containers e1"
proof -
  have "stripAPIVersion ''/containers/create'' = ''/containers/create''"
    "validateAPIVersionPath ''/containers/create'' = None" by code_simp+
  moreover have "route rq ''/containers/create'' = handleContainerCreate rq"
    using assms(3) by (simp add: route_def has_prefix_iff)
  ultimately show ?thesis
    using assms by (simp add: ServeHTTP_def Let_def ebind_def ethen_def enow_def eask_def log_request_def elog_def em_defs)
qed

lemma demo_populated: "\<exists>e. reachable demo_cookbooks e \<and> mmem (e_containers e) (next_container_id ''db'' demo_engine)"
proof -
  let ?rq = "demo_request ''POST'' ''/containers/create''"
  obtain e1 w where "handleContainerCreate ?rq (demo_engine\<lparr>e_tick := Suc (e_tick demo_engine)\<rparr>) =
      Ret (Answer (id_answer (next_container_id ''db'' demo_engine) w), e1)"
    and mem: "mmem (e_containers e1) (next_container_id ''db'' demo_engine)"
    by (rule demo_created)
  from ServeHTTP_created [OF this(1)] obtain r e' where
    run: "ServeHTTP ?rq demo_engine = Ret (r, e')" and same: "e_containers e' = e_containers e1"
    by (auto simp: demo_request_def)
  from reachable.step [OF demo_reachable engine_step.api [OF demo_fresh(1) run]] mem same show ?thesis by auto
qed

section \<open>Lists without repetition\<close>

lemma distinct_values:
  assumes "wf_map m" and "\<And>k1 k2 v1 v2. mget m k1 = Some v1 \<Longrightarrow> mget m k2 = Some v2 \<Longrightarrow> f v1 = f v2 \<Longrightarrow> k1 = k2"
  shows "distinct (map (f \<circ> snd) m)"
proof -
  have "distinct m" using assms(1) by (simp add: wf_map_def mkeys_def distinct_map)
  moreover have "inj_on (f \<circ> snd) (set m)"
  proof (rule inj_onI)
    fix x y
    assume "x \<in> set m" "y \<in> set m" "(f \<circ> snd) x = (f \<circ> snd) y"
    moreover from this have "mget m (fst x) = Some (snd x)" "mget m (fst y) = Some (snd y)"
      using assms(1) by (simp_all flip: in_mget)
    moreover from this calculation(3) have "fst x = fst y" using assms(2) by fastforce
    ultimately show "x = y" by (metis option.inject prod.expand)
  qed
  ultimately show ?thesis by (simp add: distinct_map)
qed

lemma distinct_nested:
  assumes "distinct (map fst xs)" and "\<And>key n. (key, n) \<in> set xs \<Longrightarrow> distinct (map fst (g n))"
    and "\<And>key1 key2 n1 n2 p q. (key1, n1) \<in> set xs \<Longrightarrow> p \<in> set (g n1) \<Longrightarrow> (key2, n2) \<in> set xs \<Longrightarrow> q \<in> set (g n2) \<Longrightarrow>
      f p = f q \<Longrightarrow> key1 = key2 \<and> fst p = fst q"
  shows "distinct (concat (map (\<lambda>(key, n). map f (g n)) xs))"
  using assms
proof (induction xs)
  case (Cons x xs)
  obtain key n where x: "x = (key, n)" by (cases x)
  have "inj_on f (set (g n))"
  proof (rule inj_onI)
    fix p q
    assume "p \<in> set (g n)" "q \<in> set (g n)" "f p = f q"
    then have "fst p = fst q" using Cons.prems(3) [of key n p key n q] x by simp
    with Cons.prems(2) [of key n] x \<open>p \<in> set (g n)\<close> \<open>q \<in> set (g n)\<close> show "p = q"
      by (simp add: distinct_map inj_on_def)
  qed
  moreover have "distinct (g n)" using Cons.prems(2) [of key n] x by (simp add: distinct_map)
  moreover have "set (map f (g n)) \<inter> set (concat (map (\<lambda>(key, n). map f (g n)) xs)) = {}"
  proof (rule ccontr)
    assume "\<not> ?thesis"
    then obtain p key2 n2 q where "p \<in> set (g n)" "(key2, n2) \<in> set xs" "q \<in> set (g n2)" "f p = f q" by auto
    with Cons.prems(3) [of key n p key2 n2 q] x have "key2 = key" by simp
    with \<open>(key2, n2) \<in> set xs\<close> Cons.prems(1) x show False by force
  qed
  moreover have "distinct (concat (map (\<lambda>(key, n). map f (g n)) xs))"
    using Cons.prems by (intro Cons.IH) (simp_all, blast+)
  ultimately show ?case by (simp add: x distinct_map)
qed simp

section \<open>Properties\<close>

text \<open>
  C1: In every state the engine reaches from validated cookbooks, every API request is answered (or, for a
  wait, registered): no handler panics, whatever the method, the path, the query and the body, and
  whatever the binds and waits of the operating system answer. The state it leaves is reachable again.
\<close>

theorem api_requests_are_served:
  assumes "reachable cookbooks e" and "fresh_create (query rq ''name'') e"
  shows "\<exists>r e'. ServeHTTP rq e = Ret (r, e') \<and> reachable cookbooks e'"
proof -
  obtain r e' where run: "ServeHTTP rq e = Ret (r, e')"
    using ServeHTTP_returns [OF reachable_inv [OF assms(1)] assms(2)] by blast
  from reachable.step [OF assms(1) engine_step.api [OF assms(2) run]] run show ?thesis by blast
qed

theorem api_requests_are_served_witness:
  "\<exists>r e'. ServeHTTP (demo_request ''GET'' ''/v1.43/containers/json'') demo_engine = Ret (r, e') \<and>
     reachable demo_cookbooks e'"
  by (rule api_requests_are_served [OF demo_reachable demo_fresh(1)])

text \<open>
  C2: In every reachable state the two indexes of the containers agree (each container is filed under its
  own identifier, the name index holds exactly the names of the containers), the four flags of each
  container follow from its status, it has a PID exactly while it has a process, as long as the 64-bit
  counter of PIDs has not been exhausted, and never without one, no network has an endpoint and no runtime exists for a
  container that is gone, network names are unique and the bridge network is there.
\<close>

theorem reachable_engine_is_consistent:
  assumes "reachable cookbooks e"
  shows "distinct (mkeys (e_containers e)) \<and> distinct (mkeys (e_names e)) \<and>
    set (e_names e) = {(c_Name c, cid) |cid c. (cid, c) \<in> set (e_containers e)} \<and>
    (\<forall>(cid, c)\<in>set (e_containers e). c_ID c = cid \<and> \<not> c_removed c \<and> validateContainerName (c_Name c) = None \<and>
       c_Running c = (c_Status c \<in> {sRunning, sPaused, sRestarting}) \<and> c_Paused c = (c_Status c = sPaused) \<and>
       c_Restarting c = (c_Status c = sRestarting) \<and> c_Dead c = (c_Status c = sDead) \<and>
       (c_Pid c \<noteq> 0 \<longrightarrow> c_Status c \<in> {sRunning, sPaused}) \<and>
       (e_pid e \<le> maxInt64 - 1000 \<longrightarrow> (c_Pid c \<noteq> 0 \<longleftrightarrow> c_Status c \<in> {sRunning, sPaused}))) \<and>
    (\<forall>(key, n)\<in>set (e_networks e). set (mkeys (n_Containers n)) \<subseteq> set (mkeys (e_containers e))) \<and>
    set (mkeys (e_runtimes e)) \<subseteq> set (mkeys (e_containers e)) \<and>
    distinct (map (n_Name \<circ> snd) (e_networks e)) \<and> ''bridge'' \<in> set (map (n_Name \<circ> snd) (e_networks e))"
proof -
  note inv = reachable_inv [OF assms]
  note wf = engine_invD(2,3) [OF inv] networks_okD(1) [OF engine_invD(4) [OF inv]]
  have "set (e_names e) = {(c_Name c, cid) |cid c. (cid, c) \<in> set (e_containers e)}"
    using engine_invD(6) [OF inv] container_okD(3) [OF engine_invD(5) [OF inv]] by (fastforce simp: in_mget wf)
  moreover have "c_ID c = cid \<and> \<not> c_removed c \<and> validateContainerName (c_Name c) = None \<and>
       c_Running c = (c_Status c \<in> {sRunning, sPaused, sRestarting}) \<and> c_Paused c = (c_Status c = sPaused) \<and>
       c_Restarting c = (c_Status c = sRestarting) \<and> c_Dead c = (c_Status c = sDead) \<and>
       (c_Pid c \<noteq> 0 \<longrightarrow> c_Status c \<in> {sRunning, sPaused}) \<and>
       (e_pid e \<le> maxInt64 - 1000 \<longrightarrow> (c_Pid c \<noteq> 0 \<longleftrightarrow> c_Status c \<in> {sRunning, sPaused}))"
    if "(cid, c) \<in> set (e_containers e)" for cid c
  proof -
    have c: "mget (e_containers e) cid = Some c" using that by (simp add: in_mget wf)
    note ok = container_okD(1,5,6,7) [OF engine_invD(5) [OF inv c]]
    then have "lifecycle_inv (c, e_pid e)" by simp
    then have "canonical c" "pid_ok (c, e_pid e)" by (simp_all add: lifecycle_inv_def)
    then show ?thesis using ok by (simp add: canonical_iff pid_ok_def pids_left_def) blast
  qed
  moreover have "set (mkeys (n_Containers n)) \<subseteq> set (mkeys (e_containers e))" if "(key, n) \<in> set (e_networks e)" for key n
    using engine_invD(7) [OF inv] that by (fastforce simp: in_mget wf set_mkeys mmem_def)
  moreover have "set (mkeys (e_runtimes e)) \<subseteq> set (mkeys (e_containers e))"
    using engine_invD(8) [OF inv] by (auto simp: set_mkeys mmem_def)
  moreover have "distinct (map (n_Name \<circ> snd) (e_networks e))"
    using distinct_values [OF wf(3)] named_okD(3) [OF engine_invD(10) [OF inv]] by blast
  moreover have "''bridge'' \<in> set (map (n_Name \<circ> snd) (e_networks e))"
    using named_okD(1) [OF engine_invD(10) [OF inv]] by (force dest: mget_Some_in)
  moreover have "distinct (mkeys (e_containers e))" "distinct (mkeys (e_names e))" using wf(1,2) by (simp_all add: wf_map_def)
  ultimately show ?thesis by blast
qed

theorem reachable_engine_is_consistent_witness:
  "\<exists>e. reachable demo_cookbooks e \<and> mmem (e_containers e) (next_container_id ''db'' demo_engine) \<and>
     distinct (mkeys (e_names e)) \<and> ''bridge'' \<in> set (map (n_Name \<circ> snd) (e_networks e))"
proof -
  obtain e where e: "reachable demo_cookbooks e" "mmem (e_containers e) (next_container_id ''db'' demo_engine)"
    using demo_populated by blast
  from reachable_engine_is_consistent [OF e(1)] e show ?thesis by blast
qed

text \<open>
  C13: In every reachable state no two endpoints of the engine share an IPv4 address, neither within a
  network nor across networks.
\<close>

theorem endpoint_addresses_are_distinct:
  assumes "reachable cookbooks e"
  shows "distinct (concat (map (\<lambda>(key, n). map (endpointIPv4 \<circ> snd) (n_Containers n)) (e_networks e)))"
proof -
  note inv = reachable_inv [OF assms]
  note ok = engine_invD(4) [OF inv]
  note wf = networks_okD(1) [OF ok]
  have same: "key1 = key2 \<and> cid1 = cid2"
    if "(key1, n1) \<in> set (e_networks e)" "(cid1, ep1) \<in> set (n_Containers n1)"
      "(key2, n2) \<in> set (e_networks e)" "(cid2, ep2) \<in> set (n_Containers n2)" "endpointIPv4 ep1 = endpointIPv4 ep2"
    for key1 key2 n1 n2 cid1 cid2 ep1 ep2
  proof -
    have n: "mget (e_networks e) key1 = Some n1" "mget (e_networks e) key2 = Some n2" using that wf by (simp_all flip: in_mget)
    then have "wf_map (n_Containers n1)" "wf_map (n_Containers n2)" using networks_okD(2) [OF ok] network_ok_def by blast+
    then have "mget (n_Containers n1) cid1 = Some ep1" "mget (n_Containers n2) cid2 = Some ep2" using that by (simp_all flip: in_mget)
    from addresses_unique [OF ok n(1) this(1) n(2) this(2) that(5)] show ?thesis .
  qed
  show ?thesis
  proof (rule distinct_nested)
    show "distinct (map fst (e_networks e))" using wf by (simp add: wf_map_def mkeys_def)
    show "distinct (map fst (n_Containers n))" if "(key, n) \<in> set (e_networks e)" for key n
    proof -
      have "network_ok n" using networks_okD(2) [OF ok, of key n] that wf by (simp add: in_mget)
      then show ?thesis by (simp add: network_ok_def wf_map_def mkeys_def)
    qed
    show "key1 = key2 \<and> fst p = fst q"
      if "(key1, n1) \<in> set (e_networks e)" "p \<in> set (n_Containers n1)" "(key2, n2) \<in> set (e_networks e)"
        "q \<in> set (n_Containers n2)" "(endpointIPv4 \<circ> snd) p = (endpointIPv4 \<circ> snd) q" for key1 key2 n1 n2 p q
      using same [OF that(1) _ that(3), of "fst p" "snd p" "fst q" "snd q"] that by simp
  qed
qed

theorem endpoint_addresses_are_distinct_witness:
  "\<exists>e. reachable demo_cookbooks e \<and> mmem (e_containers e) (next_container_id ''db'' demo_engine) \<and>
     distinct (concat (map (\<lambda>(key, n). map (endpointIPv4 \<circ> snd) (n_Containers n)) (e_networks e)))"
  using demo_populated endpoint_addresses_are_distinct by blast

text \<open>
  C3: Provided that the identifier the engine would generate next is new and that no container bears it as
  its name, a create request either answers 201 with that identifier, under which, and under whose name,
  the new container is then found, with the requested image, labels, environment, command and restart
  policy, every other container being untouched; or it answers 400 or 409 and the containers, names,
  networks, volumes and runtimes are exactly those from before, also when ports or networks were refused
  after the container had been entered. Without the second proviso the claim fails: identifiers are
  predictable, and the roll-back, which removes by identifier, finds a namesake first and removes that one.
\<close>

theorem create_is_all_or_nothing:
  assumes "reachable cookbooks e" and "fresh_create (query rq ''name'') e"
    and "\<not> mmem (e_names e) (next_container_id (query rq ''name'') e)"
  shows "\<exists>r e'. handleContainerCreate rq e = Ret (Answer r, e') \<and>
    ((\<exists>w c request0 request. r = id_answer (next_container_id (query rq ''name'') e) w \<and>
        mget (e_containers e') (next_container_id (query rq ''name'') e) = Some c \<and>
        findContainer (c_Name c) e' = Inr (next_container_id (query rq ''name'') e) \<and>
        c_Name c = chosen_name (query rq ''name'') e \<and> c_Status c = sCreated \<and>
        q_Create rq = Inr request0 \<and> validateMetadata request0 = (None, request) \<and> c_Image c = cr_Image request \<and>
        c_Labels c = cr_Labels request \<and> c_Env c = cr_Env request \<and> c_Command c = cr_Cmd request \<and>
        c_RestartPolicy c = cr_RestartPolicy request \<and>
        (\<forall>k. k \<noteq> next_container_id (query rq ''name'') e \<longrightarrow> mget (e_containers e') k = mget (e_containers e) k)) \<or>
     ar_Status r \<in> {400, 409} \<and> same_resources e e')"
proof (cases rule: handleContainerCreate_outcome [OF reachable_inv [OF assms(1)] assms(2,3)])
  case (1 err status e')
  then show ?thesis by (auto simp: writeDockerError_def writeJSON_def)
next
  case (2 request w c e')
  from findContainer_name [OF 2(3,4)] 2 show ?thesis by blast
qed

theorem create_is_all_or_nothing_witness:
  "\<exists>r e'. handleContainerCreate (demo_request ''POST'' ''/containers/create'') demo_engine = Ret (Answer r, e') \<and>
     (ar_Status r = 201 \<or> ar_Status r \<in> {400, 409} \<and> same_resources demo_engine e')"
  using create_is_all_or_nothing [OF demo_reachable demo_fresh, of "demo_request ''POST'' ''/containers/create''"]
  by (force simp: id_answer_def writeJSON_def)

text \<open>
  C26: Serving a Redis connection ends for every input: the loop reads commands from the bytes the client
  sent, each turn uses up some, and the handler returns what it wrote. This holds for the listener of a
  container and for the shared listener, in every reachable state.
\<close>

theorem redis_connections_end:
  assumes "reachable cookbooks e" and "mmem (e_containers e) cid"
  shows "(\<exists>out e'. handleRedisContainerConnection cid input e = Ret (Some out, e') \<and> reachable cookbooks e') \<and>
    (\<exists>out e'. handleConnection input e = Ret (Some out, e') \<and> reachable cookbooks e')"
proof -
  have al: "alive {cid} e" using alive_single [OF reachable_inv [OF assms(1)] assms(2)] .
  obtain out1 e1 where 1: "handleRedisContainerConnection cid input e = Ret (Some out1, e1)"
    using keeps_connections(1) [of cid "{cid}" input] al by (auto simp: keeps_def)
  obtain out2 e2 where 2: "handleConnection input e = Ret (Some out2, e2)"
    using keeps_connections(2) [of "{cid}" input] al by (auto simp: keeps_def)
  from reachable.step [OF assms(1) engine_step.connection [OF assms(2) 1]]
    reachable.step [OF assms(1) engine_step.shared [OF 2]] 1 2 show ?thesis by blast
qed

theorem redis_connections_end_witness:
  "\<exists>e out e'. reachable demo_cookbooks e \<and>
     handleRedisContainerConnection (next_container_id ''db'' demo_engine) ''PING'' e = Ret (Some out, e')"
  using demo_populated redis_connections_end by blast

end
