(* ===== verification/Engine_Examples.thy ===== *)
theory Engine_Examples
  imports Engine_Runs
begin

text \<open>
  A small engine on which the contracts are applied: two running Redis containers on the bridge network,
  one the master of the other.
\<close>

definition id_a :: string where "id_a = replicate 64 (CHR ''a'')"
definition id_b :: string where "id_b = replicate 64 (CHR ''b'')"

definition redis_cookbook :: Cookbook where
  "redis_cookbook = ping_cookbook\<lparr>cb_Kind := ''redis''\<rparr>"

definition running_redis :: "string \<Rightarrow> string \<Rightarrow> int \<Rightarrow> Container" where
  "running_redis cid name pid = (newContainer (UnixNano 0) cid name ''redis:7'' redis_cookbook 0)
     \<lparr>c_Status := sRunning, c_Running := True, c_Pid := pid, c_StartCount := 1\<rparr>"

definition master_a :: Container where
  "master_a = (running_redis id_a ''a'' 1001)\<lparr>c_KV := [(''k'', ''1'')]\<rparr>"

definition replica_b :: Container where
  "replica_b = (running_redis id_b ''b'' 1002)\<lparr>c_KV := [(''k'', ''1'')], c_Redis := \<lparr>r_Role = ''slave'', r_MasterHost = ''a'',
     r_MasterPort = 6379, r_MasterID = id_a, r_MasterLinkStatus = ''up''\<rparr>\<rparr>"

definition pair_endpoint :: "string \<Rightarrow> string \<Rightarrow> Endpoint" where
  "pair_endpoint name ip = \<lparr>ep_Name = name, ep_EndpointID = [], ep_MacAddress = [], ep_IPv4Address = ip @ ''/24'',
     ep_IPv6Address = [], ep_Aliases = [name]\<rparr>"

definition pair_network :: Network where
  "pair_network = (bridgeNetwork (UnixNano 1))\<lparr>n_Containers := [(id_a, pair_endpoint ''a'' ''127.19.0.2''),
     (id_b, pair_endpoint ''b'' ''127.19.0.3'')]\<rparr>"

definition pair_engine :: Engine where
  "pair_engine = demo_engine\<lparr>e_containers := [(id_a, master_a), (id_b, replica_b)], e_names := [(''a'', id_a), (''b'', id_b)],
     e_networks := [(''bridge'', pair_network)], e_pid := 2\<rparr>"

lemma pair_ids [simp]: "length id_a = 64" "length id_b = 64" "id_a \<noteq> id_b" "id_b \<noteq> id_a" "id_a \<noteq> []" "id_b \<noteq> []"
  by (simp_all add: id_a_def id_b_def)

lemma redis_cookbook_ok: "cookbook_ok redis_cookbook"
  using ping_cookbook_accepted by (intro validated_cookbook_ok) (auto simp: validated_def redis_cookbook_def)

lemma running_redis_sel [simp]:
  "c_ID (running_redis cid name pid) = cid" "c_Name (running_redis cid name pid) = name"
  "c_Kind (running_redis cid name pid) = ''redis''" "c_Running (running_redis cid name pid)"
  "c_Status (running_redis cid name pid) = sRunning" "\<not> c_removed (running_redis cid name pid)"
  "c_Labels (running_redis cid name pid) = []" "c_KV (running_redis cid name pid) = []"
  "c_Redis (running_redis cid name pid) = \<lparr>r_Role = ''master'', r_MasterHost = [], r_MasterPort = 0, r_MasterID = [],
     r_MasterLinkStatus = ''up''\<rparr>" "c_Command (running_redis cid name pid) = []"
  by (simp_all add: running_redis_def newContainer_def redis_cookbook_def)

lemma running_redis_ok:
  assumes "0 < p" and "p \<le> 1000 + pid" and "0 \<le> pid"
  shows "lifecycle_inv (running_redis cid name p, pid)" and "scripted_safe (c_Scenario (running_redis cid name p))"
proof -
  have "mmem (cb_Seeds redis_cookbook) (itoa 0)" by code_simp
  then have safe: "scripted_safe (mget_or zeroScenario (cb_Seeds redis_cookbook) (itoa 0))"
    using redis_cookbook_ok by (auto simp: cookbook_ok_def mmem_def mget_or_def)
  then show "scripted_safe (c_Scenario (running_redis cid name p))" by (simp add: running_redis_def newContainer_def)
  from safe assms show "lifecycle_inv (running_redis cid name p, pid)"
    by (simp add: running_redis_def newContainer_def lifecycle_inv_def canonical_iff pid_ok_def waiters_ok_def
        lifecycle_statuses_def scripted_safe_def mkeys_def wf_map_def)
qed

lemma pair_containers [simp]:
  "c_ID master_a = id_a" "c_Name master_a = ''a''" "c_Kind master_a = ''redis''" "c_Running master_a" "c_Status master_a = sRunning"
  "c_ID replica_b = id_b" "c_Name replica_b = ''b''" "c_Kind replica_b = ''redis''" "c_Running replica_b" "c_Status replica_b = sRunning"
  "c_Labels master_a = []" "c_Labels replica_b = []" "c_KV master_a = [(''k'', ''1'')]" "c_KV replica_b = [(''k'', ''1'')]"
  "r_Role (c_Redis master_a) = ''master''" "r_Role (c_Redis replica_b) = ''slave''" "r_MasterID (c_Redis replica_b) = id_a"
  "r_MasterLinkStatus (c_Redis replica_b) = ''up''"
  by (simp_all add: master_a_def replica_b_def)

lemma pair_container_ok:
  "container_ok [(''a'', id_a), (''b'', id_b)] 2 id_a master_a"
  "container_ok [(''a'', id_a), (''b'', id_b)] 2 id_b replica_b"
proof -
  have names: "validateContainerName ''a'' = None" "validateContainerName ''b'' = None" by code_simp+
  note a = running_redis_ok [of 1001 2 id_a "''a''"] and b = running_redis_ok [of 1002 2 id_b "''b''"]
  have "lifecycle_inv (master_a, 2)" "lifecycle_inv (replica_b, 2)"
    using a(1) b(1) by (simp_all add: master_a_def replica_b_def lifecycle_inv_def canonical_iff pid_ok_def waiters_ok_def)
  moreover have "scripted_safe (c_Scenario master_a)" "scripted_safe (c_Scenario replica_b)"
    using a(2) b(2) by (simp_all add: master_a_def replica_b_def)
  moreover have "\<not> c_removed master_a" "\<not> c_removed replica_b" by (simp_all add: master_a_def replica_b_def)
  ultimately show "container_ok [(''a'', id_a), (''b'', id_b)] 2 id_a master_a"
    "container_ok [(''a'', id_a), (''b'', id_b)] 2 id_b replica_b"
    using names by (simp_all add: container_ok_def)
qed

lemma pair_network_ok: "networks_ok [(''bridge'', pair_network)]" "named_ok [(''bridge'', pair_network)]"
proof -
  have at: "endpoint_at pair_network 2 (pair_endpoint ''a'' ''127.19.0.2'')" "endpoint_at pair_network 3 (pair_endpoint ''b'' ''127.19.0.3'')"
  proof -
    have "''127.19.0.2'' @ ''/24'' = ''127.19.0.'' @ itoa 2 @ ''/24''" "''127.19.0.3'' @ ''/24'' = ''127.19.0.'' @ itoa 3 @ ''/24''"
      by code_simp+
    then show "endpoint_at pair_network 2 (pair_endpoint ''a'' ''127.19.0.2'')" "endpoint_at pair_network 3 (pair_endpoint ''b'' ''127.19.0.3'')"
      by (simp_all add: endpoint_at_def host_ok_def pair_endpoint_def network_prefix_def pair_network_def bridgeNetwork_def)
  qed
  have "n_Containers pair_network = [(id_a, pair_endpoint ''a'' ''127.19.0.2''), (id_b, pair_endpoint ''b'' ''127.19.0.3'')]"
    "n_Index pair_network = 0" by (simp_all add: pair_network_def bridgeNetwork_def)
  then have "network_ok pair_network"
    using at by (auto simp: network_ok_def index_ok_def wf_map_Cons pair_endpoint_def split: if_splits)
  then show "networks_ok [(''bridge'', pair_network)]"
    by (auto simp: networks_ok_def wf_map_Cons split: if_splits)
  show "named_ok [(''bridge'', pair_network)]"
    by (auto simp: named_ok_def pair_network_def bridgeNetwork_def split: if_splits)
qed

lemma pair_engine_sel [simp]:
  "e_containers pair_engine = [(id_a, master_a), (id_b, replica_b)]" "e_names pair_engine = [(''a'', id_a), (''b'', id_b)]"
  "e_networks pair_engine = [(''bridge'', pair_network)]" "e_pid pair_engine = 2" "e_volumes pair_engine = []"
  "e_runtimes pair_engine = []" "e_cookbooks pair_engine = demo_cookbooks"
  by (simp_all add: pair_engine_def demo_engine_def newEngine_def)

lemma pair_engine_inv: "engine_inv pair_engine"
proof -
  have "cookbook_ok cb" if "cb \<in> set (mvals demo_cookbooks)" for cb
    using that redis_cookbook_ok by (simp add: demo_cookbooks_def mvals_def redis_cookbook_def)
  moreover have "mget [(id_a, master_a), (id_b, replica_b)] cid = Some c \<Longrightarrow> container_ok [(''a'', id_a), (''b'', id_b)] 2 cid c" for cid c
    using pair_container_ok by (auto split: if_splits)
  moreover have "wf_map [(id_a, master_a), (id_b, replica_b)]" "wf_map [(''a'', id_a), (''b'', id_b)]" "wf_map ([] :: (string, Volume) gomap)"
    by (simp_all add: wf_map_Cons)
  moreover have "mmem (n_Containers pair_network) cid \<Longrightarrow> mmem [(id_a, master_a), (id_b, replica_b)] cid" for cid
    by (auto simp: pair_network_def mmem_def split: if_splits)
  ultimately show ?thesis
    unfolding engine_inv_def using pair_network_ok by (auto simp: mmem_def split: if_splits)
qed

end
