(* ===== verification/Network_Contract.thy ===== *)
theory Network_Contract
  imports Engine_Examples
begin

text \<open>
  What a client can rely on from the networks of the engine (\<^verbatim>\<open>engine_network.go\<close>): an address is found
  while there is room, a change concerns one container only, and peers resolve each other's names.
\<close>

section \<open>Room for addresses\<close>

lemma hosts_card: "card {h. host_ok h} = 253"
proof -
  have "{h. host_ok h} = {2..254}" by (auto simp: host_ok_def)
  then show ?thesis by simp
qed

lemma endpoint_host_unique:
  assumes "index_ok n" and "endpoint_at n h ep" and "endpoint_at n h' ep"
  shows "h = h'"
  using assms itoa_inj by (auto simp: endpoint_at_def)

lemma full_network:
  assumes ok: "network_ok n" and full: "planNetworkIPLocked n cid = Inl err"
  shows "253 \<le> length (n_Containers n)"
proof -
  from planNetworkIP_exhausted [OF ok full]
  obtain f where f: "host_ok h \<Longrightarrow> \<exists>ep. mget (n_Containers n) (f h) = Some ep \<and> endpoint_at n h ep" for h
    by metis
  have "inj_on f {h. host_ok h}"
  proof (rule inj_onI)
    fix h h'
    assume "h \<in> {h. host_ok h}" "h' \<in> {h. host_ok h}" "f h = f h'"
    with f [of h] f [of h'] obtain ep where "endpoint_at n h ep" "endpoint_at n h' ep" by auto
    with ok show "h = h'" using endpoint_host_unique network_ok_def by blast
  qed
  moreover have "f ` {h. host_ok h} \<subseteq> set (mkeys (n_Containers n))" using f by (fastforce simp: set_mkeys)
  ultimately have "card {h. host_ok h} \<le> card (set (mkeys (n_Containers n)))"
    by (metis card_inj_on_le finite_set)
  also have "\<dots> \<le> length (n_Containers n)" by (metis card_length length_map mkeys_def)
  finally show ?thesis by (simp add: hosts_card)
qed

section \<open>Changes of one container\<close>

definition endpoint_of :: "string \<Rightarrow> string \<Rightarrow> Engine \<Rightarrow> Endpoint option" where
  "endpoint_of key cid e = (case mget (e_networks e) key of None \<Rightarrow> None | Some n \<Rightarrow> mget (n_Containers n) cid)"

definition others_untouched :: "string \<Rightarrow> Engine \<Rightarrow> Engine \<Rightarrow> bool" where
  "others_untouched cid e e' \<longleftrightarrow> (\<forall>k. k \<noteq> cid \<longrightarrow> mget (e_containers e') k = mget (e_containers e) k \<and>
     (\<forall>key. endpoint_of key k e' = endpoint_of key k e))"

lemma others_untouchedI:
  assumes "net_frame cid (e_networks e) (e_networks e')" and "\<And>k. k \<noteq> cid \<Longrightarrow> mget (e_containers e') k = mget (e_containers e) k"
  shows "others_untouched cid e e'"
proof -
  have "endpoint_of key k e' = endpoint_of key k e" if "k \<noteq> cid" for key k
    using net_frameD(1) [OF assms(1), of key] net_frameD(5) [OF assms(1), of key _ _ k] that
    by (auto simp: endpoint_of_def split: option.splits)
  with assms(2) show ?thesis by (simp add: others_untouched_def)
qed

lemma change_failed:
  "fst (connectContainerNetwork cid ref als e) = Some err \<Longrightarrow> snd (connectContainerNetwork cid ref als e) = e"
  "fst (disconnectContainerNetwork cid ref e) = Some err \<Longrightarrow> snd (disconnectContainerNetwork cid ref e) = e"
  by (erule rev_mp, simp add: connectContainerNetwork_def disconnectContainerNetwork_def Let_def
      split: option.split sum.split prod.split)+

lemma changes_containers:
  assumes "engine_inv e" and "k \<noteq> cid"
  shows "mget (e_containers (snd (configureContainerNetworks cid networkMode aliases e))) k = mget (e_containers e) k \<and>
    mget (e_containers (snd (connectContainerNetwork cid ref als e))) k = mget (e_containers e) k \<and>
    mget (e_containers (snd (disconnectContainerNetwork cid ref e))) k = mget (e_containers e) k"
proof (cases "mget (e_containers e) cid")
  case None
  then show ?thesis
    by (simp add: configureContainerNetworks_def connectContainerNetwork_def disconnectContainerNetwork_def)
next
  case (Some c)
  have "c_ID c = cid" using container_okD(1) [OF engine_invD(5) [OF assms(1) Some]] .
  then show ?thesis
    using configure_form [OF Some, of networkMode aliases] connect_form [OF Some, of ref als] disconnect_form [OF Some, of ref] assms(2)
    by (elim disjE exE) (simp_all add: set_container_def setPrimaryIP_def)
qed

section \<open>Names\<close>

lemma to_lower_idem [simp]: "to_lower (to_lower s) = to_lower s"
proof -
  have "lower_char (lower_char c) = lower_char c" for c
    by (auto simp: lower_char_def is_upper_def byte_char_of)
  then show ?thesis by (simp add: to_lower_def)
qed

definition dns_name :: "string \<Rightarrow> string" where
  "dns_name nm = to_lower (trim_space (trim_suffix nm ''.''))"

lemma name_matches_itself:
  assumes "validateContainerName (c_Name c) = None" and "\<not> has_suffix (c_Name c) ''.''"
  shows "endpointMatchesDNSName c ep (dns_name (c_Name c))"
proof -
  have "list_all (\<lambda>r. \<not> is_space r) (c_Name c)"
    using assms(1) by (auto simp: validateContainerName_iff list_all_iff dest: name_char_plain)
  then show ?thesis
    using assms(2) by (simp add: dns_name_def endpointMatchesDNSName_def equal_fold_def trim_suffix_def all_non_space_trim)
qed

lemma reverse_lookup:
  assumes inv: "engine_inv e" and n: "mget (e_networks e) key = Some n" and ep: "mget (n_Containers n) cid = Some ep"
  shows "findContainerByEndpointIP (endpointIPv4 ep) e = mget (e_containers e) cid"
proof -
  note ok = engine_invD(4) [OF inv]
  define eps where "eps = concat (map (n_Containers \<circ> snd) (e_networks e))"
  define same where "same = (\<lambda>(k :: string, ep'). endpointIPv4 ep' = endpointIPv4 ep)"
  have mem: "(cid, ep) \<in> set eps" using mget_Some_in [OF n] mget_Some_in [OF ep] by (force simp: eps_def)
  have uniq: "fst x = cid" if x: "x \<in> set eps" "same x" for x
  proof -
    obtain key' n' where n': "(key', n') \<in> set (e_networks e)" "x \<in> set (n_Containers n')" using x(1) by (auto simp: eps_def)
    then have k: "mget (e_networks e) key' = Some n'" using networks_okD(1) [OF ok] by (simp add: in_mget)
    then have "wf_map (n_Containers n')" using networks_okD(2) [OF ok] network_ok_def by blast
    with n'(2) have "mget (n_Containers n') (fst x) = Some (snd x)" by (simp flip: in_mget)
    moreover have "endpointIPv4 (snd x) = endpointIPv4 ep" using x(2) by (simp add: same_def case_prod_beta)
    ultimately show ?thesis using addresses_unique [OF ok k _ n ep] by blast
  qed
  have "filter same eps \<noteq> []" using mem by (auto simp: filter_empty_conv same_def)
  then obtain x xs where x: "filter same eps = x # xs" by (cases "filter same eps") simp
  then have "x \<in> set (filter same eps)" by simp
  then have "fst x = cid" using uniq by simp
  moreover have "findContainerByEndpointIP (endpointIPv4 ep) e =
      (case filter same eps of [] \<Rightarrow> None | (cid, ep) # _ \<Rightarrow> mget (e_containers e) cid)"
    unfolding findContainerByEndpointIP_def same_def eps_def ..
  ultimately show ?thesis using x by (cases x) simp
qed

lemma bex_pair: "(\<exists>x\<in>S. P x) \<longleftrightarrow> (\<exists>a b. (a, b) \<in> S \<and> P (a, b))"
  by auto

lemma dns_answer_iff:
  "r \<in> set (resolveDNS (Some rid) nm e) \<longleftrightarrow> dns_name nm \<noteq> [] \<and>
     (\<exists>key n cid ep c. (key, n) \<in> set (e_networks e) \<and> mmem (n_Containers n) rid \<and> (cid, ep) \<in> set (n_Containers n) \<and>
        mget (e_containers e) cid = Some c \<and> endpointMatchesDNSName c ep (dns_name nm) \<and> endpointIPv4 ep \<noteq> [] \<and>
        r = \<lparr>dr_Name = dns_name nm, dr_Network = n_Name n, dr_Container = c_Name c, dr_IP = endpointIPv4 ep\<rparr>)"
proof -
  define item where "item = (\<lambda>n :: Network. \<lambda>(cid, ep). case mget (e_containers e) cid of None \<Rightarrow> []
     | Some c \<Rightarrow> if \<not> endpointMatchesDNSName c ep (dns_name nm) \<or> endpointIPv4 ep = [] then []
        else [\<lparr>dr_Name = dns_name nm, dr_Network = n_Name n, dr_Container = c_Name c, dr_IP = endpointIPv4 ep\<rparr>])"
  have item: "r \<in> set (item n (cid, ep)) \<longleftrightarrow> (\<exists>c. mget (e_containers e) cid = Some c \<and> endpointMatchesDNSName c ep (dns_name nm) \<and>
      endpointIPv4 ep \<noteq> [] \<and> r = \<lparr>dr_Name = dns_name nm, dr_Network = n_Name n, dr_Container = c_Name c, dr_IP = endpointIPv4 ep\<rparr>)" for n cid ep
    by (cases "mget (e_containers e) cid") (auto simp: item_def)
  define joined where "joined = (\<lambda>(key :: string, n). if \<not> mmem (n_Containers n) rid then [] else concat (map (item n) (n_Containers n)))"
  have joined: "r \<in> set (joined (key, n)) \<longleftrightarrow> mmem (n_Containers n) rid \<and> (\<exists>cid ep. (cid, ep) \<in> set (n_Containers n) \<and> r \<in> set (item n (cid, ep)))"
    for key n
    by (simp add: joined_def bex_pair)
  have "resolveDNS (Some rid) nm e = (if dns_name nm = [] then [] else sort_key dns_key (concat (map joined (e_networks e))))"
    by (simp only: resolveDNS_def Let_def dns_name_def item_def joined_def option.case)
  then show ?thesis by (simp add: bex_pair joined item)
qed

section \<open>Properties\<close>

text \<open>
  C24: A container gets an address from a network unless the network has 253 endpoints already. The address
  has a host number from 2 to 254 in the subnet of the network, and no other container of the network
  has it.
\<close>

theorem address_found_while_there_is_room:
  assumes "engine_inv e" and "mget (e_networks e) key = Some n" and "length (n_Containers n) < 253"
  shows "\<exists>h nextHost. 2 \<le> h \<and> h \<le> 254 \<and> planNetworkIPLocked n cid = Inr (network_prefix n @ itoa h, nextHost) \<and>
    (\<forall>a ep. a \<noteq> cid \<and> mget (n_Containers n) a = Some ep \<longrightarrow> endpointIPv4 ep \<noteq> network_prefix n @ itoa h)"
proof (cases "planNetworkIPLocked n cid")
  case (Inl err)
  with full_network [OF networks_okD(2) [OF engine_invD(4) [OF assms(1)] assms(2)] Inl] assms(3) show ?thesis by simp
next
  case (Inr r)
  obtain ip nextHost where r: "r = (ip, nextHost)" by (cases r)
  have ok: "network_ok n" using networks_okD(2) [OF engine_invD(4) [OF assms(1)] assms(2)] .
  from planNetworkIP_ok [OF ok Inr [unfolded r]] obtain h where h: "host_ok h" "ip = network_prefix n @ itoa h"
    and others: "\<And>a ep. a \<noteq> cid \<Longrightarrow> mget (n_Containers n) a = Some ep \<Longrightarrow> ep_IPv4Address ep \<noteq> ip @ ''/24''" by blast
  have "endpointIPv4 ep \<noteq> ip" if a: "a \<noteq> cid" "mget (n_Containers n) a = Some ep" for a ep
  proof -
    obtain h' where at: "endpoint_at n h' ep" using network_okD(3) [OF ok a(2)] by blast
    with others [OF a] endpointIPv4_at [OF network_okD(2) [OF ok] at] show ?thesis by (auto simp: endpoint_at_def)
  qed
  with h Inr r show ?thesis by (auto simp: host_ok_def)
qed

theorem address_found_while_there_is_room_witness:
  "\<exists>h nextHost. 2 \<le> h \<and> h \<le> 254 \<and>
     planNetworkIPLocked pair_network ''new'' = Inr (network_prefix pair_network @ itoa h, nextHost) \<and>
     (\<forall>a ep. a \<noteq> ''new'' \<and> mget (n_Containers pair_network) a = Some ep \<longrightarrow> endpointIPv4 ep \<noteq> network_prefix pair_network @ itoa h)"
  by (rule address_found_while_there_is_room [OF pair_engine_inv, of "''bridge''"]) (simp_all add: pair_network_def)

text \<open>
  C22: Joining and leaving networks concerns one container: every other container and every endpoint of
  another container stay as they are, and a change that fails (no such network, already connected, no
  address left) changes nothing at all.
\<close>

theorem network_changes_concern_one_container:
  assumes "engine_inv e"
  shows "others_untouched cid e (snd (configureContainerNetworks cid networkMode aliases e)) \<and>
    others_untouched cid e (snd (connectContainerNetwork cid ref als e)) \<and>
    others_untouched cid e (snd (disconnectContainerNetwork cid ref e)) \<and>
    (fst (configureContainerNetworks cid networkMode aliases e) \<noteq> None \<longrightarrow>
       snd (configureContainerNetworks cid networkMode aliases e) = e) \<and>
    (fst (connectContainerNetwork cid ref als e) \<noteq> None \<longrightarrow> snd (connectContainerNetwork cid ref als e) = e) \<and>
    (fst (disconnectContainerNetwork cid ref e) \<noteq> None \<longrightarrow> snd (disconnectContainerNetwork cid ref e) = e)"
proof -
  have wf: "wf_map (e_networks e)" using engine_invD(4) [OF assms] by (rule networks_okD)
  have "mget (e_containers e) cid = Some c \<Longrightarrow> c_ID c = cid" for c
    using container_okD(1) [OF engine_invD(5) [OF assms]] .
  note frames = configure_frame [OF this] connect_frame [OF wf] disconnect_frame [OF wf]
  have "others_untouched cid e (snd (configureContainerNetworks cid networkMode aliases e))"
    by (rule others_untouchedI) (simp_all add: frames changes_containers [OF assms])
  moreover have "others_untouched cid e (snd (connectContainerNetwork cid ref als e))"
    by (rule others_untouchedI) (simp_all add: frames changes_containers [OF assms])
  moreover have "others_untouched cid e (snd (disconnectContainerNetwork cid ref e))"
    by (rule others_untouchedI) (simp_all add: frames changes_containers [OF assms])
  ultimately show ?thesis using configure_failed change_failed by auto
qed

theorem network_changes_concern_one_container_witness:
  "others_untouched id_a pair_engine (snd (disconnectContainerNetwork id_a ''bridge'' pair_engine))"
  using network_changes_concern_one_container [OF pair_engine_inv] by blast

text \<open>
  C23: Two containers on a network resolve each other by name, as long as the name does not end in a period:
  the answer for the name of the one, asked from the other, includes its address on the shared network, and
  that address leads back to it. Every answer, for any name, is an endpoint of a network that the asking
  container has joined. (A name that ends in a period is a valid container name, but the resolver takes it
  for an absolute DNS name and strips the period, so the container is not found by it.)
\<close>

theorem peers_resolve_each_other:
  assumes "engine_inv e" and "mget (e_networks e) key = Some n" and "mmem (n_Containers n) asking"
    and "mget (n_Containers n) cid = Some ep" and "mget (e_containers e) cid = Some c" and "\<not> has_suffix (c_Name c) ''.''"
  shows "(\<exists>r\<in>set (resolveDNS (Some asking) (c_Name c) e). dr_Network r = n_Name n \<and> dr_Container r = c_Name c \<and>
      dr_IP r = endpointIPv4 ep \<and> findContainerByEndpointIP (dr_IP r) e = Some c) \<and>
    (\<forall>r\<in>set (resolveDNS (Some asking) name e). \<exists>key' n' cid' ep'. (key', n') \<in> set (e_networks e) \<and>
      mmem (n_Containers n') asking \<and> (cid', ep') \<in> set (n_Containers n') \<and> dr_Network r = n_Name n' \<and> dr_IP r = endpointIPv4 ep')"
proof
  note ok = container_okD [OF engine_invD(5) [OF assms(1,5)]]
  note nok = networks_okD(2) [OF engine_invD(4) [OF assms(1)] assms(2)]
  have name: "dns_name (c_Name c) \<noteq> []"
  proof -
    have "list_all (\<lambda>r. \<not> is_space r) (c_Name c)"
      using ok(5) by (auto simp: validateContainerName_iff list_all_iff dest: name_char_plain)
    then show ?thesis using assms(6) ok(4) by (simp add: dns_name_def trim_suffix_def all_non_space_trim to_lower_def)
  qed
  obtain h where "endpoint_at n h ep" using network_okD(3) [OF nok assms(4)] by blast
  then have ip: "endpointIPv4 ep \<noteq> []" using endpointIPv4_at [OF network_okD(2) [OF nok]] itoa_nonempty by simp
  let ?r = "\<lparr>dr_Name = dns_name (c_Name c), dr_Network = n_Name n, dr_Container = c_Name c,
    dr_IP = endpointIPv4 ep\<rparr>"
  have "?r \<in> set (resolveDNS (Some asking) (c_Name c) e)"
    using name ip name_matches_itself [OF ok(5) assms(6), of ep] mget_Some_in [OF assms(2)] mget_Some_in [OF assms(4)] assms(3,5)
    unfolding dns_answer_iff by blast
  moreover have "findContainerByEndpointIP (dr_IP ?r) e = Some c" using reverse_lookup [OF assms(1,2,4)] assms(5) by simp
  ultimately show "\<exists>r\<in>set (resolveDNS (Some asking) (c_Name c) e). dr_Network r = n_Name n \<and> dr_Container r = c_Name c \<and>
      dr_IP r = endpointIPv4 ep \<and> findContainerByEndpointIP (dr_IP r) e = Some c" by force
  show "\<forall>r\<in>set (resolveDNS (Some asking) name e). \<exists>key' n' cid' ep'. (key', n') \<in> set (e_networks e) \<and>
      mmem (n_Containers n') asking \<and> (cid', ep') \<in> set (n_Containers n') \<and> dr_Network r = n_Name n' \<and> dr_IP r = endpointIPv4 ep'"
    by (intro ballI, unfold dns_answer_iff) (elim conjE exE, simp, blast)
qed

theorem peers_resolve_each_other_witness:
  "\<exists>r\<in>set (resolveDNS (Some id_a) ''b'' pair_engine). dr_Network r = ''bridge'' \<and> dr_Container r = ''b'' \<and>
     findContainerByEndpointIP (dr_IP r) pair_engine = Some replica_b"
proof -
  have "(\<exists>r\<in>set (resolveDNS (Some id_a) (c_Name replica_b) pair_engine). dr_Network r = n_Name pair_network \<and> dr_Container r = c_Name replica_b \<and>
      dr_IP r = endpointIPv4 (pair_endpoint ''b'' ''127.19.0.3'') \<and> findContainerByEndpointIP (dr_IP r) pair_engine = Some replica_b)"
    using peers_resolve_each_other [OF pair_engine_inv, of "''bridge''" pair_network id_a id_b "pair_endpoint ''b'' ''127.19.0.3''" replica_b "[]"]
    by (simp add: pair_network_def mmem_def has_suffix_def)
  then show ?thesis by (simp add: pair_network_def bridgeNetwork_def) blast
qed

lemma has_prefix_length: "has_prefix s p \<Longrightarrow> length p \<le> length s"
  by (induction s p rule: has_prefix.induct) auto

text \<open>
  The bridge network is stored under its name, and networks are looked up by key and name: by its own identifier, with which the API
  handler asks, it is not found, so a container can neither join nor leave it later.
\<close>

lemma bridge_not_found_by_its_id:
  assumes "e_networks e = [(''bridge'', bridgeNetwork now)]" and "mget (e_containers e) cid = Some c"
  shows "\<exists>err. connectContainerNetwork cid (n_ID (bridgeNetwork now)) aliases e = (Some err, e)"
proof -
  let ?id = "hashID ''network:bridge''"
  have "\<not> has_prefix ''bridge'' ?id"
  proof
    assume "has_prefix ''bridge'' ?id"
    then have "length ?id \<le> length (''bridge'' :: string)" by (rule has_prefix_length)
    then show False by (simp add: hashID_length)
  qed
  moreover have "''bridge'' \<noteq> ?id"
  proof
    assume "''bridge'' = ?id"
    then have "length ''bridge'' = length ?id" by simp
    then show False by (simp add: hashID_length)
  qed
  ultimately show ?thesis
    using assms by (simp add: connectContainerNetwork_def find_network_key_def network_matches_def bridgeNetwork_def)
qed

end
