(* ===== verification/Main_Config.thy ===== *)
theory Main_Config
  imports Cookbook_Load Engine_State
begin

text \<open>
  The command line and the configuration (\<^verbatim>\<open>main.go\<close>): options, the endpoint mode, scenario overrides,
  listen addresses and the socket mode.
\<close>

section \<open>Numbers of the command line\<close>

text \<open>\<^verbatim>\<open>strconv.ParseUint\<close> of digits in a base: \<open>None\<close> for a syntax error or a value past the bound.\<close>

definition digit_value :: "char \<Rightarrow> nat option" where
  "digit_value c =
     (if is_digit c then Some (byte c - 48)
      else if is_lower c then Some (byte c - 87)
      else if is_upper c then Some (byte c - 55)
      else None)"

definition parse_digits :: "nat \<Rightarrow> string \<Rightarrow> nat option" where
  "parse_digits base s =
     foldl (\<lambda>v c. case (v, digit_value c) of
         (Some n, Some d) \<Rightarrow> if d < base then Some (base * n + d) else None
       | _ \<Rightarrow> None) (Some 0) s"

definition ParseUint :: "string \<Rightarrow> nat \<Rightarrow> nat \<Rightarrow> nat option" where
  "ParseUint s base bits =
     (if s = [] then None
      else case parse_digits base s of None \<Rightarrow> None | Some n \<Rightarrow> if n < 2 ^ bits then Some n else None)"

text \<open>
  \<^verbatim>\<open>strconv.ParseInt\<close> with base 0, as the \<^verbatim>\<open>flag\<close> package reads an int: the prefix chooses the base and
  underscores may separate digits. An underscore has a digit, or the prefix, before it and a digit after it.
\<close>

fun underscores_ok :: "bool \<Rightarrow> string \<Rightarrow> bool" where
  "underscores_ok afterDigit [] = True"
| "underscores_ok afterDigit (c # s) =
     (if c = CHR ''_'' then afterDigit \<and> s \<noteq> [] \<and> hd s \<noteq> CHR ''_'' \<and> underscores_ok False s
      else underscores_ok True s)"

definition base_prefix :: "string \<Rightarrow> nat \<times> nat" where
  "base_prefix s =
     (if s \<noteq> [] \<and> hd s = CHR ''0'' then
        if length s \<ge> 3 \<and> lower_char (s ! 1) = CHR ''b'' then (2, 2)
        else if length s \<ge> 3 \<and> lower_char (s ! 1) = CHR ''o'' then (8, 2)
        else if length s \<ge> 3 \<and> lower_char (s ! 1) = CHR ''x'' then (16, 2)
        else (8, 1)
      else (10, 0))"

definition parse_uint0 :: "string \<Rightarrow> nat option" where
  "parse_uint0 s =
     (let (base, skip) = base_prefix s; body = drop skip s in
      if s = [] \<or> \<not> underscores_ok (skip > 0) body then None
      else parse_digits base (filter (\<lambda>c. c \<noteq> CHR ''_'') body))"

definition parse_int0 :: "string \<Rightarrow> int option" where
  "parse_int0 s =
     (let neg = (s \<noteq> [] \<and> hd s = CHR ''-'');
          body = (if s \<noteq> [] \<and> (hd s = CHR ''-'' \<or> hd s = CHR ''+'') then tl s else s)
      in case parse_uint0 body of
           None \<Rightarrow> None
         | Some n \<Rightarrow>
             let v = (if neg then - int n else int n) in
             if minInt64 \<le> v \<and> v \<le> maxInt64 then Some v else None)"

definition ParseBool :: "string \<Rightarrow> bool option" where
  "ParseBool s =
     (if s \<in> set [''1'', ''t'', ''T'', ''TRUE'', ''true'', ''True''] then Some True
      else if s \<in> set [''0'', ''f'', ''F'', ''FALSE'', ''false'', ''False''] then Some False
      else None)"

section \<open>Options\<close>

record options =
  o_socketPath :: string
  o_seed :: int
  o_scenarioFlag :: string
  o_cookbookDir :: string
  o_ledgerDir :: string
  o_nginxAddr :: string
  o_redisAddr :: string
  o_containerEndpoints :: string
  o_socketMode :: string
  o_bootstrap :: bool
  o_check :: bool
  o_showVersion :: bool

definition default_options :: options where
  "default_options = \<lparr>o_socketPath = ''/tmp/docker-zero.sock'', o_seed = 0, o_scenarioFlag = [], o_cookbookDir = [],
     o_ledgerDir = ''./runs'', o_nginxAddr = ''127.0.0.1:18080'', o_redisAddr = ''127.0.0.1:16379'',
     o_containerEndpoints = ''auto'', o_socketMode = ''0660'', o_bootstrap = False, o_check = False, o_showVersion = False\<rparr>"

text \<open>Setting a flag that takes a value, and a boolean one; \<open>None\<close> for a flag that is not of the sort or a bad value.\<close>

definition string_flags :: "(string \<times> (string \<Rightarrow> options \<Rightarrow> options)) list" where
  "string_flags =
    [(''socket'', \<lambda>v opts. opts\<lparr>o_socketPath := v\<rparr>), (''scenario'', \<lambda>v opts. opts\<lparr>o_scenarioFlag := v\<rparr>),
     (''cookbook-dir'', \<lambda>v opts. opts\<lparr>o_cookbookDir := v\<rparr>), (''ledger-dir'', \<lambda>v opts. opts\<lparr>o_ledgerDir := v\<rparr>),
     (''nginx-address'', \<lambda>v opts. opts\<lparr>o_nginxAddr := v\<rparr>), (''redis-address'', \<lambda>v opts. opts\<lparr>o_redisAddr := v\<rparr>),
     (''container-endpoints'', \<lambda>v opts. opts\<lparr>o_containerEndpoints := v\<rparr>), (''socket-mode'', \<lambda>v opts. opts\<lparr>o_socketMode := v\<rparr>)]"

definition bool_flags :: "(string \<times> (bool \<Rightarrow> options \<Rightarrow> options)) list" where
  "bool_flags =
    [(''bootstrap'', \<lambda>b opts. opts\<lparr>o_bootstrap := b\<rparr>), (''check'', \<lambda>b opts. opts\<lparr>o_check := b\<rparr>),
     (''version'', \<lambda>b opts. opts\<lparr>o_showVersion := b\<rparr>)]"

definition set_value_flag :: "string \<Rightarrow> string \<Rightarrow> options \<Rightarrow> options option" where
  "set_value_flag name value opts =
     (if name = ''seed'' then map_option (\<lambda>n. opts\<lparr>o_seed := n\<rparr>) (parse_int0 value)
      else map_option (\<lambda>f. f value opts) (mget string_flags name))"

text \<open>
  \<^verbatim>\<open>FlagSet.Parse\<close>: one argument is a flag, with its value after an equals sign or as the next argument;
  the first argument that is not a flag, or what follows \<^verbatim>\<open>--\<close>, is left over. \<open>None\<close> stands for the
  error, whose text the \<^verbatim>\<open>flag\<close> package prints itself.
\<close>

definition flag_name :: "string \<Rightarrow> string" where
  "flag_name s = (if has_prefix s ''--'' then drop 2 s else drop 1 s)"

fun parse_flags :: "string list \<Rightarrow> options \<Rightarrow> (options \<times> string list) option" where
  "parse_flags [] opts = Some (opts, [])"
| "parse_flags (s # args) opts =
     (if length s < 2 \<or> hd s \<noteq> CHR ''-'' then Some (opts, s # args)
      else if s = ''--'' then Some (opts, args)
      else
        let text = flag_name s in
        if text = [] \<or> hd text = CHR ''-'' \<or> hd text = CHR ''='' then None
        else
          (case split2_on (CHR ''='') text of
             [name, value] \<Rightarrow>
               (case mget bool_flags name of
                  Some f \<Rightarrow> (case ParseBool value of None \<Rightarrow> None | Some b \<Rightarrow> parse_flags args (f b opts))
                | None \<Rightarrow> (case set_value_flag name value opts of None \<Rightarrow> None | Some opts' \<Rightarrow> parse_flags args opts'))
           | _ \<Rightarrow>
               (case mget bool_flags text of
                  Some f \<Rightarrow> parse_flags args (f True opts)
                | None \<Rightarrow>
                    (case args of
                       [] \<Rightarrow> None
                     | value # args' \<Rightarrow>
                         (case set_value_flag text value opts of None \<Rightarrow> None | Some opts' \<Rightarrow> parse_flags args' opts')))))"

text \<open>The text a failure prints.\<close>

definition renderError :: "config_error \<Rightarrow> string" where
  "renderError err = (case err of Diagnostic d \<Rightarrow> Render d | Message m \<Rightarrow> m)"

definition printFailure :: "string \<Rightarrow> config_error \<Rightarrow> string" where
  "printFailure category err =
     (case err of Diagnostic d \<Rightarrow> Render d @ [LF] | Message m \<Rightarrow> category @ '': '' @ renderError err @ [LF])"

text \<open>\<open>Inl\<close> holds what the program itself prints.\<close>

definition parseOptions :: "string list \<Rightarrow> string + options" where
  "parseOptions args =
     (case parse_flags args default_options of
        None \<Rightarrow> Inl []
      | Some (opts, rest) \<Rightarrow>
          if rest \<noteq> [] then
            Inl (printFailure ''CLI_ERROR'' (Message (''unexpected positional arguments: '' @ join '' '' rest)))
          else if o_seed opts < 0 \<or> o_seed opts > 2 then
            Inl (printFailure ''CLI_ERROR'' (Message (''seed must be 0, 1, or 2; got '' @ itoa (o_seed opts))))
          else Inr opts)"

section \<open>The endpoint mode and the socket mode\<close>

definition normalizeEndpointMode :: "string \<Rightarrow> string + string" where
  "normalizeEndpointMode value =
     (let v = to_lower (trim_space value) in
      if v \<in> set [''auto'', ''on'', ''off''] then Inr v
      else Inl (''container-endpoints must be auto, on, or off; got '' @ quote v))"

definition parseSocketMode :: "string \<Rightarrow> string + nat" where
  "parseSocketMode value =
     (case ParseUint value 8 32 of
        None \<Rightarrow> Inl (''invalid socket mode '' @ quote value @ '': expected octal such as 0660'')
      | Some mode \<Rightarrow>
          if mode > 511 then Inl (''invalid socket mode '' @ quote value @ '': permissions must be between 0000 and 0777'')
          else Inr mode)"

section \<open>Scenario overrides\<close>

definition parse_override :: "string \<Rightarrow> (string, int) gomap \<Rightarrow> string + (string, int) gomap" where
  "parse_override part result =
     (case split2_on (CHR ''='') (trim_space part) of
        [name, text] \<Rightarrow>
          if trim_space name = [] then
            Inl (''invalid scenario override '' @ quote part @ ''; expected kind-or-container=seed'')
          else
            let (seed, ok) = atoi (trim_space text) in
            if \<not> ok \<or> seed < 0 \<or> seed > 2 then
              Inl (''invalid seed in override '' @ quote part @ ''; expected 0, 1, or 2'')
            else
              let key = to_lower (trim_prefix (trim_space name) ''/'') in
              if mmem result key then Inl (''duplicate scenario override for '' @ quote key)
              else Inr (mput result key seed)
      | _ \<Rightarrow> Inl (''invalid scenario override '' @ quote part @ ''; expected kind-or-container=seed''))"

fun parse_overrides :: "string list \<Rightarrow> (string, int) gomap \<Rightarrow> string + (string, int) gomap" where
  "parse_overrides [] result = Inr result"
| "parse_overrides (part # parts) result =
     (case parse_override part result of Inl err \<Rightarrow> Inl err | Inr result' \<Rightarrow> parse_overrides parts result')"

definition parseScenarioOverrides :: "string \<Rightarrow> string + (string, int) gomap" where
  "parseScenarioOverrides value =
     (let v = trim_space value in
      if v = [] then Inr [] else parse_overrides (split_on (CHR '','') v) [])"

text \<open>
  A name may be a kind or a default container name; of two cookbooks under one name the later one counts.
  Names that are not known are left for containers yet to be created.
\<close>

definition known_names :: "(string, Cookbook) gomap \<Rightarrow> (string, Cookbook) gomap" where
  "known_names cookbooks =
     foldl (\<lambda>known (kind, cb). mput (mput known (to_lower kind) cb) (to_lower (d_Name (cb_Defaults cb))) cb) [] cookbooks"

definition validateScenarioOverrides :: "(string, Cookbook) gomap \<Rightarrow> (string, int) gomap \<Rightarrow> string option" where
  "validateScenarioOverrides cookbooks overrides =
     first_error (map (\<lambda>(key, value).
       case mget (known_names cookbooks) key of
         None \<Rightarrow> None
       | Some cb \<Rightarrow>
           check (\<not> mmem (cb_Seeds cb) (itoa value))
             (''cookbook '' @ cb_Kind cb @ '' has no seed '' @ itoa value)) overrides)"

definition formatOverrides :: "(string, int) gomap \<Rightarrow> string" where
  "formatOverrides overrides =
     join '','' (map (\<lambda>key. key @ ''='' @ itoa (mget_or 0 overrides key)) (sort (mkeys overrides)))"

section \<open>Listen addresses\<close>

text \<open>\<^verbatim>\<open>net.SplitHostPort\<close>: the port stands after the last colon; a host with colons is in brackets.\<close>

definition address_error :: "string \<Rightarrow> string \<Rightarrow> string" where
  "address_error address why = (if address = [] then why else ''address '' @ address @ '': '' @ why)"

definition SplitHostPort :: "string \<Rightarrow> string + string \<times> string" where
  "SplitHostPort hostport =
     (case last_index_byte (CHR '':'') hostport of
        None \<Rightarrow> Inl (address_error hostport ''missing port in address'')
      | Some i \<Rightarrow>
          if hd hostport = CHR ''['' then
            (case index_byte (CHR '']'') hostport of
               None \<Rightarrow> Inl (address_error hostport (''missing '' @ [CHR 0x27] @ '']'' @ [CHR 0x27] @ '' in address''))
             | Some rb \<Rightarrow>
                 if rb + 1 = length hostport then Inl (address_error hostport ''missing port in address'')
                 else if rb + 1 \<noteq> i then
                   Inl (address_error hostport
                     (if hostport ! (rb + 1) = CHR '':'' then ''too many colons in address'' else ''missing port in address''))
                 else if CHR ''['' \<in> set (drop 1 hostport) then
                   Inl (address_error hostport (''unexpected '' @ [CHR 0x27] @ ''['' @ [CHR 0x27] @ '' in address''))
                 else if CHR '']'' \<in> set (drop (rb + 1) hostport) then
                   Inl (address_error hostport (''unexpected '' @ [CHR 0x27] @ '']'' @ [CHR 0x27] @ '' in address''))
                 else Inr (drop 1 (take rb hostport), drop (i + 1) hostport))
          else if CHR '':'' \<in> set (take i hostport) then Inl (address_error hostport ''too many colons in address'')
          else if CHR ''['' \<in> set hostport then
            Inl (address_error hostport (''unexpected '' @ [CHR 0x27] @ ''['' @ [CHR 0x27] @ '' in address''))
          else if CHR '']'' \<in> set hostport then
            Inl (address_error hostport (''unexpected '' @ [CHR 0x27] @ '']'' @ [CHR 0x27] @ '' in address''))
          else Inr (take i hostport, drop (i + 1) hostport))"

definition clientHostForBind :: "string \<Rightarrow> string" where
  "clientHostForBind host =
     (if host = [] \<or> host = ''0.0.0.0'' then ''127.0.0.1'' else if host = ''::'' then ''::1'' else host)"

definition apply_address ::
  "string \<Rightarrow> string \<Rightarrow> (string, Cookbook) gomap \<Rightarrow> string + (string, Cookbook) gomap" where
  "apply_address kind address cookbooks =
     (case SplitHostPort address of
        Inl err \<Rightarrow> Inl (kind @ '' address '' @ quote address @ '': '' @ err)
      | Inr (host, portText) \<Rightarrow>
          let (port, ok) = atoi portText in
          if \<not> ok \<or> port < 1 \<or> port > 65535 then
            Inl (kind @ '' address '' @ quote address @ '' has invalid port; expected 1-65535'')
          else if host \<noteq> [] \<and> ParseIP host = None then
            Inl (kind @ '' address '' @ quote address @ '' uses a non-IP host; use an explicit bind IP'')
          else Inr (case mget cookbooks kind of
              None \<Rightarrow> cookbooks
            | Some cb \<Rightarrow> mput cookbooks kind
                (cb\<lparr>cb_Defaults := (cb_Defaults cb)\<lparr>d_HostIP := clientHostForBind host, d_HostPort := port\<rparr>\<rparr>)))"

text \<open>
  The two addresses are visited in the order of a map, either way; \<open>apply_addresses_swap\<close> shows that a
  successful result does not depend on it.
\<close>

fun apply_addresses :: "(string \<times> string) list \<Rightarrow> (string, Cookbook) gomap \<Rightarrow> string + (string, Cookbook) gomap" where
  "apply_addresses [] cookbooks = Inr cookbooks"
| "apply_addresses ((kind, address) # rest) cookbooks =
     (case apply_address kind address cookbooks of Inl err \<Rightarrow> Inl err | Inr cookbooks' \<Rightarrow> apply_addresses rest cookbooks')"

definition applyListenAddresses :: "(string, Cookbook) gomap \<Rightarrow> string \<Rightarrow> string \<Rightarrow> string + (string, Cookbook) gomap" where
  "applyListenAddresses cookbooks nginxAddress redisAddress =
     apply_addresses [(''nginx'', nginxAddress), (''redis'', redisAddress)] cookbooks"

section \<open>Lemmas\<close>

lemma parse_override_Inr:
  assumes "parse_override part result = Inr result'"
  obtains key seed where "result' = mput result key seed" "0 \<le> seed" "seed \<le> 2" "\<not> mmem result key"
  using assms by (auto simp: parse_override_def Let_def split: list.splits prod.splits if_splits)

lemma parse_overrides_range:
  "parse_overrides parts result = Inr result' \<Longrightarrow> \<forall>key seed. mget result key = Some seed \<longrightarrow> seed \<in> {0..2} \<Longrightarrow> wf_map result \<Longrightarrow>
   wf_map result' \<and> (\<forall>key seed. mget result' key = Some seed \<longrightarrow> seed \<in> {0..2})"
proof (induction parts arbitrary: result)
  case (Cons part parts)
  from Cons.prems(1) obtain r where r: "parse_override part result = Inr r" "parse_overrides parts r = Inr result'"
    by (auto split: sum.splits)
  from r(1) obtain key seed where "r = mput result key seed" "0 \<le> seed" "seed \<le> 2" by (rule parse_override_Inr)
  with Cons.prems(2,3) show ?case by (intro Cons.IH [OF r(2)]) auto
qed simp

lemma parseScenarioOverrides_range:
  "parseScenarioOverrides value = Inr overrides \<Longrightarrow> wf_map overrides \<and> (\<forall>key seed. mget overrides key = Some seed \<longrightarrow> seed \<in> {0..2})"
  using parse_overrides_range [of "split_on (CHR '','') (trim_space value)" "[]" overrides]
  by (auto simp: parseScenarioOverrides_def Let_def split: if_splits)

lemma parseOptions_seed: "parseOptions args = Inr opts \<Longrightarrow> o_seed opts \<in> {0..2}"
  by (auto simp: parseOptions_def split: option.splits if_splits)

lemma validated_seeds:
  assumes "validated cb" and "seed \<in> {0..2}"
  shows "mmem (cb_Seeds cb) (itoa seed)"
proof -
  have "seed \<in> {0, 1, 2}" using assms(2) by auto
  then have "itoa seed \<in> {''0'', ''1'', ''2''}" by (rule itoa_seed)
  moreover have "validate_seed_keys (cb_Seeds cb) = None" using assms(1) validated_iff by blast
  ultimately show ?thesis by (elim insertE emptyE) (simp_all add: validate_seed_keys_def)
qed

lemma known_names_from:
  "mget (foldl (\<lambda>known (kind, cb). mput (mput known (f kind cb) cb) (g kind cb) cb) known cookbooks) key = Some cb \<Longrightarrow>
   mget known key = Some cb \<or> cb \<in> set (mvals cookbooks)"
proof (induction cookbooks arbitrary: known)
  case (Cons x rest)
  obtain kind v where x: "x = (kind, v)" by fastforce
  from Cons.prems have "mget (mput (mput known (f kind v) v) (g kind v) v) key = Some cb \<or> cb \<in> set (mvals rest)"
    by (intro Cons.IH) (simp add: x)
  then show ?case by (auto simp: x mvals_def split: if_splits)
qed simp

lemma known_names_vals:
  assumes "mget (known_names cookbooks) key = Some cb"
  shows "cb \<in> set (mvals cookbooks)"
proof -
  have "mget [] key = Some cb \<or> cb \<in> set (mvals cookbooks)"
    using assms unfolding known_names_def by (rule known_names_from)
  then show ?thesis by simp
qed

text \<open>Addresses.\<close>

lemma ParseIP_not_blank: "ParseIP host \<noteq> None \<Longrightarrow> trim_space host \<noteq> []"
proof
  assume ip: "ParseIP host \<noteq> None" and blank: "trim_space host = []"
  have "dropWhile is_space host = []"
  proof (rule ccontr)
    assume "dropWhile is_space host \<noteq> []"
    then have "\<not> is_space (hd (dropWhile is_space host))" "hd (dropWhile is_space host) \<in> set (dropWhile is_space host)"
      by (auto simp: hd_dropWhile)
    with blank show False by (auto simp: trim_space_def)
  qed
  then have "list_all is_space host" by (simp add: dropWhile_eq_Nil_conv list_all_iff)
  moreover have "\<not> is_space (CHR ''.'')" "\<not> is_space (CHR '':'')" "\<not> is_space (CHR ''%'')" by code_simp+
  ultimately have "\<forall>c\<in>set host. c \<notin> {CHR ''.'', CHR '':'', CHR ''%''}" by (auto simp: list_all_iff)
  then have "dropWhile (\<lambda>c. c \<notin> {CHR ''.'', CHR '':'', CHR ''%''}) host = []" by (simp only: dropWhile_eq_Nil_conv)
  then have "ParseIP host = None" unfolding ParseIP_def by (simp only: list.case)
  with ip show False by contradiction
qed

lemma client_host_valid:
  assumes "host = [] \<or> ParseIP host \<noteq> None"
  shows "ParseIP (clientHostForBind host) \<noteq> None"
proof -
  have "ParseIP ''127.0.0.1'' \<noteq> None" "ParseIP ''::1'' \<noteq> None" by code_simp+
  with assms show ?thesis by (auto simp: clientHostForBind_def)
qed

definition rebound :: "string \<Rightarrow> int \<Rightarrow> Cookbook \<Rightarrow> Cookbook" where
  "rebound ip port cb = cb\<lparr>cb_Defaults := (cb_Defaults cb)\<lparr>d_HostIP := ip, d_HostPort := port\<rparr>\<rparr>"

lemma rebound_sel [simp]:
  "cb_Kind (rebound ip port cb) = cb_Kind cb" "cb_ImageNames (rebound ip port cb) = cb_ImageNames cb"
  "cb_Seeds (rebound ip port cb) = cb_Seeds cb" "default_name (rebound ip port cb) = default_name cb"
  "default_endpoint (rebound ip port cb) = default_endpoint cb" "image_keys (rebound ip port cb) = image_keys cb"
  by (simp_all add: rebound_def default_name_def default_endpoint_def image_keys_def)

lemma rebound_validated:
  assumes "validated cb" and "ParseIP ip \<noteq> None" and "1 \<le> port" and "port \<le> 65535"
  shows "validated (rebound ip port cb)"
proof -
  have "validate_defaults (cb_Kind cb) (cb_Defaults cb) = None" using assms(1) validated_iff by blast
  then have "validate_defaults (cb_Kind cb) (cb_Defaults (rebound ip port cb)) = None"
    using assms(2-4) ParseIP_not_blank [OF assms(2)] by (auto simp: validate_defaults_def rebound_def split: option.splits)
  then show ?thesis
    using assms(1) unfolding validated_iff rebound_sel by blast
qed

lemma apply_address_Inr:
  assumes "apply_address kind address cookbooks = Inr cookbooks'"
  obtains ip port where "ParseIP ip \<noteq> None" "1 \<le> port" "port \<le> 65535"
    "cookbooks' = (case mget cookbooks kind of None \<Rightarrow> cookbooks | Some cb \<Rightarrow> mput cookbooks kind (rebound ip port cb))"
proof -
  from assms obtain host ptext port where a: "SplitHostPort address = Inr (host, ptext)" "atoi ptext = (port, True)"
    "\<not> (port < 1 \<or> port > 65535)" "\<not> (host \<noteq> [] \<and> ParseIP host = None)"
    by (auto simp: apply_address_def Let_def split: sum.splits prod.splits if_splits)
  then have r: "host = [] \<or> ParseIP host \<noteq> None" "1 \<le> port" "port \<le> 65535"
    "cookbooks' = (case mget cookbooks kind of None \<Rightarrow> cookbooks
       | Some cb \<Rightarrow> mput cookbooks kind (rebound (clientHostForBind host) port cb))"
    using assms unfolding rebound_def by (auto simp: apply_address_def Let_def)
  from that [OF client_host_valid [OF r(1)] r(2,3,4)] show thesis .
qed

lemma apply_address_keeps:
  assumes "apply_address kind address cookbooks = Inr cookbooks'" and "cookbook_set cookbooks"
  shows "cookbook_set cookbooks' \<and>
    (\<forall>k. \<exists>ip port. mget cookbooks' k = map_option (rebound ip port) (mget cookbooks k) \<or> mget cookbooks' k = mget cookbooks k)"
proof -
  obtain ip port where r: "ParseIP ip \<noteq> None" "1 \<le> port" "port \<le> 65535"
    "cookbooks' = (case mget cookbooks kind of None \<Rightarrow> cookbooks | Some cb \<Rightarrow> mput cookbooks kind (rebound ip port cb))"
    by (rule apply_address_Inr [OF assms(1)])
  show ?thesis
  proof (cases "mget cookbooks kind")
    case None
    with r(4) assms(2) show ?thesis by auto
  next
    case (Some cb)
    then have new: "cookbooks' = mput cookbooks kind (rebound ip port cb)" using r(4) by simp
    note set = assms(2) [unfolded cookbook_set_def]
    have old: "cb_Kind v = k \<and> validated v" if "mget cookbooks k = Some v" for k v
      using set that by blast
    have keys: "set (mkeys cookbooks') = set (mkeys cookbooks)" using Some by (auto simp: new set_mkeys)
    have entries: "cb_Kind v = k \<and> validated v" if "mget cookbooks' k = Some v" for k v
      using that old [of k] old [OF Some] rebound_validated [OF _ r(1,2,3), of cb] by (auto simp: new split: if_splits)
    have sep: "separate (rebound ip port a) b \<longleftrightarrow> separate a b" "separate a (rebound ip port b) \<longleftrightarrow> separate a b" for a b
      by (simp_all add: separate_def)
    have "separate v v'" if v: "mget cookbooks' k = Some v" "mget cookbooks' k' = Some v'" "k \<noteq> k'" for k v k' v'
    proof -
      obtain w where w: "mget cookbooks k = Some w" "v = w \<or> v = rebound ip port w"
        using v(1) Some by (auto simp: new split: if_splits)
      obtain w' where w': "mget cookbooks k' = Some w'" "v' = w' \<or> v' = rebound ip port w'"
        using v(2) Some by (auto simp: new split: if_splits)
      have "separate w w'" using set w(1) w'(1) v(3) unfolding pairwise_on_def by blast
      with w(2) w'(2) show ?thesis by (auto simp: sep)
    qed
    moreover have "wf_map cookbooks'" using set by (simp add: new)
    ultimately have "cookbook_set cookbooks'"
      unfolding cookbook_set_def pairwise_on_def keys using set entries by blast
    with Some show ?thesis by (auto simp: new)
  qed
qed

lemma apply_addresses_keeps:
  "apply_addresses addresses cookbooks = Inr cookbooks' \<Longrightarrow> cookbook_set cookbooks \<Longrightarrow> cookbook_set cookbooks'"
proof (induction addresses arbitrary: cookbooks)
  case (Cons x addresses)
  obtain kind address where x: "x = (kind, address)" by fastforce
  with Cons.prems(1) obtain c1 where "apply_address kind address cookbooks = Inr c1" "apply_addresses addresses c1 = Inr cookbooks'"
    by (auto split: sum.splits)
  with Cons show ?case using apply_address_keeps by blast
qed simp

lemma apply_address_other: "kind \<noteq> k \<Longrightarrow> apply_address kind address cookbooks = Inr cookbooks' \<Longrightarrow> mget cookbooks' k = mget cookbooks k"
  by (erule apply_address_Inr) (auto split: option.splits)

lemma apply_address_local:
  "apply_address kind address cookbooks = Inr c1 \<Longrightarrow> mget other kind = mget cookbooks kind \<Longrightarrow>
   \<exists>c2. apply_address kind address other = Inr c2 \<and> mget c2 kind = mget c1 kind"
  by (auto simp: apply_address_def Let_def split: sum.splits prod.splits if_splits option.splits)

lemma apply_addresses_swap:
  assumes "kind \<noteq> kind'" and "apply_addresses [(kind, address), (kind', address')] cookbooks = Inr c"
  shows "\<exists>c'. apply_addresses [(kind', address'), (kind, address)] cookbooks = Inr c' \<and> (\<forall>k. mget c' k = mget c k)"
proof -
  obtain c1 where c1: "apply_address kind address cookbooks = Inr c1" "apply_address kind' address' c1 = Inr c"
    using assms(2) by (auto split: sum.splits)
  have "mget cookbooks kind' = mget c1 kind'" using apply_address_other [OF assms(1) c1(1)] by simp
  then obtain d1 where d1: "apply_address kind' address' cookbooks = Inr d1" "mget d1 kind' = mget c kind'"
    using apply_address_local [OF c1(2)] by blast
  have "mget d1 kind = mget cookbooks kind" using apply_address_other [OF _ d1(1)] assms(1) by simp
  then obtain d where d: "apply_address kind address d1 = Inr d" "mget d kind = mget c1 kind"
    using apply_address_local [OF c1(1)] by blast
  have "mget d k = mget c k" for k
  proof (cases "k = kind \<or> k = kind'")
    case True
    then show ?thesis
      using assms(1) d(2) d1(2) apply_address_other [OF _ c1(2), of kind] apply_address_other [OF assms(1) d(1)] by auto
  next
    case False
    then show ?thesis
      using apply_address_other [OF _ c1(1), of k] apply_address_other [OF _ c1(2), of k]
        apply_address_other [OF _ d1(1), of k] apply_address_other [OF _ d(1), of k] by auto
  qed
  with d1(1) d(1) show ?thesis by auto
qed

text \<open>Overrides that print and parse: the names the command line would keep as they are.\<close>

definition override_name :: "string \<Rightarrow> bool" where
  "override_name key \<longleftrightarrow> key \<noteq> [] \<and> trim_space key = key \<and> to_lower key = key \<and> \<not> has_prefix key ''/'' \<and>
     CHR ''='' \<notin> set key \<and> CHR '','' \<notin> set key"

lemma trim_space_ends:
  assumes "trim_space s = s" and "s \<noteq> []"
  shows "\<not> is_space (hd s)" and "\<not> is_space (last s)"
proof -
  have l: "length (dropWhile is_space s) = length s"
    using assms(1) length_dropWhile_le [of is_space s] length_dropWhile_le [of is_space "rev (dropWhile is_space s)"]
    by (metis antisym length_rev trim_space_def)
  then have d: "dropWhile is_space s = s" by (metis dropWhile_eq_drop length_drop le_add_diff_inverse2 diff_is_0_eq drop0 length_takeWhile_le add_diff_cancel_left' diff_diff_cancel length_dropWhile_le)
  with assms(2) show "\<not> is_space (hd s)" using hd_dropWhile by metis
  from d assms(1) have "dropWhile is_space (rev s) = rev s" by (metis rev_rev_ident trim_space_def)
  with assms(2) show "\<not> is_space (last s)" using hd_dropWhile hd_rev by (metis rev_is_Nil_conv)
qed

lemma parse_override_printed:
  assumes "override_name key" and "seed \<in> {0..2}" and "\<not> mmem result key"
  shows "parse_override (key @ ''='' @ itoa seed) result = Inr (mput result key seed)"
proof -
  let ?part = "key @ ''='' @ itoa seed"
  note k = assms(1) [unfolded override_name_def]
  have "\<not> is_space (hd key)" using trim_space_ends k by blast
  moreover have "\<not> is_space (last (itoa seed))"
    using itoa_no_space [of seed] by (metis itoa_nonempty last_in_set list_all_iff)
  ultimately have "trim_space ?part = ?part" using k by (intro trim_space_no_space) simp
  moreover have "split2_on (CHR ''='') ?part = [key, itoa seed]" using k split2_on_append [of "CHR ''=''" key "itoa seed"] by simp
  moreover have "trim_space (itoa seed) = itoa seed" by (rule all_non_space_trim [OF itoa_no_space])
  moreover have "atoi (itoa seed) = (seed, True)" using assms(2) by (intro atoi_itoa) (auto simp: minInt64_def maxInt64_def)
  moreover have "trim_prefix key ''/'' = key" using k by (simp add: trim_prefix_def)
  ultimately show ?thesis using k assms(2,3) by (simp add: parse_override_def)
qed

lemma mput_absent: "\<not> mmem m k \<Longrightarrow> mput m k v = m @ [(k, v)]"
  by (induction m) (auto simp: mmem_def mput_def)

lemma parse_overrides_printed:
  "list_all (\<lambda>(key, seed). override_name key \<and> seed \<in> {0..2}) entries \<Longrightarrow> distinct (map fst (result @ entries)) \<Longrightarrow>
   parse_overrides (map (\<lambda>(key, seed). key @ ''='' @ itoa seed) entries) result = Inr (result @ entries)"
proof (induction entries arbitrary: result)
  case (Cons x entries)
  obtain key seed where x: "x = (key, seed)" by fastforce
  have new: "\<not> mmem result key" using Cons.prems(2) by (auto simp: x mmem_def mget_def map_of_eq_None_iff)
  have "parse_overrides (map (\<lambda>(key, seed). key @ ''='' @ itoa seed) entries) (result @ [(key, seed)]) = Inr ((result @ [(key, seed)]) @ entries)"
    using Cons.prems by (intro Cons.IH) (auto simp: x)
  then show ?case using Cons.prems(1) parse_override_printed [of key seed result] new by (simp add: x mput_absent)
qed simp

lemma split_on_join:
  "parts \<noteq> [] \<Longrightarrow> list_all (\<lambda>p. d \<notin> set p) parts \<Longrightarrow> split_on d (join [d] parts) = parts"
proof (induction parts)
  case (Cons p parts)
  then show ?case by (cases parts) (simp_all add: split_on_no_sep split_on_append)
qed simp

lemma join_ends:
  "parts \<noteq> [] \<Longrightarrow> list_all (\<lambda>p. p \<noteq> []) parts \<Longrightarrow>
   join sep parts \<noteq> [] \<and> hd (join sep parts) = hd (hd parts) \<and> last (join sep parts) = last (last parts)"
proof (induction parts)
  case (Cons p parts)
  then show ?case by (cases parts) auto
qed simp

section \<open>Properties\<close>

text \<open>What becomes of the cookbook of a kind: its published address is the parsed one, and all else stays.\<close>

definition published_at :: "string \<Rightarrow> string \<Rightarrow> (string, Cookbook) gomap \<Rightarrow> (string, Cookbook) gomap \<Rightarrow> bool" where
  "published_at kind address cookbooks cookbooks' \<longleftrightarrow>
     (\<exists>host ptext port cb. SplitHostPort address = Inr (host, ptext) \<and> atoi ptext = (port, True) \<and> 1 \<le> port \<and> port \<le> 65535 \<and>
        mget cookbooks kind = Some cb \<and> mget cookbooks' kind = Some (rebound (clientHostForBind host) port cb))"

lemma apply_address_published:
  assumes "apply_address kind address cookbooks = Inr cookbooks'" and "mget cookbooks kind = Some cb"
  shows "published_at kind address cookbooks cookbooks'"
proof -
  from assms(1) obtain host ptext port where a: "SplitHostPort address = Inr (host, ptext)" "atoi ptext = (port, True)"
    "\<not> (port < 1 \<or> port > 65535)" "\<not> (host \<noteq> [] \<and> ParseIP host = None)"
    by (auto simp: apply_address_def Let_def split: sum.splits prod.splits if_splits)
  then have "mget cookbooks' kind = Some (rebound (clientHostForBind host) port cb)"
    using assms unfolding rebound_def by (auto simp: apply_address_def Let_def)
  with a assms(2) show ?thesis unfolding published_at_def by force
qed

text \<open>
  C32: the listen addresses change nothing but the published host address and port of the two cookbooks, which are those of the
  parsed address with a wildcard host replaced by loopback, and keep the set valid: every cookbook would be accepted again.
\<close>

theorem listen_addresses_keep_cookbooks_valid:
  assumes "cookbook_set cookbooks" and "applyListenAddresses cookbooks nginxAddress redisAddress = Inr cookbooks'"
  shows "cookbook_set cookbooks' \<and> published_at ''nginx'' nginxAddress cookbooks cookbooks' \<and>
    published_at ''redis'' redisAddress cookbooks cookbooks'"
proof -
  have "set (mkeys cookbooks) = {''nginx'', ''redis''}" using assms(1) by (simp add: cookbook_set_def)
  then obtain n r where old: "mget cookbooks ''nginx'' = Some n" "mget cookbooks ''redis'' = Some r"
    by (simp add: set_mkeys set_eq_iff) metis
  obtain c1 where c1: "apply_address ''nginx'' nginxAddress cookbooks = Inr c1" "apply_address ''redis'' redisAddress c1 = Inr cookbooks'"
    using assms(2) by (auto simp: applyListenAddresses_def split: sum.splits)
  have keep: "mget c1 ''redis'' = mget cookbooks ''redis''" "mget cookbooks' ''nginx'' = mget c1 ''nginx''"
    using apply_address_other [OF _ c1(1), of "''redis''"] apply_address_other [OF _ c1(2), of "''nginx''"] by simp_all
  have "published_at ''nginx'' nginxAddress cookbooks cookbooks'"
    using apply_address_published [OF c1(1) old(1)] unfolding published_at_def keep(2) .
  moreover have "published_at ''redis'' redisAddress c1 cookbooks'"
    using apply_address_published [OF c1(2), of r] old(2) keep(1) by simp
  then have "published_at ''redis'' redisAddress cookbooks cookbooks'" unfolding published_at_def keep(1) .
  moreover have "cookbook_set cookbooks'" using assms apply_addresses_keeps unfolding applyListenAddresses_def by blast
  ultimately show ?thesis by blast
qed

theorem listen_addresses_keep_cookbooks_valid_witness:
  "\<exists>cookbooks'. applyListenAddresses demo_loaded_set ''0.0.0.0:80'' ''[::]:6379'' = Inr cookbooks' \<and> cookbook_set cookbooks'"
proof -
  have "SplitHostPort ''0.0.0.0:80'' = Inr (''0.0.0.0'', ''80'')" "SplitHostPort ''[::]:6379'' = Inr (''::'', ''6379'')"
    "atoi ''80'' = (80, True)" "atoi ''6379'' = (6379, True)" "ParseIP ''0.0.0.0'' \<noteq> None" "ParseIP ''::'' \<noteq> None"
    by code_simp+
  then have "\<exists>cookbooks'. applyListenAddresses demo_loaded_set ''0.0.0.0:80'' ''[::]:6379'' = Inr cookbooks'"
    by (auto simp: applyListenAddresses_def apply_address_def)
  then show ?thesis using listen_addresses_keep_cookbooks_valid [OF demo_cookbook_set] by blast
qed

lemma override_part:
  assumes "override_name key"
  shows "key @ ''='' @ itoa seed \<noteq> []" and "\<not> is_space (hd (key @ ''='' @ itoa seed))"
    and "\<not> is_space (last (key @ ''='' @ itoa seed))" and "CHR '','' \<notin> set (key @ ''='' @ itoa seed)"
proof -
  have "\<not> is_space (hd key)" "key \<noteq> []" using assms trim_space_ends(1) [of key] by (auto simp: override_name_def)
  moreover have "\<not> is_space (last (itoa seed))"
    using itoa_no_space [of seed] by (metis itoa_nonempty last_in_set list_all_iff)
  ultimately show "key @ ''='' @ itoa seed \<noteq> []" "\<not> is_space (hd (key @ ''='' @ itoa seed))"
    "\<not> is_space (last (key @ ''='' @ itoa seed))" by simp_all
  show "CHR '','' \<notin> set (key @ ''='' @ itoa seed)"
    using assms itoa_no_sep [of "CHR '',''"] by (auto simp: override_name_def is_digit_def)
qed

lemma parse_joined:
  assumes "parts \<noteq> []" and ends: "\<And>p. p \<in> set parts \<Longrightarrow> p \<noteq> [] \<and> \<not> is_space (hd p) \<and> \<not> is_space (last p) \<and> CHR '','' \<notin> set p"
  shows "parseScenarioOverrides (join '','' parts) = parse_overrides parts []"
proof -
  have j: "join '','' parts \<noteq> []" "hd (join '','' parts) = hd (hd parts)" "last (join '','' parts) = last (last parts)"
    using join_ends [OF assms(1)] ends by (auto simp: list_all_iff)
  have "trim_space (join '','' parts) = join '','' parts"
    using j ends [of "hd parts"] ends [of "last parts"] assms(1) by (intro trim_space_no_space) simp
  moreover have "split_on (CHR '','') (join '','' parts) = parts"
    using assms(1) ends by (intro split_on_join) (simp_all add: list_all_iff)
  ultimately show ?thesis using j(1) by (simp add: parseScenarioOverrides_def)
qed

lemma mget_sorted:
  assumes "wf_map m"
  shows "mget (map (\<lambda>key. (key, mget_or z m key)) (sort (mkeys m))) key = mget m key"
proof (cases "key \<in> set (mkeys m)")
  case True
  let ?s = "map (\<lambda>key. (key, mget_or z m key)) (sort (mkeys m))"
  have "(key, mget_or z m key) \<in> set ?s" using True by auto
  moreover have "wf_map ?s" using assms by (simp add: wf_map_def mkeys_def comp_def)
  ultimately have "mget ?s key = Some (mget_or z m key)" by (simp flip: in_mget)
  then show ?thesis using True by (auto simp: set_mkeys mget_or_def)
next
  case False
  then have "key \<notin> set (mkeys (map (\<lambda>key. (key, mget_or z m key)) (sort (mkeys m))))" by (auto simp: mkeys_def)
  with False show ?thesis by (simp add: set_mkeys)
qed

lemma printed_names_parse:
  assumes "wf_map overrides" and "\<forall>key seed. mget overrides key = Some seed \<longrightarrow> override_name key \<and> seed \<in> {0..2}"
  shows "\<exists>sorted. parseScenarioOverrides (formatOverrides overrides) = Inr sorted \<and>
    mkeys sorted = sort (mkeys overrides) \<and> (\<forall>key. mget sorted key = mget overrides key)"
proof (cases "overrides = []")
  case True
  have "trim_space [] = []" by (simp add: trim_space_def)
  with True show ?thesis by (simp add: parseScenarioOverrides_def formatOverrides_def mkeys_def)
next
  case False
  define entries where "entries = map (\<lambda>key. (key, mget_or 0 overrides key)) (sort (mkeys overrides))"
  define parts where "parts = map (\<lambda>(key, seed). key @ ''='' @ itoa seed) entries"
  have printed: "formatOverrides overrides = join '','' parts"
    by (simp add: formatOverrides_def parts_def entries_def comp_def)
  have "override_name key \<and> mget_or 0 overrides key \<in> {0..2}" if "key \<in> set (mkeys overrides)" for key
    using that assms(2) by (auto simp: set_mkeys mget_or_def)
  then have good: "list_all (\<lambda>(key, seed). override_name key \<and> seed \<in> {0..2}) entries"
    by (auto simp: list_all_iff entries_def)
  have keys: "mkeys entries = sort (mkeys overrides)" by (simp add: entries_def mkeys_def comp_def)
  then have "distinct (map fst entries)" using assms(1) by (simp add: mkeys_def wf_map_def)
  then have parsed: "parse_overrides parts [] = Inr entries"
    using parse_overrides_printed [OF good, of "[]"] by (simp add: parts_def)
  have "sort (mkeys overrides) \<noteq> []" using False by (metis set_empty set_sort mkeys_def map_is_Nil_conv)
  then have "parts \<noteq> []" by (simp add: parts_def entries_def)
  then have "parseScenarioOverrides (join '','' parts) = parse_overrides parts []"
  proof (rule parse_joined)
    fix p
    assume "p \<in> set parts"
    then obtain key seed where "(key, seed) \<in> set entries" "p = key @ ''='' @ itoa seed" by (auto simp: parts_def)
    moreover from this good have "override_name key" by (auto simp: list_all_iff)
    ultimately show "p \<noteq> [] \<and> \<not> is_space (hd p) \<and> \<not> is_space (last p) \<and> CHR '','' \<notin> set p"
      using override_part [of key seed] by blast
  qed
  with parsed keys printed show ?thesis using mget_sorted [OF assms(1), of 0] by (simp add: entries_def)
qed

text \<open>What the parser stores as a key: no separator, no capital letter, no space at its end.\<close>

definition stored_name :: "string \<Rightarrow> bool" where
  "stored_name key \<longleftrightarrow> to_lower key = key \<and> CHR ''='' \<notin> set key \<and> CHR '','' \<notin> set key \<and>
     (key \<noteq> [] \<longrightarrow> \<not> is_space (last key))"

lemma lower_char_id: "\<not> is_upper c \<Longrightarrow> lower_char c = c"
  by (simp add: lower_char_def)

lemma lower_char_upper:
  assumes "is_upper c"
  shows "\<not> is_upper (lower_char c)" "\<not> is_space (lower_char c)" "lower_char c \<noteq> CHR ''=''" "lower_char c \<noteq> CHR '',''"
proof -
  have b: "65 \<le> byte c" "byte c \<le> 90" using assms by (simp_all add: is_upper_def)
  then have "byte (lower_char c) = byte c + 32" using assms by (simp add: lower_char_def)
  with b show "\<not> is_upper (lower_char c)" "\<not> is_space (lower_char c)" "lower_char c \<noteq> CHR ''=''" "lower_char c \<noteq> CHR '',''"
    by (auto simp: is_upper_def is_space_def)
qed

lemma lower_char_stored:
  "lower_char (lower_char c) = lower_char c" "lower_char c = CHR ''='' \<longleftrightarrow> c = CHR ''=''"
  "lower_char c = CHR '','' \<longleftrightarrow> c = CHR '',''" "is_space (lower_char c) \<Longrightarrow> is_space c"
  using lower_char_upper [of c] lower_char_id [of c] lower_char_id [of "lower_char c"]
  by (cases "is_upper c"; auto simp: is_upper_def)+

lemma stored_name_lower:
  assumes "CHR ''='' \<notin> set s" "CHR '','' \<notin> set s" "s \<noteq> [] \<longrightarrow> \<not> is_space (last s)"
  shows "stored_name (to_lower s)"
proof -
  have "x \<in> set s \<Longrightarrow> lower_char x \<noteq> CHR ''='' \<and> lower_char x \<noteq> CHR '',''" for x
    using assms(1,2) by (auto simp: lower_char_stored)
  then have "CHR ''='' \<notin> set (map lower_char s)" "CHR '','' \<notin> set (map lower_char s)" by fastforce+
  with assms(3) show ?thesis by (auto simp: stored_name_def to_lower_def last_map lower_char_stored)
qed

lemma set_trim_space: "set (trim_space s) \<subseteq> set s"
  by (auto simp: trim_space_def dest!: set_dropWhileD)

lemma last_trim_space: "trim_space s \<noteq> [] \<Longrightarrow> \<not> is_space (last (trim_space s))"
  by (simp add: trim_space_def last_rev hd_dropWhile)

lemma parse_override_stores:
  assumes "parse_override part result = Inr result'" and "CHR '','' \<notin> set part"
  obtains key seed where "result' = mput result key seed" "stored_name key"
proof -
  from assms(1) obtain name rhs where sp: "split2_on (CHR ''='') (trim_space part) = [name, rhs]"
    by (auto simp: parse_override_def split: list.splits)
  then have eq: "trim_space part = name @ CHR ''='' # rhs" "CHR ''='' \<notin> set name"
    by (cases rule: split2_on_cases [of "CHR ''=''" "trim_space part"]; simp)+
  from assms(1) sp obtain seed where r: "result' = mput result (to_lower (trim_prefix (trim_space name) ''/'')) seed"
    by (auto simp: parse_override_def Let_def split: prod.splits if_splits)
  let ?n = "trim_prefix (trim_space name) ''/''"
  have sub: "set ?n \<subseteq> set name" using set_trim_space [of name] by (auto simp: trim_prefix_def dest: in_set_dropD)
  have "last ?n = last (trim_space name) \<and> trim_space name \<noteq> []" if "?n \<noteq> []"
    using that by (auto simp: trim_prefix_def)
  then have "?n \<noteq> [] \<longrightarrow> \<not> is_space (last ?n)" using last_trim_space [of name] by auto
  moreover have "CHR '','' \<notin> set name" using assms(2) set_trim_space [of part] eq(1) by auto
  ultimately have "stored_name (to_lower ?n)" using eq(2) sub by (intro stored_name_lower) auto
  with r show thesis by (rule that)
qed

lemma parse_overrides_store:
  "parse_overrides parts result = Inr overrides \<Longrightarrow> list_all (\<lambda>p. CHR '','' \<notin> set p) parts \<Longrightarrow>
   \<forall>key\<in>set (mkeys result). stored_name key \<Longrightarrow> \<forall>key\<in>set (mkeys overrides). stored_name key"
proof (induction parts arbitrary: result)
  case (Cons p parts)
  then obtain result' where r: "parse_override p result = Inr result'" "parse_overrides parts result' = Inr overrides"
    by (auto split: sum.splits)
  from Cons.prems(2) have "CHR '','' \<notin> set p" by simp
  from parse_override_stores [OF r(1) this] obtain key seed where "result' = mput result key seed" "stored_name key" .
  with Cons.prems(3) have "\<forall>key\<in>set (mkeys result'). stored_name key" by (auto simp: set_mkeys split: if_splits)
  with Cons.IH [OF r(2)] Cons.prems(2) show ?case by simp
qed simp

lemma split_on_parts: "p \<in> set (split_on d s) \<Longrightarrow> d \<notin> set p"
proof (induction s arbitrary: p)
  case (Cons c s)
  then show ?case by (cases "split_on d s") (auto split: if_splits)
qed simp

lemma parsed_names_stored:
  "parseScenarioOverrides value = Inr overrides \<Longrightarrow> key \<in> set (mkeys overrides) \<Longrightarrow> stored_name key"
  using parse_overrides_store [of "split_on (CHR '','') (trim_space value)" "[]" overrides]
  by (auto simp: parseScenarioOverrides_def Let_def list_all_iff mkeys_def dest: split_on_parts split: if_splits)

text \<open>
  C33: overrides that were parsed print and parse back. When no key is empty or starts with a slash or a
  space (the parser strips one slash and stores what is left), the text of \<^verbatim>\<open>formatOverrides\<close> parses to
  the same seeds, sorted by name.
\<close>

theorem overrides_print_and_parse:
  assumes "parseScenarioOverrides value = Inr overrides"
    and "\<forall>key\<in>set (mkeys overrides). key \<noteq> [] \<and> hd key \<noteq> CHR ''/'' \<and> \<not> is_space (hd key)"
  shows "\<exists>sorted. parseScenarioOverrides (formatOverrides overrides) = Inr sorted \<and>
    mkeys sorted = sort (mkeys overrides) \<and> (\<forall>key. mget sorted key = mget overrides key)"
proof (rule printed_names_parse)
  show "wf_map overrides" using parseScenarioOverrides_range [OF assms(1)] by blast
  show "\<forall>key seed. mget overrides key = Some seed \<longrightarrow> override_name key \<and> seed \<in> {0..2}"
  proof (intro allI impI)
    fix key seed
    assume "mget overrides key = Some seed"
    then have key: "key \<in> set (mkeys overrides)" "seed \<in> {0..2}"
      using parseScenarioOverrides_range [OF assms(1)] by (auto simp: set_mkeys)
    with assms(2) have first: "key \<noteq> []" "hd key \<noteq> CHR ''/''" "\<not> is_space (hd key)" by blast+
    have st: "stored_name key" using parsed_names_stored [OF assms(1) key(1)] .
    then have "trim_space key = key" using first by (intro trim_space_no_space) (simp add: stored_name_def)
    moreover have "\<not> has_prefix key ''/''" using first by (cases key) auto
    ultimately show "override_name key \<and> seed \<in> {0..2}"
      using st first key(2) by (simp add: override_name_def stored_name_def)
  qed
qed

theorem overrides_print_and_parse_witness:
  "\<exists>overrides sorted. parseScenarioOverrides '' /Web = 2,redis=1'' = Inr overrides \<and>
     parseScenarioOverrides (formatOverrides overrides) = Inr sorted \<and> mget sorted ''redis'' = Some 1 \<and> mget sorted ''web'' = Some 2"
proof -
  have parsed: "parseScenarioOverrides '' /Web = 2,redis=1'' = Inr [(''web'', 2), (''redis'', 1)]" by code_simp
  have "\<forall>key\<in>set (mkeys [(''web'', 2), (''redis'', 1::int)]). key \<noteq> [] \<and> hd key \<noteq> CHR ''/'' \<and> \<not> is_space (hd key)"
    by (simp add: mkeys_def is_space_def)
  from overrides_print_and_parse [OF parsed this] parsed show ?thesis by auto
qed

text \<open>
  C31: every seed that the command line can select exists: with a loaded set of cookbooks the check of the
  overrides succeeds, and the seed chosen for any container has a scenario.
\<close>

theorem configured_seeds_exist:
  assumes "cookbook_set cookbooks" and "parseOptions args = Inr opts"
    and "parseScenarioOverrides (o_scenarioFlag opts) = Inr overrides"
  shows "validateScenarioOverrides cookbooks overrides = None \<and>
    (\<forall>kind cb name e. mget cookbooks kind = Some cb \<longrightarrow> e_seed e = o_seed opts \<longrightarrow> e_overrides e = overrides \<longrightarrow>
       mmem (cb_Seeds cb) (itoa (seedFor (cb_Kind cb) name e)))"
proof -
  have overrides: "seed \<in> {0..2}" if "mget overrides key = Some seed" for key seed
    using parseScenarioOverrides_range [OF assms(3)] that by blast
  have valid: "validated cb" if "cb \<in> set (mvals cookbooks)" for cb
    using cookbook_set_loaded [OF assms(1)] that by (simp add: loaded_def)
  have wf: "wf_map overrides" using parseScenarioOverrides_range [OF assms(3)] by blast
  have "mmem (cb_Seeds cb) (itoa n)" if "(key, n) \<in> set overrides" "mget (known_names cookbooks) key = Some cb" for key n cb
    using that overrides valid known_names_vals validated_seeds in_mget [OF wf] by metis
  then have "validateScenarioOverrides cookbooks overrides = None"
    by (auto simp: validateScenarioOverrides_def split: option.splits)
  moreover have "seedFor kind name e \<in> {0..2}" if "e_seed e = o_seed opts" "e_overrides e = overrides" for kind name e
    using parseOptions_seed [OF assms(2)] overrides that by (auto simp: seedFor_def split: option.split)
  moreover have "validated cb" if "mget cookbooks kind = Some cb" for kind cb
    using assms(1) that unfolding cookbook_set_def by blast
  ultimately show ?thesis using validated_seeds by blast
qed

theorem configured_seeds_exist_witness:
  "validateScenarioOverrides demo_loaded_set [(''nginx'', 2)] = None"
proof -
  have "parseOptions [''--scenario=nginx=2''] = Inr (default_options\<lparr>o_scenarioFlag := ''nginx=2''\<rparr>)" by code_simp
  moreover have "parseScenarioOverrides ''nginx=2'' = Inr [(''nginx'', 2)]" by code_simp
  ultimately show ?thesis using configured_seeds_exist [OF demo_cookbook_set] by fastforce
qed

end
