(* ===== verification/Main_Os.thy ===== *)
theory Main_Os
  imports Main_Config
begin

text \<open>
  What the program does to the file system before it serves (\<^verbatim>\<open>main.go\<close>): it checks paths, removes a
  stale socket and opens its own. Every call to the operating system is recorded, and the outcome of a
  call is given by an environment that may depend on all calls so far, so that nothing is assumed of the
  order in which other processes act.
\<close>

section \<open>Calls\<close>

datatype os_call =
    MkdirAll string | Stat string | Lstat string | Dial string | CloseConnection string | Remove string
  | ListenUnix string | Chmod string nat | CloseListener string | CreateTemp string | CloseFile string
  | ListenTCP string | OpenFile string | WriteFile string json | ReadDir string | ReadFile string

datatype file_kind = Directory | Socket | OtherFile

datatype os_errno = ENOENT | ECONNREFUSED | OtherErrno

text \<open>An outcome: success, the kind of a file, the name of a file created, or an error and its text.\<close>

datatype os_outcome = Done | Found file_kind | Named string | Failed os_errno string

type_synonym os_env = "os_call list \<Rightarrow> os_outcome"

text \<open>A program with calls: from the calls so far to its result and the calls after it.\<close>

type_synonym 'a osm = "os_env \<Rightarrow> os_call list \<Rightarrow> 'a \<times> os_call list"

definition os_return :: "'a \<Rightarrow> 'a osm" where
  "os_return x = (\<lambda>env trace. (x, trace))"

definition os_bind :: "'a osm \<Rightarrow> ('a \<Rightarrow> 'b osm) \<Rightarrow> 'b osm" where
  "os_bind m f = (\<lambda>env trace. let (x, trace') = m env trace in f x env trace')"

definition os_do :: "os_call \<Rightarrow> os_outcome osm" where
  "os_do c = (\<lambda>env trace. (env (trace @ [c]), trace @ [c]))"

text \<open>A call whose error is returned, wrapped in a message.\<close>

definition os_try :: "os_call \<Rightarrow> (string \<Rightarrow> 'e) \<Rightarrow> ('e + 'a) osm \<Rightarrow> ('e + 'a) osm" where
  "os_try c wrap k = os_bind (os_do c) (\<lambda>r. case r of Failed _ err \<Rightarrow> os_return (Inl (wrap err)) | _ \<Rightarrow> k)"

text \<open>The same for a call whose absence of the file is no error.\<close>

definition os_try_absent :: "os_call \<Rightarrow> (string \<Rightarrow> 'e) \<Rightarrow> ('e + 'a) osm \<Rightarrow> ('e + 'a) osm" where
  "os_try_absent c wrap k =
     os_bind (os_do c) (\<lambda>r. case r of Failed n err \<Rightarrow> if n = ENOENT then k else os_return (Inl (wrap err)) | _ \<Rightarrow> k)"

section \<open>Paths\<close>

text \<open>
  \<^verbatim>\<open>filepath.Clean\<close>, \<^verbatim>\<open>filepath.Dir\<close> and \<^verbatim>\<open>filepath.Join\<close> of two elements: empty and dot elements are
  dropped, and a double dot removes the element before it.
\<close>

definition clean_element :: "bool \<Rightarrow> string list \<Rightarrow> string \<Rightarrow> string list" where
  "clean_element rooted stack element =
     (if element = [] \<or> element = ''.'' then stack
      else if element = ''..'' then
        (if stack \<noteq> [] \<and> last stack \<noteq> ''..'' then butlast stack else if rooted then stack else stack @ [''..''])
      else stack @ [element])"

definition filepath_Clean :: "string \<Rightarrow> string" where
  "filepath_Clean path =
     (let rooted = has_prefix path ''/'';
          out = (if rooted then ''/'' else []) @ join ''/'' (foldl (clean_element rooted) [] (split_on (CHR ''/'') path))
      in if out = [] then ''.'' else out)"

definition filepath_Dir :: "string \<Rightarrow> string" where
  "filepath_Dir path =
     filepath_Clean (case last_index_byte (CHR ''/'') path of None \<Rightarrow> [] | Some i \<Rightarrow> take (i + 1) path)"

definition filepath_Join :: "string \<Rightarrow> string \<Rightarrow> string" where
  "filepath_Join a b =
     (if a = [] then (if b = [] then [] else filepath_Clean b) else filepath_Clean (a @ ''/'' @ b))"

section \<open>The socket\<close>

definition validateUnixSocketPath :: "string \<Rightarrow> string option" where
  "validateUnixSocketPath path =
     (if path = [] then Some ''docker socket path is empty''
      else if length path > 107 then
        Some (''docker socket path is too long for AF_UNIX: '' @ itoa (int (length path)) @ '' bytes (max 107): '' @ path)
      else None)"

definition prepareUnixSocketPath :: "string \<Rightarrow> (string + unit) osm" where
  "prepareUnixSocketPath path =
     (case validateUnixSocketPath path of
        Some err \<Rightarrow> os_return (Inl err)
      | None \<Rightarrow>
          os_bind (os_do (Lstat path)) (\<lambda>info.
          case info of
            Failed n err \<Rightarrow>
              os_return (if n = ENOENT then Inr () else Inl (''inspect socket path '' @ path @ '': '' @ err))
          | _ \<Rightarrow>
              if info \<noteq> Found Socket then os_return (Inl (''refusing to remove non-socket path '' @ path))
              else
                os_bind (os_do (Dial path)) (\<lambda>dialled.
                case dialled of
                  Failed n err \<Rightarrow>
                    if n \<noteq> ECONNREFUSED \<and> n \<noteq> ENOENT then
                      os_return (Inl (''cannot verify whether existing Docker socket '' @ path @ '' is stale: '' @ err))
                    else
                      os_try_absent (Remove path) (\<lambda>err. ''remove stale Docker socket '' @ path @ '': '' @ err)
                        (os_return (Inr ()))
                | _ \<Rightarrow>
                    os_bind (os_do (CloseConnection path)) (\<lambda>_.
                    os_return (Inl (''docker socket '' @ path @
                      '' is active; stop the existing docker-zero process or choose another --socket''))))))"

definition listenUnixSocket :: "string \<Rightarrow> nat \<Rightarrow> (string + unit) osm" where
  "listenUnixSocket path mode =
     os_try (MkdirAll (filepath_Dir path)) (\<lambda>err. err)
     (os_bind (prepareUnixSocketPath path) (\<lambda>prepared.
      case prepared of
        Inl err \<Rightarrow> os_return (Inl err)
      | Inr _ \<Rightarrow>
          os_try (ListenUnix path) (\<lambda>err. err)
          (os_bind (os_do (Chmod path mode)) (\<lambda>r.
           case r of
             Failed _ err \<Rightarrow>
               os_bind (os_do (CloseListener path)) (\<lambda>_.
               os_bind (os_do (Remove path)) (\<lambda>_. os_return (Inl err)))
           | _ \<Rightarrow> os_return (Inr ())))))"

section \<open>Checks\<close>

definition validatePathArguments :: "string \<Rightarrow> string \<Rightarrow> (string + unit) osm" where
  "validatePathArguments socketPath ledgerDir =
     (if trim_space socketPath = [] then os_return (Inl ''--socket cannot be empty'')
      else if NUL \<in> set socketPath then os_return (Inl ''--socket contains a NUL byte'')
      else if trim_space ledgerDir = [] then os_return (Inl ''--ledger-dir cannot be empty'')
      else
        os_bind (os_do (Stat ledgerDir)) (\<lambda>info. os_return (
          case info of
            Failed n err \<Rightarrow>
              if n = ENOENT then Inr () else Inl (''inspect --ledger-dir '' @ ledgerDir @ '': '' @ err)
          | _ \<Rightarrow>
              if info = Found Directory then Inr ()
              else Inl (''--ledger-dir '' @ ledgerDir @ '' is not a directory''))))"

definition checkWritableDirectory :: "string \<Rightarrow> string \<Rightarrow> (string + unit) osm" where
  "checkWritableDirectory path description =
     os_try (MkdirAll path) (\<lambda>err. ''create '' @ description @ '' '' @ path @ '': '' @ err)
     (os_bind (os_do (CreateTemp path)) (\<lambda>created.
      case created of
        Failed _ err \<Rightarrow> os_return (Inl (''write to '' @ description @ '' '' @ path @ '': '' @ err))
      | _ \<Rightarrow>
          let name = (case created of Named name \<Rightarrow> name | _ \<Rightarrow> []) in
          os_try (CloseFile name) (\<lambda>err. ''close write probe '' @ name @ '': '' @ err)
          (os_try (Remove name) (\<lambda>err. ''remove write probe '' @ name @ '': '' @ err)
          (os_return (Inr ())))))"

definition checkSocketPath :: "string \<Rightarrow> nat \<Rightarrow> (string + unit) osm" where
  "checkSocketPath path mode =
     os_bind (listenUnixSocket path mode) (\<lambda>opened.
     case opened of
       Inl err \<Rightarrow> os_return (Inl (''create Docker socket probe '' @ path @ '': '' @ err))
     | Inr _ \<Rightarrow>
         os_try (CloseListener path) (\<lambda>err. ''close Docker socket probe '' @ path @ '': '' @ err)
         (os_try_absent (Remove path) (\<lambda>err. ''remove Docker socket probe '' @ path @ '': '' @ err)
         (os_return (Inr ()))))"

text \<open>The listeners opened so far are closed on every way out.\<close>

primrec close_all :: "string list \<Rightarrow> unit osm" where
  "close_all [] = os_return ()"
| "close_all (address # rest) = os_bind (os_do (CloseListener address)) (\<lambda>_. close_all rest)"

fun check_addresses :: "string list \<Rightarrow> (string \<times> string) list \<Rightarrow> (string + string list) osm" where
  "check_addresses opened [] = os_bind (close_all opened) (\<lambda>_. os_return (Inr []))"
| "check_addresses opened ((name, address) # rest) =
     os_bind (os_do (ListenTCP address)) (\<lambda>r.
     case r of
       Failed _ err \<Rightarrow>
         os_bind (close_all opened) (\<lambda>_.
         os_return (Inl (name @ '' '' @ address @ '' cannot be bound: '' @ err)))
     | _ \<Rightarrow> check_addresses (opened @ [address]) rest)"

text \<open>The warnings, of which there are none.\<close>

definition checkConfiguration :: "options \<Rightarrow> nat \<Rightarrow> (string + string list) osm" where
  "checkConfiguration opts mode =
     os_bind (checkWritableDirectory (o_ledgerDir opts) ''ledger directory'') (\<lambda>writable.
     case writable of
       Inl err \<Rightarrow> os_return (Inl err)
     | Inr _ \<Rightarrow>
         os_bind (checkSocketPath (o_socketPath opts) mode) (\<lambda>socket.
         case socket of
           Inl err \<Rightarrow> os_return (Inl err)
         | Inr _ \<Rightarrow>
             if \<not> o_bootstrap opts then os_return (Inr [])
             else check_addresses []
               [(''nginx bootstrap published endpoint'', o_nginxAddr opts), (''redis bootstrap published endpoint'', o_redisAddr opts)]))"

section \<open>The run directory of the ledger\<close>

definition ledger_stamp :: "gotime \<Rightarrow> string" where
  "ledger_stamp t =
     (case t of
        ZeroTime \<Rightarrow> ''00010101T000000.000000000Z''
      | UnixNano n \<Rightarrow>
          let secs = n div 1000000000; (y, m, d) = civil_date (secs div 86400); s = secs mod 86400
          in pad_digits 4 y @ pad_digits 2 m @ pad_digits 2 d @ ''T'' @ pad_digits 2 (s div 3600) @
             pad_digits 2 (s div 60 mod 60) @ pad_digits 2 (s mod 60) @ ''.'' @ pad_digits 9 (n mod 1000000000) @ ''Z'')"

definition run_directory :: "string \<Rightarrow> int \<Rightarrow> gotime \<Rightarrow> string" where
  "run_directory baseDir seed now = filepath_Join baseDir (''seed-'' @ itoa seed @ ''-'' @ ledger_stamp now)"

text \<open>The metadata are a map, which is printed by ascending keys.\<close>

definition run_metadata :: "string \<Rightarrow> int \<Rightarrow> (string, int) gomap \<Rightarrow> gotime \<Rightarrow> string \<Rightarrow> json" where
  "run_metadata version seed overrides started runDir =
     JObject [(''name'', JString ''docker-zero''),
       (''overrides'', JObject (map (\<lambda>key. (key, JInt (mget_or 0 overrides key))) (sort (mkeys overrides)))),
       (''run_dir'', JString runDir), (''seed'', JInt seed), (''started_at'', JString (formatDockerTime started)),
       (''version'', JString version)]"

definition open_ledger ::
  "string \<Rightarrow> string \<Rightarrow> int \<Rightarrow> (string, int) gomap \<Rightarrow> gotime \<Rightarrow> gotime \<Rightarrow> ledger_io \<Rightarrow> (string + Ledger) osm" where
  "open_ledger version baseDir seed overrides now started io =
     (let runDir = run_directory baseDir seed now; global_path = filepath_Join runDir ''global.ledger.jsonl'' in
      os_try (MkdirAll (filepath_Join runDir ''containers'')) (\<lambda>err. err)
      (os_try (OpenFile global_path) (\<lambda>err. err)
      (os_bind (os_do (WriteFile (filepath_Join runDir ''run.json'') (run_metadata version seed overrides started runDir))) (\<lambda>r.
       case r of
         Failed _ err \<Rightarrow> os_bind (os_do (CloseFile global_path)) (\<lambda>_. os_return (Inl err))
       | _ \<Rightarrow> os_return (Inr (newLedger seed runDir io))))))"

section \<open>Lemmas\<close>

lemma os_simps [simp]:
  "os_return x env trace = (x, trace)"
  "os_do c env trace = (env (trace @ [c]), trace @ [c])"
  "os_bind m f env trace = (case m env trace of (x, trace') \<Rightarrow> f x env trace')"
  by (simp_all add: os_return_def os_do_def os_bind_def Let_def)

lemma os_try_run [simp]:
  "os_try c wrap k env trace =
     (case env (trace @ [c]) of Failed _ err \<Rightarrow> (Inl (wrap err), trace @ [c]) | _ \<Rightarrow> k env (trace @ [c]))"
  "os_try_absent c wrap k env trace =
     (case env (trace @ [c]) of
        Failed n err \<Rightarrow> if n = ENOENT then k env (trace @ [c]) else (Inl (wrap err), trace @ [c])
      | _ \<Rightarrow> k env (trace @ [c]))"
  by (simp_all add: os_try_def os_try_absent_def split: os_outcome.split)

definition stale :: "os_env \<Rightarrow> os_call list \<Rightarrow> string \<Rightarrow> bool" where
  "stale env trace path \<longleftrightarrow> env (trace @ [Lstat path]) = Found Socket \<and>
     (\<exists>n err. env (trace @ [Lstat path, Dial path]) = Failed n err \<and> (n = ECONNREFUSED \<or> n = ENOENT))"

definition absent :: "os_env \<Rightarrow> os_call list \<Rightarrow> string \<Rightarrow> bool" where
  "absent env trace path \<longleftrightarrow> (\<exists>err. env (trace @ [Lstat path]) = Failed ENOENT err)"

lemma prepare_cases:
  assumes "prepareUnixSocketPath path env trace = (result, trace')"
  obtains (refused) err calls where "result = Inl err" "trace' = trace @ calls" "\<And>p. Remove p \<notin> set calls \<and> ListenUnix p \<notin> set calls"
  | (absent) "result = Inr ()" "trace' = trace @ [Lstat path]" "absent env trace path"
  | (stale) "trace' = trace @ [Lstat path, Dial path, Remove path]" "stale env trace path"
proof (cases "validateUnixSocketPath path")
  case (Some err)
  with assms show thesis using refused [of err "[]"] by (simp add: prepareUnixSocketPath_def)
next
  case None
  show thesis
  proof (cases "env (trace @ [Lstat path])")
    case (Failed n err)
    with None assms show thesis
      using absent refused [of _ "[Lstat path]"]
      by (cases n) (auto simp: prepareUnixSocketPath_def absent_def)
  next
    case (Found kind)
    show thesis
    proof (cases kind)
      case Socket
      show thesis
      proof (cases "env (trace @ [Lstat path, Dial path])")
        case (Failed n err)
        show thesis
        proof (cases "n = ECONNREFUSED \<or> n = ENOENT")
          case True
          with None assms Found Socket Failed show thesis
            by (intro stale) (auto simp: prepareUnixSocketPath_def stale_def split: os_outcome.splits if_splits)
        next
          case False
          with None assms Found Socket Failed show thesis
            using refused [of _ "[Lstat path, Dial path]"] by (auto simp: prepareUnixSocketPath_def)
        qed
      qed (use None assms Found Socket refused [of _ "[Lstat path, Dial path, CloseConnection path]"] in
          \<open>auto simp: prepareUnixSocketPath_def\<close>)
    qed (use None assms Found refused [of _ "[Lstat path]"] in \<open>auto simp: prepareUnixSocketPath_def\<close>)
  qed (use None assms refused [of _ "[Lstat path]"] in \<open>auto simp: prepareUnixSocketPath_def\<close>)
qed

text \<open>The calls after the path is prepared.\<close>

definition bind_socket :: "os_env \<Rightarrow> os_call list \<Rightarrow> string \<Rightarrow> nat \<Rightarrow> (string + unit) \<times> os_call list" where
  "bind_socket env trace path mode =
     (case env (trace @ [ListenUnix path]) of
        Failed _ err \<Rightarrow> (Inl err, [ListenUnix path])
      | _ \<Rightarrow>
          (case env (trace @ [ListenUnix path, Chmod path mode]) of
             Failed _ err \<Rightarrow> (Inl err, [ListenUnix path, Chmod path mode, CloseListener path, Remove path])
           | _ \<Rightarrow> (Inr (), [ListenUnix path, Chmod path mode])))"

lemma bind_socket_cases:
  obtains err where "bind_socket env trace path mode = (Inl err, [ListenUnix path])"
  | err where "bind_socket env trace path mode = (Inl err, [ListenUnix path, Chmod path mode, CloseListener path, Remove path])"
  | "bind_socket env trace path mode = (Inr (), [ListenUnix path, Chmod path mode])"
proof -
  show thesis
    using that
    by (cases "env (trace @ [ListenUnix path])"; cases "env (trace @ [ListenUnix path, Chmod path mode])")
       (simp_all add: bind_socket_def)
qed

lemma listenUnixSocket_run:
  "listenUnixSocket path mode env trace =
     (let trace1 = trace @ [MkdirAll (filepath_Dir path)] in
      case env trace1 of
        Failed _ err \<Rightarrow> (Inl err, trace1)
      | _ \<Rightarrow>
          (case prepareUnixSocketPath path env trace1 of
             (Inl err, trace2) \<Rightarrow> (Inl err, trace2)
           | (Inr _, trace2) \<Rightarrow> (let (result, calls) = bind_socket env trace2 path mode in (result, trace2 @ calls))))"
  by (auto simp: listenUnixSocket_def bind_socket_def Let_def split: os_outcome.splits sum.splits prod.splits)

definition safe_calls :: "os_env \<Rightarrow> os_call list \<Rightarrow> string \<Rightarrow> nat \<Rightarrow> (string + unit) \<Rightarrow> os_call list \<Rightarrow> bool" where
  "safe_calls env trace path mode result calls \<longleftrightarrow>
     (\<forall>before p after. calls = before @ Remove p # after \<longrightarrow>
        p = path \<and> (ListenUnix path \<in> set before \<or> stale env (trace @ [MkdirAll (filepath_Dir path)]) path)) \<and>
     (result = Inr () \<longrightarrow> (\<exists>before. calls = before @ [ListenUnix path, Chmod path mode])) \<and>
     (\<forall>err before after. result = Inl err \<longrightarrow> calls = before @ ListenUnix path # after \<longrightarrow>
        after = [] \<or> after = [Chmod path mode, CloseListener path, Remove path])"

lemma safe_calls_refused:
  assumes "\<And>p. Remove p \<notin> set calls \<and> ListenUnix p \<notin> set calls"
  shows "safe_calls env trace path mode (Inl err) calls"
proof -
  have "calls \<noteq> before @ Remove p # after" "calls \<noteq> before @ ListenUnix p # after" for before p after
    using assms [of p] by auto
  then show ?thesis by (simp add: safe_calls_def)
qed

lemma safe_calls_opened:
  assumes "bind_socket env t path mode = (result, calls)" and "ListenUnix path \<notin> set pre"
    and "\<And>before p after. pre = before @ Remove p # after \<Longrightarrow>
      p = path \<and> stale env (trace @ [MkdirAll (filepath_Dir path)]) path"
  shows "safe_calls env trace path mode result (pre @ calls)"
proof -
  have removes: "p = path \<and> (ListenUnix path \<in> set before \<or> stale env (trace @ [MkdirAll (filepath_Dir path)]) path)"
    if split: "pre @ calls = before @ Remove p # after" for before p after
  proof -
    consider us where "pre = before @ Remove p # us" | us where "before = pre @ us" "calls = us @ Remove p # after"
      using split by (auto simp: append_eq_append_conv2 append_eq_Cons_conv)
    then show ?thesis
    proof cases
      case 1
      then show ?thesis using assms(3) by blast
    next
      case 2
      then show ?thesis
        using assms(1) by (cases rule: bind_socket_cases [of env t path mode]) (auto simp: Cons_eq_append_conv append_eq_Cons_conv)
    qed
  qed
  have listens: "after = [] \<or> after = [Chmod path mode, CloseListener path, Remove path]"
    if split: "pre @ calls = before @ ListenUnix path # after" and fails: "result = Inl err" for before after err
  proof -
    obtain us where "calls = us @ ListenUnix path # after"
      using split assms(2) by (auto simp: append_eq_append_conv2 append_eq_Cons_conv)
    then show ?thesis
      using assms(1) fails by (cases rule: bind_socket_cases [of env t path mode]) (auto simp: Cons_eq_append_conv append_eq_Cons_conv)
  qed
  have "\<exists>before. pre @ calls = before @ [ListenUnix path, Chmod path mode]" if "result = Inr ()"
    using assms(1) that by (cases rule: bind_socket_cases [of env t path mode]) auto
  with removes listens show ?thesis unfolding safe_calls_def by blast
qed

lemma prepared_socket_safe:
  fixes path :: string and m :: os_call
  defines "m \<equiv> MkdirAll (filepath_Dir path)"
  assumes p: "prepareUnixSocketPath path env (trace @ [m]) = (prepared, trace2)"
    and run: "(result, trace') = (case prepared of Inl err \<Rightarrow> (Inl err, trace2)
        | Inr _ \<Rightarrow> (let (result, calls) = bind_socket env trace2 path mode in (result, trace2 @ calls)))"
  shows "\<exists>calls. trace' = trace @ calls \<and> safe_calls env trace path mode result calls"
proof -
  obtain r calls where b: "bind_socket env trace2 path mode = (r, calls)" by fastforce
  from p show ?thesis
  proof (cases rule: prepare_cases)
    case (refused err calls)
    with run have "result = Inl err" "trace' = trace @ m # calls" by simp_all
    with refused show ?thesis using safe_calls_refused [of "m # calls"] by (auto simp: m_def)
  next
    case absent
    with b run have "result = r" "trace' = trace @ ([m, Lstat path] @ calls)" by simp_all
    moreover have "safe_calls env trace path mode r ([m, Lstat path] @ calls)"
      by (rule safe_calls_opened [OF b]) (auto simp: m_def Cons_eq_append_conv)
    ultimately show ?thesis by blast
  next
    case stale
    let ?pre = "[m, Lstat path, Dial path, Remove path]"
    have pre: "p = path \<and> stale env (trace @ [MkdirAll (filepath_Dir path)]) path" if "?pre = before @ Remove p # after" for before p after
      using that stale(2) by (auto simp: m_def Cons_eq_append_conv)
    show ?thesis
    proof (cases prepared)
      case (Inl err)
      with run stale have "result = Inl err" "trace' = trace @ ?pre" by simp_all
      moreover have "safe_calls env trace path mode (Inl err) ?pre"
        using pre by (auto simp: safe_calls_def m_def Cons_eq_append_conv)
      ultimately show ?thesis by blast
    next
      case (Inr u)
      with b run stale have "result = r" "trace' = trace @ (?pre @ calls)" by simp_all
      moreover have "safe_calls env trace path mode r (?pre @ calls)"
        by (rule safe_calls_opened [OF b _ pre]) (auto simp: m_def)
      ultimately show ?thesis by blast
    qed
  qed
qed

section \<open>Properties\<close>

text \<open>
  C12: opening the Docker socket destroys nothing of others. Before the socket is bound, a file is removed
  only at the socket's own path, and only when it is a socket on which nobody listens. The operation
  succeeds only after the socket has its mode, and when setting the mode fails it closes and removes the
  socket it has opened. This holds for every behaviour of the operating system.
\<close>

theorem socket_opening_is_safe:
  assumes "listenUnixSocket path mode env trace = (result, trace')"
  shows "\<exists>calls. trace' = trace @ calls \<and>
     (\<forall>before p after. calls = before @ Remove p # after \<longrightarrow>
        p = path \<and> (ListenUnix path \<in> set before \<or> stale env (trace @ [MkdirAll (filepath_Dir path)]) path)) \<and>
     (result = Inr () \<longrightarrow> (\<exists>before. calls = before @ [ListenUnix path, Chmod path mode])) \<and>
     (\<forall>err before after. result = Inl err \<longrightarrow> calls = before @ ListenUnix path # after \<longrightarrow>
        after = [] \<or> after = [Chmod path mode, CloseListener path, Remove path])"
proof -
  define m where "m = MkdirAll (filepath_Dir path)"
  have "\<exists>calls. trace' = trace @ calls \<and> safe_calls env trace path mode result calls"
  proof (cases "\<exists>n err. env (trace @ [m]) = Failed n err")
    case True
    with assms have "\<exists>err. result = Inl err \<and> trace' = trace @ [m]" by (auto simp: listenUnixSocket_run m_def)
    then show ?thesis using safe_calls_refused [of "[m]"] by (auto simp: m_def)
  next
    case False
    obtain prepared trace2 where p: "prepareUnixSocketPath path env (trace @ [m]) = (prepared, trace2)" by fastforce
    have "(result, trace') = (case prepared of Inl err \<Rightarrow> (Inl err, trace2)
        | Inr _ \<Rightarrow> (let (result, calls) = bind_socket env trace2 path mode in (result, trace2 @ calls)))"
      unfolding assms [symmetric]
      using False p by (cases "env (trace @ [m])"; cases prepared) (simp_all add: listenUnixSocket_run Let_def flip: m_def)
    then show ?thesis using prepared_socket_safe p unfolding m_def by blast
  qed
  then show ?thesis unfolding safe_calls_def .
qed

theorem socket_opening_is_safe_witness:
  "listenUnixSocket ''/run/d.sock'' 432 (\<lambda>trace. if last trace = Lstat ''/run/d.sock'' then Found Socket
       else if last trace = Dial ''/run/d.sock'' then Failed ECONNREFUSED ''refused'' else Done) [] =
     (Inr (), [MkdirAll ''/run'', Lstat ''/run/d.sock'', Dial ''/run/d.sock'', Remove ''/run/d.sock'',
        ListenUnix ''/run/d.sock'', Chmod ''/run/d.sock'' 432]) \<and>
   (\<exists>before. [MkdirAll ''/run'', Lstat ''/run/d.sock'', Dial ''/run/d.sock'', Remove ''/run/d.sock'',
        ListenUnix ''/run/d.sock'', Chmod ''/run/d.sock'' 432] = before @ [ListenUnix ''/run/d.sock'', Chmod ''/run/d.sock'' 432])"
proof -
  have dir: "filepath_Dir ''/run/d.sock'' = ''/run''" by code_simp
  have run: "listenUnixSocket ''/run/d.sock'' 432 (\<lambda>trace. if last trace = Lstat ''/run/d.sock'' then Found Socket
       else if last trace = Dial ''/run/d.sock'' then Failed ECONNREFUSED ''refused'' else Done) [] =
     (Inr (), [MkdirAll ''/run'', Lstat ''/run/d.sock'', Dial ''/run/d.sock'', Remove ''/run/d.sock'',
        ListenUnix ''/run/d.sock'', Chmod ''/run/d.sock'' 432])"
    by (simp add: listenUnixSocket_def prepareUnixSocketPath_def validateUnixSocketPath_def dir)
  from socket_opening_is_safe [OF run] run show ?thesis by auto
qed

end
