(* ===== verification/Main_Serve.thy ===== *)
theory Main_Serve
  imports Main_Os Engine_Runs
begin

text \<open>
  The program (\<^verbatim>\<open>run\<close> and \<^verbatim>\<open>serve\<close> of \<^verbatim>\<open>main.go\<close>): configuration, the check mode, startup, and
  shutdown with the exit code. Between startup and shutdown the engine takes the steps of \<open>engine_step\<close>.
\<close>

definition exitOK :: int where "exitOK = 0"
definition exitConfig :: int where "exitConfig = 2"
definition exitRuntime :: int where "exitRuntime = 3"

section \<open>Configuration\<close>

record configuration =
  g_opts :: options
  g_cookbooks :: "(string, Cookbook) gomap"
  g_overrides :: "(string, int) gomap"
  g_endpointMode :: string
  g_mode :: nat

text \<open>
  The calls that \<^const>\<open>loadCookbooks\<close> makes to the operating system, which it answers through
  \<open>files\<close>: the external directory and its files are read, one after the other until the first
  error; the embedded cookbooks are part of the program.
\<close>

fun entry_reads ::
  "json_reader \<Rightarrow> cookbook_files \<Rightarrow> string \<Rightarrow> (string, string) gomap \<Rightarrow> (string \<times> bool) list \<Rightarrow> os_call list" where
  "entry_reads reader files dir origins [] = []"
| "entry_reads reader files dir origins ((name, isDir) # entries) =
     (if isDir \<or> \<not> has_suffix (to_lower name) ''.json'' then entry_reads reader files dir origins entries
      else
        let path = path_join dir name in
        ReadFile path #
        (case f_ReadFile files (DirFS dir) (path_join ''.'' name) of
           Inl err \<Rightarrow> []
         | Inr data \<Rightarrow>
             (case decodeCookbook reader path data of
                Ret (Inr cb) \<Rightarrow>
                  let kindKey = to_lower (cb_Kind cb) in
                  if mmem origins kindKey then []
                  else entry_reads reader files dir (mput origins kindKey path) entries
              | _ \<Rightarrow> [])))"

definition loading_calls :: "json_reader \<Rightarrow> cookbook_files \<Rightarrow> string \<Rightarrow> os_call list" where
  "loading_calls reader files externalDir =
     (if trim_space externalDir \<noteq> [] then
        (case f_Abs files externalDir of
           Inl err \<Rightarrow> []
         | Inr dir \<Rightarrow>
             ReadDir dir #
             (case f_ReadDir files (DirFS dir) ''.'' of
                Inl err \<Rightarrow> [] | Inr entries \<Rightarrow> entry_reads reader files dir [] entries))
      else [])"

text \<open>A read of the configured cookbook directory, which is not the embedded one, or of a file in it.\<close>

definition cookbook_read :: "cookbook_files \<Rightarrow> string \<Rightarrow> os_call \<Rightarrow> bool" where
  "cookbook_read files externalDir call \<longleftrightarrow> trim_space externalDir \<noteq> [] \<and>
     (\<exists>dir. f_Abs files externalDir = Inr dir \<and>
        (call = ReadDir dir \<or> (\<exists>name. call = ReadFile (path_join dir name))))"

lemma entry_reads_only: "list_all (\<lambda>call. \<exists>name. call = ReadFile (path_join dir name)) (entry_reads reader files dir origins entries)"
proof (induction entries arbitrary: origins)
  case (Cons x entries)
  obtain name isDir where "x = (name, isDir)" by fastforce
  with Cons.IH show ?case by (auto simp: Let_def split: sum.split go.split)
qed simp

lemma loading_calls_only: "list_all (cookbook_read files externalDir) (loading_calls reader files externalDir)"
proof -
  have "list_all (cookbook_read files externalDir) (entry_reads reader files dir [] entries)"
    if "trim_space externalDir \<noteq> []" "f_Abs files externalDir = Inr dir" for dir entries
    using entry_reads_only [of dir reader files "[]" entries] that
    by (elim list.pred_mono_strong) (auto simp: cookbook_read_def)
  then show ?thesis by (simp add: loading_calls_def cookbook_read_def split: sum.split)
qed

text \<open>The steps of \<^verbatim>\<open>run\<close> up to the choice between checking and serving, in their order.\<close>

definition configure ::
  "json_reader \<Rightarrow> cookbook_files \<Rightarrow> options \<Rightarrow> os_env \<Rightarrow> os_call list \<Rightarrow> ((config_error + configuration) \<times> os_call list) go" where
  "configure reader files opts env trace0 =
     (case normalizeEndpointMode (o_containerEndpoints opts) of
        Inl err \<Rightarrow> Ret (Inl (Message err), trace0)
      | Inr endpointMode \<Rightarrow>
     (case parseScenarioOverrides (o_scenarioFlag opts) of
        Inl err \<Rightarrow> Ret (Inl (Message err), trace0)
      | Inr overrides \<Rightarrow>
          go_bind (loadCookbooks reader files (o_cookbookDir opts)) (\<lambda>loaded.
          let trace = trace0 @ loading_calls reader files (o_cookbookDir opts) in
          Ret (case loaded of
             Inl err \<Rightarrow> (Inl err, trace)
           | Inr cookbooks0 \<Rightarrow>
          (case applyListenAddresses cookbooks0 (o_nginxAddr opts) (o_redisAddr opts) of
             Inl err \<Rightarrow> (Inl (Message err), trace)
           | Inr cookbooks \<Rightarrow>
          (case validateScenarioOverrides cookbooks overrides of
             Some err \<Rightarrow> (Inl (Message err), trace)
           | None \<Rightarrow>
          (case parseSocketMode (o_socketMode opts) of
             Inl err \<Rightarrow> (Inl (Message err), trace)
           | Inr mode \<Rightarrow>
          (case validatePathArguments (o_socketPath opts) (o_ledgerDir opts) env trace of
             (Inl err, trace') \<Rightarrow> (Inl (Message err), trace')
           | (Inr _, trace') \<Rightarrow>
               (Inr \<lparr>g_opts = opts, g_cookbooks = cookbooks, g_overrides = overrides, g_endpointMode = endpointMode,
                  g_mode = mode\<rparr>, trace')))))))))"

section \<open>Summaries\<close>

definition summary_line :: "string \<Rightarrow> string \<Rightarrow> string" where
  "summary_line label text = ''  '' @ label @ '': '' @ text @ [LF]"

definition octal_mode :: "nat \<Rightarrow> string" where
  "octal_mode n = (if n = 0 then ''0'' else ''0'' @ map digit_char
     (if n < 8 then [n] else if n < 64 then [n div 8, n mod 8] else [n div 64, n div 8 mod 8, n mod 8]))"

definition bootstrap_lines :: "options \<Rightarrow> string" where
  "bootstrap_lines opts =
     (if o_bootstrap opts then summary_line ''Bootstrap nginx   '' (o_nginxAddr opts) @ summary_line ''Bootstrap redis   '' (o_redisAddr opts)
      else [])"

definition override_line :: "(string, int) gomap \<Rightarrow> string" where
  "override_line overrides = (if overrides \<noteq> [] then summary_line ''Overrides         '' (formatOverrides overrides) else [])"

definition printStartupSummary :: "string \<Rightarrow> options \<Rightarrow> (string, int) gomap \<Rightarrow> string \<Rightarrow> Ledger \<Rightarrow> string" where
  "printStartupSummary version opts overrides endpointMode ledger =
     ''docker-zero '' @ version @ '' READY'' @ [LF] @
     summary_line ''Docker socket     '' (o_socketPath opts) @
     summary_line ''Global seed       '' (itoa (o_seed opts)) @
     override_line overrides @
     summary_line ''Container endpoints'' endpointMode @
     summary_line ''Published ports   '' ''Compose/Docker-driven; conflicts are enforced at container start'' @
     bootstrap_lines opts @
     summary_line ''Ledger            '' (l_runDir ledger) @
     summary_line ''Docker host       '' (''DOCKER_HOST=unix://'' @ o_socketPath opts)"

definition printCheckSummary :: "string \<Rightarrow> configuration \<Rightarrow> string list \<Rightarrow> string" where
  "printCheckSummary version cfg warnings =
     ''docker-zero '' @ version @ '' CHECK OK'' @ [LF] @
     summary_line ''Cookbooks         '' ''nginx, redis'' @
     summary_line ''Seeds             '' ''0, 1, 2'' @
     summary_line ''Docker socket     '' (o_socketPath (g_opts cfg) @ '' ('' @ octal_mode (g_mode cfg) @ '')'') @
     summary_line ''Published ports   '' ''Docker/Compose-driven; allocated and conflict-checked on start'' @
     summary_line ''Container IPs     '' ''allocated independently per virtual network'' @
     summary_line ''Container mode    '' (g_endpointMode cfg) @
     bootstrap_lines (g_opts cfg) @
     override_line (g_overrides cfg) @
     concat (map (summary_line ''WARNING           '') warnings)"

section \<open>Startup\<close>

definition close_ledger :: "Engine \<Rightarrow> Engine" where
  "close_ledger e = e\<lparr>e_ledger := snd (Close (e_ledger e))\<rparr>"

definition bootstrap_list :: "(string, Cookbook) gomap \<Rightarrow> (string \<times> ServiceDefaults) list" where
  "bootstrap_list cookbooks =
     map (\<lambda>kind. (kind, cb_Defaults (the (mget cookbooks kind)))) (sortedCookbookKinds cookbooks)"

text \<open>
  What \<^verbatim>\<open>run\<close> comes to before it serves: an exit code with what is printed to standard output and
  standard error, and the engine if there was one; or the running engine with its summary.
\<close>

datatype run_result = Exit int string string "Engine option" | Serving Engine string

definition first_engine :: "configuration \<Rightarrow> Env \<Rightarrow> Ledger \<Rightarrow> Engine" where
  "first_engine cfg env ledger =
     (newEngine env (g_cookbooks cfg) (o_seed (g_opts cfg)) (g_overrides cfg) ledger)\<lparr>e_endpointMode := g_endpointMode cfg\<rparr>"

definition startup_error :: "string \<Rightarrow> Engine option \<Rightarrow> run_result" where
  "startup_error err engine = Exit exitRuntime [] (printFailure ''STARTUP_ERROR'' (Message err)) engine"

text \<open>\<open>now\<close> and \<open>started\<close> are the clock when the ledger is made.\<close>

definition serve_start ::
  "string \<Rightarrow> configuration \<Rightarrow> gotime \<Rightarrow> gotime \<Rightarrow> ledger_io \<Rightarrow> Env \<Rightarrow> os_env \<Rightarrow> os_call list
    \<Rightarrow> (run_result \<times> os_call list) go" where
  "serve_start version cfg now started io env os trace =
     (let opts = g_opts cfg in
      case open_ledger version (o_ledgerDir opts) (o_seed opts) (g_overrides cfg) now started io os trace of
        (Inl err, trace1) \<Rightarrow>
          Ret (startup_error (''create ledger under '' @ o_ledgerDir opts @ '': '' @ err) None, trace1)
      | (Inr ledger, trace1) \<Rightarrow>
          let e0 = first_engine cfg env ledger in
          go_bind (if o_bootstrap opts then bootstrap (bootstrap_list (g_cookbooks cfg)) e0 else Ret (None, e0)) (\<lambda>(failed, e1).
          case failed of
            Some err \<Rightarrow> Ret (startup_error err (Some (close_ledger e1)), trace1)
          | None \<Rightarrow>
              (case listenUnixSocket (o_socketPath opts) (g_mode cfg) os trace1 of
                 (Inl err, trace2) \<Rightarrow>
                   go_bind (closeRuntimes e1) (\<lambda>(_, e2).
                   Ret (startup_error (''listen on Docker socket '' @ o_socketPath opts @ '': '' @ err) (Some (close_ledger e2)), trace2))
               | (Inr _, trace2) \<Rightarrow>
                   Ret (Serving e1 (printStartupSummary version opts (g_overrides cfg) (g_endpointMode cfg) (e_ledger e1)), trace2))))"

section \<open>Shutdown\<close>

text \<open>
  The errors of closing: that of something closed already, or a file that is gone, is no failure. The
  first other error is the reason of a failed run, unless a runtime error is.
\<close>

datatype close_error = ServerClosed | NetClosed | NotExist | CloseFailed string

fun first_close_error :: "string option \<Rightarrow> close_error option list \<Rightarrow> string option" where
  "first_close_error runtimeErr [] = runtimeErr"
| "first_close_error runtimeErr (closeErr # rest) =
     first_close_error
       (case closeErr of Some (CloseFailed err) \<Rightarrow> (if runtimeErr = None then Some err else runtimeErr) | _ \<Rightarrow> runtimeErr) rest"

text \<open>The order of shutdown: the API server, the runtimes, the listener, the socket's file, the ledger.\<close>

definition serve_stop ::
  "string option \<Rightarrow> close_error option \<Rightarrow> close_error option \<Rightarrow> close_error option \<Rightarrow> (int \<times> string) em" where
  "serve_stop runtimeErr serverErr listenerErr removeErr =
     ebind closeRuntimes (\<lambda>runtimesErr.
     ebind (elift (\<lambda>e. (fst (Close (e_ledger e)), close_ledger e))) (\<lambda>ledgerErr.
     ereturn (case first_close_error runtimeErr
          [serverErr, map_option CloseFailed runtimesErr, listenerErr, removeErr, map_option CloseFailed ledgerErr] of
        Some _ \<Rightarrow> exitRuntime | None \<Rightarrow> exitOK,
        case runtimeErr of Some err \<Rightarrow> printFailure ''INTERNAL_RUNTIME_ERROR'' (Message err) | None \<Rightarrow> [])))"

section \<open>The program\<close>

definition run_check :: "string \<Rightarrow> configuration \<Rightarrow> os_env \<Rightarrow> os_call list \<Rightarrow> run_result \<times> os_call list" where
  "run_check version cfg os trace =
     (case checkConfiguration (g_opts cfg) (g_mode cfg) os trace of
        (Inl err, trace') \<Rightarrow> (Exit exitConfig [] (printFailure ''CHECK_FAILED'' (Message err)) None, trace')
      | (Inr warnings, trace') \<Rightarrow> (Exit exitOK (printCheckSummary version cfg warnings) [] None, trace'))"

definition run ::
  "string \<Rightarrow> json_reader \<Rightarrow> cookbook_files \<Rightarrow> string list \<Rightarrow> gotime \<Rightarrow> gotime \<Rightarrow> ledger_io \<Rightarrow> Env \<Rightarrow> os_env
    \<Rightarrow> (run_result \<times> os_call list) go" where
  "run version reader files args now started io env os =
     (case parseOptions args of
        Inl printed \<Rightarrow> Ret (Exit exitConfig [] printed None, [])
      | Inr opts \<Rightarrow>
          if o_showVersion opts then Ret (Exit exitOK (''docker-zero '' @ version @ [LF]) [] None, [])
          else
            go_bind (configure reader files opts os []) (\<lambda>(configured, trace).
            case configured of
              Inl err \<Rightarrow> Ret (Exit exitConfig [] (printFailure ''CONFIG_ERROR'' err) None, trace)
            | Inr cfg \<Rightarrow>
                if o_check opts then Ret (run_check version cfg os trace)
                else serve_start version cfg now started io env os trace))"

section \<open>Configuration is sound\<close>

lemma configure_returns:
  "\<exists>r trace'. configure reader files opts os trace = Ret (r, trace') \<and>
     set trace' \<subseteq> set trace \<union> {Stat (o_ledgerDir opts)} \<union> {call. cookbook_read files (o_cookbookDir opts) call} \<and>
     (\<forall>cfg. r = Inr cfg \<longrightarrow> cookbook_set (g_cookbooks cfg) \<and> g_opts cfg = opts \<and> g_mode cfg \<le> 511 \<and>
        parseScenarioOverrides (o_scenarioFlag opts) = Inr (g_overrides cfg))"
proof -
  obtain loaded where loaded: "loadCookbooks reader files (o_cookbookDir opts) = Ret loaded"
    "\<And>cookbooks. loaded = Inr cookbooks \<Longrightarrow> cookbook_set cookbooks"
    using loadCookbooks_set by blast
  let ?reads = "loading_calls reader files (o_cookbookDir opts)"
  have reads: "set ?reads \<subseteq> {call. cookbook_read files (o_cookbookDir opts) call}"
    using loading_calls_only [of files "o_cookbookDir opts" reader] by (auto simp: list_all_iff)
  have paths: "set (snd (validatePathArguments p d os t)) \<subseteq> set t \<union> {Stat d}" for p d t
    by (auto simp: validatePathArguments_def)
  have listen: "cookbook_set c2" if "loaded = Inr c1" "applyListenAddresses c1 a b = Inr c2" for c1 c2 a b
    using apply_addresses_keeps [OF _ loaded(2) [OF that(1)]] that(2) unfolding applyListenAddresses_def by blast
  have mode: "m \<le> 511" if "parseSocketMode v = Inr m" for v m
    using that by (auto simp: parseSocketMode_def split: option.splits if_splits)
  show ?thesis
  proof (cases "normalizeEndpointMode (o_containerEndpoints opts)")
    case (Inl err)
    then show ?thesis by (auto simp: configure_def)
  next
    case endpoint: (Inr endpointMode)
    show ?thesis
    proof (cases "parseScenarioOverrides (o_scenarioFlag opts)")
      case (Inl err)
      with endpoint show ?thesis by (auto simp: configure_def)
    next
      case overrides: (Inr overrides)
      note start = endpoint overrides loaded(1)
      show ?thesis
      proof (cases "\<exists>c1 c2 m. loaded = Inr c1 \<and> applyListenAddresses c1 (o_nginxAddr opts) (o_redisAddr opts) = Inr c2 \<and>
          validateScenarioOverrides c2 overrides = None \<and> parseSocketMode (o_socketMode opts) = Inr m")
        case False
        then have "\<exists>err. configure reader files opts os trace = Ret (Inl err, trace @ ?reads)"
          using start by (auto simp: configure_def Let_def split: sum.split option.split)
        then show ?thesis using reads by auto
      next
        case True
        then obtain c1 c2 m where c: "loaded = Inr c1" "applyListenAddresses c1 (o_nginxAddr opts) (o_redisAddr opts) = Inr c2"
          "validateScenarioOverrides c2 overrides = None" "parseSocketMode (o_socketMode opts) = Inr m" by blast
        obtain v trace' where v: "validatePathArguments (o_socketPath opts) (o_ledgerDir opts) os (trace @ ?reads) = (v, trace')" by fastforce
        then have calls: "set trace' \<subseteq> set trace \<union> {Stat (o_ledgerDir opts)} \<union> {call. cookbook_read files (o_cookbookDir opts) call}"
          using paths [of "o_socketPath opts" "o_ledgerDir opts" "trace @ ?reads"] reads by auto
        show ?thesis
        proof (cases v)
          case (Inl err)
          with start c v have "configure reader files opts os trace = Ret (Inl (Message err), trace')"
            by (simp add: configure_def Let_def)
          with calls show ?thesis by simp
        next
          case (Inr u)
          then have "configure reader files opts os trace = Ret (Inr \<lparr>g_opts = opts, g_cookbooks = c2, g_overrides = overrides,
              g_endpointMode = endpointMode, g_mode = m\<rparr>, trace')"
            using start c v by (simp add: configure_def Let_def)
          with calls listen [OF c(1,2)] mode [OF c(4)] overrides show ?thesis by simp
        qed
      qed
    qed
  qed
qed

section \<open>Startup is sound\<close>

text \<open>The names the bootstrap takes lead to identifiers that are not in use, at each of its turns.\<close>

fun bootstrap_fresh :: "(string \<times> ServiceDefaults) list \<Rightarrow> Engine \<Rightarrow> bool" where
  "bootstrap_fresh [] e = True"
| "bootstrap_fresh ((kind, d) # rest) e \<longleftrightarrow> fresh_create (d_Name d) e \<and>
     (case bootstrap_one kind d e of Ret (None, e') \<Rightarrow> bootstrap_fresh rest e' | _ \<Rightarrow> True)"

lemma bootstrap_reaches:
  "reachable cookbooks e \<Longrightarrow> bootstrap_fresh entries e \<Longrightarrow>
   \<exists>r e'. bootstrap entries e = Ret (r, e') \<and> reachable cookbooks e'"
proof (induction entries arbitrary: e)
  case (Cons x entries)
  obtain kind d where x: "x = (kind, d)" by fastforce
  have fresh: "fresh_create (d_Name d) e" using Cons.prems(2) by (simp add: x)
  obtain r e1 where r: "bootstrap_one kind d e = Ret (r, e1)"
    using bootstrap_one_inv [OF reachable_inv [OF Cons.prems(1)] fresh] by blast
  have reach: "reachable cookbooks e1"
    by (rule reachable.step [OF Cons.prems(1) engine_step.bootstrapped [OF fresh r]])
  show ?case
  proof (cases r)
    case None
    with Cons.prems(2) r Cons.IH [OF reach] show ?thesis by (simp add: x ebind_def)
  next
    case (Some err)
    with r reach show ?thesis by (simp add: x ebind_def ereturn_def)
  qed
qed (simp add: ereturn_def)

lemma open_ledger_cases:
  obtains err trace' where "open_ledger version baseDir seed overrides now started io os trace = (Inl err, trace')"
  | ledger trace' where "open_ledger version baseDir seed overrides now started io os trace = (Inr ledger, trace')"
  by (cases "open_ledger version baseDir seed overrides now started io os trace") (metis sum.exhaust)

lemma first_engine_reachable: "loaded (g_cookbooks cfg) \<Longrightarrow> reachable (g_cookbooks cfg) (first_engine cfg env ledger)"
  unfolding first_engine_def by (rule reachable.start)

lemma serve_start_outcome:
  assumes "loaded (g_cookbooks cfg)"
    and fresh: "\<And>ledger. o_bootstrap (g_opts cfg) \<Longrightarrow> bootstrap_fresh (bootstrap_list (g_cookbooks cfg)) (first_engine cfg env ledger)"
  shows "\<exists>r trace'. serve_start version cfg now started io env os trace = Ret (r, trace') \<and>
    (case r of Serving e summary \<Rightarrow> reachable (g_cookbooks cfg) e | Exit code out err engine \<Rightarrow> code = exitRuntime \<and> out = [])"
proof (cases rule: open_ledger_cases [of version "o_ledgerDir (g_opts cfg)" "o_seed (g_opts cfg)" "g_overrides cfg" now started io os trace])
  case (1 err trace')
  then show ?thesis by (simp add: serve_start_def Let_def startup_error_def)
next
  case (2 ledger trace1)
  let ?e0 = "first_engine cfg env ledger"
  have r0: "reachable (g_cookbooks cfg) ?e0" by (rule first_engine_reachable [OF assms(1)])
  obtain failed e1 where boot: "(if o_bootstrap (g_opts cfg) then bootstrap (bootstrap_list (g_cookbooks cfg)) ?e0
      else Ret (None, ?e0)) = Ret (failed, e1)" "reachable (g_cookbooks cfg) e1"
  proof (cases "o_bootstrap (g_opts cfg)")
    case True
    then obtain r e' where "bootstrap (bootstrap_list (g_cookbooks cfg)) ?e0 = Ret (r, e')" "reachable (g_cookbooks cfg) e'"
      using bootstrap_reaches [OF r0 fresh] by blast
    with True show thesis by (intro that) simp_all
  qed (use r0 in \<open>intro that, simp_all\<close>)
  obtain closed where closed: "closeRuntimes e1 = Ret closed"
    using keepsE [OF keeps_closeRuntimes [where D = "{}"], of e1] reachable_inv [OF boot(2)] by (metis alive_empty)
  obtain opened trace2 where opened: "listenUnixSocket (o_socketPath (g_opts cfg)) (g_mode cfg) os trace1 = (opened, trace2)" by fastforce
  show ?thesis
    using 2 boot closed opened
    by (cases failed; cases opened; cases closed) (simp_all add: serve_start_def Let_def startup_error_def)
qed

section \<open>Shutdown is complete\<close>

definition idle :: "ContainerRuntime \<Rightarrow> bool" where
  "idle rt \<longleftrightarrow> \<not> rt_active rt \<and> rt_listeners rt = []"

lemma runtime_Stop_idle:
  "\<exists>err e'. runtime_Stop cid e = Ret (err, e') \<and> e_runtimeClosing e' = e_runtimeClosing e \<and>
     (\<forall>rt. mget (e_runtimes e') cid = Some rt \<longrightarrow> idle rt) \<and>
     (\<forall>k. k \<noteq> cid \<longrightarrow> mget (e_runtimes e') k = mget (e_runtimes e) k)"
  by (auto simp: runtime_Stop_def ebind_def ethen_def eread_def eask_def ereturn_def set_runtime_def emodify_def
      runtime_of_def mget_or_def idle_def split: option.splits)

lemma stop_runtimes_idle:
  "\<exists>r e'. stop_runtimes first cids e = Ret (r, e') \<and> e_runtimeClosing e' = e_runtimeClosing e \<and>
     (\<forall>cid rt. cid \<in> set cids \<longrightarrow> mget (e_runtimes e') cid = Some rt \<longrightarrow> idle rt) \<and>
     (\<forall>k. k \<notin> set cids \<longrightarrow> mget (e_runtimes e') k = mget (e_runtimes e) k)"
proof (induction cids arbitrary: first e)
  case Nil
  then show ?case by (simp add: ereturn_def)
next
  case (Cons cid cids)
  obtain err e1 where s: "runtime_Stop cid e = Ret (err, e1)" "e_runtimeClosing e1 = e_runtimeClosing e"
    "\<And>rt. mget (e_runtimes e1) cid = Some rt \<Longrightarrow> idle rt"
    "\<And>k. k \<noteq> cid \<Longrightarrow> mget (e_runtimes e1) k = mget (e_runtimes e) k"
    using runtime_Stop_idle [of cid e] by blast
  let ?first = "case first of None \<Rightarrow> err | Some _ \<Rightarrow> first"
  obtain r e' where st: "stop_runtimes ?first cids e1 = Ret (r, e')" "e_runtimeClosing e' = e_runtimeClosing e1"
    "\<And>k rt. k \<in> set cids \<Longrightarrow> mget (e_runtimes e') k = Some rt \<Longrightarrow> idle rt"
    "\<And>k. k \<notin> set cids \<Longrightarrow> mget (e_runtimes e') k = mget (e_runtimes e1) k"
    using Cons.IH [of ?first e1] by blast
  have run: "stop_runtimes first (cid # cids) e = Ret (r, e')" using s(1) st(1) by (simp add: ebind_def)
  have all: "idle rt" if "k \<in> set (cid # cids)" "mget (e_runtimes e') k = Some rt" for k rt
    using that s(3) st(3,4) by (cases "k \<in> set cids") auto
  have others: "mget (e_runtimes e') k = mget (e_runtimes e) k" if "k \<notin> set (cid # cids)" for k
    using that s(4) st(4) by simp
  have "e_runtimeClosing e' = e_runtimeClosing e" using s(2) st(2) by simp
  with run all others show ?case by blast
qed

lemma closeRuntimes_idle:
  "\<exists>r e'. closeRuntimes e = Ret (r, e') \<and> e_runtimeClosing e' \<and> (\<forall>cid rt. mget (e_runtimes e') cid = Some rt \<longrightarrow> idle rt)"
proof -
  obtain r e' where s: "stop_runtimes None (mkeys (e_runtimes e)) (e\<lparr>e_runtimeClosing := True\<rparr>) = Ret (r, e')" "e_runtimeClosing e'"
    "\<And>cid rt. cid \<in> set (mkeys (e_runtimes e)) \<Longrightarrow> mget (e_runtimes e') cid = Some rt \<Longrightarrow> idle rt"
    "\<And>k. k \<notin> set (mkeys (e_runtimes e)) \<Longrightarrow> mget (e_runtimes e') k = mget (e_runtimes e) k"
    using stop_runtimes_idle [of None "mkeys (e_runtimes e)" "e\<lparr>e_runtimeClosing := True\<rparr>"] by auto
  have "idle rt" if "mget (e_runtimes e') cid = Some rt" for cid rt
    using s(3,4) [of cid] that by (cases "cid \<in> set (mkeys (e_runtimes e))") (auto simp: set_mkeys)
  with s(1,2) show ?thesis by (auto simp: closeRuntimes_def ethen_def ebind_def emodify_def eread_def)
qed

lemma close_files_closed: "l_closed (snd (close_files n first l)) = l_closed l"
  by (induction n first l rule: close_files.induct)
     (auto simp: Let_def next_io_def split: list.splits prod.splits io_outcome.splits option.splits)

lemma Close_closed: "l_closed (snd (Close l))"
  using close_files_closed [of "length (l_files l) + 1" "l_firstErr l" "l\<lparr>l_closed := True\<rparr>"]
  by (auto simp: Close_def Let_def split: prod.splits)

lemma exit_code_OK: "(case x of Some _ \<Rightarrow> exitRuntime | None \<Rightarrow> exitOK) = exitOK \<longleftrightarrow> x = None"
  by (cases x) (simp_all add: exitRuntime_def exitOK_def)

lemma first_close_error_None:
  "first_close_error runtimeErr errs = None \<longleftrightarrow> runtimeErr = None \<and> (\<forall>ce\<in>set errs. \<forall>t. ce \<noteq> Some (CloseFailed t))"
proof (induction errs arbitrary: runtimeErr)
  case (Cons ce errs)
  then show ?case by (cases ce; cases "the ce") auto
qed simp

section \<open>An example\<close>

definition calm_os :: os_env where
  "calm_os trace = (case last trace of Stat p \<Rightarrow> Failed ENOENT ''absent'' | Lstat p \<Rightarrow> Failed ENOENT ''absent'' | _ \<Rightarrow> Done)"

definition demo_args :: "string list" where
  "demo_args = [''--cookbook-dir=/etc/zero'', ''-seed'', ''1'', ''--nginx-address=[::]:80'', ''--redis-address=:81'', ''--ledger-dir'', ''runs'']"

definition demo_options :: options where
  "demo_options = default_options\<lparr>o_cookbookDir := ''/etc/zero'', o_seed := 1, o_nginxAddr := ''[::]:80'', o_redisAddr := '':81'', o_ledgerDir := ''runs''\<rparr>"

lemma demo_options: "parseOptions demo_args = Inr demo_options" "parseOptions (demo_args @ [''--socket-mode=888'']) = Inr (demo_options\<lparr>o_socketMode := ''888''\<rparr>)"
  by code_simp+

lemma demo_addresses: "\<exists>cookbooks. applyListenAddresses demo_loaded_set ''[::]:80'' '':81'' = Inr cookbooks \<and> cookbook_set cookbooks"
proof -
  have "SplitHostPort ''[::]:80'' = Inr (''::'', ''80'')" "SplitHostPort '':81'' = Inr ([], ''81'')"
    "atoi ''80'' = (80, True)" "atoi ''81'' = (81, True)" "ParseIP ''::'' \<noteq> None"
    by code_simp+
  then have "\<exists>cookbooks. applyListenAddresses demo_loaded_set ''[::]:80'' '':81'' = Inr cookbooks"
    by (auto simp: applyListenAddresses_def apply_address_def)
  then show ?thesis using apply_addresses_keeps [OF _ demo_cookbook_set] unfolding applyListenAddresses_def by blast
qed

section \<open>Properties\<close>

text \<open>
  C19: a configuration that is refused leaves no trace. When the arguments parse, no check was asked for and
  the program still exits with code 2 (the identifiers of the containers it would start with, if it starts
  any, being new), it refused the options, the cookbooks or the paths: it prints nothing to standard output,
  has made no engine, and of the operating system it has at most read the configured cookbook directory and
  files in it and asked for the ledger directory. Nothing was created, bound, written or removed.
\<close>

theorem refused_configuration_touches_nothing:
  assumes "run version reader files args now started io env os = Ret (Exit exitConfig out err engine, trace)"
    and "parseOptions args = Inr opts" and "\<not> o_check opts"
    and "o_bootstrap opts \<longrightarrow> (\<forall>cfg t ledger. configure reader files opts os [] = Ret (Inr cfg, t) \<longrightarrow>
      bootstrap_fresh (bootstrap_list (g_cookbooks cfg)) (first_engine cfg env ledger))"
  shows "out = [] \<and> engine = None \<and>
    (\<forall>call\<in>set trace. call = Stat (o_ledgerDir opts) \<or>
       trim_space (o_cookbookDir opts) \<noteq> [] \<and> (\<exists>dir. f_Abs files (o_cookbookDir opts) = Inr dir \<and>
         (call = ReadDir dir \<or> (\<exists>name. call = ReadFile (path_join dir name)))))"
proof -
  obtain r t where c: "configure reader files opts os [] = Ret (r, t)"
    "set t \<subseteq> {Stat (o_ledgerDir opts)} \<union> {call. cookbook_read files (o_cookbookDir opts) call}"
    "\<And>cfg. r = Inr cfg \<Longrightarrow> cookbook_set (g_cookbooks cfg) \<and> g_opts cfg = opts"
    using configure_returns [of reader files opts os "[]"] by auto
  have codes: "exitConfig \<noteq> exitOK" "exitConfig \<noteq> exitRuntime" by (simp_all add: exitConfig_def exitOK_def exitRuntime_def)
  have version: "\<not> o_showVersion opts"
    using assms(1,2) codes by (auto simp: run_def)
  show ?thesis
  proof (cases r)
    case (Inl e)
    with assms(1,2) c(1) version have "out = [] \<and> engine = None \<and> trace = t" by (simp add: run_def)
    with c(2) show ?thesis by (auto simp: cookbook_read_def)
  next
    case (Inr cfg)
    then have "run version reader files args now started io env os = serve_start version cfg now started io env os t"
      using assms(2,3) c(1) version by (simp add: run_def)
    moreover have "\<exists>r' t'. serve_start version cfg now started io env os t = Ret (r', t') \<and>
        (case r' of Serving e summary \<Rightarrow> reachable (g_cookbooks cfg) e | Exit code out err engine \<Rightarrow> code = exitRuntime \<and> out = [])"
      using assms(4) c(1) c(3) [OF Inr] Inr by (intro serve_start_outcome) (auto intro: cookbook_set_loaded)
    ultimately show ?thesis using assms(1) codes by auto
  qed
qed

text \<open>
  C4: the program ends in an exit code or serves. It never panics on the way; what it serves with is a
  reachable engine over a valid set of cookbooks. Success without serving is a printed version or a passed
  check, and every failure says nothing on standard output.
\<close>

theorem program_serves_consistent_engine:
  assumes "parseOptions args = Inr opts"
    and "o_bootstrap opts \<longrightarrow> (\<forall>cfg t ledger. configure reader files opts os [] = Ret (Inr cfg, t) \<longrightarrow>
      bootstrap_fresh (bootstrap_list (g_cookbooks cfg)) (first_engine cfg env ledger))"
  shows "\<exists>r trace. run version reader files args now started io env os = Ret (r, trace) \<and>
    (case r of
       Serving e summary \<Rightarrow> \<exists>cookbooks. cookbook_set cookbooks \<and> reachable cookbooks e
     | Exit code out err engine \<Rightarrow>
         code = exitOK \<and> err = [] \<and> (o_showVersion opts \<or> o_check opts) \<or>
         code = exitConfig \<and> out = [] \<or> code = exitRuntime \<and> out = [] \<and> \<not> o_check opts)"
proof -
  obtain r t where c: "configure reader files opts os [] = Ret (r, t)"
    "\<And>cfg. r = Inr cfg \<Longrightarrow> cookbook_set (g_cookbooks cfg) \<and> g_opts cfg = opts"
    using configure_returns [of reader files opts os "[]"] by auto
  consider "o_showVersion opts" | e where "\<not> o_showVersion opts" "r = Inl e"
    | cfg where "\<not> o_showVersion opts" "r = Inr cfg" "o_check opts"
    | cfg where "\<not> o_showVersion opts" "r = Inr cfg" "\<not> o_check opts" by (cases r) auto
  then show ?thesis
  proof cases
    case 3
    then show ?thesis
      using assms(1) c(1) by (auto simp: run_def run_check_def split: sum.split prod.split)
  next
    case 4
    then have cfg: "cookbook_set (g_cookbooks cfg)" "g_opts cfg = opts" using c(2) by blast+
    have fresh: "bootstrap_fresh (bootstrap_list (g_cookbooks cfg)) (first_engine cfg env ledger)"
      if "o_bootstrap (g_opts cfg)" for ledger
      using assms(2) c(1) 4(2) cfg(2) that by blast
    obtain r' t' where "serve_start version cfg now started io env os t = Ret (r', t')"
      "case r' of Serving e summary \<Rightarrow> reachable (g_cookbooks cfg) e | Exit code out err engine \<Rightarrow> code = exitRuntime \<and> out = []"
      using serve_start_outcome [OF cookbook_set_loaded [OF cfg(1)] fresh] by blast
    with 4 assms(1) c show ?thesis by (auto simp: run_def split: run_result.splits)
  qed (use assms(1) c(1) in \<open>simp_all add: run_def\<close>)
qed

theorem program_serves_consistent_engine_witness:
  "\<exists>e summary trace cookbooks.
     run ''dev'' demo_reader demo_files demo_args (UnixNano 0) (UnixNano 0) ([], []) demo_env calm_os = Ret (Serving e summary, trace) \<and>
     cookbook_set cookbooks \<and> reachable cookbooks e"
proof -
  note parsed = demo_options(1)
  have "parse_digits 8 ''0660'' = Some 432" by code_simp
  then have mode: "parseSocketMode ''0660'' = Inr 432" by (simp add: parseSocketMode_def ParseUint_def)
  have strings: "normalizeEndpointMode ''auto'' = Inr ''auto''" "parseScenarioOverrides [] = Inr []" by code_simp+
  have blank: "trim_space ''/tmp/docker-zero.sock'' \<noteq> []" "trim_space ''runs'' \<noteq> []" by (simp_all add: trim_space_def is_space_def)
  obtain cookbooks where a: "applyListenAddresses demo_loaded_set ''[::]:80'' '':81'' = Inr cookbooks"
    using demo_addresses by blast
  have sel: "o_containerEndpoints demo_options = ''auto''" "o_scenarioFlag demo_options = []" "o_cookbookDir demo_options = ''/etc/zero''"
    "o_nginxAddr demo_options = ''[::]:80''" "o_redisAddr demo_options = '':81''" "o_socketMode demo_options = ''0660''"
    "o_socketPath demo_options = ''/tmp/docker-zero.sock''" "o_ledgerDir demo_options = ''runs''"
    "\<not> o_bootstrap demo_options" "\<not> o_check demo_options" "\<not> o_showVersion demo_options"
    by (simp_all add: demo_options_def default_options_def)
  let ?reads = "loading_calls demo_reader demo_files ''/etc/zero''"
  have paths: "\<exists>t. validatePathArguments ''/tmp/docker-zero.sock'' ''runs'' calm_os ?reads = (Inr (), t)"
    using blank by (simp add: validatePathArguments_def calm_os_def)
  have no_overrides: "validateScenarioOverrides cookbooks [] = None" by (simp add: validateScenarioOverrides_def)
  obtain t where paths: "validatePathArguments ''/tmp/docker-zero.sock'' ''runs'' calm_os ?reads = (Inr (), t)"
    using paths by blast
  define cfg where "cfg = \<lparr>g_opts = demo_options, g_cookbooks = cookbooks, g_overrides = [], g_endpointMode = ''auto'', g_mode = 432\<rparr>"
  have conf: "configure demo_reader demo_files demo_options calm_os [] = Ret (Inr cfg, t)"
    by (simp add: configure_def Let_def sel strings mode demo_loads a no_overrides paths cfg_def)
  have ledger: "\<exists>l t'. open_ledger v d n ov now started io calm_os t = (Inr l, t')" for v d n ov now started io
    by (simp add: open_ledger_def Let_def calm_os_def)
  have listen: "\<exists>t''. listenUnixSocket ''/tmp/docker-zero.sock'' m calm_os t' = (Inr (), t'')" for m t'
    by (simp add: listenUnixSocket_def prepareUnixSocketPath_def validateUnixSocketPath_def calm_os_def)
  have "\<exists>e summary trace. serve_start ''dev'' cfg (UnixNano 0) (UnixNano 0) ([], []) demo_env calm_os t = Ret (Serving e summary, trace)"
  proof -
    obtain l t' where l: "open_ledger ''dev'' ''runs'' (o_seed demo_options) [] (UnixNano 0) (UnixNano 0) ([], []) calm_os t = (Inr l, t')"
      using ledger by blast
    obtain t'' where "listenUnixSocket ''/tmp/docker-zero.sock'' 432 calm_os t' = (Inr (), t'')" using listen by blast
    with l show ?thesis by (simp add: serve_start_def Let_def cfg_def sel)
  qed
  then have "\<exists>e summary trace. run ''dev'' demo_reader demo_files demo_args (UnixNano 0) (UnixNano 0) ([], []) demo_env calm_os =
      Ret (Serving e summary, trace)"
    by (simp add: run_def parsed sel conf)
  then obtain e summary trace where served: "run ''dev'' demo_reader demo_files demo_args (UnixNano 0) (UnixNano 0) ([], []) demo_env calm_os =
      Ret (Serving e summary, trace)" by blast
  have "\<exists>cookbooks. cookbook_set cookbooks \<and> reachable cookbooks e"
    using program_serves_consistent_engine [OF parsed, of demo_reader demo_files calm_os demo_env "''dev''" "UnixNano 0" "UnixNano 0" "([], [])"]
      sel(9) unfolding served by auto
  with served show ?thesis by blast
qed

theorem refused_configuration_touches_nothing_witness:
  "\<exists>err trace. run ''dev'' demo_reader demo_files (demo_args @ [''--socket-mode=888'']) (UnixNano 0) (UnixNano 0) ([], []) demo_env calm_os =
     Ret (Exit exitConfig [] err None, trace) \<and> ReadDir ''/etc/zero'' \<in> set trace \<and> MkdirAll ''runs'' \<notin> set trace \<and>
     ListenUnix ''/tmp/docker-zero.sock'' \<notin> set trace"
proof -
  define opts where "opts = demo_options\<lparr>o_socketMode := ''888''\<rparr>"
  note parsed = demo_options(2) [folded opts_def]
  have sel: "o_containerEndpoints opts = ''auto''" "o_scenarioFlag opts = []" "o_cookbookDir opts = ''/etc/zero''"
    "o_nginxAddr opts = ''[::]:80''" "o_redisAddr opts = '':81''" "o_socketMode opts = ''888''" "o_ledgerDir opts = ''runs''"
    "\<not> o_bootstrap opts" "\<not> o_check opts" "\<not> o_showVersion opts"
    by (simp_all add: opts_def demo_options_def default_options_def)
  have digits: "parse_digits 8 ''888'' = None" by code_simp
  have strings: "normalizeEndpointMode ''auto'' = Inr ''auto''" "parseScenarioOverrides [] = Inr []" by code_simp+
  obtain cookbooks where a: "applyListenAddresses demo_loaded_set ''[::]:80'' '':81'' = Inr cookbooks"
    using demo_addresses by blast
  have no_overrides: "validateScenarioOverrides cookbooks [] = None" by (simp add: validateScenarioOverrides_def)
  let ?reads = "loading_calls demo_reader demo_files ''/etc/zero''"
  have "ReadDir ''/etc/zero'' \<in> set ?reads" by (simp add: loading_calls_def demo_files_def trim_space_def is_space_def)
  moreover obtain err where "configure demo_reader demo_files opts calm_os [] = Ret (Inl (Message err), ?reads)"
    using digits by (simp add: configure_def Let_def sel strings demo_loads a no_overrides parseSocketMode_def ParseUint_def)
  then have refused: "run ''dev'' demo_reader demo_files (demo_args @ [''--socket-mode=888'']) (UnixNano 0) (UnixNano 0) ([], []) demo_env calm_os =
     Ret (Exit exitConfig [] (printFailure ''CONFIG_ERROR'' (Message err)) None, ?reads)"
    by (simp add: run_def parsed sel)
  moreover from refused_configuration_touches_nothing [OF refused parsed] sel
  have "MkdirAll ''runs'' \<notin> set ?reads" "ListenUnix ''/tmp/docker-zero.sock'' \<notin> set ?reads" by auto
  ultimately show ?thesis by blast
qed

text \<open>
  C18: shutdown stops everything: whatever the waits come to, afterwards no runtime is active or listens, no
  container runtime can be started again, and the ledger is closed. The exit code is 0 exactly when there
  was no runtime error and nothing failed to close, where what was closed or gone before does not count.
\<close>

theorem shutdown_stops_everything:
  "\<exists>code err e'. serve_stop runtimeErr serverErr listenerErr removeErr e = Ret ((code, err), e') \<and>
    (\<forall>cid rt. mget (e_runtimes e') cid = Some rt \<longrightarrow> \<not> rt_active rt \<and> rt_listeners rt = []) \<and>
    (\<forall>cid. startContainerRuntime cid e' = Ret (Some errEngineRuntimeClosing, e')) \<and> l_closed (e_ledger e') \<and>
    (code = exitOK \<longleftrightarrow> runtimeErr = None \<and> (\<forall>ce\<in>{serverErr, listenerErr, removeErr}. \<forall>t. ce \<noteq> Some (CloseFailed t)) \<and>
       (\<exists>e1. closeRuntimes e = Ret (None, e1) \<and> fst (Close (e_ledger e1)) = None))"
proof -
  obtain r e1 where c: "closeRuntimes e = Ret (r, e1)" "e_runtimeClosing e1"
    "\<And>cid rt. mget (e_runtimes e1) cid = Some rt \<Longrightarrow> idle rt"
    using closeRuntimes_idle [of e] by blast
  let ?e' = "close_ledger e1"
  let ?errs = "[serverErr, map_option CloseFailed r, listenerErr, removeErr, map_option CloseFailed (fst (Close (e_ledger e1)))]"
  have run: "\<exists>err. serve_stop runtimeErr serverErr listenerErr removeErr e =
      Ret ((case first_close_error runtimeErr ?errs of Some _ \<Rightarrow> exitRuntime | None \<Rightarrow> exitOK, err), ?e')"
    using c(1) by (simp add: serve_stop_def ebind_def elift_def ereturn_def)
  have start: "startContainerRuntime cid ?e' = Ret (Some errEngineRuntimeClosing, ?e')" for cid
    using c(2) by (simp add: startContainerRuntime_def ebind_def eread_def ereturn_def close_ledger_def)
  have code: "(case first_close_error runtimeErr ?errs of Some _ \<Rightarrow> exitRuntime | None \<Rightarrow> exitOK) = exitOK \<longleftrightarrow>
      first_close_error runtimeErr ?errs = None"
    by (rule exit_code_OK)
  have errs: "first_close_error runtimeErr ?errs = None \<longleftrightarrow> runtimeErr = None \<and>
      (\<forall>ce\<in>{serverErr, listenerErr, removeErr}. \<forall>t. ce \<noteq> Some (CloseFailed t)) \<and> r = None \<and> fst (Close (e_ledger e1)) = None"
    unfolding first_close_error_None by (cases r; cases "fst (Close (e_ledger e1))") auto
  have runtimes: "\<forall>cid rt. mget (e_runtimes ?e') cid = Some rt \<longrightarrow> \<not> rt_active rt \<and> rt_listeners rt = []"
    using c(3) by (simp add: close_ledger_def idle_def)
  have ok: "(case first_close_error runtimeErr ?errs of Some _ \<Rightarrow> exitRuntime | None \<Rightarrow> exitOK) = exitOK \<longleftrightarrow> runtimeErr = None \<and>
      (\<forall>ce\<in>{serverErr, listenerErr, removeErr}. \<forall>t. ce \<noteq> Some (CloseFailed t)) \<and>
      (\<exists>e1. closeRuntimes e = Ret (None, e1) \<and> fst (Close (e_ledger e1)) = None)"
    unfolding code errs c(1) by simp
  have "l_closed (e_ledger ?e')" by (simp add: close_ledger_def Close_closed)
  with run start runtimes ok show ?thesis by blast
qed

theorem shutdown_stops_everything_witness:
  "\<exists>code err e'. serve_stop None (Some ServerClosed) None (Some NotExist) demo_engine = Ret ((code, err), e') \<and>
     l_closed (e_ledger e') \<and> startContainerRuntime [] e' = Ret (Some errEngineRuntimeClosing, e')"
  using shutdown_stops_everything [of None "Some ServerClosed" None "Some NotExist" demo_engine]
  by (elim exE conjE) (intro exI conjI, assumption, assumption, erule allE [of _ "[]"], assumption)

end
