(* ===== verification/Runtime_Errors.thy ===== *)
theory Runtime_Errors
  imports Main_Serve
begin

text \<open>
  Errors that end the program (\<^verbatim>\<open>runtime_error.go\<close>, the channels of \<^verbatim>\<open>main.go\<close>) and the life of the
  shared Redis listener (\<^verbatim>\<open>service_redis.go\<close>). A channel is the list of what it holds; a report to a
  full channel is dropped.
\<close>

section \<open>Channels\<close>

definition reportRuntimeError :: "nat \<Rightarrow> string list \<Rightarrow> string \<Rightarrow> string list" where
  "reportRuntimeError room channel err = (if length channel < room then channel @ [err] else channel)"

definition forwardRuntimeErrors :: "nat \<Rightarrow> string \<Rightarrow> string list \<Rightarrow> string list \<Rightarrow> string list" where
  "forwardRuntimeErrors room component source target =
     foldl (\<lambda>channel err. reportRuntimeError room channel (component @ '': '' @ err)) target source"

lemma report_keeps_first: "channel \<noteq> [] \<Longrightarrow> foldl (reportRuntimeError room) channel reports \<noteq> [] \<and>
    hd (foldl (reportRuntimeError room) channel reports) = hd channel"
proof (induction reports arbitrary: channel)
  case (Cons err reports)
  have "reportRuntimeError room channel err \<noteq> []" "hd (reportRuntimeError room channel err) = hd channel"
    using Cons.prems by (simp_all add: reportRuntimeError_def)
  with Cons.IH [of "reportRuntimeError room channel err"] show ?case by simp
qed simp

lemma report_room: "length channel \<le> room \<Longrightarrow> length (reportRuntimeError room channel err) \<le> room"
  by (simp add: reportRuntimeError_def)

lemma forward_bounded: "length target \<le> room \<Longrightarrow> length (forwardRuntimeErrors room component source target) \<le> room"
  unfolding forwardRuntimeErrors_def
proof (induction source arbitrary: target)
  case (Cons err source)
  then show ?case using Cons.IH [OF report_room [OF Cons.prems]] by simp
qed simp

section \<open>Recovered panics\<close>

record InternalPanicError =
  ip_Component :: string
  ip_Recovered :: string
  ip_Stack :: string

definition panic_text :: "InternalPanicError \<Rightarrow> string" where
  "panic_text e = ip_Component e @ '' panicked: '' @ ip_Recovered e @ [LF] @ trim_space (ip_Stack e)"

text \<open>The engine's channel, which has room for four, is passed along.\<close>

definition reportInternalPanic :: "InternalPanicError \<Rightarrow> string list \<Rightarrow> string list em" where
  "reportInternalPanic p errors =
     ethen (elog (zeroEntry\<lparr>le_Channel := ''docker-zero.internal'', le_Event := ''panic'',
         le_Request := JObject [(''component'', JString (ip_Component p))],
         le_Response := JObject [(''panic'', JString (ip_Recovered p)), (''stack'', JString (ip_Stack p))]\<rparr>))
       (ereturn (reportRuntimeError 4 errors (panic_text p)))"

definition internal_error :: string where
  "internal_error = ''docker-zero internal error; inspect engine.log''"

text \<open>
  The response writer a handler leaves when it panics (\<^verbatim>\<open>dockerResponseRecorder\<close> around the writer of
  \<^verbatim>\<open>net/http\<close>): the status, 0 until a response is committed, the header fields set so far, those that
  were sent with the status, and the parts of the body written so far.
\<close>

record response_writer =
  wr_status :: int
  wr_header :: "(string, string) gomap"
  wr_sent :: "(string, string) gomap"
  wr_body :: "api_body list"

definition fresh_writer :: response_writer where
  "fresh_writer = \<lparr>wr_status = 0, wr_header = [], wr_sent = [], wr_body = []\<rparr>"

definition Header_Set :: "string \<Rightarrow> string \<Rightarrow> response_writer \<Rightarrow> response_writer" where
  "Header_Set key value w = w\<lparr>wr_header := mput (wr_header w) key value\<rparr>"

definition writer_WriteHeader :: "int \<Rightarrow> response_writer \<Rightarrow> response_writer" where
  "writer_WriteHeader status w =
     (if wr_status w \<noteq> 0 then w else w\<lparr>wr_status := status, wr_sent := wr_header w\<rparr>)"

definition writer_Write :: "api_body \<Rightarrow> response_writer \<Rightarrow> response_writer" where
  "writer_Write payload w =
     (let w' = (if wr_status w = 0 then writer_WriteHeader 200 w else w)
      in w'\<lparr>wr_body := wr_body w' @ [payload]\<rparr>)"

definition writer_DockerError :: "int \<Rightarrow> string \<Rightarrow> response_writer \<Rightarrow> response_writer" where
  "writer_DockerError status message w =
     writer_Write (JsonBody (JObject [(''message'', JString message)]))
       (writer_WriteHeader status (Header_Set ''Content-Type'' ''application/json'' w))"

definition recoverHTTPHandler ::
  "InternalPanicError \<Rightarrow> string list \<Rightarrow> response_writer \<Rightarrow> (response_writer \<times> string list) em" where
  "recoverHTTPHandler p errors w =
     ebind (reportInternalPanic p errors) (\<lambda>errors'.
       ereturn (writer_Write (TextBody (internal_error @ [LF]))
           (writer_WriteHeader 500 (Header_Set ''Content-Type'' ''text/plain; charset=utf-8''
             (Header_Set ''Connection'' ''close'' w))), errors'))"

definition recoverDockerHTTPHandler ::
  "string \<Rightarrow> string \<Rightarrow> string list \<Rightarrow> response_writer \<Rightarrow> (response_writer \<times> string list) em" where
  "recoverDockerHTTPHandler recovered stack errors w =
     ebind (reportInternalPanic \<lparr>ip_Component = ''Docker API'', ip_Recovered = recovered, ip_Stack = stack\<rparr> errors) (\<lambda>errors'.
       ereturn (writer_DockerError 500 internal_error (Header_Set ''Connection'' ''close'' w), errors'))"

definition recoverTCPHandler :: "InternalPanicError \<Rightarrow> string list \<Rightarrow> string list em" where
  "recoverTCPHandler p errors = reportInternalPanic p errors"

text \<open>What a report writes: the ledger entry, and the panic at the end of a channel with room.\<close>

lemma reportInternalPanic_effect:
  "reportInternalPanic p errors e =
     Ret (if length errors < 4 then errors @ [panic_text p] else errors,
       log_engine (env_now (e_env e) (e_tick e)) (zeroEntry\<lparr>le_Channel := ''docker-zero.internal'', le_Event := ''panic'',
         le_Request := JObject [(''component'', JString (ip_Component p))],
         le_Response := JObject [(''panic'', JString (ip_Recovered p)), (''stack'', JString (ip_Stack p))]\<rparr>)
         (e\<lparr>e_tick := Suc (e_tick e)\<rparr>))"
  by (simp add: reportInternalPanic_def elog_def enow_def eask_def emodify_def ethen_def ebind_def ereturn_def reportRuntimeError_def)

lemma keeps_reportInternalPanic: "keeps (alive D) (reportInternalPanic p errors) always"
  unfolding reportInternalPanic_def
  by (intro keeps_ethen [OF keeps_elog] keeps_ereturn) simp

section \<open>The shared Redis listener\<close>

text \<open>
  A connection is a number. \<open>rm_accepting\<close> and \<open>rm_connections\<close> are the goroutines the wait group counts: the accept loop, which
  ends with its first failure or when it finds the listener closing, and the handlers of the registered connections; \<open>rm_shut\<close> are
  the connections that \<^verbatim>\<open>Close\<close> has closed.
\<close>

record RedisMock =
  rm_listening :: bool
  rm_accepting :: bool
  rm_connections :: "nat list"
  rm_shut :: "nat list"
  rm_closing :: bool
  rm_errors :: "string list"

definition newRedisMock :: RedisMock where
  "newRedisMock = \<lparr>rm_listening = False, rm_accepting = False, rm_connections = [], rm_shut = [], rm_closing = False, rm_errors = []\<rparr>"

definition mock_Start :: "string + unit \<Rightarrow> RedisMock \<Rightarrow> string option \<times> RedisMock" where
  "mock_Start bound r =
     (case bound of Inl err \<Rightarrow> (Some err, r) | Inr _ \<Rightarrow> (None, r\<lparr>rm_listening := True, rm_accepting := True\<rparr>))"

text \<open>One turn of the accept loop: an error, or a connection and whether it is served.\<close>

definition mock_accept :: "string + nat \<Rightarrow> RedisMock \<Rightarrow> bool \<times> RedisMock" where
  "mock_accept outcome r =
     (case outcome of
        Inl err \<Rightarrow>
          (False, r\<lparr>rm_accepting := False,
             rm_errors := if rm_closing r then rm_errors r else reportRuntimeError 1 (rm_errors r) err\<rparr>)
      | Inr connection \<Rightarrow>
          if rm_closing r then (False, r\<lparr>rm_accepting := False\<rparr>)
          else (True, r\<lparr>rm_connections := rm_connections r @ [connection]\<rparr>))"

definition mock_finish :: "nat \<Rightarrow> RedisMock \<Rightarrow> RedisMock" where
  "mock_finish connection r = r\<lparr>rm_connections := filter (\<lambda>k. k \<noteq> connection) (rm_connections r)\<rparr>"

text \<open>
  \<^verbatim>\<open>Close\<close> first marks the listener, closes it and every registered connection. Then it waits, while the loop and the handlers go
  on, until the wait group is empty or the context has expired: \<open>mock_Close_wait\<close> is the \<^verbatim>\<open>select\<close>, undecided (\<open>None\<close>) while
  neither holds, and \<open>expired\<close> tells that the case of the context is taken.
\<close>

definition mock_Close :: "RedisMock \<Rightarrow> RedisMock" where
  "mock_Close r = r\<lparr>rm_closing := True, rm_listening := False, rm_shut := rm_shut r @ rm_connections r\<rparr>"

definition mock_Close_wait :: "bool \<Rightarrow> RedisMock \<Rightarrow> string option option" where
  "mock_Close_wait expired r =
     (if expired then Some (Some ''context deadline exceeded'')
      else if \<not> rm_accepting r \<and> rm_connections r = [] then Some None else None)"

inductive mock_step :: "RedisMock \<Rightarrow> RedisMock \<Rightarrow> bool" where
  accepts: "rm_accepting r \<Longrightarrow> mock_accept outcome r = (served, r') \<Longrightarrow> mock_step r r'"
| finishes: "mock_step r (mock_finish connection r)"
| closes: "mock_step r (mock_Close r)"

text \<open>Once closing, a listener takes no connection, whatever is accepted before the loop ends.\<close>

lemma mock_closing_shrinks:
  "mock_step r r' \<Longrightarrow> rm_closing r \<Longrightarrow>
   rm_closing r' \<and> set (rm_connections r') \<subseteq> set (rm_connections r) \<and> rm_errors r' = rm_errors r \<and>
   set (rm_shut r) \<subseteq> set (rm_shut r') \<and> (rm_accepting r' \<longrightarrow> rm_accepting r)"
  by (induction rule: mock_step.induct) (auto simp: mock_accept_def mock_finish_def mock_Close_def split: sum.splits if_splits)

lemma mock_closing_run:
  assumes "mock_step\<^sup>*\<^sup>* r r'" and "rm_closing r"
  shows "rm_closing r' \<and> set (rm_connections r') \<subseteq> set (rm_connections r) \<and> rm_errors r' = rm_errors r \<and>
    set (rm_shut r) \<subseteq> set (rm_shut r') \<and> (rm_accepting r' \<longrightarrow> rm_accepting r)"
  using assms
proof (induction rule: rtranclp_induct)
  case (step s t)
  then show ?case using mock_closing_shrinks [OF step.hyps(2)] by auto
qed simp

text \<open>The wait can always end: the closed connections finish and the loop meets the closed listener.\<close>

lemma mock_finish_all:
  "\<exists>r'. mock_step\<^sup>*\<^sup>* r r' \<and> rm_connections r' = [] \<and> rm_accepting r' = rm_accepting r \<and> rm_closing r' = rm_closing r"
proof (induction "length (rm_connections r)" arbitrary: r rule: less_induct)
  case less
  show ?case
  proof (cases "rm_connections r")
    case (Cons k ks)
    have "length (rm_connections (mock_finish k r)) < length (rm_connections r)"
      by (simp add: mock_finish_def Cons le_imp_less_Suc)
    from less [OF this] obtain r' where "mock_step\<^sup>*\<^sup>* (mock_finish k r) r'" "rm_connections r' = []"
      "rm_accepting r' = rm_accepting r" "rm_closing r' = rm_closing r" by (auto simp: mock_finish_def)
    with finishes [of r k] show ?thesis by (meson converse_rtranclp_into_rtranclp)
  qed auto
qed

lemma mock_wait_can_end:
  "\<exists>r'. mock_step\<^sup>*\<^sup>* (mock_Close r) r' \<and> mock_Close_wait False r' = Some None"
proof -
  obtain r1 where r1: "mock_step\<^sup>*\<^sup>* (mock_Close r) r1" "rm_connections r1 = []" "rm_closing r1"
    using mock_finish_all [of "mock_Close r"] by (auto simp: mock_Close_def)
  show ?thesis
  proof (cases "rm_accepting r1")
    case True
    have "mock_step r1 (r1\<lparr>rm_accepting := False\<rparr>)"
      by (rule accepts [OF True, of "Inl ''closed''" False]) (simp add: mock_accept_def r1(3))
    with r1 show ?thesis
      by (intro exI [of _ "r1\<lparr>rm_accepting := False\<rparr>"]) (auto simp: mock_Close_wait_def intro: rtranclp.rtrancl_into_rtrancl)
  qed (use r1 in \<open>auto simp: mock_Close_wait_def\<close>)
qed

section \<open>The Redis listener of a container\<close>

text \<open>
  The accept loop of a container's Redis listener, over what accepting answers in turn. A closed listener ends it, another failure is
  reported to the engine's channel; a connection that comes after the runtime has stopped is refused and the loop goes on. The commands of
  the connections it registers are steps of their own.
\<close>

datatype accept_outcome = AcceptClosed | AcceptFailed string | Accepted nat

primrec serveRedisListener :: "string \<Rightarrow> string \<Rightarrow> accept_outcome list \<Rightarrow> string list \<Rightarrow> string list em" where
  "serveRedisListener cid address [] errors = ereturn errors"
| "serveRedisListener cid address (outcome # rest) errors =
     (case outcome of
        AcceptClosed \<Rightarrow> ereturn errors
      | AcceptFailed err \<Rightarrow>
          ebind (container_get cid c_Name) (\<lambda>name.
            ereturn (reportRuntimeError 4 errors (''container '' @ name @ '' Redis accept '' @ address @ '': '' @ err)))
      | Accepted connection \<Rightarrow>
          ethen (registerRedisConnection cid connection) (serveRedisListener cid address rest errors))"

text \<open>The loop keeps the engine's invariant, stays within the room of the channel, and reports at most one error.\<close>

lemma keeps_serveRedisListener:
  assumes "cid \<in> D" and "length errors \<le> 4"
  shows "keeps (alive D) (serveRedisListener cid address outcomes errors)
    (\<lambda>errors'. length errors' \<le> 4 \<and> length errors' \<le> Suc (length errors))"
proof (induction outcomes)
  case Nil
  show ?case using assms(2) by (simp add: keeps_ereturn)
next
  case (Cons outcome rest)
  have failed: "keeps (alive D) (ebind (container_get cid c_Name) (\<lambda>name.
      ereturn (reportRuntimeError 4 errors (''container '' @ name @ '' Redis accept '' @ address @ '': '' @ err))))
      (\<lambda>errors'. length errors' \<le> 4 \<and> length errors' \<le> Suc (length errors))" for err
    using assms by (intro keeps_step keeps_get keeps_ereturn) (simp_all add: reportRuntimeError_def)
  show ?case
    using assms(2) Cons keeps_ethen [OF keeps_runtime(3) [OF assms(1)]] failed
    by (cases outcome) (simp_all add: keeps_ereturn)
qed

text \<open>After the runtime has stopped, accepting changes nothing.\<close>

lemma stopped_listener_registers_nothing:
  assumes "\<not> rt_active (runtime_of cid e)" and "\<forall>outcome\<in>set outcomes. \<exists>k. outcome = Accepted k"
  shows "serveRedisListener cid address outcomes errors e = Ret (errors, e)"
  using assms(2)
proof (induction outcomes)
  case (Cons outcome rest)
  then obtain k where "outcome = Accepted k" by auto
  moreover have "registerRedisConnection cid k e = Ret (False, e)"
    using assms(1) by (simp add: registerRedisConnection_def ebind_def em_defs)
  ultimately show ?case using Cons by (simp add: ethen_def ebind_def)
qed (simp add: ereturn_def)

section \<open>Contracts\<close>

text \<open>
  C35: a listener that was told to close closes every connection it has, never gets one that it did not have, and reports no error of
  its own end, whatever its accept loop and its connections do until the wait is over and afterwards, and whether or not the wait timed
  out. When the wait succeeded, no connection is left and the loop has ended. And the wait can always succeed.
\<close>

theorem closing_listener_takes_no_connection:
  assumes "mock_step\<^sup>*\<^sup>* (mock_Close r) r1" and "mock_Close_wait expired r1 = Some err" and "mock_step\<^sup>*\<^sup>* r1 r'"
  shows "rm_closing r' \<and> set (rm_connections r') \<subseteq> set (rm_connections r) \<and> set (rm_connections r) \<subseteq> set (rm_shut r') \<and>
    rm_errors r' = rm_errors r \<and> (err = None \<longrightarrow> rm_connections r' = [] \<and> \<not> rm_accepting r') \<and>
    (\<exists>r2. mock_step\<^sup>*\<^sup>* (mock_Close r) r2 \<and> mock_Close_wait False r2 = Some None)"
proof -
  have "rm_closing (mock_Close r)" by (simp add: mock_Close_def)
  note one = mock_closing_run [OF assms(1) this]
  then have two: "rm_closing r' \<and> set (rm_connections r') \<subseteq> set (rm_connections r1) \<and> rm_errors r' = rm_errors r1 \<and>
    set (rm_shut r1) \<subseteq> set (rm_shut r') \<and> (rm_accepting r' \<longrightarrow> rm_accepting r1)"
    using mock_closing_run [OF assms(3)] by blast
  moreover have "err = None \<longrightarrow> rm_connections r1 = [] \<and> \<not> rm_accepting r1"
    using assms(2) by (auto simp: mock_Close_wait_def split: if_splits)
  ultimately show ?thesis using one mock_wait_can_end [of r] by (auto simp: mock_Close_def)
qed

text \<open>After the close the loop accepts one more connection, which it refuses, and the old one finishes.\<close>

theorem closing_listener_takes_no_connection_witness:
  "\<exists>r r1. rm_connections r = [1] \<and> rm_accepting r \<and> mock_step\<^sup>*\<^sup>* (mock_Close r) r1 \<and>
     mock_Close_wait False r1 = Some None \<and> rm_closing r1 \<and> 1 \<in> set (rm_shut r1) \<and> rm_connections r1 = []"
proof -
  let ?r = "newRedisMock\<lparr>rm_listening := True, rm_accepting := True, rm_connections := [1]\<rparr>"
  let ?s = "mock_Close ?r"
  have "mock_step ?s (?s\<lparr>rm_accepting := False\<rparr>)"
    by (rule accepts [of _ "Inr 2" False]) (simp_all add: mock_Close_def mock_accept_def newRedisMock_def)
  moreover have "mock_step (?s\<lparr>rm_accepting := False\<rparr>) (mock_finish 1 (?s\<lparr>rm_accepting := False\<rparr>))" by (rule finishes)
  ultimately have steps: "mock_step\<^sup>*\<^sup>* ?s (mock_finish 1 (?s\<lparr>rm_accepting := False\<rparr>))" by auto
  have wait: "mock_Close_wait False (mock_finish 1 (?s\<lparr>rm_accepting := False\<rparr>)) = Some None"
    by (simp add: mock_Close_wait_def mock_finish_def mock_Close_def)
  from closing_listener_takes_no_connection [OF steps wait rtranclp.rtrancl_refl] steps wait
  show ?thesis by (intro exI [of _ ?r] exI [of _ "mock_finish 1 (?s\<lparr>rm_accepting := False\<rparr>)"]) auto
qed

lemma first_close_error_stays: "first_close_error (Some err) errs = Some err"
proof (induction errs)
  case (Cons ce errs)
  then show ?case by (cases ce) (auto split: close_error.split)
qed simp

lemma writer_DockerError_effect:
  fixes w :: response_writer
  defines "w' \<equiv> writer_DockerError 500 internal_error (Header_Set ''Connection'' ''close'' w)"
  shows "wr_body w' = wr_body w @ [JsonBody (JObject [(''message'', JString ''docker-zero internal error; inspect engine.log'')])] \<and>
    (if wr_status w = 0 then wr_status w' = 500 \<and> mget (wr_sent w') ''Connection'' = Some ''close''
     else wr_status w' = wr_status w \<and> wr_sent w' = wr_sent w)"
  by (simp add: w'_def writer_DockerError_def writer_Write_def writer_WriteHeader_def Header_Set_def internal_error_def)

lemma forward_first:
  assumes "errors \<noteq> []" and "0 < room"
  shows "forwardRuntimeErrors room component errors [] \<noteq> []"
    and "hd (forwardRuntimeErrors room component errors []) = component @ '': '' @ hd errors"
proof -
  define label where "label err = component @ '': '' @ err" for err
  obtain err rest where e: "errors = err # rest" using assms(1) by (cases errors) auto
  have fold: "foldl (\<lambda>channel err. reportRuntimeError room channel (label err)) ch xs = foldl (reportRuntimeError room) ch (map label xs)" for ch xs
    by (induction xs arbitrary: ch) simp_all
  have "reportRuntimeError room [] (label err) = [label err]" using assms(2) by (simp add: reportRuntimeError_def)
  then have "forwardRuntimeErrors room component errors [] = foldl (reportRuntimeError room) [label err] (map label rest)"
    unfolding forwardRuntimeErrors_def label_def [symmetric] e fold by simp
  with report_keeps_first [of "[label err]" room "map label rest"]
  show "forwardRuntimeErrors room component errors [] \<noteq> []"
    and "hd (forwardRuntimeErrors room component errors []) = component @ '': '' @ hd errors"
    by (simp_all add: e label_def)
qed

text \<open>
  C34: no panic is hidden. When the handler of an API request recovers from a panic, the panic is in the ledger and, unless four errors
  wait already, at the end of the engine's errors, with its component, value and stack; the engine stays consistent. The client gets
  status 500, the error document and a closed connection; where a response was already committed, its status and header stay and the
  document is only appended. The first of the engine's errors, the panic itself when it is the only one, reaches the program, which
  prints it and ends with exit code 3 whatever closing comes to.
\<close>

theorem panic_ends_the_program:
  assumes "engine_inv e" and "length errors \<le> 4"
    and "panic = ''Docker API panicked: '' @ recovered @ [LF] @ trim_space stack"
    and "first = (if errors = [] then panic else hd errors)"
  shows "\<exists>w' errors' e'. recoverDockerHTTPHandler recovered stack errors w e = Ret ((w', errors'), e') \<and> engine_inv e' \<and>
    wr_body w' = wr_body w @ [JsonBody (JObject [(''message'', JString ''docker-zero internal error; inspect engine.log'')])] \<and>
    (if wr_status w = 0 then wr_status w' = 500 \<and> mget (wr_sent w') ''Connection'' = Some ''close''
     else wr_status w' = wr_status w \<and> wr_sent w' = wr_sent w) \<and>
    (\<exists>now. e_ledger e' = Log now (zeroEntry\<lparr>le_Channel := ''docker-zero.internal'', le_Event := ''panic'',
       le_Request := JObject [(''component'', JString ''Docker API'')],
       le_Response := JObject [(''panic'', JString recovered), (''stack'', JString stack)]\<rparr>) (e_ledger e)) \<and>
    errors' = (if length errors < 4 then errors @ [panic] else errors) \<and>
    (\<exists>rest. forwardRuntimeErrors 16 ''engine'' errors' [] = (''engine: '' @ first) # rest) \<and>
    (\<exists>e''. serve_stop (Some (''engine: '' @ first)) serverErr listenerErr removeErr e' =
       Ret ((exitRuntime, ''INTERNAL_RUNTIME_ERROR: engine: '' @ first @ [LF]), e''))"
proof -
  let ?p = "\<lparr>ip_Component = ''Docker API'', ip_Recovered = recovered, ip_Stack = stack\<rparr>"
  define errors' where "errors' = (if length errors < 4 then errors @ [panic] else errors)"
  have printed: "panic_text ?p = panic" by (simp add: panic_text_def assms(3))
  obtain now e' where r: "reportInternalPanic ?p errors e = Ret (errors', e')"
    and ledger: "e_ledger e' = Log now (zeroEntry\<lparr>le_Channel := ''docker-zero.internal'', le_Event := ''panic'',
       le_Request := JObject [(''component'', JString ''Docker API'')],
       le_Response := JObject [(''panic'', JString recovered), (''stack'', JString stack)]\<rparr>) (e_ledger e)"
    by (simp add: reportInternalPanic_effect printed errors'_def log_engine_def)
  have "alive {} e" using assms(1) by (simp add: alive_def)
  from keepsD [OF keeps_reportInternalPanic [of "{}" ?p errors] this] r have "alive {} e'" by auto
  then have inv: "engine_inv e'" by (rule aliveD(1))
  have ne: "errors' \<noteq> []" and hd: "hd errors' = first" using assms(2,4) by (auto simp: errors'_def)
  obtain err e1 where "closeRuntimes e' = Ret (err, e1)" using closeRuntimes_idle [of e'] by blast
  then have "serve_stop (Some (''engine: '' @ first)) serverErr listenerErr removeErr e' =
      Ret ((exitRuntime, ''INTERNAL_RUNTIME_ERROR: engine: '' @ first @ [LF]), close_ledger e1)"
    by (simp add: serve_stop_def ebind_def elift_def ereturn_def first_close_error_stays printFailure_def renderError_def
        del: first_close_error.simps)
  moreover have "\<exists>rest. forwardRuntimeErrors 16 ''engine'' errors' [] = (''engine: '' @ first) # rest"
    using forward_first [OF ne, of 16 "''engine''"] hd by (cases "forwardRuntimeErrors 16 ''engine'' errors' []") simp_all
  moreover have "recoverDockerHTTPHandler recovered stack errors w e =
      Ret ((writer_DockerError 500 internal_error (Header_Set ''Connection'' ''close'' w), errors'), e')"
    using r by (simp add: recoverDockerHTTPHandler_def ebind_def ereturn_def)
  moreover note inv ledger writer_DockerError_effect [of w]
  ultimately show ?thesis unfolding errors'_def by blast
qed

theorem panic_ends_the_program_witness:
  "\<exists>w' e' e''. recoverDockerHTTPHandler ''boom'' ''stack'' [] fresh_writer demo_engine =
       Ret ((w', [''Docker API panicked: boom'' @ [LF] @ trim_space ''stack'']), e') \<and> wr_status w' = 500 \<and>
     serve_stop (Some (''engine: Docker API panicked: boom'' @ [LF] @ trim_space ''stack'')) None None None e' =
       Ret ((exitRuntime, ''INTERNAL_RUNTIME_ERROR: engine: Docker API panicked: boom'' @ [LF] @ trim_space ''stack'' @ [LF]), e'')"
proof -
  have "engine_inv demo_engine" by (rule reachable_inv [OF demo_reachable])
  from panic_ends_the_program [OF this _ refl refl, of "[]" "''boom''" "''stack''" fresh_writer None None None]
  show ?thesis by (auto simp: fresh_writer_def)
qed

end
