(* ===== verification/Replication_Contract.thy ===== *)
theory Replication_Contract
  imports Engine_Examples
begin

text \<open>
  What replication between Redis containers promises: a replica that is linked to a running master has
  the master's data, and keeps them under every command, the two that change roles apart, that the master
  serves on its own listener; and it refuses writes of its own.
\<close>

section \<open>Changes of containers\<close>

text \<open>Every container is stored under its own identifier, which the changes here keep.\<close>

definition keyed_ids :: "Engine \<Rightarrow> bool" where
  "keyed_ids e \<longleftrightarrow> (\<forall>k c. mget (e_containers e) k = Some c \<longrightarrow> c_ID c = k)"

lemma inv_keyed_ids: "engine_inv e \<Longrightarrow> keyed_ids e"
  unfolding keyed_ids_def using container_okD(1) engine_invD(5) by blast

lemma container_set_run:
  assumes "keyed_ids e" and "mget (e_containers e) k = Some c" and "c_ID (f c) = c_ID c"
  shows "container_set k f e = Ret ((), e\<lparr>e_containers := mput (e_containers e) k (f c)\<rparr>)"
proof -
  have "c_ID c = k" using assms(1,2) unfolding keyed_ids_def by blast
  with assms(2,3) show ?thesis by (simp add: container_set_def container_do_def set_container_def)
qed

lemma elog_container_run:
  assumes "keyed_ids e" and "mget (e_containers e) k = Some c"
  shows "\<exists>e'. elog_container k g e = Ret ((), e') \<and> e_containers e' = e_containers e"
proof -
  have "c_ID c = k" using assms unfolding keyed_ids_def by blast
  with assms(2) show ?thesis
    by (simp add: elog_container_def container_get_def container_do_def ebind_def set_container_def mput_same elog_def enow_def
        eask_def emodify_def log_engine_def)
qed

lemma each_changed:
  assumes id: "\<And>c. c_ID (f c) = c_ID c"
  shows "keyed_ids e \<Longrightarrow> distinct ks \<Longrightarrow> (\<And>k. k \<in> set ks \<Longrightarrow> mmem (e_containers e) k) \<Longrightarrow>
    \<exists>e'. eforeach (\<lambda>k. ethen (container_set k f) (elog_container k g)) ks e = Ret ((), e') \<and>
      (\<forall>j. mget (e_containers e') j = (if j \<in> set ks then map_option f (mget (e_containers e) j) else mget (e_containers e) j))"
proof (induction ks arbitrary: e)
  case Nil
  then show ?case by (simp add: ereturn_def)
next
  case (Cons k ks)
  obtain c where c: "mget (e_containers e) k = Some c" using Cons.prems(3) [of k] by (auto simp: mmem_def)
  let ?e1 = "e\<lparr>e_containers := mput (e_containers e) k (f c)\<rparr>"
  have set: "container_set k f e = Ret ((), ?e1)" using container_set_run [OF Cons.prems(1) c] id by blast
  have ids1: "keyed_ids ?e1" using Cons.prems(1) c id by (auto simp: keyed_ids_def split: if_splits)
  obtain e2 where log: "elog_container k g ?e1 = Ret ((), e2)" "e_containers e2 = e_containers ?e1"
    using elog_container_run [OF ids1, of k "f c" g] by auto
  have ids2: "keyed_ids e2" using ids1 log(2) by (simp add: keyed_ids_def)
  have live: "mmem (e_containers e2) j" if "j \<in> set ks" for j
    using Cons.prems(3) [of j] that log(2) by (simp add: mmem_def)
  obtain e' where e': "eforeach (\<lambda>k. ethen (container_set k f) (elog_container k g)) ks e2 = Ret ((), e')"
    "\<And>j. mget (e_containers e') j = (if j \<in> set ks then map_option f (mget (e_containers e2) j) else mget (e_containers e2) j)"
    using Cons.IH [OF ids2 _ live] Cons.prems(2) by auto
  have "mget (e_containers e') j = (if j \<in> set (k # ks) then map_option f (mget (e_containers e) j) else mget (e_containers e) j)" for j
    using e'(2) [of j] log(2) c Cons.prems(2) by (cases "j = k") auto
  moreover have "eforeach (\<lambda>k. ethen (container_set k f) (elog_container k g)) (k # ks) e = Ret ((), e')"
    using set log(1) e'(1) by (simp add: ethen_def ebind_def)
  ultimately show ?case by blast
qed

section \<open>Replication of a mutation\<close>

definition follows :: "string \<Rightarrow> string \<Rightarrow> Container \<Rightarrow> bool" where
  "follows cid k c \<longleftrightarrow> c_Kind c = ''redis'' \<and> k \<noteq> cid \<and> linked_to cid c \<and> isRunning c"

lemma replicas_iff:
  assumes "engine_inv e"
  shows "k \<in> set (redis_replicas cid e) \<longleftrightarrow> (\<exists>c. mget (e_containers e) k = Some c \<and> follows cid k c)"
    and "distinct (redis_replicas cid e)"
proof -
  have wf: "wf_map (e_containers e)" using assms by (simp add: engine_inv_def)
  have ids: "c_ID c = j" if "(j, c) \<in> set (e_containers e)" for j c
    using that inv_keyed_ids [OF assms] in_mget [OF wf] unfolding keyed_ids_def by blast
  show "k \<in> set (redis_replicas cid e) \<longleftrightarrow> (\<exists>c. mget (e_containers e) k = Some c \<and> follows cid k c)"
  proof
    assume "k \<in> set (redis_replicas cid e)"
    then obtain j c where "(j, c) \<in> set (e_containers e)" "c_ID c = k" "c_Kind c = ''redis''" "c_ID c \<noteq> cid" "linked_to cid c" "isRunning c"
      unfolding redis_replicas_def mvals_def by auto
    with ids show "\<exists>c. mget (e_containers e) k = Some c \<and> follows cid k c" by (auto simp: follows_def simp flip: in_mget [OF wf])
  next
    assume "\<exists>c. mget (e_containers e) k = Some c \<and> follows cid k c"
    then obtain c where c: "(k, c) \<in> set (e_containers e)" "follows cid k c" by (auto simp: in_mget [OF wf])
    then have "c_ID c = k" "c \<in> snd ` set (e_containers e)" by (auto simp: ids intro: rev_image_eqI)
    with c show "k \<in> set (redis_replicas cid e)"
      unfolding redis_replicas_def mvals_def by (auto simp: follows_def intro!: rev_image_eqI [of c])
  qed
  have "map c_ID (mvals (e_containers e)) = mkeys (e_containers e)"
    using ids by (auto simp: mvals_def mkeys_def)
  then have "distinct (map c_ID (mvals (e_containers e)))" using wf by (simp add: wf_map_def)
  then show "distinct (redis_replicas cid e)" unfolding redis_replicas_def by (rule distinct_map_filter)
qed

lemma mutation_identity: "identity (applyRedisMutation command c) = identity c" "c_ID (applyRedisMutation command c) = c_ID c"
  by (simp_all add: applyRedisMutation_def identity_def split: list.splits)

lemma get_bind:
  assumes "engine_inv e" and "mget (e_containers e) cid = Some m"
  shows "ebind (container_get cid g) f e = f (g m) e"
  by (simp add: ebind_def container_get_run [OF assms, of g])

lemma replicate_run:
  assumes inv: "engine_inv e" and m: "mget (e_containers e) cid = Some m"
    and role: "c_Kind m = ''redis''" "containerRedisRole m = ''master''"
  shows "\<exists>e'. replicateRedisMutation cid command e = Ret ((), e') \<and>
    (\<forall>j. mget (e_containers e') j = (case mget (e_containers e) j of None \<Rightarrow> None
       | Some c \<Rightarrow> Some (if follows cid j c then applyRedisMutation command c else c)))"
proof -
  have live: "mmem (e_containers e) k" if "k \<in> set (redis_replicas cid e)" for k
    using that by (auto simp: replicas_iff(1) [OF inv] mmem_def)
  obtain e' where e': "eforeach (\<lambda>k. ethen (container_set k (applyRedisMutation command))
       (elog_container k (\<lambda>entry. entry\<lparr>le_Channel := ''service.redis.replication'', le_Event := ''apply'',
          le_Request := jstrings command, le_Response := JObject [(''master'', JString (c_Name m))]\<rparr>))) (redis_replicas cid e) e = Ret ((), e')"
    "\<And>j. mget (e_containers e') j = (if j \<in> set (redis_replicas cid e) then map_option (applyRedisMutation command) (mget (e_containers e) j)
       else mget (e_containers e) j)"
    using each_changed [where f = "applyRedisMutation command", OF mutation_identity(2) inv_keyed_ids [OF inv] replicas_iff(2) [OF inv] live]
    by blast
  have "mget (e_containers e') j = (case mget (e_containers e) j of None \<Rightarrow> None
       | Some c \<Rightarrow> Some (if follows cid j c then applyRedisMutation command c else c))" for j
    unfolding e'(2) replicas_iff(1) [OF inv] by (cases "mget (e_containers e) j") auto
  moreover have "replicateRedisMutation cid command e = Ret ((), e')"
    using e'(1) role by (simp add: replicateRedisMutation_def get_bind [OF inv m]) (simp add: ebind_def eread_def)
  ultimately show ?thesis by blast
qed

section \<open>Commands of a master\<close>

lemma inv_kv:
  assumes "engine_inv e" and "mget (e_containers e) cid = Some m"
  shows "engine_inv (e\<lparr>e_containers := mput (e_containers e) cid (m\<lparr>c_KV := kv\<rparr>)\<rparr>)"
proof -
  note ok = container_okD [OF engine_invD(5) [OF assms]]
  have "lifecycle_inv (m\<lparr>c_KV := kv\<rparr>, e_pid e)" using ok(6) by (subst lifecycle_inv_cong) simp_all
  from engine_inv_container [OF assms this] ok(1) show ?thesis by (simp add: identity_def set_container_def)
qed

text \<open>The data after a write: the master's new data, and at each follower the mutation that is sent.\<close>

lemma write_and_replicate:
  assumes inv: "engine_inv e" and m: "mget (e_containers e) cid = Some m"
    and role: "c_Kind m = ''redis''" "containerRedisRole m = ''master''"
  shows "\<exists>e'. ethen (write_kv cid kv) (ethen (replicateRedisMutation cid command) (ereturn out)) e = Ret (out, e') \<and>
    mget (e_containers e') cid = Some (m\<lparr>c_KV := kv\<rparr>) \<and>
    (\<forall>j c. j \<noteq> cid \<longrightarrow> mget (e_containers e) j = Some c \<longrightarrow>
       mget (e_containers e') j = Some (if follows cid j c then applyRedisMutation command c else c))"
proof -
  let ?e1 = "e\<lparr>e_containers := mput (e_containers e) cid (m\<lparr>c_KV := kv\<rparr>)\<rparr>"
  have w: "write_kv cid kv e = Ret ((), ?e1)"
    unfolding write_kv_def by (rule container_set_run [OF inv_keyed_ids [OF inv] m]) simp
  have m1: "mget (e_containers ?e1) cid = Some (m\<lparr>c_KV := kv\<rparr>)" by simp
  have role1: "c_Kind (m\<lparr>c_KV := kv\<rparr>) = ''redis''" "containerRedisRole (m\<lparr>c_KV := kv\<rparr>) = ''master''"
    using role unfolding containerRedisRole_def by (simp_all split: if_splits)
  obtain e' where e': "replicateRedisMutation cid command ?e1 = Ret ((), e')"
    "\<And>j. mget (e_containers e') j = (case mget (e_containers ?e1) j of None \<Rightarrow> None
       | Some c \<Rightarrow> Some (if follows cid j c then applyRedisMutation command c else c))"
    using replicate_run [OF inv_kv [OF inv m] m1 role1, of command] by blast
  have "mget (e_containers e') cid = Some (m\<lparr>c_KV := kv\<rparr>)" using e'(2) [of cid] by (simp add: follows_def)
  moreover have "mget (e_containers e') j = Some (if follows cid j c then applyRedisMutation command c else c)"
    if "j \<noteq> cid" "mget (e_containers e) j = Some c" for j c
    using e'(2) [of j] that by simp
  moreover have "ethen (write_kv cid kv) (ethen (replicateRedisMutation cid command) (ereturn out)) e = Ret (out, e')"
    using w e'(1) by (simp add: ethen_def ebind_def ereturn_def)
  ultimately show ?thesis by blast
qed

lemma del_keys_foldl: "mget (snd (del_keys ks kv)) key = mget (foldl mdel kv ks) key"
proof (induction ks arbitrary: kv)
  case (Cons k ks)
  have same: "mdel kv k = kv" if "\<not> mmem kv k"
    using that by (simp add: mmem_def mdel_absent)
  show ?case using Cons [of kv] Cons [of "mdel kv k"] same by (auto simp: Let_def split: prod.splits)
qed simp

lemma foldl_mdel_get: "mget (foldl mdel kv ks) key = (if key \<in> set ks then None else mget kv key)"
  by (induction ks arbitrary: kv) auto

text \<open>The mutation that is sent does to a follower's data what the command did to the master's.\<close>

definition same_data :: "Container \<Rightarrow> Container \<Rightarrow> bool" where
  "same_data a b \<longleftrightarrow> (\<forall>key. mget (c_KV a) key = mget (c_KV b) key)"

definition in_step :: "string \<Rightarrow> Engine \<Rightarrow> Engine \<Rightarrow> bool" where
  "in_step cid e e' \<longleftrightarrow>
     (\<forall>m j c. mget (e_containers e) cid = Some m \<longrightarrow> mget (e_containers e) j = Some c \<longrightarrow> j \<noteq> cid \<longrightarrow>
       (\<exists>m' c'. mget (e_containers e') cid = Some m' \<and> mget (e_containers e') j = Some c' \<and>
          (follows cid j c \<longrightarrow> same_data c m \<longrightarrow> same_data c' m') \<and> (\<not> follows cid j c \<longrightarrow> c' = c)))"

lemma in_step_same: "e_containers e' = e_containers e \<Longrightarrow> in_step cid e e'"
  by (auto simp: in_step_def)

lemma in_step_write:
  assumes inv: "engine_inv e" and m: "mget (e_containers e) cid = Some m"
    and role: "c_Kind m = ''redis''" "containerRedisRole m = ''master''"
    and sent: "\<forall>c. same_data c m \<longrightarrow> same_data (applyRedisMutation command c) (m\<lparr>c_KV := kv\<rparr>)"
  shows "\<exists>e'. ethen (write_kv cid kv) (ethen (replicateRedisMutation cid command) (ereturn out)) e = Ret (out, e') \<and> in_step cid e e'"
proof -
  obtain e' where e': "ethen (write_kv cid kv) (ethen (replicateRedisMutation cid command) (ereturn out)) e = Ret (out, e')"
    "mget (e_containers e') cid = Some (m\<lparr>c_KV := kv\<rparr>)"
    "\<And>j c. j \<noteq> cid \<Longrightarrow> mget (e_containers e) j = Some c \<Longrightarrow>
       mget (e_containers e') j = Some (if follows cid j c then applyRedisMutation command c else c)"
    using write_and_replicate [OF inv m role, of kv command out] by (elim exE conjE) simp
  have "in_step cid e e'"
    unfolding in_step_def
  proof (intro allI impI)
    fix n j c
    assume "mget (e_containers e) cid = Some n" and c: "mget (e_containers e) j = Some c" and j: "j \<noteq> cid"
    then have "n = m" using m by simp
    then show "\<exists>m' c'. mget (e_containers e') cid = Some m' \<and> mget (e_containers e') j = Some c' \<and>
        (follows cid j c \<longrightarrow> same_data c n \<longrightarrow> same_data c' m') \<and> (\<not> follows cid j c \<longrightarrow> c' = c)"
      unfolding e'(2) e'(3) [OF j c] using sent by simp
  qed
  with e'(1) show ?thesis by blast
qed

lemma written_in_step:
  assumes "engine_inv e" and "mget (e_containers e) cid = Some m" and "c_Kind m = ''redis''" and "containerRedisRole m = ''master''"
    and "\<forall>c. same_data c m \<longrightarrow> same_data (applyRedisMutation command c) (m\<lparr>c_KV := kv\<rparr>)"
    and "run e = ethen (write_kv cid kv) (ethen (replicateRedisMutation cid command) (ereturn out)) e"
  shows "\<exists>out e'. run e = Ret (out, e') \<and> in_step cid e e'"
  using in_step_write [OF assms(1-5), of out] unfolding assms(6) by blast

lemma set_in_step:
  assumes inv: "engine_inv e" "mget (e_containers e) cid = Some m" and role: "c_Kind m = ''redis''" "containerRedisRole m = ''master''"
    and name: "to_upper cmd = ''SET''"
  shows "\<exists>out e'. handle_write cid ''SET'' args (cmd # args) e = Ret (out, e') \<and> in_step cid e e'"
proof (cases "\<exists>k v rest. args = k # v # rest")
  case True
  then obtain k v rest where args: "args = k # v # rest" by blast
  have "\<forall>c. same_data c m \<longrightarrow> same_data (applyRedisMutation (cmd # args) c) (m\<lparr>c_KV := mput (c_KV m) k v\<rparr>)"
    using name by (simp add: same_data_def applyRedisMutation_def args)
  then show ?thesis by (rule written_in_step [OF inv role]) (simp add: handle_write_def get_bind [OF inv] args)
next
  case False
  then have "handle_write cid ''SET'' args (cmd # args) e = Ret (wrong_arity ''set'', e)"
    by (simp add: handle_write_def get_bind [OF inv] ereturn_def split: list.split)
  then show ?thesis using in_step_same by blast
qed

lemma del_in_step:
  assumes inv: "engine_inv e" "mget (e_containers e) cid = Some m" and role: "c_Kind m = ''redis''" "containerRedisRole m = ''master''"
    and name: "to_upper cmd = ''DEL''"
  shows "\<exists>out e'. handle_write cid ''DEL'' args (cmd # args) e = Ret (out, e') \<and> in_step cid e e'"
proof -
  obtain d kv' where d: "del_keys args (c_KV m) = (d, kv')" by fastforce
  have "\<forall>c. same_data c m \<longrightarrow> same_data (applyRedisMutation (cmd # args) c) (m\<lparr>c_KV := kv'\<rparr>)"
    using name del_keys_foldl [of args "c_KV m"] d by (simp add: same_data_def applyRedisMutation_def foldl_mdel_get)
  then show ?thesis by (rule written_in_step [OF inv role]) (simp add: handle_write_def get_bind [OF inv] d)
qed

text \<open>An increment is sent as the value that it gave.\<close>

lemma incr_in_step:
  assumes inv: "engine_inv e" "mget (e_containers e) cid = Some m" and role: "c_Kind m = ''redis''" "containerRedisRole m = ''master''"
  shows "\<exists>out e'. handle_write cid ''INCR'' args (cmd # args) e = Ret (out, e') \<and> in_step cid e e'"
proof (cases "\<exists>k. args = [k]")
  case True
  then obtain k where args: "args = [k]" by blast
  let ?v = "itoa (incr_key k (c_KV m))"
  have "to_upper ''SET'' = ''SET''" by code_simp
  then have "\<forall>c. same_data c m \<longrightarrow> same_data (applyRedisMutation [''SET'', k, ?v] c) (m\<lparr>c_KV := mput (c_KV m) k ?v\<rparr>)"
    by (simp add: same_data_def applyRedisMutation_def)
  then show ?thesis by (rule written_in_step [OF inv role]) (simp add: handle_write_def get_bind [OF inv] args Let_def)
next
  case False
  then have "handle_write cid ''INCR'' args (cmd # args) e = Ret (wrong_arity ''incr'', e)"
    by (simp add: handle_write_def get_bind [OF inv] ereturn_def split: list.split)
  then show ?thesis using in_step_same by blast
qed

lemma handle_write_in_step:
  assumes "engine_inv e" and "mget (e_containers e) cid = Some m" and "c_Kind m = ''redis''" and "containerRedisRole m = ''master''"
    and "to_upper cmd = name" and "name = ''SET'' \<or> name = ''DEL'' \<or> name = ''INCR''"
  shows "\<exists>out e'. handle_write cid name args (cmd # args) e = Ret (out, e') \<and> in_step cid e e'"
  using assms(6)
proof (elim disjE)
  assume "name = ''SET''"
  then show ?thesis using set_in_step [OF assms(1-4)] assms(5) by simp
next
  assume "name = ''DEL''"
  then show ?thesis using del_in_step [OF assms(1-4)] assms(5) by simp
next
  assume "name = ''INCR''"
  then show ?thesis using incr_in_step [OF assms(1-4)] by simp
qed

text \<open>A replica answers every write with an error and changes nothing, and no other command of a client changes a container.\<close>

lemma read_command_same:
  assumes inv: "engine_inv e" and m: "mget (e_containers e) cid = Some m"
    and name: "to_upper cmd \<noteq> ''REPLICAOF''" "to_upper cmd \<noteq> ''SLAVEOF''"
    and "read": "containerRedisRole m = ''slave'' \<or> \<not> (to_upper cmd = ''SET'' \<or> to_upper cmd = ''DEL'' \<or> to_upper cmd = ''INCR'')"
  shows "\<exists>quit out. handleBuiltInRedisForEngine cid (cmd # args) e = Ret ((quit, out), e)"
proof -
  have info: "\<exists>body. redisInfo cid e = Ret (body, e)"
    by (simp add: redisInfo_def get_bind [OF inv m] Let_def) (simp add: ereturn_def eread_def ebind_def)
  have idem: "to_upper (to_upper cmd) = to_upper cmd" by (auto simp: to_upper_def upper_char_def is_lower_def)
  show ?thesis
    using "read" info name
    by (simp add: handleBuiltInRedisForEngine_def get_bind [OF inv m] Let_def ereturn_def isRedisWriteCommand_def idem)
      (auto simp: ebind_def)
qed

text \<open>
  C6: Replication. Take a command other than REPLICAOF and SLAVEOF that a master serves on its own listener
  (\<^verbatim>\<open>handleBuiltInRedisForEngine\<close>), SET, DEL and INCR with any arguments included. A running replica that is
  linked to the master and has its data has them afterwards too; the containers that are not linked to the
  master keep their state, and the command returns. The two excluded commands change the master's role, and
  the commands of the shared listener (\<^verbatim>\<open>handleBuiltInRedis\<close>) are not propagated at all.
\<close>

theorem replicas_follow_their_master:
  assumes "engine_inv e" and "mget (e_containers e) cid = Some m"
    and "c_Kind m = ''redis''" and "containerRedisRole m = ''master''"
    and "to_upper cmd \<noteq> ''REPLICAOF''" and "to_upper cmd \<noteq> ''SLAVEOF''"
  shows "\<exists>quit out e'. handleBuiltInRedisForEngine cid (cmd # args) e = Ret ((quit, out), e') \<and> in_step cid e e'"
proof (cases "to_upper cmd = ''SET'' \<or> to_upper cmd = ''DEL'' \<or> to_upper cmd = ''INCR''")
  case True
  obtain out e' where w: "handle_write cid (to_upper cmd) args (cmd # args) e = Ret (out, e')" "in_step cid e e'"
    using handle_write_in_step [OF assms(1-4) refl True] by blast
  have "handleBuiltInRedisForEngine cid (cmd # args) e = ebind (handle_write cid (to_upper cmd) args (cmd # args)) (\<lambda>out. ereturn (False, out)) e"
    using True assms(4) by (elim disjE) (simp_all add: handleBuiltInRedisForEngine_def get_bind [OF assms(1,2)] Let_def)
  also have "\<dots> = Ret ((False, out), e')" using w(1) by (simp add: ebind_def ereturn_def)
  finally show ?thesis using w(2) by blast
next
  case False
  then show ?thesis using read_command_same [OF assms(1,2,5,6), of args] in_step_same [OF refl, of cid e] by blast
qed

lemma pair_roles: "containerRedisRole master_a = ''master''" "containerRedisRole replica_b = ''slave''"
  "same_data replica_b master_a" "follows id_a id_b replica_b"
  by (simp_all add: containerRedisRole_def follows_def linked_to_def isRunning_def same_data_def)
    (simp add: replica_b_def running_redis_def newContainer_def)

theorem replicas_follow_their_master_witness:
  "follows id_a id_b replica_b \<and> same_data replica_b master_a \<and>
   (\<exists>quit out e'. handleBuiltInRedisForEngine id_a [''incr'', ''k''] pair_engine = Ret ((quit, out), e') \<and> in_step id_a pair_engine e')"
proof -
  have name: "to_upper ''incr'' \<noteq> ''REPLICAOF''" "to_upper ''incr'' \<noteq> ''SLAVEOF''" by code_simp+
  have "mget (e_containers pair_engine) id_a = Some master_a" by simp
  from replicas_follow_their_master [OF pair_engine_inv this _ pair_roles(1) name, of "[''k'']"] pair_roles(3,4)
  show ?thesis by simp
qed

section \<open>The link of a replica\<close>

text \<open>A link is up only to a container of the engine that runs, and then the two have the same data.\<close>

definition linked_well :: "Engine \<Rightarrow> Container \<Rightarrow> bool" where
  "linked_well e c \<longleftrightarrow> (\<forall>k. linked_to k c \<longrightarrow> (\<exists>m. mget (e_containers e) k = Some m \<and> isRunning m \<and> same_data c m))"

lemma configured_ids [simp]: "c_ID (configured_replica c) = c_ID c" "c_Kind (configured_replica c) = c_Kind c"
  by (simp_all add: configured_replica_def split: option.split prod.split)

lemma link_ids [simp]: "c_ID (link_up k kv c) = c_ID c" "c_ID (link_down c) = c_ID c"
  by (simp_all add: link_up_def link_down_def)

lemma keyed_bind:
  assumes "keyed_ids e" and "mget (e_containers e) cid = Some m"
  shows "ebind (container_get cid g) f e = f (g m) e"
proof -
  have "c_ID m = cid" using assms unfolding keyed_ids_def by blast
  with assms(2) show ?thesis by (simp add: ebind_def container_get_def container_do_def set_container_def mput_same)
qed

lemma keyed_set:
  "keyed_ids e \<Longrightarrow> c_ID c = k \<Longrightarrow> keyed_ids (e\<lparr>e_containers := mput (e_containers e) k c\<rparr>)"
  by (auto simp: keyed_ids_def split: if_splits)

lemma find_master_stored:
  assumes "find_master cid host e = Some m"
  shows "\<exists>k. mget (e_containers e) k = Some m"
proof (cases "netParseIPText host = []")
  case True
  define found where "found = filter (\<lambda>m. m \<noteq> None) (map (\<lambda>r. dns_master cid r e) (resolveDNS (Some cid) host e))"
  have "(case found of m # _ \<Rightarrow> m | [] \<Rightarrow> None) = Some m" using assms True by (simp add: find_master_def found_def)
  then have "Some m \<in> set found" by (simp split: list.splits)
  then obtain r where "dns_master cid r e = Some m" by (auto simp: found_def)
  then show ?thesis by (auto simp: dns_master_def split: sum.splits option.splits if_splits)
next
  case False
  then show ?thesis using assms
    by (auto simp: find_master_def findContainerByEndpointIP_def split: list.splits)
qed

lemma link_step:
  assumes ids: "keyed_ids e" and c: "mget (e_containers e) cid = Some c" and m: "mget (e_containers e) k = Some m" and run: "isRunning m"
  shows "linked_well (e\<lparr>e_containers := mput (e_containers e) cid (link_up (c_ID m) (c_KV m) c)\<rparr>) (link_up (c_ID m) (c_KV m) c)"
proof -
  have ids': "c_ID m = k" "c_ID c = cid" using ids m c unfolding keyed_ids_def by blast+
  have only: "j = k" if "linked_to j (link_up k kv c)" for j kv using that by (simp add: linked_to_def link_up_def)
  have run': "isRunning (link_up k kv c) = isRunning c" "c_KV (link_up k kv c) = kv" for kv by (simp_all add: link_up_def isRunning_def)
  show ?thesis
    unfolding linked_well_def ids'(1) by (intro allI impI, drule only) (use c m run run' in \<open>auto simp: same_data_def\<close>)
qed

lemma down_step: "linked_well e (link_down c)"
  by (simp add: linked_well_def linked_to_def link_down_def)

lemma master_step: "r_Role (c_Redis c) \<noteq> ''slave'' \<Longrightarrow> linked_well e c"
  by (simp add: linked_well_def linked_to_def)

lemma link_up_run:
  assumes ids: "keyed_ids e" and c: "mget (e_containers e) cid = Some c"
    and found: "find_master cid host e = Some m" and running: "isRunning m"
  shows "\<exists>e'. ethen (container_set cid (link_up (c_ID m) (c_KV m))) (elog_container cid g) e = Ret ((), e') \<and>
    mget (e_containers e') cid = Some (link_up (c_ID m) (c_KV m) c) \<and> linked_well e' (link_up (c_ID m) (c_KV m) c) \<and>
    (\<forall>j. j \<noteq> cid \<longrightarrow> mget (e_containers e') j = mget (e_containers e) j)"
proof -
  let ?c = "link_up (c_ID m) (c_KV m) c"
  let ?e = "e\<lparr>e_containers := mput (e_containers e) cid ?c\<rparr>"
  obtain k where k: "mget (e_containers e) k = Some m" using find_master_stored [OF found] by blast
  have set2: "container_set cid (link_up (c_ID m) (c_KV m)) e = Ret ((), ?e)"
    by (rule container_set_run [OF ids c]) simp
  have "keyed_ids ?e" by (rule keyed_set [OF ids]) (use ids c in \<open>simp add: keyed_ids_def\<close>)
  then obtain e' where e': "elog_container cid g ?e = Ret ((), e')" "e_containers e' = e_containers ?e"
    using elog_container_run [of ?e cid ?c g] by auto
  have "linked_well e' ?c" using link_step [OF ids c k running] e'(2) by (simp add: linked_well_def)
  then show ?thesis using e' set2 by (simp add: ethen_def ebind_def)
qed

text \<open>What a refresh does once the command line of the container is taken into account.\<close>

definition refresh_link :: "string \<Rightarrow> RedisReplicationState \<Rightarrow> unit em" where
  "refresh_link cid r =
     (if r_Role r \<noteq> ''slave'' \<or> r_MasterHost r = [] \<or> r_MasterPort r = 0 then ereturn ()
      else ebind (eread (find_master cid (r_MasterHost r))) (\<lambda>found.
        case found of
          None \<Rightarrow> container_set cid link_down
        | Some m \<Rightarrow> if \<not> isRunning m then container_set cid link_down
            else ethen (container_set cid (link_up (c_ID m) (c_KV m)))
              (elog_container cid (\<lambda>entry. entry\<lparr>le_Channel := ''service.redis.replication'', le_Event := ''link.up'',
                 le_Request := JObject [(''master_host'', JString (r_MasterHost r)), (''master_port'', JInt (r_MasterPort r))],
                 le_Response := JObject [(''master'', JString (c_Name m))]\<rparr>))))"

lemma refresh_link_run:
  assumes ids: "keyed_ids e" and c: "mget (e_containers e) cid = Some c"
  shows "\<exists>e' c'. refresh_link cid (c_Redis c) e = Ret ((), e') \<and> mget (e_containers e') cid = Some c' \<and>
    (\<forall>j. j \<noteq> cid \<longrightarrow> mget (e_containers e') j = mget (e_containers e) j) \<and>
    (r_MasterHost (c_Redis c') \<noteq> [] \<longrightarrow> r_MasterPort (c_Redis c') \<noteq> 0 \<longrightarrow> linked_well e' c')"
proof -
  let ?r = "c_Redis c"
  consider (off) "r_Role ?r \<noteq> ''slave'' \<or> r_MasterHost ?r = [] \<or> r_MasterPort ?r = 0"
    | (up) m where "\<not> (r_Role ?r \<noteq> ''slave'' \<or> r_MasterHost ?r = [] \<or> r_MasterPort ?r = 0)"
        "find_master cid (r_MasterHost ?r) e = Some m" "isRunning m"
    | (down) "\<not> (r_Role ?r \<noteq> ''slave'' \<or> r_MasterHost ?r = [] \<or> r_MasterPort ?r = 0)"
        "\<not> (\<exists>m. find_master cid (r_MasterHost ?r) e = Some m \<and> isRunning m)" by blast
  then show ?thesis
  proof cases
    case off
    then show ?thesis using c master_step [of c e] by (auto simp: refresh_link_def ereturn_def)
  next
    case (up m)
    then obtain g where "refresh_link cid ?r e = ethen (container_set cid (link_up (c_ID m) (c_KV m))) (elog_container cid g) e"
      by (simp add: refresh_link_def ebind_def eread_def)
    then show ?thesis using link_up_run [OF ids c up(2,3), of g] by auto
  next
    case down
    then have "refresh_link cid ?r e = container_set cid link_down e"
      by (auto simp: refresh_link_def ebind_def eread_def split: option.split)
    then show ?thesis using container_set_run [OF ids c, of link_down] down_step by auto
  qed
qed

text \<open>
  C25: Linking. Refreshing a Redis container returns and changes that container only. A replica with the address of a master is then either
  without a link, or linked to a running container of the engine whose data it has.
\<close>

theorem refreshed_links_hold:
  assumes inv: "engine_inv e" and c: "mget (e_containers e) cid = Some c" and kind: "c_Kind c = ''redis''"
  shows "\<exists>e' c'. refreshRedisReplication cid e = Ret ((), e') \<and> mget (e_containers e') cid = Some c' \<and>
    (\<forall>j. j \<noteq> cid \<longrightarrow> mget (e_containers e') j = mget (e_containers e) j) \<and>
    (r_MasterHost (c_Redis c') \<noteq> [] \<longrightarrow> r_MasterPort (c_Redis c') \<noteq> 0 \<longrightarrow> linked_well e' c')"
proof -
  define c1 where "c1 = configured_replica c"
  define e1 where "e1 = e\<lparr>e_containers := mput (e_containers e) cid c1\<rparr>"
  note ids = inv_keyed_ids [OF inv]
  have cid: "c_ID c = cid" using ids c unfolding keyed_ids_def by blast
  have set1: "container_set cid configured_replica e = Ret ((), e1)"
    unfolding e1_def c1_def by (rule container_set_run [OF ids c]) simp
  have ids1: "keyed_ids e1" unfolding e1_def c1_def by (rule keyed_set [OF ids]) (simp add: cid)
  have get1: "mget (e_containers e1) cid = Some c1" by (simp add: e1_def)
  have "refreshRedisReplication cid e = refresh_link cid (c_Redis c1) e1"
    unfolding refreshRedisReplication_def refresh_link_def using kind set1
    by (simp add: get_bind [OF inv c] ethen_Ret keyed_bind [OF ids1 get1])
  moreover have "j \<noteq> cid \<Longrightarrow> mget (e_containers e1) j = mget (e_containers e) j" for j by (simp add: e1_def)
  ultimately show ?thesis using refresh_link_run [OF ids1 get1] by simp
qed

theorem refreshed_links_hold_witness:
  "\<exists>e' c'. refreshRedisReplication id_b pair_engine = Ret ((), e') \<and> mget (e_containers e') id_b = Some c' \<and>
     mget (e_containers e') id_a = Some master_a \<and>
     (r_MasterHost (c_Redis c') \<noteq> [] \<longrightarrow> r_MasterPort (c_Redis c') \<noteq> 0 \<longrightarrow> linked_well e' c')"
proof -
  have "mget (e_containers pair_engine) id_b = Some replica_b" by simp
  from refreshed_links_hold [OF pair_engine_inv this] show ?thesis by fastforce
qed

end
