(* ===== verification/Wait_Liveness.thy ===== *)
theory Wait_Liveness
  imports Replication_Contract
begin

text \<open>
  Waiting ends. Whatever happened to a container in between, removing it answers every request that waits for it:
  the removed object has sent a result to each waiter that was registered, for whatever condition.
\<close>

section \<open>Waiters of a container\<close>

text \<open>The waiters of a container that have not been cancelled: they are registered or have their result.\<close>

definition waiting :: "nat \<Rightarrow> Container \<Rightarrow> bool" where
  "waiting w c \<longleftrightarrow> mmem (c_waiters c) w \<or> mmem (c_sent c) w"

lemma mmem_keys: "mmem m k \<longleftrightarrow> k \<in> fst ` set m"
  using set_mkeys [of m] by (auto simp: mmem_def mkeys_def)

lemma waiting_iff: "waiting w c \<longleftrightarrow> w \<in> fst ` set (c_waiters c) \<union> fst ` set (c_sent c)"
  by (auto simp: waiting_def mmem_keys)

lemma waiting_notified:
  assumes "c_sent c' = c_sent c @ map (\<lambda>v. (fst v, result)) (filter P (c_waiters c))"
    and "c_waiters c' = filter (\<lambda>v. \<not> P v) (c_waiters c)"
  shows "waiting w c' \<longleftrightarrow> waiting w c"
proof -
  have "fst ` set (c_waiters c) = fst ` set (filter P (c_waiters c)) \<union> fst ` set (filter (\<lambda>v. \<not> P v) (c_waiters c))" by auto
  then show ?thesis by (simp add: waiting_iff assms image_Un image_image Un_ac)
qed

lemma waiting_patch:
  assumes "applyPatchLocked now p (c, pid) = Ret (c', pid')"
  shows "waiting w c' \<longleftrightarrow> waiting w c"
proof (cases "patch_exits p c")
  case True
  note eff = applyPatchLocked_waiters [OF assms, unfolded if_P [OF True]]
  show ?thesis by (rule waiting_notified [OF eff(2,1)])
next
  case False
  note eff = applyPatchLocked_waiters [OF assms, unfolded if_not_P [OF False]]
  show ?thesis by (simp add: waiting_def eff)
qed

lemma waiting_stop: "stop now code (c, pid) = Ret (snaps, c', pid') \<Longrightarrow> waiting w c' \<longleftrightarrow> waiting w c"
  using waiting_patch [OF stop_patch(1)] by (simp add: waiting_def)

lemma removed_answers: "waiting w c \<Longrightarrow> mget (c_sent (markRemoved c)) w \<noteq> None"
proof -
  assume "waiting w c"
  then have "waiting w (markRemoved c)"
    unfolding markRemoved_def
    using waiting_notified [of "notifyWaitersLocked True (c\<lparr>c_removed := True\<rparr>)" "c\<lparr>c_removed := True\<rparr>"
      "waitResult (c\<lparr>c_removed := True\<rparr>)" "notified True"]
    by (simp add: notifyWaitersLocked_def waiting_def)
  moreover have "c_waiters (markRemoved c) = []" by (simp add: markRemoved_def notifyWaitersLocked_def notified_def)
  ultimately show ?thesis by (simp add: waiting_def mmem_def)
qed

section \<open>Closing the listeners of a container\<close>

text \<open>What an operation does not touch: the container \<open>cid\<close> and the removed containers.\<close>

definition leaves :: "string \<Rightarrow> 'a em \<Rightarrow> bool" where
  "leaves cid m \<longleftrightarrow> (\<forall>e x e'. keyed_ids e \<longrightarrow> m e = Ret (x, e') \<longrightarrow>
     keyed_ids e' \<and> mget (e_containers e') cid = mget (e_containers e) cid \<and> e_detached e' = e_detached e)"

lemma leavesD:
  assumes "leaves cid m" and "keyed_ids e" and "m e = Ret (x, e')"
  shows "mget (e_containers e') cid = mget (e_containers e) cid" and "e_detached e' = e_detached e"
  using assms unfolding leaves_def by blast+

lemma leaves_ebind:
  assumes "leaves cid m" and "\<And>x. leaves cid (f x)"
  shows "leaves cid (ebind m f)"
  unfolding leaves_def
proof (intro allI impI)
  fix e y e'
  assume ids: "keyed_ids e" and run: "ebind m f e = Ret (y, e')"
  from run obtain x e1 where m: "m e = Ret (x, e1)" and f: "f x e1 = Ret (y, e')" by (auto simp: ebind_eq_Ret)
  have "keyed_ids e1" "mget (e_containers e1) cid = mget (e_containers e) cid" "e_detached e1 = e_detached e"
    using assms(1) ids m unfolding leaves_def by blast+
  moreover have "keyed_ids e' \<and> mget (e_containers e') cid = mget (e_containers e1) cid \<and> e_detached e' = e_detached e1"
    using assms(2) [of x] calculation(1) f unfolding leaves_def by blast
  ultimately show "keyed_ids e' \<and> mget (e_containers e') cid = mget (e_containers e) cid \<and> e_detached e' = e_detached e" by simp
qed

lemma leaves_ethen: "leaves cid m \<Longrightarrow> leaves cid k \<Longrightarrow> leaves cid (ethen m k)"
  unfolding ethen_def by (rule leaves_ebind)

lemma leaves_basic: "leaves cid (ereturn x)" "leaves cid (eread f)" "leaves cid (eask g)" "leaves cid (set_runtime k rt)"
  by (simp_all add: leaves_def em_defs set_runtime_def keyed_ids_def)

lemma leaves_get: "leaves cid (container_get k f)"
proof -
  have "e' = e" if "keyed_ids e" "container_get k f e = Ret (x, e')" for e x e'
  proof -
    from that(2) obtain c where c: "mget (e_containers e) k = Some c"
      by (auto simp: container_get_def container_do_def split: option.splits)
    with that(1) have "c_ID c = k" by (auto simp: keyed_ids_def)
    with that(2) c show ?thesis by (simp add: container_get_def container_do_def set_container_def mput_same)
  qed
  then show ?thesis unfolding leaves_def by blast
qed

lemma leaves_set:
  assumes "k \<noteq> cid" and "\<And>c. c_ID (f c) = c_ID c"
  shows "leaves cid (container_set k f)"
proof -
  have "keyed_ids e' \<and> mget (e_containers e') cid = mget (e_containers e) cid \<and> e_detached e' = e_detached e"
    if "keyed_ids e" "container_set k f e = Ret (x, e')" for e x e'
  proof -
    from that(2) obtain c where c: "mget (e_containers e) k = Some c"
      by (auto simp: container_set_def container_do_def split: option.splits)
    then have e': "e' = e\<lparr>e_containers := mput (e_containers e) k (f c)\<rparr>"
      using container_set_run [OF that(1) c, of f] assms(2) that(2) by simp
    have "c_ID (f c) = k" using that(1) c assms(2) by (simp add: keyed_ids_def)
    from keyed_set [OF that(1) this] show ?thesis using assms(1) by (simp add: e')
  qed
  then show ?thesis unfolding leaves_def by blast
qed

lemma leaves_eforeach: "(\<And>k. k \<in> set ks \<Longrightarrow> leaves cid (f k)) \<Longrightarrow> leaves cid (eforeach f ks)"
  by (induction ks) (auto intro: leaves_basic leaves_ethen)

lemma leaves_mark: "leaves cid (markRedisMasterDown cid)"
proof -
  have one: "leaves cid (container_set k (master_down cid))" if "k \<noteq> cid" for k
    using that by (rule leaves_set) (simp add: master_down_def)
  have loop: "leaves cid (ebind (eread (other_redis cid)) (eforeach (\<lambda>k. container_set k (master_down cid))))"
  proof -
    have "leaves cid (eforeach (\<lambda>k. container_set k (master_down cid)) (other_redis cid e))" for e
      by (rule leaves_eforeach, rule one) (auto simp: other_redis_def)
    then show ?thesis unfolding leaves_def by (simp add: ebind_def eread_def)
  qed
  show ?thesis
    unfolding markRedisMasterDown_def
    by (rule leaves_ebind [OF leaves_get]) (simp add: loop leaves_basic)
qed

lemma leaves_runtime_Stop: "leaves cid (runtime_Stop k)"
  unfolding runtime_Stop_def
  by (intro leaves_ebind leaves_basic) (simp add: leaves_basic leaves_ebind leaves_ethen)

lemma leaves_stopContainerRuntime: "leaves cid (stopContainerRuntime cid)"
proof -
  have after: "leaves cid (ebind (container_get cid c_Kind) (\<lambda>kind. if kind = ''redis''
      then ethen (markRedisMasterDown cid) (ereturn err) else ereturn err))" for err :: "string option"
    by (rule leaves_ebind [OF leaves_get]) (simp add: leaves_basic leaves_ethen leaves_mark)
  show ?thesis
    unfolding stopContainerRuntime_def
    by (rule leaves_ebind [OF leaves_basic(2)]) (simp add: leaves_basic leaves_ebind [OF leaves_runtime_Stop] after split: option.split)
qed

section \<open>Removal\<close>

lemma finish_removed_answers:
  assumes inv: "lifecycle_inv (c, e_pid e)" and w: "waiting w c"
  shows "\<exists>d e'. finish_removed c e = Ret ((), e') \<and> e_detached e' = e_detached e @ [d] \<and> e_containers e' = e_containers e \<and>
    c_ID d = c_ID c \<and> mget (c_sent d) w \<noteq> None"
proof (cases "c_Running c")
  case True
  let ?now = "env_now (e_env e) (e_tick e)"
  from stopping.runs [OF inv, of ?now 137] obtain r c' pid' where st: "stop ?now 137 (c, e_pid e) = Ret (r, c', pid')" by blast
  have id: "c_ID c' = c_ID c" using applyPatchLocked_identity(1) [OF stop_patch(1) [OF st]] by (simp add: identity_eq)
  have "mget (c_sent (markRemoved c')) w \<noteq> None" using w waiting_stop [OF st] by (simp add: removed_answers)
  with True st id show ?thesis
    by (simp add: finish_removed_def run_defs stateSnapshot_def markRemoved_def notifyWaitersLocked_def)
next
  case False
  with removed_answers [OF w] show ?thesis
    by (simp add: finish_removed_def run_defs stateSnapshot_def markRemoved_def notifyWaitersLocked_def)
qed

lemma finishWait_answers:
  assumes "container_object cid e = Some c" and "mget (c_sent c) w = Some result"
  shows "\<exists>e'. finishWait \<lparr>pw_Container = cid, pw_Waiter = w, pw_Condition = condition, pw_Before = before\<rparr> e =
    Ret (Some (writeJSON 200 (wait_json result)), e')"
  using assms by (simp add: finishWait_def run_defs)

lemma find_last: "list_all (\<lambda>d. \<not> P d) ds \<Longrightarrow> P d \<Longrightarrow> find P (ds @ [d]) = Some d"
  by (induction ds) auto

text \<open>
  C5: Waiting ends. When a container is removed (by force, or because it is not running) the removal succeeds, and then every
  request that waits for the container, registered for whatever condition and not cancelled, is answered with status 200 and a result:
  none is left waiting.
\<close>

theorem removal_ends_every_wait:
  assumes inv: "engine_inv e" and found: "findContainer ref e = Inr cid" and c: "mget (e_containers e) cid = Some c"
    and permitted: "force \<or> \<not> isRunning c" and w: "waiting w c"
    and fresh: "list_all (\<lambda>d. c_ID d \<noteq> cid) (e_detached e)"
  shows "\<exists>e1 result e2. removeContainer ref force e = Ret (None, e1) \<and>
    finishWait \<lparr>pw_Container = cid, pw_Waiter = w, pw_Condition = condition, pw_Before = before\<rparr> e1 =
      Ret (Some (writeJSON 200 (wait_json result)), e2)"
proof -
  have al: "alive {cid} e" using inv c by (simp add: alive_def mmem_def)
  obtain x e1 where e1: "stopContainerRuntime cid e = Ret (x, e1)" "alive {cid} e1"
    using keeps_container_runtime(2) [of cid "{cid}"] al by (auto elim: keepsE)
  note same = leavesD [OF leaves_stopContainerRuntime inv_keyed_ids [OF inv] e1(1)]
  have c1: "mget (e_containers e1) cid = Some c" using same(1) c by simp
  have id: "c_ID c = cid" using inv_keyed_ids [OF inv] c by (simp add: keyed_ids_def)
  have "lifecycle_inv (c, e_pid (drop_container c e1))"
    using container_okD(6) [OF engine_invD(5) [OF aliveD(1) [OF e1(2)] c1]] by (simp add: drop_container_def)
  from finish_removed_answers [OF this w] obtain d e2 where
    e2: "finish_removed c (drop_container c e1) = Ret ((), e2)" "e_detached e2 = e_detached e1 @ [d]"
      "e_containers e2 = mdel (e_containers e1) cid" and d: "c_ID d = cid" "mget (c_sent d) w \<noteq> None"
    by (auto simp: drop_container_def id)
  obtain e3 where e3: "removeContainer ref force e = Ret (None, e3)" "e_detached e3 = e_detached e2" "e_containers e3 = e_containers e2"
    using permitted found e1(1) e2(1)
    by (auto simp: removeContainer_def ebind_def ethen_def em_defs elog_def enow_def container_get_run [OF inv c]
        container_get_run [OF aliveD(1) [OF e1(2)] c1])
  have "container_object cid e3 = Some d"
    using e2(2,3) e3(2,3) d(1) fresh same(2) find_last [of "\<lambda>d. c_ID d = cid" "e_detached e" d] by (simp add: container_object_def)
  moreover obtain result where "mget (c_sent d) w = Some result" using d(2) by blast
  ultimately show ?thesis using e3(1) finishWait_answers by blast
qed

text \<open>A client waits for the removal of the master of \<open>pair_engine\<close>, which is then removed by force.\<close>

definition waited_master :: Container where
  "waited_master = snd (subscribeWait ''removed'' master_a)"

definition waited_engine :: Engine where
  "waited_engine = (set_container waited_master pair_engine)\<lparr>e_pid := e_pid pair_engine\<rparr>"

lemma waited_engine_inv: "engine_inv waited_engine"
proof -
  have c: "mget (e_containers pair_engine) id_a = Some master_a" by simp
  note ok = container_okD [OF engine_invD(5) [OF pair_engine_inv c]]
  have same: "identity waited_master = identity master_a" "c_removed waited_master = c_removed master_a"
    by (simp_all add: waited_master_def subscribeWait_def identity_def Let_def)
  have "lifecycle_inv (waited_master, e_pid pair_engine)" unfolding waited_master_def by (rule wait_ops_inv(1) [OF ok(6)])
  from engine_inv_container [OF pair_engine_inv c this same] show ?thesis unfolding waited_engine_def by simp
qed

theorem removal_ends_every_wait_witness:
  "\<exists>e1 result e2. removeContainer ''a'' True waited_engine = Ret (None, e1) \<and>
     finishWait \<lparr>pw_Container = id_a, pw_Waiter = 0, pw_Condition = ''removed'', pw_Before = stateSnapshot master_a\<rparr> e1 =
       Ret (Some (writeJSON 200 (wait_json result)), e2)"
proof -
  have "container_ref ''a'' = ''a''" by code_simp
  then have found: "findContainer ''a'' waited_engine = Inr id_a"
    by (simp add: findContainer_def waited_engine_def set_container_def)
  have id: "c_ID waited_master = id_a" by (simp add: waited_master_def subscribeWait_def Let_def)
  then have c: "mget (e_containers waited_engine) id_a = Some waited_master" by (simp add: waited_engine_def set_container_def)
  have "c_nextWaiter master_a = 0" "c_waiters master_a = []" "\<not> c_removed master_a" by (simp_all add: master_a_def running_redis_def newContainer_def)
  then have w: "waiting 0 waited_master"
    by (simp add: waited_master_def subscribeWait_def waiting_def mmem_def Let_def)
  have "list_all (\<lambda>d. c_ID d \<noteq> id_a) (e_detached waited_engine)"
    by (simp add: waited_engine_def set_container_def pair_engine_def demo_engine_def newEngine_def)
  from removal_ends_every_wait [OF waited_engine_inv found c _ w this] show ?thesis by simp
qed

end
