(* ===== verification/Spec2Isabelle.thy ===== *)
theory Spec2Isabelle
  imports Network_Contract Runtime_Errors Wait_Liveness
begin

text \<open>
  \<^bold>\<open>docker-zero\<close> is a Docker Engine emulator in Go: it speaks the Docker API on a Unix socket, creates containers that
  are scripted by JSON \<^emph>\<open>cookbooks\<close> (one for nginx, one for redis), serves their HTTP and Redis endpoints, and writes every event
  to a ledger. This library models the implementation files under \<^verbatim>\<open>src/\<close> and proves what makes each part correct.

  \<^bold>\<open>Parts of the program and the theories that model them.\<close>

  \<^item> \<^bold>\<open>Go and its standard library\<close>. \<open>Go_Prelude\<close> has strings (byte lists), \<^verbatim>\<open>strings\<close>, \<^verbatim>\<open>strconv\<close>, maps (association lists whose
    order is the order of an iteration), the result type \<open>go\<close> with panics as values, and the
    interfaces \<open>invariant_machine\<close> and \<open>framed_codec\<close>; \<open>Go_Hash\<close> has SHA-256 on words, \<open>Go_Time\<close> times, \<open>Go_Net\<close> addresses,
    \<open>Go_Json\<close> JSON values.
  \<^item> \<^bold>\<open>Cookbooks\<close>. \<open>Cookbook_Types\<close>, \<open>Cookbook_Json\<close> (\<^verbatim>\<open>cookbook_types.go\<close>), \<open>Cookbook_Responses\<close> (\<^verbatim>\<open>cookbook_responses.go\<close>),
    \<open>Cookbook_State_Validation\<close> and \<open>Cookbook_Validate\<close> (\<^verbatim>\<open>cookbook_state_validation.go\<close>, \<^verbatim>\<open>cookbook_validate.go\<close>),
    \<open>Diagnostic\<close> and \<open>Cookbook_Scan\<close> (\<^verbatim>\<open>diagnostic.go\<close>), \<open>Cookbook_Load\<close> (\<^verbatim>\<open>cookbook_load.go\<close>), \<open>Image_Match\<close> (\<^verbatim>\<open>image_match.go\<close>).
  \<^item> \<^bold>\<open>Containers\<close>. \<open>Container_State\<close> is the container record and each operation under its mutex (\<^verbatim>\<open>state.go\<close>,
    \<^verbatim>\<open>container_wait.go\<close>); \<open>Container_Lifecycle\<close> its invariant; \<open>Container_Contracts\<close> and \<open>Validated_Runs\<close> what runs of operations
    promise. \<open>Container_Config\<close> is the create request (\<^verbatim>\<open>container_config.go\<close>, \<^verbatim>\<open>docker_api_container_create.go\<close>).
  \<^item> \<^bold>\<open>The engine\<close>. \<open>Engine_State\<close>, \<open>Engine_Monad\<close>, \<open>Engine_Lookup\<close>, \<open>Engine_Core\<close>, \<open>Engine_Resources\<close> (\<^verbatim>\<open>engine_core.go\<close>,
    \<^verbatim>\<open>engine_resources.go\<close>), \<open>Engine_Network\<close> (\<^verbatim>\<open>engine_network.go\<close>) and \<open>Ledger\<close> (\<^verbatim>\<open>ledger.go\<close>).
  \<^item> \<^bold>\<open>Services\<close>. \<open>Redis_Protocol\<close> (\<^verbatim>\<open>service_redis.go\<close>), \<open>Redis_Replication\<close> (\<^verbatim>\<open>redis_replication.go\<close>), \<open>Service_Runtime\<close> and
    \<open>Service_Requests\<close> (\<^verbatim>\<open>service_runtime.go\<close>).
  \<^item> \<^bold>\<open>The API\<close>. \<open>Docker_Util\<close>, \<open>Docker_Filters\<close>, \<open>Docker_Documents\<close>, \<open>Docker_Api\<close>, \<open>Docker_Server\<close> (the \<^verbatim>\<open>docker_*.go\<close> files).
  \<^item> \<^bold>\<open>The program\<close>. \<open>Main_Config\<close>, \<open>Main_Os\<close>, \<open>Bootstrap\<close> and \<open>Main_Serve\<close> (\<^verbatim>\<open>main.go\<close>), \<open>Runtime_Errors\<close>
    (\<^verbatim>\<open>runtime_error.go\<close>, the channels of errors and the life of the Redis listeners).

  \<^bold>\<open>State and operations.\<close> A struct is a record with the source's fields, an operation a function with the source's name on that
  record. The record \<open>Engine\<close> holds all containers; an engine operation is a state transformer \<open>'a em\<close> from an engine to a result and an
  engine, or a panic. A pointer to a container is its identifier: an operation through it (\<open>container_do\<close>) reads and writes the
  container the engine holds, and is a panic when there is none. Removed containers, which waiting clients still point to, are in
  \<open>e_detached\<close>. The clock and the outcomes of binding a port or waiting for a shutdown are answers of the
  environment \<open>e_env\<close>, asked in order by \<open>e_tick\<close>; theorems hold for every environment. The program before it serves runs in \<open>'a osm\<close>,
  where the operating system answers each call from the whole history of calls. \<open>engine_step\<close> is the relation of one bootstrapped
  container, API request, end of a wait, HTTP request, Redis command or connection, or shutdown, so that clients interleave; \<open>reachable\<close> its closure from a new engine.
  Go visits a map in an arbitrary order. A list keeps the order of insertion, so \<open>engine_step\<close> also has steps that reorder the engine's
  maps and the endpoints of a network at will: every request meets every order of these, though all loops of one request meet the
  same one. The remaining maps (those within a container, and the cookbooks) keep their order along a run.

  \<^bold>\<open>What the theorems show.\<close>

  \<^item> \<open>Engine_Runs\<close>, \<open>Api_Invariant\<close>: the invariant \<open>engine_inv\<close> holds in every reachable engine and no request panics. The contracts of
    container operations that this rests on are the locale \<open>container_operation\<close>, interpreted for each operation.
  \<^item> \<open>Create_Contract\<close>: a create request is all or nothing. \<open>Network_Contract\<close>, \<open>Network_Invariant\<close>, \<open>Network_Frame\<close>: addresses are unique,
    found while there is room, and names resolve; a change concerns one container.
  \<^item> \<open>Container_Contracts\<close>, \<open>Validated_Runs\<close>: restart policies, waiters, scripted transitions and validated patches.
  \<^item> \<open>Wait_Liveness\<close>: removal answers every waiting request. \<open>Replication_Contract\<close>: replicas follow their master.
  \<^item> \<open>Redis_Protocol\<close>: pipelined commands are read back (interpretation of \<open>framed_codec\<close>), replies are well formed, the built-in commands
    refine a store, and connections end.
  \<^item> \<open>Cookbook_Load\<close>, \<open>Cookbook_Scan\<close>, \<open>Cookbook_Validate\<close>, \<open>Diagnostic\<close>: what is loaded was validated; duplicate keys are found; positions
    are exact, with columns in runes.
  \<^item> \<open>Main_Config\<close>, \<open>Main_Os\<close>, \<open>Main_Serve\<close>, \<open>Runtime_Errors\<close>: configuration, the socket, startup, shutdown and errors.

  \<open>Engine_Examples\<close> and the \<open>demo\<close> definitions are concrete engines, files and arguments on which the theorems are applied.

  \<^bold>\<open>Bounds and fuel.\<close> Go's \<^verbatim>\<open>int\<close> is \<^typ>\<open>int\<close> with \<open>wrap64\<close> written where the source increments or adds: the counters of events,
  starts, restarts, failing checks and identifiers, and \<^verbatim>\<open>INCR\<close>; the ledger's 64-bit number is reduced modulo \<open>2 ^ 64\<close>. The state of
  the PID counter is the number of PIDs handed out, which does not wrap, and the counter's value and a PID are read from it with
  \<open>wrap64\<close>; what is said of PIDs beyond that is said as long as the number leaves room for a 64-bit PID (\<open>pids_left\<close>). The lengths
  and positions of texts and the numbers of entries, which fit in memory, are not wrapped. \<open>parseRESPFrame\<close> recurses at most 64
  levels, as in the source. \<open>scanJSONValue\<close> has fuel: one more than the tokens the decoder has left is enough, which is proved.
  \<open>serve_commands\<close> has the length of the client's input as fuel, which is enough because each command consumes input.

  \<^bold>\<open>Assumptions.\<close> A creation does not hit the identifier of a container that exists: identifiers are SHA-256 digests, and the hypotheses
  \<open>fresh_create\<close> and \<open>bootstrap_fresh\<close> say it for the identifiers that are taken. The decoder of \<^verbatim>\<open>encoding/json\<close> is a parameter: its tokens,
  its decoded cookbooks and request bodies, and its errors are arbitrary. What reading the cookbook directory and its files answers is
  the parameter \<open>cookbook_files\<close> of \<open>loadCookbooks\<close>; \<open>configure\<close> enters these reads in the trace of calls to the operating system.

  \<^bold>\<open>Not modelled.\<close> Handlers run one after another: the source holds a mutex over each operation of a container or of the engine, and what
  goroutines could interleave between two such operations of one handler is not modelled, except for waiting, whose two halves are separate steps, for Redis commands of several connections,
  and for the shared Redis listener, whose loop, connections and close interleave in \<open>mock_step\<close>. Deadlines and delays of scripted
  responses, response headers (but for those of a recovered panic), the bytes of HTTP, signals, the text that the \<^verbatim>\<open>flag\<close> package prints, the hijacking of a
  connection (\<^verbatim>\<open>service_nginx.go\<close>, one call) and accessors that return a field under its mutex are left out. The copies that the \<^verbatim>\<open>clone\<close>
  functions make are the identity on values. \<^verbatim>\<open>UnmarshalJSON\<close> and \<^verbatim>\<open>decodeJSON\<close> are part of the parameter that stands for decoding a body.
\<close>

end
